(* ===== verification/Prelude.thy ===== *)
theory Prelude
  imports Main
begin

text \<open>
  Shared vocabulary of the development: results of fallible Python code as sums, a relational
  table as a list of rows with the statements the repositories issue (first match, filtered
  count, update of the matching rows), and the generic facts on both that the component proofs
  use through the collections declared here.
\<close>

named_theorems rows_simps \<open>lookups, counts and updates of table rows\<close>
named_theorems res_simps \<open>sequencing of fallible operations\<close>


section \<open>Exceptions\<close>

text \<open>
  The exceptions the modelled code raises, with their message where the code tells two raises of
  the same class apart by it. \<open>NoResultFound\<close> is SQLAlchemy's error of \<open>Result.one()\<close> on an empty
  result, \<open>IntegrityError\<close> the error of a statement that violates a key, a foreign key or a check
  constraint of the schema.
\<close>

datatype exc =
    ValueError string
  | RuntimeError string
  | AssertionError
  | KeyError
  | NoResultFound
  | IntegrityError
  | LeaseConflictError string
  | StaleFenceError string
  | InvalidTransitionError string
  | VersionConflictError string
  | TenantRunQuotaError string
  | CheckpointTooLargeError string
  | CorruptCheckpointError string
  | IncompatibleCheckpointError string
  | PlanRoundBudgetExceeded string
  | PlanExecutionBlocked string
  | PlanCancellationRequested
  | PlanValidationError string
  | PlanNotFoundError string
  | PlanDecisionIdempotencyError string
  | PlanVersionConflictError
  | PlanStepAlreadyRunningError string
  | PlanAttemptLimitError string
  | PlanRevisionLimitError string
  | TypeError string
  | IndexError
  | PlanGenerationError string


section \<open>Fallible operations\<close>

text \<open>
  A Python function that may raise is a function into \<open>'e + 'a\<close>: \<open>Inl\<close> carries the exception,
  \<open>Inr\<close> the returned value. \<open>rbind\<close> is statement sequencing: an exception skips the rest.
\<close>

fun rbind :: "'e + 'a \<Rightarrow> ('a \<Rightarrow> 'e + 'b) \<Rightarrow> 'e + 'b" where
  "rbind (Inl e) f = Inl e"
| "rbind (Inr x) f = f x"

lemma rbind_cong [fundef_cong]:
  "m = m' \<Longrightarrow> (\<And>x. m' = Inr x \<Longrightarrow> f x = g x) \<Longrightarrow> rbind m f = rbind m' g"
  by (cases m') auto

lemma rbind_Inr_iff [res_simps]:
  "rbind m f = Inr y \<longleftrightarrow> (\<exists>x. m = Inr x \<and> f x = Inr y)"
  by (cases m) auto

lemma rbind_Inl_iff [res_simps]:
  "rbind m f = Inl e \<longleftrightarrow> m = Inl e \<or> (\<exists>x. m = Inr x \<and> f x = Inl e)"
  by (cases m) auto

text \<open>\<open>if \<not> b: raise e\<close>.\<close>

definition ensure :: "bool \<Rightarrow> 'e \<Rightarrow> 'e + unit" where
  "ensure b e = (if b then Inr () else Inl e)"

lemma ensure_Inr_iff [res_simps]: "ensure b e = Inr u \<longleftrightarrow> b"
  by (simp add: ensure_def)

lemma ensure_Inl_iff [res_simps]: "ensure b e = Inl e' \<longleftrightarrow> \<not> b \<and> e' = e"
  by (auto simp: ensure_def)

lemma ensure_simps [simp]: "ensure True e = Inr ()" "ensure False e = Inl e"
  by (simp_all add: ensure_def)

text \<open>A value that must be present: \<open>None\<close> raises.\<close>

definition need :: "'a option \<Rightarrow> 'e \<Rightarrow> 'e + 'a" where
  "need v e = (case v of None \<Rightarrow> Inl e | Some x \<Rightarrow> Inr x)"

lemma need_Inr_iff [res_simps]: "need v e = Inr x \<longleftrightarrow> v = Some x"
  by (auto simp: need_def split: option.splits)

lemma need_Inl_iff [res_simps]: "need v e = Inl e' \<longleftrightarrow> v = None \<and> e' = e"
  by (auto simp: need_def split: option.splits)

lemma need_simps [simp]: "need (Some x) e = Inr x" "need None e = Inl e"
  by (simp_all add: need_def)


section \<open>Tables\<close>

text \<open>
  A table is the list of its rows. \<open>SELECT .. LIMIT 1\<close> is \<^const>\<open>List.find\<close>,
  \<open>SELECT count(*) .. WHERE p\<close> is \<open>rowcount p\<close>, and \<open>UPDATE .. SET f WHERE p\<close> is
  \<open>upd_where p f\<close>, whose affected-row count is \<open>rowcount p\<close> of the table before it.
\<close>

definition rowcount :: "('r \<Rightarrow> bool) \<Rightarrow> 'r list \<Rightarrow> nat" where
  "rowcount p rows = length (filter p rows)"

definition upd_where :: "('r \<Rightarrow> bool) \<Rightarrow> ('r \<Rightarrow> 'r) \<Rightarrow> 'r list \<Rightarrow> 'r list" where
  "upd_where p f rows = map (\<lambda>r. if p r then f r else r) rows"

lemma rowcount_simps [simp]:
  "rowcount p [] = 0"
  "rowcount p (r # rows) = (if p r then Suc (rowcount p rows) else rowcount p rows)"
  "rowcount p (xs @ ys) = rowcount p xs + rowcount p ys"
  by (simp_all add: rowcount_def)

lemma upd_where_simps [simp]:
  "upd_where p f [] = []"
  "upd_where p f (r # rows) = (if p r then f r else r) # upd_where p f rows"
  by (simp_all add: upd_where_def)

lemma rowcount_eq_0_iff [rows_simps]: "rowcount p rows = 0 \<longleftrightarrow> (\<forall>r \<in> set rows. \<not> p r)"
  by (simp add: rowcount_def filter_empty_conv)

lemma rowcount_pos_iff [rows_simps]: "0 < rowcount p rows \<longleftrightarrow> (\<exists>r \<in> set rows. p r)"
  by (induction rows) auto

lemma rowcount_mono:
  "(\<And>r. r \<in> set rows \<Longrightarrow> p r \<Longrightarrow> q r) \<Longrightarrow> rowcount p rows \<le> rowcount q rows"
  by (induction rows) (auto intro: le_SucI)

lemma upd_where_none [simp]: "(\<And>r. r \<in> set rows \<Longrightarrow> \<not> p r) \<Longrightarrow> upd_where p f rows = rows"
  by (induction rows) auto

lemma length_upd_where [simp]: "length (upd_where p f rows) = length rows"
  by (simp add: upd_where_def)

lemma map_upd_where:
  "(\<And>r. r \<in> set rows \<Longrightarrow> p r \<Longrightarrow> k (f r) = k r) \<Longrightarrow> map k (upd_where p f rows) = map k rows"
  by (induction rows) auto

lemma upd_where_set_cases:
  "r' \<in> set (upd_where p f rows) \<longleftrightarrow> (\<exists>r \<in> set rows. r' = (if p r then f r else r))"
  by (auto simp: upd_where_def)

lemma upd_where_mem_cases:
  assumes "r' \<in> set (upd_where p f rows)"
  obtains (old) "r' \<in> set rows" "\<not> p r'"
    | (new) r where "r \<in> set rows" "p r" "r' = f r"
  using assms by (auto simp: upd_where_def)

lemma rowcount_upd_where_le:
  assumes "\<And>r. r \<in> set rows \<Longrightarrow> p r \<Longrightarrow> q (f r) \<Longrightarrow> q r"
  shows "rowcount q (upd_where p f rows) \<le> rowcount q rows"
  using assms by (induction rows) (auto intro: le_SucI)

lemma list_all2_leftE: "list_all2 P xs ys \<Longrightarrow> x \<in> set xs \<Longrightarrow> \<exists>y \<in> set ys. P x y"
  by (induction rule: list_all2_induct) auto

lemma list_all2_rightE: "list_all2 P xs ys \<Longrightarrow> y \<in> set ys \<Longrightarrow> \<exists>x \<in> set xs. P x y"
  by (induction rule: list_all2_induct) auto

lemma find_None_iff_rowcount: "List.find p rows = None \<longleftrightarrow> rowcount p rows = 0"
  by (auto simp: find_None_iff rowcount_eq_0_iff)

lemma find_snoc: "\<forall>r \<in> set rows. \<not> p r \<Longrightarrow> p r' \<Longrightarrow> List.find p (rows @ [r']) = Some r'"
  by (induction rows) auto

lemma find_SomeD: "List.find p rows = Some r \<Longrightarrow> r \<in> set rows \<and> p r"
  by (auto simp: find_Some_iff)


text \<open>
  A key column \<open>k\<close> with distinct values makes the row that a key predicate selects unique, so the
  first match is the only one and an update by key changes exactly that row.
\<close>

lemma distinct_key_unique:
  "distinct (map k rows) \<Longrightarrow> r \<in> set rows \<Longrightarrow> r' \<in> set rows \<Longrightarrow> k r = k r' \<Longrightarrow> r = r'"
  by (induction rows) (auto simp: image_iff)

lemma find_by_key:
  assumes "distinct (map k rows)" "r \<in> set rows" "p r"
    and "\<And>r'. r' \<in> set rows \<Longrightarrow> p r' \<Longrightarrow> k r' = k r"
  shows "List.find p rows = Some r"
proof -
  obtain r' where r': "List.find p rows = Some r'"
    using assms(2,3) by (cases "List.find p rows") (auto simp: find_None_iff)
  then have "r' \<in> set rows" "p r'" by (auto dest: find_SomeD)
  then have "k r' = k r" by (rule assms(4))
  with \<open>r' \<in> set rows\<close> assms(1,2) have "r' = r" by (metis distinct_key_unique)
  with r' show ?thesis by simp
qed

lemma rowcount_by_key_le_1:
  assumes "distinct (map k rows)"
    and "\<And>r r'. r \<in> set rows \<Longrightarrow> r' \<in> set rows \<Longrightarrow> p r \<Longrightarrow> p r' \<Longrightarrow> k r = k r'"
  shows "rowcount p rows \<le> 1"
  using assms
proof (induction rows)
  case Nil
  then show ?case by simp
next
  case (Cons a rows)
  show ?case
  proof (cases "p a")
    case True
    have "\<not> p r" if "r \<in> set rows" for r
      using Cons.prems(1) Cons.prems(2)[of a r] True that by (auto simp: image_iff)
    then have "rowcount p rows = 0" by (simp add: rowcount_eq_0_iff)
    with True show ?thesis by simp
  next
    case False
    with Cons show ?thesis by simp
  qed
qed

lemma rowcount_by_key_eq_1:
  assumes "distinct (map k rows)" "r \<in> set rows" "p r"
    and "\<And>r'. r' \<in> set rows \<Longrightarrow> p r' \<Longrightarrow> k r' = k r"
  shows "rowcount p rows = 1"
proof -
  have "k r\<^sub>1 = k r\<^sub>2" if "r\<^sub>1 \<in> set rows" "r\<^sub>2 \<in> set rows" "p r\<^sub>1" "p r\<^sub>2" for r\<^sub>1 r\<^sub>2
    using assms(4)[OF that(1,3)] assms(4)[OF that(2,4)] by (rule trans[OF _ sym])
  then have "rowcount p rows \<le> 1"
    by (rule rowcount_by_key_le_1[OF assms(1)])
  moreover have "0 < rowcount p rows" using assms(2,3) by (auto simp: rowcount_pos_iff)
  ultimately show ?thesis by simp
qed

end
