(* ===== verification/Tenancy.thy ===== *)
theory Tenancy
  imports Prelude
begin

text \<open>
  The tenant context of \<open>tenancy/context.py\<close>: the identity every repository, workflow and event
  operation is scoped by. A context is narrowed step by step from tenant and workspace to a session
  and to a run, and its constructor rejects the combinations the rest of the code relies on never
  seeing.
\<close>

record tenant_context =
  tenant_id :: string
  workspace_id :: string
  session_id :: "string option"
  run_id :: "string option"
  request_started_at_ms :: int

text \<open>Python truth value of an optional string: both \<open>None\<close> and the empty string are false.\<close>

definition truthy :: "string option \<Rightarrow> bool" where
  "truthy v \<longleftrightarrow> (case v of None \<Rightarrow> False | Some s \<Rightarrow> s \<noteq> [])"

definition require_non_empty :: "string \<Rightarrow> string option \<Rightarrow> exc + string" where
  "require_non_empty name v =
     (if \<not> truthy v then Inl (ValueError (name @ '' is required'')) else need v AssertionError)"

definition post_init :: "tenant_context \<Rightarrow> exc + tenant_context" where
  "post_init c =
     rbind (require_non_empty ''tenant_id'' (Some (tenant_id c))) (\<lambda>_.
     rbind (require_non_empty ''workspace_id'' (Some (workspace_id c))) (\<lambda>_.
       if truthy (run_id c) \<and> \<not> truthy (session_id c)
       then Inl (ValueError ''session_id is required when run_id is set'')
       else Inr c))"

definition mk_context ::
    "string \<Rightarrow> string \<Rightarrow> string option \<Rightarrow> string option \<Rightarrow> exc + tenant_context" where
  "mk_context t w s r =
     post_init \<lparr>tenant_id = t, workspace_id = w, session_id = s, run_id = r,
       request_started_at_ms = 0\<rparr>"

definition for_session :: "tenant_context \<Rightarrow> string \<Rightarrow> exc + tenant_context" where
  "for_session c s =
     rbind (require_non_empty ''session_id'' (Some s)) (\<lambda>s'.
       post_init (c\<lparr>session_id := Some s', run_id := None\<rparr>))"

definition for_run :: "tenant_context \<Rightarrow> string \<Rightarrow> string \<Rightarrow> exc + tenant_context" where
  "for_run c s r =
     rbind (require_non_empty ''session_id'' (Some s)) (\<lambda>s'.
     rbind (require_non_empty ''run_id'' (Some r)) (\<lambda>r'.
       post_init (c\<lparr>session_id := Some s', run_id := Some r'\<rparr>)))"


section \<open>Well-formed contexts and scopes\<close>

text \<open>What \<open>post_init\<close> guarantees of every context object that exists.\<close>

definition context_ok :: "tenant_context \<Rightarrow> bool" where
  "context_ok c \<longleftrightarrow> tenant_id c \<noteq> [] \<and> workspace_id c \<noteq> [] \<and>
     (truthy (run_id c) \<longrightarrow> truthy (session_id c))"

lemma truthy_Some [simp]: "truthy (Some s) \<longleftrightarrow> s \<noteq> []" "\<not> truthy None"
  by (simp_all add: truthy_def)

lemma require_non_empty_Inr_iff [res_simps]:
  "require_non_empty n v = Inr s \<longleftrightarrow> v = Some s \<and> s \<noteq> []"
  by (cases v) (auto simp: require_non_empty_def)

lemma post_init_Inr_iff [res_simps]: "post_init c = Inr c' \<longleftrightarrow> c' = c \<and> context_ok c"
  by (auto simp: post_init_def context_ok_def res_simps)

lemma mk_context_Inr_iff [res_simps]:
  "mk_context t w s r = Inr c \<longleftrightarrow>
     c = \<lparr>tenant_id = t, workspace_id = w, session_id = s, run_id = r,
          request_started_at_ms = 0\<rparr> \<and> context_ok c"
  by (auto simp: mk_context_def res_simps)

lemma for_run_ok:
  assumes "for_run c s r = Inr c'"
  shows "context_ok c'" "tenant_id c' = tenant_id c" "workspace_id c' = workspace_id c"
    "session_id c' = Some s" "run_id c' = Some r"
  using assms by (auto simp: for_run_def res_simps)

lemma for_session_ok:
  assumes "for_session c s = Inr c'"
  shows "context_ok c'" "tenant_id c' = tenant_id c" "workspace_id c' = workspace_id c"
    "session_id c' = Some s" "run_id c' = None"
  using assms by (auto simp: for_session_def res_simps)

text \<open>
  A row of a run-scoped table carries the four scope columns; a context addresses the rows with
  its own values in them. A context without a session or a run addresses none: the columns are
  not nullable.
\<close>

type_synonym scope = "string \<times> string \<times> string \<times> string"

definition ctx_scope :: "tenant_context \<Rightarrow> scope option" where
  "ctx_scope c = (case (session_id c, run_id c) of
     (Some s, Some r) \<Rightarrow> Some (tenant_id c, workspace_id c, s, r) | _ \<Rightarrow> None)"

lemma ctx_scope_Some_iff:
  "ctx_scope c = Some (t, w, s, r) \<longleftrightarrow>
     tenant_id c = t \<and> workspace_id c = w \<and> session_id c = Some s \<and> run_id c = Some r"
  by (auto simp: ctx_scope_def split: option.splits)

end
