(* ===== verification/Workflow_Models.thy ===== *)
theory Workflow_Models
  imports Tenancy
begin

text \<open>
  The data model of \<open>workflow/models.py\<close>: the status enumerations with their database values, the
  three tables of legal transitions, and the records that pass between the repository, the
  coordinator and the recovery service. The checkpoint payload models of the same file are in
  \<open>Checkpoint_Payloads\<close>.
\<close>

section \<open>Enumerations\<close>

datatype run_status =
    R_RUNNING | R_AWAITING_USER | R_RESUMING | R_COMPLETED | R_FAILED_TERMINAL | R_CANCELLED
  | R_BLOCKED_CORRUPT | R_BLOCKED_INCOMPATIBLE

fun run_status_value :: "run_status \<Rightarrow> string" where
  "run_status_value R_RUNNING = ''running''"
| "run_status_value R_AWAITING_USER = ''awaiting_user''"
| "run_status_value R_RESUMING = ''resuming''"
| "run_status_value R_COMPLETED = ''completed''"
| "run_status_value R_FAILED_TERMINAL = ''failed_terminal''"
| "run_status_value R_CANCELLED = ''cancelled''"
| "run_status_value R_BLOCKED_CORRUPT = ''blocked_corrupt''"
| "run_status_value R_BLOCKED_INCOMPATIBLE = ''blocked_incompatible''"

datatype approval_status = A_AWAITING_USER | A_APPROVED | A_REJECTED | A_EXPIRED

datatype execution_status =
    X_NOT_STARTED | X_REPLAYING | X_EXECUTING | X_SUCCEEDED | X_FAILED_RETRYABLE
  | X_FAILED_TERMINAL | X_UNCERTAIN | X_BLOCKED_INCOMPATIBLE | X_BLOCKED_CORRUPT

fun execution_status_value :: "execution_status \<Rightarrow> string" where
  "execution_status_value X_NOT_STARTED = ''not_started''"
| "execution_status_value X_REPLAYING = ''replaying''"
| "execution_status_value X_EXECUTING = ''executing''"
| "execution_status_value X_SUCCEEDED = ''succeeded''"
| "execution_status_value X_FAILED_RETRYABLE = ''failed_retryable''"
| "execution_status_value X_FAILED_TERMINAL = ''failed_terminal''"
| "execution_status_value X_UNCERTAIN = ''uncertain''"
| "execution_status_value X_BLOCKED_INCOMPATIBLE = ''blocked_incompatible''"
| "execution_status_value X_BLOCKED_CORRUPT = ''blocked_corrupt''"

datatype recovery_strategy = S_READ_ONLY_REPLAY | S_IDEMPOTENT_RETRY | S_MANUAL_UNCERTAIN

fun recovery_strategy_value :: "recovery_strategy \<Rightarrow> string" where
  "recovery_strategy_value S_READ_ONLY_REPLAY = ''read_only_replay''"
| "recovery_strategy_value S_IDEMPOTENT_RETRY = ''idempotent_retry''"
| "recovery_strategy_value S_MANUAL_UNCERTAIN = ''manual_uncertain''"

datatype checkpoint_phase =
    C_RUN_STARTED | C_PLAN_AWAITING_APPROVAL | C_PLAN_STEP_READY | C_PLAN_REPLAN_REQUIRED
  | C_MODEL_OUTPUT_COMMITTED | C_AWAITING_APPROVAL | C_EXECUTION_DISPATCHING
  | C_EXECUTION_RESULT_OBSERVED | C_RUN_TERMINAL

fun checkpoint_phase_value :: "checkpoint_phase \<Rightarrow> string" where
  "checkpoint_phase_value C_RUN_STARTED = ''run_started''"
| "checkpoint_phase_value C_PLAN_AWAITING_APPROVAL = ''plan_awaiting_approval''"
| "checkpoint_phase_value C_PLAN_STEP_READY = ''plan_step_ready''"
| "checkpoint_phase_value C_PLAN_REPLAN_REQUIRED = ''plan_replan_required''"
| "checkpoint_phase_value C_MODEL_OUTPUT_COMMITTED = ''model_output_committed''"
| "checkpoint_phase_value C_AWAITING_APPROVAL = ''awaiting_approval''"
| "checkpoint_phase_value C_EXECUTION_DISPATCHING = ''execution_dispatching''"
| "checkpoint_phase_value C_EXECUTION_RESULT_OBSERVED = ''execution_result_observed''"
| "checkpoint_phase_value C_RUN_TERMINAL = ''run_terminal''"

datatype recovery_action =
    RESUME_MODEL | AWAIT_USER | AWAIT_PLAN_DECISION | RESUME_PLAN_STEP | RESUME_PLAN_REVISION
  | REPLAY_READ_ONLY | RETRY_IDEMPOTENT | MARK_MANUAL_UNCERTAIN | TERMINAL_NOOP

text \<open>
  \<open>Enum(value)\<close>: the member with that value; the conversion raises \<open>ValueError\<close> (here \<open>None\<close>)
  for any other string.
\<close>

definition run_statuses :: "run_status list" where
  "run_statuses = [R_RUNNING, R_AWAITING_USER, R_RESUMING, R_COMPLETED, R_FAILED_TERMINAL,
     R_CANCELLED, R_BLOCKED_CORRUPT, R_BLOCKED_INCOMPATIBLE]"

definition run_status_of_value :: "string \<Rightarrow> run_status option" where
  "run_status_of_value v = List.find (\<lambda>s. run_status_value s = v) run_statuses"

definition execution_statuses :: "execution_status list" where
  "execution_statuses = [X_NOT_STARTED, X_REPLAYING, X_EXECUTING, X_SUCCEEDED, X_FAILED_RETRYABLE,
     X_FAILED_TERMINAL, X_UNCERTAIN, X_BLOCKED_INCOMPATIBLE, X_BLOCKED_CORRUPT]"

definition execution_status_of_value :: "string \<Rightarrow> execution_status option" where
  "execution_status_of_value v = List.find (\<lambda>s. execution_status_value s = v) execution_statuses"

definition recovery_strategy_of_value :: "string \<Rightarrow> recovery_strategy option" where
  "recovery_strategy_of_value v = List.find (\<lambda>s. recovery_strategy_value s = v)
     [S_READ_ONLY_REPLAY, S_IDEMPOTENT_RETRY, S_MANUAL_UNCERTAIN]"

definition checkpoint_phase_of_value :: "string \<Rightarrow> checkpoint_phase option" where
  "checkpoint_phase_of_value v = List.find (\<lambda>s. checkpoint_phase_value s = v)
     [C_RUN_STARTED, C_PLAN_AWAITING_APPROVAL, C_PLAN_STEP_READY, C_PLAN_REPLAN_REQUIRED,
      C_MODEL_OUTPUT_COMMITTED, C_AWAITING_APPROVAL, C_EXECUTION_DISPATCHING,
      C_EXECUTION_RESULT_OBSERVED, C_RUN_TERMINAL]"

lemma run_status_roundtrip [simp]: "run_status_of_value (run_status_value s) = Some s"
  by (cases s) (simp_all add: run_status_of_value_def run_statuses_def)

lemma execution_status_roundtrip [simp]:
  "execution_status_of_value (execution_status_value s) = Some s"
  by (cases s) (simp_all add: execution_status_of_value_def execution_statuses_def)

lemma recovery_strategy_roundtrip [simp]:
  "recovery_strategy_of_value (recovery_strategy_value s) = Some s"
  by (cases s) (simp_all add: recovery_strategy_of_value_def)

lemma checkpoint_phase_roundtrip [simp]:
  "checkpoint_phase_of_value (checkpoint_phase_value s) = Some s"
  by (cases s) (simp_all add: checkpoint_phase_of_value_def)


lemma checkpoint_phase_of_value_iff:
  "checkpoint_phase_of_value v = Some ph \<longleftrightarrow> v = checkpoint_phase_value ph"
proof
  assume "checkpoint_phase_of_value v = Some ph"
  then show "v = checkpoint_phase_value ph"
    unfolding checkpoint_phase_of_value_def by (blast dest: find_SomeD)
qed simp


section \<open>Terminal statuses and legal transitions\<close>

definition TERMINAL_RUN_STATUSES :: "run_status list" where
  "TERMINAL_RUN_STATUSES = [R_COMPLETED, R_FAILED_TERMINAL, R_CANCELLED, R_BLOCKED_CORRUPT,
     R_BLOCKED_INCOMPATIBLE]"

definition TERMINAL_EXECUTION_STATUSES :: "execution_status list" where
  "TERMINAL_EXECUTION_STATUSES = [X_SUCCEEDED, X_FAILED_TERMINAL, X_UNCERTAIN,
     X_BLOCKED_INCOMPATIBLE, X_BLOCKED_CORRUPT]"

text \<open>The dictionaries are total functions here: a missing key reads as \<open>frozenset()\<close>.\<close>

fun LEGAL_RUN_TRANSITIONS :: "run_status \<Rightarrow> run_status list" where
  "LEGAL_RUN_TRANSITIONS R_RUNNING = [R_AWAITING_USER, R_COMPLETED, R_FAILED_TERMINAL,
     R_BLOCKED_INCOMPATIBLE, R_BLOCKED_CORRUPT, R_CANCELLED]"
| "LEGAL_RUN_TRANSITIONS R_AWAITING_USER = [R_RESUMING, R_CANCELLED]"
| "LEGAL_RUN_TRANSITIONS R_RESUMING = [R_RUNNING, R_AWAITING_USER, R_FAILED_TERMINAL,
     R_BLOCKED_INCOMPATIBLE, R_BLOCKED_CORRUPT, R_CANCELLED]"
| "LEGAL_RUN_TRANSITIONS _ = []"

fun LEGAL_APPROVAL_TRANSITIONS :: "approval_status \<Rightarrow> approval_status list" where
  "LEGAL_APPROVAL_TRANSITIONS A_AWAITING_USER = [A_APPROVED, A_REJECTED, A_EXPIRED]"
| "LEGAL_APPROVAL_TRANSITIONS _ = []"

fun LEGAL_EXECUTION_TRANSITIONS :: "execution_status \<Rightarrow> execution_status list" where
  "LEGAL_EXECUTION_TRANSITIONS X_NOT_STARTED = [X_REPLAYING, X_EXECUTING,
     X_BLOCKED_INCOMPATIBLE, X_BLOCKED_CORRUPT]"
| "LEGAL_EXECUTION_TRANSITIONS X_REPLAYING = [X_EXECUTING, X_BLOCKED_INCOMPATIBLE,
     X_BLOCKED_CORRUPT]"
| "LEGAL_EXECUTION_TRANSITIONS X_EXECUTING = [X_SUCCEEDED, X_FAILED_RETRYABLE,
     X_FAILED_TERMINAL, X_UNCERTAIN, X_BLOCKED_INCOMPATIBLE, X_BLOCKED_CORRUPT]"
| "LEGAL_EXECUTION_TRANSITIONS _ = []"

abbreviation run_terminal :: "run_status \<Rightarrow> bool" where
  "run_terminal s \<equiv> s \<in> set TERMINAL_RUN_STATUSES"

abbreviation exec_terminal :: "execution_status \<Rightarrow> bool" where
  "exec_terminal s \<equiv> s \<in> set TERMINAL_EXECUTION_STATUSES"

lemma run_terminal_simps [simp]:
  "run_terminal R_COMPLETED" "run_terminal R_FAILED_TERMINAL" "run_terminal R_CANCELLED"
  "run_terminal R_BLOCKED_CORRUPT" "run_terminal R_BLOCKED_INCOMPATIBLE"
  "\<not> run_terminal R_RUNNING" "\<not> run_terminal R_AWAITING_USER" "\<not> run_terminal R_RESUMING"
  by (simp_all add: TERMINAL_RUN_STATUSES_def)

lemma exec_terminal_simps [simp]:
  "exec_terminal X_SUCCEEDED" "exec_terminal X_FAILED_TERMINAL" "exec_terminal X_UNCERTAIN"
  "exec_terminal X_BLOCKED_INCOMPATIBLE" "exec_terminal X_BLOCKED_CORRUPT"
  "\<not> exec_terminal X_NOT_STARTED" "\<not> exec_terminal X_REPLAYING" "\<not> exec_terminal X_EXECUTING"
  "\<not> exec_terminal X_FAILED_RETRYABLE"
  by (simp_all add: TERMINAL_EXECUTION_STATUSES_def)

lemma LEGAL_RUN_source_active: "t \<in> set (LEGAL_RUN_TRANSITIONS s) \<Longrightarrow> \<not> run_terminal s"
  by (cases s) simp_all

lemma LEGAL_RUN_irrefl: "s \<notin> set (LEGAL_RUN_TRANSITIONS s)"
  by (cases s) simp_all

lemma LEGAL_EXECUTION_source_nonterminal:
  "t \<in> set (LEGAL_EXECUTION_TRANSITIONS s) \<Longrightarrow> \<not> exec_terminal s"
  by (cases s) simp_all


section \<open>Records\<close>

record run_lease =
  l_context :: tenant_context
  l_owner :: string
  l_fencing_token :: int
  l_version :: int
  l_expires_at :: int

record runtime_counters =
  active_run_count :: nat
  active_executing_run_count :: nat
  awaiting_user_run_count :: nat
  checkpointed_awaiting_user_run_count :: nat

record run_record =
  rr_context :: tenant_context
  rr_status :: run_status
  rr_plan_id :: "string option"
  rr_initial_plan_version :: "int option"
  rr_active_plan_version :: "int option"
  rr_cancel_requested_at :: "int option"
  rr_runtime_instance_id :: "string option"
  rr_lease_owner :: "string option"
  rr_fencing_token :: int
  rr_lease_expires_at :: "int option"
  rr_heartbeat_at :: "int option"
  rr_version :: int
  rr_created_at :: int
  rr_updated_at :: int
  rr_finished_at :: "int option"

record execution_record =
  er_context :: tenant_context
  er_execution_id :: string
  er_approval_id :: "string option"
  er_tool_call_id :: string
  er_tool_name :: string
  er_tool_kind :: string
  er_status :: execution_status
  er_recovery_strategy :: recovery_strategy
  er_version :: int
  er_created_at :: int
  er_updated_at :: int
  er_finished_at :: "int option"

record execution_recovery_record =
  xr_context :: tenant_context
  xr_execution_id :: string
  xr_approval_id :: "string option"
  xr_tool_call_id :: string
  xr_tool_name :: string
  xr_tool_kind :: string
  xr_status :: execution_status
  xr_recovery_strategy :: recovery_strategy
  xr_idempotency_key :: "string option"
  xr_input_payload_json :: string
  xr_input_hash :: string
  xr_input_ref :: string
  xr_external_request_id :: "string option"
  xr_result_ref :: "string option"
  xr_result_digest :: "string option"
  xr_version :: int

record checkpoint_record =
  cr_checkpoint_id :: string
  cr_tenant_id :: string
  cr_workspace_id :: string
  cr_session_id :: string
  cr_run_id :: string
  cr_approval_id :: "string option"
  cr_execution_id :: "string option"
  cr_phase :: string
  cr_checkpoint_seq :: int
  cr_payload_json :: string
  cr_payload_hash :: string
  cr_schema_version :: int
  cr_created_at :: int

record checkpoint_write =
  cw_checkpoint_id :: string
  cw_checkpoint_seq :: int
  cw_phase :: checkpoint_phase
  cw_payload_json :: string
  cw_payload_hash :: string
  cw_schema_version :: int

record approval_record =
  ar_context :: tenant_context
  ar_approval_id :: string
  ar_tool_call_id :: string
  ar_status :: approval_status
  ar_requested_at :: int
  ar_resolved_at :: "int option"
  ar_expires_at :: int
  ar_version :: int

end
