(* ===== verification/Workflow_Store.thy ===== *)
theory Workflow_Store
  imports Workflow_Models
begin

text \<open>
  The tables of \<open>storage/schema.py\<close> the workflow repository reads and writes, as lists of rows, and
  the constraints the database enforces when a row is inserted: primary and unique keys, check
  constraints and foreign keys. A nullable column is an \<open>option\<close>, a status column the enumeration
  its check constraint allows. A comparison with \<open>NULL\<close> is never true in SQL, which the predicates
  over nullable columns below write out.
\<close>

section \<open>Rows\<close>

record run_row =
  r_run_id :: string
  r_tenant_id :: string
  r_workspace_id :: string
  r_session_id :: string
  r_plan_id :: "string option"
  r_initial_plan_version :: "int option"
  r_active_plan_version :: "int option"
  r_cancel_requested_at :: "int option"
  r_status :: run_status
  r_runtime_instance_id :: "string option"
  r_lease_owner :: "string option"
  r_fencing_token :: int
  r_lease_expires_at :: "int option"
  r_heartbeat_at :: "int option"
  r_schema_version :: int
  r_version :: int
  r_created_at :: int
  r_updated_at :: int
  r_finished_at :: "int option"

record approval_row =
  a_approval_id :: string
  a_tenant_id :: string
  a_workspace_id :: string
  a_session_id :: string
  a_run_id :: string
  a_tool_call_id :: string
  a_status :: approval_status
  a_requested_at :: int
  a_resolved_at :: "int option"
  a_expires_at :: int
  a_version :: int

record execution_row =
  x_execution_id :: string
  x_tenant_id :: string
  x_workspace_id :: string
  x_session_id :: string
  x_run_id :: string
  x_approval_id :: "string option"
  x_tool_call_id :: string
  x_tool_name :: string
  x_tool_kind :: string
  x_status :: execution_status
  x_recovery_strategy :: recovery_strategy
  x_idempotency_key :: "string option"
  x_input_payload_json :: string
  x_input_hash :: string
  x_external_request_id :: "string option"
  x_result_ref :: "string option"
  x_result_digest :: "string option"
  x_schema_version :: int
  x_version :: int
  x_created_at :: int
  x_updated_at :: int
  x_finished_at :: "int option"

text \<open>The columns of \<open>execution_checkpoints\<close> are exactly the fields of \<open>CheckpointRecord\<close>.\<close>

type_synonym checkpoint_row = checkpoint_record

record plan_version_row =
  pv_tenant_id :: string
  pv_workspace_id :: string
  pv_session_id :: string
  pv_plan_id :: string
  pv_plan_version :: int
  pv_objective :: string
  pv_constraints_json :: string
  pv_generation_reason :: string
  pv_parent_version :: "int option"
  pv_revision_feedback :: "string option"
  pv_schema_version :: int
  pv_content_digest :: string
  pv_created_at :: int

record memory_row =
  m_id :: string
  m_tenant_id :: string
  m_workspace_id :: string
  m_session_id :: "string option"
  m_content :: string
  m_type :: string
  m_role :: string
  m_turn_index :: int
  m_created_at :: int
  m_metadata_json :: string

record audit_row =
  u_audit_id :: string
  u_tenant_id :: string
  u_workspace_id :: string
  u_session_id :: "string option"
  u_run_id :: "string option"
  u_approval_id :: "string option"
  u_execution_id :: "string option"
  u_event_type :: string
  u_status :: string
  u_tool_name :: "string option"
  u_detail_redacted :: string
  u_created_at :: int

text \<open>\<open>workspaces\<close> and \<open>chat_sessions\<close> are needed only as targets of foreign keys: their scope keys.\<close>

record wf_db =
  workspaces :: "(string \<times> string) list"
  chat_sessions :: "(string \<times> string \<times> string) list"
  agent_runs :: "run_row list"
  approval_requests :: "approval_row list"
  tool_executions :: "execution_row list"
  execution_checkpoints :: "checkpoint_row list"
  agent_plan_versions :: "plan_version_row list"
  memory_entries :: "memory_row list"
  audit_logs :: "audit_row list"


section \<open>Scope of a row\<close>

definition run_scope :: "run_row \<Rightarrow> scope" where
  "run_scope r = (r_tenant_id r, r_workspace_id r, r_session_id r, r_run_id r)"

definition approval_scope :: "approval_row \<Rightarrow> scope" where
  "approval_scope a = (a_tenant_id a, a_workspace_id a, a_session_id a, a_run_id a)"

definition exec_scope :: "execution_row \<Rightarrow> scope" where
  "exec_scope x = (x_tenant_id x, x_workspace_id x, x_session_id x, x_run_id x)"

definition checkpoint_scope :: "checkpoint_row \<Rightarrow> scope" where
  "checkpoint_scope c = (cr_tenant_id c, cr_workspace_id c, cr_session_id c, cr_run_id c)"

lemmas scope_defs = run_scope_def approval_scope_def exec_scope_def checkpoint_scope_def


section \<open>Constraints and inserts\<close>

text \<open>The all-or-nothing Plan binding, shared by the check constraint and the Python guards.\<close>

definition binding_complete :: "string option \<Rightarrow> int option \<Rightarrow> int option \<Rightarrow> bool" where
  "binding_complete p i a \<longleftrightarrow> (p = None) = (i = None) \<and> (p = None) = (a = None)"

text \<open>A composite foreign key is checked only when none of its columns is null.\<close>

definition plan_version_fk :: "wf_db \<Rightarrow> run_row \<Rightarrow> int option \<Rightarrow> bool" where
  "plan_version_fk db r v \<longleftrightarrow>
     (case (r_plan_id r, v) of
        (Some p, Some n) \<Rightarrow> (\<exists>w \<in> set (agent_plan_versions db).
           pv_tenant_id w = r_tenant_id r \<and> pv_workspace_id w = r_workspace_id r \<and>
           pv_session_id w = r_session_id r \<and> pv_plan_id w = p \<and> pv_plan_version w = n)
      | _ \<Rightarrow> True)"

definition insert_agent_run :: "wf_db \<Rightarrow> run_row \<Rightarrow> exc + wf_db" where
  "insert_agent_run db r =
     (if r_run_id r \<notin> set (map r_run_id (agent_runs db)) \<and>
         binding_complete (r_plan_id r) (r_initial_plan_version r) (r_active_plan_version r) \<and>
         (r_tenant_id r, r_workspace_id r, r_session_id r) \<in> set (chat_sessions db) \<and>
         plan_version_fk db r (r_initial_plan_version r) \<and>
         plan_version_fk db r (r_active_plan_version r)
      then Inr (db\<lparr>agent_runs := agent_runs db @ [r]\<rparr>)
      else Inl IntegrityError)"

definition approval_fk :: "wf_db \<Rightarrow> scope \<Rightarrow> string option \<Rightarrow> bool" where
  "approval_fk db sc v \<longleftrightarrow>
     (case v of None \<Rightarrow> True
      | Some i \<Rightarrow> (\<exists>a \<in> set (approval_requests db). approval_scope a = sc \<and> a_approval_id a = i))"

definition execution_fk :: "wf_db \<Rightarrow> scope \<Rightarrow> string option \<Rightarrow> bool" where
  "execution_fk db sc v \<longleftrightarrow>
     (case v of None \<Rightarrow> True
      | Some i \<Rightarrow> (\<exists>x \<in> set (tool_executions db). exec_scope x = sc \<and> x_execution_id x = i))"

definition insert_approval_request :: "wf_db \<Rightarrow> approval_row \<Rightarrow> exc + wf_db" where
  "insert_approval_request db a =
     (if a_approval_id a \<notin> set (map a_approval_id (approval_requests db)) \<and>
         (approval_scope a, a_tool_call_id a)
           \<notin> set (map (\<lambda>b. (approval_scope b, a_tool_call_id b)) (approval_requests db)) \<and>
         approval_scope a \<in> set (map run_scope (agent_runs db))
      then Inr (db\<lparr>approval_requests := approval_requests db @ [a]\<rparr>)
      else Inl IntegrityError)"

definition insert_tool_execution :: "wf_db \<Rightarrow> execution_row \<Rightarrow> exc + wf_db" where
  "insert_tool_execution db x =
     (if x_execution_id x \<notin> set (map x_execution_id (tool_executions db)) \<and>
         (exec_scope x, x_tool_call_id x)
           \<notin> set (map (\<lambda>y. (exec_scope y, x_tool_call_id y)) (tool_executions db)) \<and>
         exec_scope x \<in> set (map run_scope (agent_runs db)) \<and>
         approval_fk db (exec_scope x) (x_approval_id x)
      then Inr (db\<lparr>tool_executions := tool_executions db @ [x]\<rparr>)
      else Inl IntegrityError)"

definition insert_execution_checkpoint :: "wf_db \<Rightarrow> checkpoint_row \<Rightarrow> exc + wf_db" where
  "insert_execution_checkpoint db c =
     (if cr_checkpoint_id c \<notin> set (map cr_checkpoint_id (execution_checkpoints db)) \<and>
         (checkpoint_scope c, cr_checkpoint_seq c)
           \<notin> set (map (\<lambda>d. (checkpoint_scope d, cr_checkpoint_seq d)) (execution_checkpoints db)) \<and>
         checkpoint_scope c \<in> set (map run_scope (agent_runs db)) \<and>
         approval_fk db (checkpoint_scope c) (cr_approval_id c) \<and>
         execution_fk db (checkpoint_scope c) (cr_execution_id c)
      then Inr (db\<lparr>execution_checkpoints := execution_checkpoints db @ [c]\<rparr>)
      else Inl IntegrityError)"

lemmas insert_defs = insert_agent_run_def insert_approval_request_def insert_tool_execution_def
  insert_execution_checkpoint_def


section \<open>The schema invariant\<close>

text \<open>
  What the constraints keep true of every database state, and the shape of the scope columns that
  the application writes (a run row is inserted from a context, whose identifiers are non-empty).
\<close>

definition run_row_ok :: "run_row \<Rightarrow> bool" where
  "run_row_ok r \<longleftrightarrow>
     binding_complete (r_plan_id r) (r_initial_plan_version r) (r_active_plan_version r) \<and>
     r_tenant_id r \<noteq> [] \<and> r_workspace_id r \<noteq> [] \<and>
     (r_run_id r \<noteq> [] \<longrightarrow> r_session_id r \<noteq> [])"

definition schema_ok :: "wf_db \<Rightarrow> bool" where
  "schema_ok db \<longleftrightarrow>
     distinct (map r_run_id (agent_runs db)) \<and>
     (\<forall>r \<in> set (agent_runs db). run_row_ok r) \<and>
     distinct (map a_approval_id (approval_requests db)) \<and>
     distinct (map x_execution_id (tool_executions db)) \<and>
     distinct (map (\<lambda>c. (checkpoint_scope c, cr_checkpoint_seq c)) (execution_checkpoints db)) \<and>
     (\<forall>a \<in> set (approval_requests db). approval_scope a \<in> run_scope ` set (agent_runs db)) \<and>
     (\<forall>x \<in> set (tool_executions db). exec_scope x \<in> run_scope ` set (agent_runs db)) \<and>
     (\<forall>c \<in> set (execution_checkpoints db). checkpoint_scope c \<in> run_scope ` set (agent_runs db))"

lemma schema_okD:
  assumes "schema_ok db"
  shows "distinct (map r_run_id (agent_runs db))"
    and "\<And>r. r \<in> set (agent_runs db) \<Longrightarrow> run_row_ok r"
    and "distinct (map a_approval_id (approval_requests db))"
    and "distinct (map x_execution_id (tool_executions db))"
  using assms by (auto simp: schema_ok_def)

lemma schema_ok_same_scope_same_row:
  assumes "schema_ok db" "r \<in> set (agent_runs db)" "r' \<in> set (agent_runs db)"
    and "run_scope r = run_scope r'"
  shows "r = r'"
  using assms distinct_key_unique[of r_run_id "agent_runs db" r r']
  by (auto simp: schema_ok_def run_scope_def)

lemma insert_agent_run_schema_ok:
  assumes "schema_ok db" "insert_agent_run db r = Inr db'" "run_row_ok r"
  shows "schema_ok db'"
  using assms by (auto simp: schema_ok_def insert_agent_run_def split: if_splits)

lemma insert_approval_schema_ok:
  assumes "schema_ok db" "insert_approval_request db a = Inr db'"
  shows "schema_ok db'"
  using assms by (auto simp: schema_ok_def insert_approval_request_def split: if_splits)

lemma insert_execution_schema_ok:
  assumes "schema_ok db" "insert_tool_execution db x = Inr db'"
  shows "schema_ok db'"
  using assms by (auto simp: schema_ok_def insert_tool_execution_def split: if_splits)

lemma insert_checkpoint_schema_ok:
  assumes "schema_ok db" "insert_execution_checkpoint db c = Inr db'"
  shows "schema_ok db'"
  using assms by (auto simp: schema_ok_def insert_execution_checkpoint_def split: if_splits)

text \<open>An update that leaves the key and scope columns alone keeps the schema invariant.\<close>

definition run_key_frame :: "(run_row \<Rightarrow> run_row) \<Rightarrow> bool" where
  "run_key_frame f \<longleftrightarrow> (\<forall>r. run_scope (f r) = run_scope r \<and> (run_row_ok r \<longrightarrow> run_row_ok (f r)))"

lemma run_key_frame_run_id: "run_key_frame f \<Longrightarrow> r_run_id (f r) = r_run_id r"
  by (auto simp: run_key_frame_def run_scope_def)

lemma update_runs_scopes:
  assumes "run_key_frame f"
  shows "map run_scope (upd_where p f rows) = map run_scope rows"
  using assms by (intro map_upd_where) (simp add: run_key_frame_def)

lemma update_runs_schema_ok:
  assumes "schema_ok db" "run_key_frame f"
  shows "schema_ok (db\<lparr>agent_runs := upd_where p f (agent_runs db)\<rparr>)"
proof -
  let ?rows = "upd_where p f (agent_runs db)"
  have ids: "map r_run_id ?rows = map r_run_id (agent_runs db)"
    using assms(2) by (intro map_upd_where) (simp add: run_key_frame_run_id)
  have scopes: "run_scope ` set ?rows = run_scope ` set (agent_runs db)"
    using update_runs_scopes[OF assms(2), of p "agent_runs db"] by (metis list.set_map)
  have rows_ok: "\<forall>r \<in> set ?rows. run_row_ok r"
    using assms by (auto simp: schema_ok_def run_key_frame_def upd_where_set_cases)
  show ?thesis
    using assms(1) ids scopes rows_ok by (simp add: schema_ok_def del: list.set_map)
qed

lemma update_approvals_schema_ok:
  assumes "schema_ok db"
    and "\<And>a. approval_scope (f a) = approval_scope a \<and> a_approval_id (f a) = a_approval_id a"
  shows "schema_ok (db\<lparr>approval_requests := upd_where p f (approval_requests db)\<rparr>)"
proof -
  have "map a_approval_id (upd_where p f (approval_requests db)) =
      map a_approval_id (approval_requests db)"
    using assms(2) by (intro map_upd_where) simp
  then show ?thesis
    using assms by (auto simp: schema_ok_def upd_where_set_cases)
qed

lemma update_executions_schema_ok:
  assumes "schema_ok db"
    and "\<And>x. exec_scope (f x) = exec_scope x \<and> x_execution_id (f x) = x_execution_id x"
  shows "schema_ok (db\<lparr>tool_executions := upd_where p f (tool_executions db)\<rparr>)"
proof -
  have "map x_execution_id (upd_where p f (tool_executions db)) =
      map x_execution_id (tool_executions db)"
    using assms(2) by (intro map_upd_where) simp
  then show ?thesis
    using assms by (auto simp: schema_ok_def upd_where_set_cases)
qed

end
