(* ===== verification/Workflow_Repository.thy ===== *)
theory Workflow_Repository
  imports Workflow_Store "HOL-Library.List_Lexorder" "HOL-Library.Char_ord"
    "HOL-Library.Product_Lexorder"
begin

text \<open>
  The workflow repository of \<open>storage/repositories/workflow.py\<close>. Every method is one function: it
  reads the tables of a \<^typ>\<open>wf_db\<close> and either raises or returns its value with the new tables.
  The database clock \<open>db_now_ms()\<close> is evaluated once per SQL statement, so a method whose statements
  read it several times takes a clock \<open>nat \<Rightarrow> int\<close> that is read at 0, 1, .. in statement order, and
  no relation between two readings is assumed. \<open>lock_run\<close> takes a row lock inside the transaction
  and changes no row; \<open>write_transaction\<close> serialises the callers.
\<close>

type_synonym clock = "nat \<Rightarrow> int"

record repo_config =
  heartbeat_ms :: int
  lease_ttl_ms :: int
  plan_round_budget :: "int option"

section \<open>Status groups and predicates\<close>

definition ACTIVE_RUN_STATUSES :: "run_status list" where
  "ACTIVE_RUN_STATUSES = [R_RUNNING, R_AWAITING_USER, R_RESUMING]"

definition TAKEOVER_ELIGIBLE_STATUSES :: "run_status list" where
  "TAKEOVER_ELIGIBLE_STATUSES = [R_RUNNING, R_AWAITING_USER, R_RESUMING]"

definition NONTERMINAL_EXECUTION_STATUSES :: "execution_status list" where
  "NONTERMINAL_EXECUTION_STATUSES =
     filter (\<lambda>s. s \<notin> set TERMINAL_EXECUTION_STATUSES) execution_statuses"

definition current_lease_predicate :: "run_lease \<Rightarrow> int \<Rightarrow> run_row \<Rightarrow> bool" where
  "current_lease_predicate lease now r \<longleftrightarrow>
     r_tenant_id r = tenant_id (l_context lease) \<and>
     r_workspace_id r = workspace_id (l_context lease) \<and>
     Some (r_session_id r) = session_id (l_context lease) \<and>
     Some (r_run_id r) = run_id (l_context lease) \<and>
     r_lease_owner r = Some (l_owner lease) \<and>
     r_fencing_token r = l_fencing_token lease \<and>
     r_version r = l_version lease \<and>
     (case r_lease_expires_at r of None \<Rightarrow> False | Some e \<Rightarrow> e > now)"

definition context_predicate :: "tenant_context \<Rightarrow> run_row \<Rightarrow> bool" where
  "context_predicate ctx r \<longleftrightarrow>
     r_tenant_id r = tenant_id ctx \<and> r_workspace_id r = workspace_id ctx \<and>
     Some (r_session_id r) = session_id ctx \<and> Some (r_run_id r) = run_id ctx"

definition approval_scope_predicate :: "tenant_context \<Rightarrow> string \<Rightarrow> approval_row \<Rightarrow> bool" where
  "approval_scope_predicate ctx i a \<longleftrightarrow>
     a_tenant_id a = tenant_id ctx \<and> a_workspace_id a = workspace_id ctx \<and>
     Some (a_session_id a) = session_id ctx \<and> Some (a_run_id a) = run_id ctx \<and>
     a_approval_id a = i"

definition checkpoint_scope_predicate :: "tenant_context \<Rightarrow> checkpoint_row \<Rightarrow> bool" where
  "checkpoint_scope_predicate ctx c \<longleftrightarrow>
     cr_tenant_id c = tenant_id ctx \<and> cr_workspace_id c = workspace_id ctx \<and>
     Some (cr_session_id c) = session_id ctx \<and> Some (cr_run_id c) = run_id ctx"

text \<open>The scope predicate the execution statements spell out inline.\<close>

definition execution_scope_predicate :: "tenant_context \<Rightarrow> execution_row \<Rightarrow> bool" where
  "execution_scope_predicate ctx x \<longleftrightarrow>
     x_tenant_id x = tenant_id ctx \<and> x_workspace_id x = workspace_id ctx \<and>
     Some (x_session_id x) = session_id ctx \<and> Some (x_run_id x) = run_id ctx"


section \<open>Rows to records\<close>

definition run_from_row :: "run_row \<Rightarrow> exc + run_record" where
  "run_from_row r =
     (if (r_plan_id r = None \<or> r_initial_plan_version r = None \<or> r_active_plan_version r = None) \<and>
         (r_plan_id r \<noteq> None \<or> r_initial_plan_version r \<noteq> None \<or> r_active_plan_version r \<noteq> None)
      then Inl (ValueError ''run has an incomplete Plan binding'')
      else rbind (mk_context (r_tenant_id r) (r_workspace_id r)
                    (Some (r_session_id r)) (Some (r_run_id r))) (\<lambda>ctx.
        Inr \<lparr>rr_context = ctx, rr_status = r_status r, rr_plan_id = r_plan_id r,
          rr_initial_plan_version = r_initial_plan_version r,
          rr_active_plan_version = r_active_plan_version r,
          rr_cancel_requested_at = r_cancel_requested_at r,
          rr_runtime_instance_id = r_runtime_instance_id r,
          rr_lease_owner = r_lease_owner r, rr_fencing_token = r_fencing_token r,
          rr_lease_expires_at = r_lease_expires_at r, rr_heartbeat_at = r_heartbeat_at r,
          rr_version = r_version r, rr_created_at = r_created_at r,
          rr_updated_at = r_updated_at r, rr_finished_at = r_finished_at r\<rparr>))"

definition approval_from_row :: "tenant_context \<Rightarrow> approval_row \<Rightarrow> approval_record" where
  "approval_from_row ctx a = \<lparr>ar_context = ctx, ar_approval_id = a_approval_id a,
     ar_tool_call_id = a_tool_call_id a, ar_status = a_status a,
     ar_requested_at = a_requested_at a, ar_resolved_at = a_resolved_at a,
     ar_expires_at = a_expires_at a, ar_version = a_version a\<rparr>"

definition execution_from_row :: "tenant_context \<Rightarrow> execution_row \<Rightarrow> execution_record" where
  "execution_from_row ctx x = \<lparr>er_context = ctx, er_execution_id = x_execution_id x,
     er_approval_id = x_approval_id x, er_tool_call_id = x_tool_call_id x,
     er_tool_name = x_tool_name x, er_tool_kind = x_tool_kind x, er_status = x_status x,
     er_recovery_strategy = x_recovery_strategy x, er_version = x_version x,
     er_created_at = x_created_at x, er_updated_at = x_updated_at x,
     er_finished_at = x_finished_at x\<rparr>"

definition execution_recovery_from_row ::
    "tenant_context \<Rightarrow> execution_row \<Rightarrow> execution_recovery_record" where
  "execution_recovery_from_row ctx x = \<lparr>xr_context = ctx, xr_execution_id = x_execution_id x,
     xr_approval_id = x_approval_id x, xr_tool_call_id = x_tool_call_id x,
     xr_tool_name = x_tool_name x, xr_tool_kind = x_tool_kind x, xr_status = x_status x,
     xr_recovery_strategy = x_recovery_strategy x, xr_idempotency_key = x_idempotency_key x,
     xr_input_payload_json = x_input_payload_json x, xr_input_hash = x_input_hash x,
     xr_input_ref = ''tool_execution:'' @ x_execution_id x @ '':input_payload_json'',
     xr_external_request_id = x_external_request_id x, xr_result_ref = x_result_ref x,
     xr_result_digest = x_result_digest x, xr_version = x_version x\<rparr>"


section \<open>Reads\<close>

definition get_run :: "wf_db \<Rightarrow> tenant_context \<Rightarrow> exc + run_record option" where
  "get_run db ctx =
     (case List.find (context_predicate ctx) (agent_runs db) of
        None \<Rightarrow> Inr None
      | Some row \<Rightarrow> rbind (run_from_row row) (\<lambda>r. Inr (Some r)))"

fun map_rows :: "('r \<Rightarrow> 'e + 'a) \<Rightarrow> 'r list \<Rightarrow> 'e + 'a list" where
  "map_rows f [] = Inr []"
| "map_rows f (r # rs) = rbind (f r) (\<lambda>x. rbind (map_rows f rs) (\<lambda>xs. Inr (x # xs)))"

text \<open>\<open>ORDER BY created_at DESC, run_id DESC\<close> over the runs of a Plan in the session.\<close>

definition plan_run_rows :: "wf_db \<Rightarrow> tenant_context \<Rightarrow> string \<Rightarrow> run_row list" where
  "plan_run_rows db ctx pid =
     rev (sort_key (\<lambda>r. (r_created_at r, r_run_id r))
       (filter (\<lambda>r. r_tenant_id r = tenant_id ctx \<and> r_workspace_id r = workspace_id ctx \<and>
          Some (r_session_id r) = session_id ctx \<and> r_plan_id r = Some pid) (agent_runs db)))"

definition get_plan_run :: "wf_db \<Rightarrow> tenant_context \<Rightarrow> string \<Rightarrow> exc + run_record option" where
  "get_plan_run db ctx pid =
     (if session_id ctx = None
      then Inl (ValueError ''session_id is required for Plan run lookup'')
      else case plan_run_rows db ctx pid of
        [] \<Rightarrow> Inr None
      | row # _ \<Rightarrow> rbind (run_from_row row) (\<lambda>r. Inr (Some r)))"

definition list_plan_runs :: "wf_db \<Rightarrow> tenant_context \<Rightarrow> string \<Rightarrow> exc + run_record list" where
  "list_plan_runs db ctx pid =
     (if session_id ctx = None
      then Inl (ValueError ''session_id is required for Plan run lookup'')
      else map_rows run_from_row (plan_run_rows db ctx pid))"

definition count_active_runs :: "wf_db \<Rightarrow> string \<Rightarrow> nat" where
  "count_active_runs db t =
     rowcount (\<lambda>r. r_tenant_id r = t \<and> r_status r \<in> set ACTIVE_RUN_STATUSES) (agent_runs db)"

definition get_runtime_counters :: "wf_db \<Rightarrow> tenant_context \<Rightarrow> runtime_counters" where
  "get_runtime_counters db ctx =
     (let in_scope = (\<lambda>r. r_tenant_id r = tenant_id ctx \<and> r_workspace_id r = workspace_id ctx) in
      \<lparr>active_run_count =
         rowcount (\<lambda>r. r_status r \<in> set ACTIVE_RUN_STATUSES \<and> in_scope r) (agent_runs db),
       active_executing_run_count =
         rowcount (\<lambda>r. in_scope r \<and> r_status r \<in> {R_RUNNING, R_RESUMING}) (agent_runs db),
       awaiting_user_run_count =
         rowcount (\<lambda>r. in_scope r \<and> r_status r = R_AWAITING_USER) (agent_runs db),
       checkpointed_awaiting_user_run_count =
         rowcount (\<lambda>r. in_scope r \<and> r_status r = R_AWAITING_USER \<and>
           (\<exists>c \<in> set (execution_checkpoints db). checkpoint_scope c = run_scope r))
           (agent_runs db)\<rparr>)"

definition require_lease ::
    "wf_db \<Rightarrow> tenant_context \<Rightarrow> string \<Rightarrow> int \<Rightarrow> int \<Rightarrow> exc + run_lease" where
  "require_lease db ctx owner token ver =
     (case List.find (\<lambda>r. context_predicate ctx r \<and> r_lease_owner r = Some owner \<and>
         r_fencing_token r = token \<and> r_version r = ver) (agent_runs db) of
        None \<Rightarrow> Inl NoResultFound
      | Some row \<Rightarrow>
          rbind (need (r_lease_owner row) AssertionError) (\<lambda>o'.
          rbind (need (r_lease_expires_at row) (ValueError ''int() of None'')) (\<lambda>e.
            Inr \<lparr>l_context = ctx, l_owner = o', l_fencing_token = r_fencing_token row,
              l_version = r_version row, l_expires_at = e\<rparr>)))"

definition plan_version_exists ::
    "wf_db \<Rightarrow> tenant_context \<Rightarrow> string \<Rightarrow> int \<Rightarrow> string option \<Rightarrow> bool" where
  "plan_version_exists db ctx pid ver digest \<longleftrightarrow>
     (\<exists>w \<in> set (agent_plan_versions db).
        pv_tenant_id w = tenant_id ctx \<and> pv_workspace_id w = workspace_id ctx \<and>
        Some (pv_session_id w) = session_id ctx \<and> pv_plan_id w = pid \<and> pv_plan_version w = ver \<and>
        (case digest of None \<Rightarrow> True | Some d \<Rightarrow> pv_content_digest w = d))"

definition has_nonterminal_execution :: "wf_db \<Rightarrow> tenant_context \<Rightarrow> bool" where
  "has_nonterminal_execution db ctx \<longleftrightarrow>
     rowcount (\<lambda>x. execution_scope_predicate ctx x \<and>
       x_status x \<notin> set TERMINAL_EXECUTION_STATUSES) (tool_executions db) > 0"

definition get_execution :: "wf_db \<Rightarrow> tenant_context \<Rightarrow> string \<Rightarrow> execution_record option" where
  "get_execution db ctx i =
     map_option (execution_from_row ctx)
       (List.find (\<lambda>x. execution_scope_predicate ctx x \<and> x_execution_id x = i)
          (tool_executions db))"

definition get_execution_recovery ::
    "wf_db \<Rightarrow> tenant_context \<Rightarrow> string \<Rightarrow> execution_recovery_record option" where
  "get_execution_recovery db ctx i =
     map_option (execution_recovery_from_row ctx)
       (List.find (\<lambda>x. execution_scope_predicate ctx x \<and> x_execution_id x = i)
          (tool_executions db))"

definition get_execution_by_tool_call_id ::
    "wf_db \<Rightarrow> tenant_context \<Rightarrow> string \<Rightarrow> execution_recovery_record option" where
  "get_execution_by_tool_call_id db ctx i =
     map_option (execution_recovery_from_row ctx)
       (List.find (\<lambda>x. execution_scope_predicate ctx x \<and> x_tool_call_id x = i)
          (tool_executions db))"

definition get_execution_by_approval_id ::
    "wf_db \<Rightarrow> tenant_context \<Rightarrow> string \<Rightarrow> execution_recovery_record option" where
  "get_execution_by_approval_id db ctx i =
     map_option (execution_recovery_from_row ctx)
       (List.find (\<lambda>x. execution_scope_predicate ctx x \<and> x_approval_id x = Some i)
          (tool_executions db))"

definition get_approval :: "wf_db \<Rightarrow> tenant_context \<Rightarrow> string \<Rightarrow> approval_record option" where
  "get_approval db ctx i =
     map_option (approval_from_row ctx)
       (List.find (approval_scope_predicate ctx i) (approval_requests db))"

definition get_workspace_approval ::
    "wf_db \<Rightarrow> string \<Rightarrow> string \<Rightarrow> string \<Rightarrow> exc + approval_record option" where
  "get_workspace_approval db t w i =
     (case List.find (\<lambda>a. a_tenant_id a = t \<and> a_workspace_id a = w \<and> a_approval_id a = i)
         (approval_requests db) of
        None \<Rightarrow> Inr None
      | Some row \<Rightarrow>
          rbind (mk_context t w (Some (a_session_id row)) (Some (a_run_id row))) (\<lambda>ctx.
            Inr (Some (approval_from_row ctx row))))"

text \<open>\<open>ORDER BY checkpoint_seq DESC LIMIT 1\<close>.\<close>

definition get_latest_checkpoint :: "wf_db \<Rightarrow> tenant_context \<Rightarrow> checkpoint_record option" where
  "get_latest_checkpoint db ctx =
     (case rev (sort_key cr_checkpoint_seq
         (filter (checkpoint_scope_predicate ctx) (execution_checkpoints db))) of
        [] \<Rightarrow> None | c # _ \<Rightarrow> Some c)"

text \<open>\<open>int(max_seq or 0) + 1\<close>: the maximum is \<open>NULL\<close> over no rows.\<close>

definition max_checkpoint_seq :: "wf_db \<Rightarrow> tenant_context \<Rightarrow> int option" where
  "max_checkpoint_seq db ctx =
     (case map cr_checkpoint_seq
         (filter (checkpoint_scope_predicate ctx) (execution_checkpoints db)) of
        [] \<Rightarrow> None | s # ss \<Rightarrow> Some (foldl max s ss))"

definition get_next_checkpoint_seq :: "wf_db \<Rightarrow> tenant_context \<Rightarrow> int" where
  "get_next_checkpoint_seq db ctx =
     (case max_checkpoint_seq db ctx of None \<Rightarrow> 0 | Some s \<Rightarrow> s) + 1"

definition get_live_lease :: "int \<Rightarrow> wf_db \<Rightarrow> tenant_context \<Rightarrow> string \<Rightarrow> run_lease option" where
  "get_live_lease now db ctx owner =
     (case List.find (\<lambda>r. context_predicate ctx r \<and> r_lease_owner r = Some owner \<and>
         (case r_lease_expires_at r of None \<Rightarrow> False | Some e \<Rightarrow> e > now)) (agent_runs db) of
        None \<Rightarrow> None
      | Some row \<Rightarrow>
          (case r_lease_expires_at row of None \<Rightarrow> None
           | Some e \<Rightarrow> Some \<lparr>l_context = ctx, l_owner = owner,
               l_fencing_token = r_fencing_token row, l_version = r_version row,
               l_expires_at = e\<rparr>))"

definition has_current_lease :: "int \<Rightarrow> wf_db \<Rightarrow> run_lease \<Rightarrow> bool" where
  "has_current_lease now db lease \<longleftrightarrow>
     List.find (current_lease_predicate lease now) (agent_runs db) \<noteq> None"

end
