(* ===== verification/Workflow_Mutations.thy ===== *)
theory Workflow_Mutations
  imports Workflow_Repository
begin

text \<open>
  The mutating methods of \<open>storage/repositories/workflow.py\<close>. A method that reports a lost race by
  returning \<open>None\<close> returns \<open>Inr (None, db)\<close>; a method that raises returns \<open>Inl\<close>, and the transaction
  it runs in discards its writes.
\<close>

section \<open>Statements\<close>

definition update_runs ::
    "(run_row \<Rightarrow> bool) \<Rightarrow> (run_row \<Rightarrow> run_row) \<Rightarrow> wf_db \<Rightarrow> nat \<times> wf_db" where
  "update_runs p f db =
     (rowcount p (agent_runs db), db\<lparr>agent_runs := upd_where p f (agent_runs db)\<rparr>)"

definition update_approvals ::
    "(approval_row \<Rightarrow> bool) \<Rightarrow> (approval_row \<Rightarrow> approval_row) \<Rightarrow> wf_db \<Rightarrow> nat \<times> wf_db" where
  "update_approvals p f db =
     (rowcount p (approval_requests db),
      db\<lparr>approval_requests := upd_where p f (approval_requests db)\<rparr>)"

definition update_executions ::
    "(execution_row \<Rightarrow> bool) \<Rightarrow> (execution_row \<Rightarrow> execution_row) \<Rightarrow> wf_db \<Rightarrow> nat \<times> wf_db" where
  "update_executions p f db =
     (rowcount p (tool_executions db),
      db\<lparr>tool_executions := upd_where p f (tool_executions db)\<rparr>)"

lemmas update_defs = update_runs_def update_approvals_def update_executions_def

text \<open>The tail of the fenced updates: one row must have changed, then its new lease is read back.\<close>

definition lease_after_update ::
    "nat \<times> wf_db \<Rightarrow> tenant_context \<Rightarrow> string \<Rightarrow> int \<Rightarrow> int \<Rightarrow> exc + run_lease option \<times> wf_db" where
  "lease_after_update upd ctx owner token ver =
     (if fst upd \<noteq> 1 then Inr (None, snd upd)
      else rbind (require_lease (snd upd) ctx owner token ver) (\<lambda>l. Inr (Some l, snd upd)))"


section \<open>Creating a run\<close>

definition create_run ::
    "int \<Rightarrow> repo_config \<Rightarrow> wf_db \<Rightarrow> tenant_context \<Rightarrow> string \<Rightarrow> run_status \<Rightarrow>
     string option \<Rightarrow> int option \<Rightarrow> int option \<Rightarrow> exc + run_lease \<times> wf_db" where
  "create_run now cfg db ctx rid status pid ipv apv =
     (if (pid = None \<or> ipv = None \<or> apv = None) \<and> (pid \<noteq> None \<or> ipv \<noteq> None \<or> apv \<noteq> None)
      then Inl (ValueError ''Plan run binding must be complete'')
      else case (session_id ctx, run_id ctx) of
        (Some s, Some r) \<Rightarrow>
          rbind (insert_agent_run db
            \<lparr>r_run_id = r, r_tenant_id = tenant_id ctx, r_workspace_id = workspace_id ctx,
             r_session_id = s, r_plan_id = pid, r_initial_plan_version = ipv,
             r_active_plan_version = apv, r_cancel_requested_at = None, r_status = status,
             r_runtime_instance_id = Some rid, r_lease_owner = Some rid, r_fencing_token = 1,
             r_lease_expires_at = Some (now + lease_ttl_ms cfg), r_heartbeat_at = Some now,
             r_schema_version = 1, r_version = 1, r_created_at = now, r_updated_at = now,
             r_finished_at = None\<rparr>) (\<lambda>db'.
          rbind (require_lease db' ctx rid 1 1) (\<lambda>l. Inr (l, db')))
      | _ \<Rightarrow> Inl IntegrityError)"


section \<open>Taking a lease over\<close>

definition take_over_run ::
    "int \<Rightarrow> repo_config \<Rightarrow> wf_db \<Rightarrow> tenant_context \<Rightarrow> string \<Rightarrow> exc + run_lease option \<times> wf_db" where
  "take_over_run now cfg db ctx rid =
     rbind (get_run db ctx) (\<lambda>cur. case cur of
       None \<Rightarrow> Inr (None, db)
     | Some current \<Rightarrow>
         if rr_status current \<notin> set TAKEOVER_ELIGIBLE_STATUSES
         then Inl (InvalidTransitionError
                ((''cannot acquire terminal run: '') @ run_status_value (rr_status current)))
         else if rr_lease_expires_at current = None then Inr (None, db)
         else lease_after_update
           (update_runs
              (\<lambda>r. context_predicate ctx r \<and>
                 (case r_lease_expires_at r of None \<Rightarrow> False | Some e \<Rightarrow> e \<le> now))
              (\<lambda>r. r\<lparr>r_runtime_instance_id := Some rid, r_lease_owner := Some rid,
                 r_fencing_token := r_fencing_token r + 1, r_version := r_version r + 1,
                 r_heartbeat_at := Some now, r_lease_expires_at := Some (now + lease_ttl_ms cfg),
                 r_updated_at := now\<rparr>) db)
           ctx rid (rr_fencing_token current + 1) (rr_version current + 1))"

definition resume_waiting_run ::
    "int \<Rightarrow> repo_config \<Rightarrow> wf_db \<Rightarrow> tenant_context \<Rightarrow> string \<Rightarrow> exc + run_lease option \<times> wf_db" where
  "resume_waiting_run now cfg db ctx rid =
     rbind (get_run db ctx) (\<lambda>cur. case cur of
       None \<Rightarrow> Inr (None, db)
     | Some current \<Rightarrow>
         if rr_status current \<noteq> R_AWAITING_USER then Inr (None, db)
         else lease_after_update
           (update_runs
              (\<lambda>r. context_predicate ctx r \<and> r_status r = R_AWAITING_USER)
              (\<lambda>r. r\<lparr>r_status := R_RESUMING, r_runtime_instance_id := Some rid,
                 r_lease_owner := Some rid, r_fencing_token := r_fencing_token r + 1,
                 r_version := r_version r + 1, r_heartbeat_at := Some now,
                 r_lease_expires_at := Some (now + lease_ttl_ms cfg), r_updated_at := now\<rparr>) db)
           ctx rid (rr_fencing_token current + 1) (rr_version current + 1))"

definition resume_waiting_plan_run ::
    "int \<Rightarrow> repo_config \<Rightarrow> wf_db \<Rightarrow> tenant_context \<Rightarrow> string \<Rightarrow> string \<Rightarrow> int \<Rightarrow> int \<Rightarrow>
     exc + run_lease option \<times> wf_db" where
  "resume_waiting_plan_run now cfg db ctx rid pid pver expected =
     rbind (get_run db ctx) (\<lambda>cur. case cur of
       None \<Rightarrow> Inr (None, db)
     | Some current \<Rightarrow>
         if rr_status current \<noteq> R_AWAITING_USER \<or> rr_plan_id current \<noteq> Some pid \<or>
            rr_version current \<noteq> expected \<or> \<not> plan_version_exists db ctx pid pver None
         then Inr (None, db)
         else lease_after_update
           (update_runs
              (\<lambda>r. context_predicate ctx r \<and> r_status r = R_AWAITING_USER \<and>
                 r_plan_id r = Some pid \<and> r_version r = expected)
              (\<lambda>r. r\<lparr>r_status := R_RESUMING, r_active_plan_version := Some pver,
                 r_runtime_instance_id := Some rid, r_lease_owner := Some rid,
                 r_fencing_token := r_fencing_token r + 1,
                 r_lease_expires_at := Some (now + lease_ttl_ms cfg), r_heartbeat_at := Some now,
                 r_version := r_version r + 1, r_updated_at := now\<rparr>) db)
           ctx rid (rr_fencing_token current + 1) (rr_version current + 1))"

definition fence_waiting_plan_run ::
    "int \<Rightarrow> repo_config \<Rightarrow> wf_db \<Rightarrow> tenant_context \<Rightarrow> string \<Rightarrow> string \<Rightarrow> int \<Rightarrow> string \<Rightarrow> int \<Rightarrow>
     exc + run_lease option \<times> wf_db" where
  "fence_waiting_plan_run now cfg db ctx rid pid pver digest expected =
     rbind (get_run db ctx) (\<lambda>cur. case cur of
       None \<Rightarrow> Inr (None, db)
     | Some current \<Rightarrow>
         if rr_status current \<noteq> R_AWAITING_USER \<or> rr_plan_id current \<noteq> Some pid \<or>
            rr_version current \<noteq> expected \<or> \<not> plan_version_exists db ctx pid pver (Some digest)
         then Inr (None, db)
         else lease_after_update
           (update_runs
              (\<lambda>r. context_predicate ctx r \<and> r_status r = R_AWAITING_USER \<and>
                 r_plan_id r = Some pid \<and> r_version r = expected)
              (\<lambda>r. r\<lparr>r_runtime_instance_id := Some rid, r_lease_owner := Some rid,
                 r_fencing_token := r_fencing_token r + 1,
                 r_lease_expires_at := Some (now + lease_ttl_ms cfg), r_heartbeat_at := Some now,
                 r_version := r_version r + 1, r_updated_at := now\<rparr>) db)
           ctx rid (rr_fencing_token current + 1) (rr_version current + 1))"

definition cancel_waiting_plan_run ::
    "int \<Rightarrow> repo_config \<Rightarrow> wf_db \<Rightarrow> tenant_context \<Rightarrow> string \<Rightarrow> string \<Rightarrow> int \<Rightarrow> int \<Rightarrow>
     exc + run_lease option \<times> wf_db" where
  "cancel_waiting_plan_run now cfg db ctx rid pid pver expected =
     rbind (get_run db ctx) (\<lambda>cur. case cur of
       None \<Rightarrow> Inr (None, db)
     | Some current \<Rightarrow>
         if rr_status current \<noteq> R_AWAITING_USER \<or> rr_plan_id current \<noteq> Some pid \<or>
            rr_version current \<noteq> expected \<or> \<not> plan_version_exists db ctx pid pver None
         then Inr (None, db)
         else lease_after_update
           (update_runs
              (\<lambda>r. context_predicate ctx r \<and> r_status r = R_AWAITING_USER \<and>
                 r_plan_id r = Some pid \<and> r_version r = expected)
              (\<lambda>r. r\<lparr>r_status := R_CANCELLED, r_runtime_instance_id := Some rid,
                 r_lease_owner := Some rid, r_fencing_token := r_fencing_token r + 1,
                 r_lease_expires_at := Some (now + lease_ttl_ms cfg), r_heartbeat_at := Some now,
                 r_version := r_version r + 1, r_updated_at := now,
                 r_finished_at := Some now\<rparr>) db)
           ctx rid (rr_fencing_token current + 1) (rr_version current + 1))"

text \<open>
  A cancellation request is recorded once and moves the version; a run that waits for the user is
  cancelled in the same statement. The result is the run read back.
\<close>

definition cancellation_values :: "int \<Rightarrow> repo_config \<Rightarrow> run_status \<Rightarrow> run_row \<Rightarrow> run_row" where
  "cancellation_values now cfg status r =
     (let r' = r\<lparr>r_cancel_requested_at :=
            (case r_cancel_requested_at r of None \<Rightarrow> Some now | Some t \<Rightarrow> Some t),
            r_updated_at := now, r_version := r_version r + 1\<rparr>
      in if status = R_AWAITING_USER
         then r'\<lparr>r_status := R_CANCELLED, r_heartbeat_at := Some now,
                r_lease_expires_at := Some (now + lease_ttl_ms cfg), r_finished_at := Some now\<rparr>
         else r')"

definition request_cancellation_row ::
    "int \<Rightarrow> repo_config \<Rightarrow> wf_db \<Rightarrow> tenant_context \<Rightarrow> exc + run_record option \<times> wf_db" where
  "request_cancellation_row now cfg db ctx =
     rbind (get_run db ctx) (\<lambda>cur. case cur of
       None \<Rightarrow> Inr (None, db)
     | Some current \<Rightarrow>
         if rr_status current \<in>
             {R_COMPLETED, R_FAILED_TERMINAL, R_CANCELLED, R_BLOCKED_CORRUPT,
              R_BLOCKED_INCOMPATIBLE}
         then Inr (Some current, db)
         else if rr_cancel_requested_at current \<noteq> None then Inr (Some current, db)
         else
           let db' = snd (update_runs
             (\<lambda>r. context_predicate ctx r \<and> r_version r = rr_version current \<and>
                r_status r = rr_status current)
             (cancellation_values now cfg (rr_status current)) db)
           in rbind (get_run db' ctx) (\<lambda>rec. Inr (rec, db')))"


section \<open>Working under a lease\<close>

definition refresh_lease ::
    "int \<Rightarrow> repo_config \<Rightarrow> wf_db \<Rightarrow> run_lease \<Rightarrow> exc + run_lease option \<times> wf_db" where
  "refresh_lease now cfg db lease =
     lease_after_update
       (update_runs (current_lease_predicate lease now)
          (\<lambda>r. r\<lparr>r_heartbeat_at := Some now, r_lease_expires_at := Some (now + lease_ttl_ms cfg),
             r_updated_at := now, r_version := r_version r + 1\<rparr>) db)
       (l_context lease) (l_owner lease) (l_fencing_token lease) (l_version lease + 1)"

definition validate_run_transition ::
    "run_record \<Rightarrow> run_lease \<Rightarrow> run_status \<Rightarrow> exc + unit" where
  "validate_run_transition current lease target =
     (if rr_lease_owner current \<noteq> Some (l_owner lease) \<or>
         rr_fencing_token current \<noteq> l_fencing_token lease
      then Inl (InvalidTransitionError ''run lease no longer current'')
      else if rr_version current \<noteq> l_version lease
      then Inl (InvalidTransitionError ''run version no longer current'')
      else if target \<notin> set (LEGAL_RUN_TRANSITIONS (rr_status current))
      then Inl (InvalidTransitionError
             (''illegal run transition: '' @ run_status_value (rr_status current) @ '' -> '' @
              run_status_value target))
      else Inr ())"

text \<open>The \<open>values\<close> dictionary of the transition, applied to a row.\<close>

definition transition_values :: "int \<Rightarrow> repo_config \<Rightarrow> run_status \<Rightarrow> run_row \<Rightarrow> run_row" where
  "transition_values now cfg target r =
     (let r' = r\<lparr>r_status := target, r_updated_at := now, r_heartbeat_at := Some now,
            r_lease_expires_at := Some (now + lease_ttl_ms cfg), r_version := r_version r + 1\<rparr>
      in if target \<in> {R_COMPLETED, R_FAILED_TERMINAL, R_CANCELLED, R_BLOCKED_CORRUPT,
             R_BLOCKED_INCOMPATIBLE}
         then r'\<lparr>r_finished_at := Some now\<rparr> else r')"

definition transition_run_row ::
    "int \<Rightarrow> repo_config \<Rightarrow> wf_db \<Rightarrow> run_lease \<Rightarrow> run_status \<Rightarrow>
     exc + run_lease option \<times> wf_db" where
  "transition_run_row now cfg db lease target =
     rbind (get_run db (l_context lease)) (\<lambda>cur. case cur of
       None \<Rightarrow> Inr (None, db)
     | Some current \<Rightarrow>
         rbind (validate_run_transition current lease target) (\<lambda>_.
           lease_after_update
             (update_runs (current_lease_predicate lease now)
                (transition_values now cfg target) db)
             (l_context lease) (l_owner lease) (l_fencing_token lease) (l_version lease + 1)))"


section \<open>Approvals\<close>

definition mark_approval_expired ::
    "int \<Rightarrow> wf_db \<Rightarrow> tenant_context \<Rightarrow> string \<Rightarrow> int \<Rightarrow> bool \<times> wf_db" where
  "mark_approval_expired now db ctx i ver =
     (let upd = update_approvals
        (\<lambda>a. approval_scope_predicate ctx i a \<and> a_status a = A_AWAITING_USER \<and>
           a_version a = ver \<and> a_expires_at a \<le> now)
        (\<lambda>a. a\<lparr>a_status := A_EXPIRED, a_resolved_at := Some now,
           a_version := a_version a + 1\<rparr>) db
      in (fst upd = 1, snd upd))"

definition resolve_approval ::
    "int \<Rightarrow> wf_db \<Rightarrow> tenant_context \<Rightarrow> string \<Rightarrow> bool \<Rightarrow> int \<Rightarrow>
     exc + approval_record option \<times> wf_db" where
  "resolve_approval now db ctx i approved ver =
     (let target = (if approved then A_APPROVED else A_REJECTED);
          upd = update_approvals
            (\<lambda>a. approval_scope_predicate ctx i a \<and> a_status a = A_AWAITING_USER \<and>
               a_version a = ver \<and> a_expires_at a > now)
            (\<lambda>a. a\<lparr>a_status := target, a_resolved_at := Some now,
               a_version := a_version a + 1\<rparr>) db
      in if fst upd \<noteq> 1 then Inr (None, snd upd)
         else rbind (need (get_approval (snd upd) ctx i) AssertionError) (\<lambda>a.
           Inr (Some a, snd upd)))"

definition insert_approval ::
    "clock \<Rightarrow> wf_db \<Rightarrow> run_lease \<Rightarrow> string \<Rightarrow> string \<Rightarrow> int \<Rightarrow>
     exc + approval_record option \<times> wf_db" where
  "insert_approval clk db lease i tool_call expires =
     (if \<not> has_current_lease (clk 0) db lease then Inr (None, db)
      else case (session_id (l_context lease), run_id (l_context lease)) of
        (Some s, Some r) \<Rightarrow>
          rbind (insert_approval_request db
            \<lparr>a_approval_id = i, a_tenant_id = tenant_id (l_context lease),
             a_workspace_id = workspace_id (l_context lease), a_session_id = s, a_run_id = r,
             a_tool_call_id = tool_call, a_status = A_AWAITING_USER, a_requested_at = clk 1,
             a_resolved_at = None, a_expires_at = expires, a_version = 1\<rparr>) (\<lambda>db'.
          rbind (need (get_approval db' (l_context lease) i) AssertionError) (\<lambda>a.
            Inr (Some a, db')))
      | _ \<Rightarrow> Inl IntegrityError)"


section \<open>Executions\<close>

text \<open>
  SQL \<open>LIKE\<close> with its wildcards \<open>%\<close> and \<open>_\<close>; both supported databases compare ASCII letters without
  regard to case.
\<close>

definition ascii_lower :: "char \<Rightarrow> char" where
  "ascii_lower c = (if CHR ''A'' \<le> c \<and> c \<le> CHR ''Z'' then char_of (of_char c + (32::nat)) else c)"

fun sql_like :: "string \<Rightarrow> string \<Rightarrow> bool" where
  "sql_like [] s = (s = [])"
| "sql_like (p # ps) [] = (p = CHR ''%'' \<and> sql_like ps [])"
| "sql_like (p # ps) (c # s) =
     (if p = CHR ''%'' then sql_like ps (c # s) \<or> sql_like (p # ps) s
      else (p = CHR ''_'' \<or> ascii_lower p = ascii_lower c) \<and> sql_like ps s)"

definition count_plan_rounds :: "wf_db \<Rightarrow> tenant_context \<Rightarrow> string \<Rightarrow> nat" where
  "count_plan_rounds db ctx rid =
     rowcount (\<lambda>m. m_tenant_id m = tenant_id ctx \<and> m_workspace_id m = workspace_id ctx \<and>
        m_session_id m = session_id ctx \<and>
        m_type m = ''plan_round_counter'' \<and>
        sql_like (''%\"run_id\":\"'' @ rid @ ''\"%'') (m_metadata_json m)) (memory_entries db)"

definition count_executions :: "wf_db \<Rightarrow> tenant_context \<Rightarrow> nat" where
  "count_executions db ctx = rowcount (execution_scope_predicate ctx) (tool_executions db)"

definition insert_execution ::
    "clock \<Rightarrow> repo_config \<Rightarrow> wf_db \<Rightarrow> run_lease \<Rightarrow> string \<Rightarrow> string option \<Rightarrow> string \<Rightarrow> string \<Rightarrow>
     string \<Rightarrow> recovery_strategy \<Rightarrow> string option \<Rightarrow> string \<Rightarrow> string \<Rightarrow> execution_status \<Rightarrow>
     exc + execution_record option \<times> wf_db" where
  "insert_execution clk cfg db lease i approval tool_call name kind strategy idem payload hash
      status =
     (if \<not> has_current_lease (clk 0) db lease then Inr (None, db)
      else case (session_id (l_context lease), run_id (l_context lease)) of
        (Some s, Some r) \<Rightarrow>
          (let over_budget = (case plan_round_budget cfg of
               None \<Rightarrow> False
             | Some budget \<Rightarrow>
                 (case List.find (context_predicate (l_context lease)) (agent_runs db) of
                    None \<Rightarrow> False
                  | Some row \<Rightarrow> r_plan_id row \<noteq> None \<and>
                      int (count_plan_rounds db (l_context lease) r) +
                      int (count_executions db (l_context lease)) \<ge> budget))
           in if over_budget then Inl (PlanRoundBudgetExceeded ''Plan round budget exceeded'')
              else if (\<exists>x \<in> set (tool_executions db).
                   execution_scope_predicate (l_context lease) x \<and>
                   x_status x \<in> set NONTERMINAL_EXECUTION_STATUSES)
              then Inr (None, db)
              else
                rbind (insert_tool_execution db
                  \<lparr>x_execution_id = i, x_tenant_id = tenant_id (l_context lease),
                   x_workspace_id = workspace_id (l_context lease), x_session_id = s,
                   x_run_id = r, x_approval_id = approval, x_tool_call_id = tool_call,
                   x_tool_name = name, x_tool_kind = kind, x_status = status,
                   x_recovery_strategy = strategy, x_idempotency_key = idem,
                   x_input_payload_json = payload, x_input_hash = hash,
                   x_external_request_id = None, x_result_ref = None, x_result_digest = None,
                   x_schema_version = 1, x_version = 1, x_created_at = clk 1,
                   x_updated_at = clk 1, x_finished_at = None\<rparr>) (\<lambda>db'.
                rbind (need (get_execution db' (l_context lease) i) AssertionError) (\<lambda>x.
                  Inr (Some x, db'))))
      | _ \<Rightarrow> Inl IntegrityError)"

definition illegal_execution_transition :: "execution_status \<Rightarrow> execution_status \<Rightarrow> exc" where
  "illegal_execution_transition s t = InvalidTransitionError
     (''illegal execution transition: '' @ execution_status_value s @ '' -> '' @
      execution_status_value t)"

definition execution_values :: "int \<Rightarrow> execution_status \<Rightarrow> execution_row \<Rightarrow> execution_row" where
  "execution_values now target x =
     (let x' = x\<lparr>x_status := target, x_updated_at := now, x_version := x_version x + 1\<rparr>
      in if target \<in> set TERMINAL_EXECUTION_STATUSES
         then x'\<lparr>x_finished_at := Some now\<rparr> else x')"

definition transition_execution_row ::
    "clock \<Rightarrow> wf_db \<Rightarrow> run_lease \<Rightarrow> string \<Rightarrow> execution_status \<Rightarrow> int \<Rightarrow> execution_status \<Rightarrow>
     exc + execution_record option \<times> wf_db" where
  "transition_execution_row clk db lease i expected_status expected_version target =
     (if target \<notin> set (LEGAL_EXECUTION_TRANSITIONS expected_status)
      then Inl (illegal_execution_transition expected_status target)
      else if \<not> has_current_lease (clk 0) db lease then Inr (None, db)
      else let upd = update_executions
          (\<lambda>x. execution_scope_predicate (l_context lease) x \<and> x_execution_id x = i \<and>
             x_status x = expected_status \<and> x_version x = expected_version \<and>
             has_current_lease (clk 1) db lease)
          (execution_values (clk 1) target) db
        in if fst upd \<noteq> 1 then Inr (None, snd upd)
           else rbind (need (get_execution (snd upd) (l_context lease) i) AssertionError) (\<lambda>x.
             Inr (Some x, snd upd)))"

text \<open>
  A metadata column is written when a value is given, and then only over \<open>NULL\<close> or the same value;
  \<open>keep_or\<close> and \<open>compatible\<close> are the assignment and the guard of one such column.
\<close>

definition keep_or :: "'a option \<Rightarrow> 'a option \<Rightarrow> 'a option" where
  "keep_or given old = (case given of None \<Rightarrow> old | Some v \<Rightarrow> Some v)"

definition compatible :: "'a option \<Rightarrow> 'a option \<Rightarrow> bool" where
  "compatible given old \<longleftrightarrow> (case given of None \<Rightarrow> True | Some v \<Rightarrow> old = None \<or> old = Some v)"

definition metadata_values ::
    "int \<Rightarrow> string option \<Rightarrow> string option \<Rightarrow> string option \<Rightarrow> execution_status option \<Rightarrow>
     execution_row \<Rightarrow> execution_row" where
  "metadata_values now ext ref digest target x =
     (let x' = x\<lparr>x_updated_at := now, x_version := x_version x + 1,
            x_external_request_id := keep_or ext (x_external_request_id x),
            x_result_ref := keep_or ref (x_result_ref x),
            x_result_digest := keep_or digest (x_result_digest x)\<rparr>
      in case target of None \<Rightarrow> x'
         | Some t \<Rightarrow>
             let x'' = x'\<lparr>x_status := t\<rparr>
             in if t \<in> set TERMINAL_EXECUTION_STATUSES
                then x''\<lparr>x_finished_at := Some now\<rparr> else x'')"

definition update_execution_metadata ::
    "clock \<Rightarrow> wf_db \<Rightarrow> run_lease \<Rightarrow> string \<Rightarrow> execution_status \<Rightarrow> int \<Rightarrow> string option \<Rightarrow>
     string option \<Rightarrow> string option \<Rightarrow> execution_status option \<Rightarrow>
     exc + execution_recovery_record option \<times> wf_db" where
  "update_execution_metadata clk db lease i expected_status expected_version ext ref digest target =
     (if \<not> has_current_lease (clk 0) db lease then Inr (None, db)
      else rbind (case target of None \<Rightarrow> Inr ()
            | Some t \<Rightarrow> ensure (t \<in> set (LEGAL_EXECUTION_TRANSITIONS expected_status))
                 (illegal_execution_transition expected_status t)) (\<lambda>_.
        let upd = update_executions
          (\<lambda>x. execution_scope_predicate (l_context lease) x \<and> x_execution_id x = i \<and>
             x_status x = expected_status \<and> x_version x = expected_version \<and>
             has_current_lease (clk 1) db lease \<and>
             compatible ext (x_external_request_id x) \<and> compatible ref (x_result_ref x) \<and>
             compatible digest (x_result_digest x))
          (metadata_values (clk 1) ext ref digest target) db
        in if fst upd \<noteq> 1 then Inr (None, snd upd)
           else rbind (need (get_execution_recovery (snd upd) (l_context lease) i) AssertionError)
             (\<lambda>x. Inr (Some x, snd upd))))"


section \<open>Checkpoints and audit\<close>

definition insert_checkpoint ::
    "clock \<Rightarrow> wf_db \<Rightarrow> run_lease \<Rightarrow> string \<Rightarrow> int option \<Rightarrow> string \<Rightarrow> string \<Rightarrow> string \<Rightarrow> int \<Rightarrow>
     string option \<Rightarrow> string option \<Rightarrow> execution_status option \<Rightarrow> int option \<Rightarrow>
     exc + int option \<times> wf_db" where
  "insert_checkpoint clk db lease cid seq phase payload hash schema approval execution
      expected_status expected_version =
     (if \<not> has_current_lease (clk 0) db lease then Inr (None, db)
      else
        rbind (case execution of
            None \<Rightarrow> Inr ()
          | Some eid \<Rightarrow>
              rbind (need (get_execution_recovery db (l_context lease) eid)
                       (VersionConflictError ''execution record not found'')) (\<lambda>x.
              rbind (ensure (approval = xr_approval_id x)
                       (VersionConflictError ''execution approval scope conflict'')) (\<lambda>_.
              rbind (ensure (case expected_status of None \<Rightarrow> True | Some s \<Rightarrow> xr_status x = s)
                       (VersionConflictError ''execution status conflict'')) (\<lambda>_.
              ensure (case expected_version of None \<Rightarrow> True | Some v \<Rightarrow> xr_version x = v)
                       (VersionConflictError ''execution version conflict''))))) (\<lambda>_.
        let n = (case seq of None \<Rightarrow> get_next_checkpoint_seq db (l_context lease) | Some n \<Rightarrow> n)
        in case (session_id (l_context lease), run_id (l_context lease)) of
          (Some s, Some r) \<Rightarrow>
            rbind (insert_execution_checkpoint db
              \<lparr>cr_checkpoint_id = cid, cr_tenant_id = tenant_id (l_context lease),
               cr_workspace_id = workspace_id (l_context lease), cr_session_id = s,
               cr_run_id = r, cr_approval_id = approval, cr_execution_id = execution,
               cr_phase = phase, cr_checkpoint_seq = n, cr_payload_json = payload,
               cr_payload_hash = hash, cr_schema_version = schema, cr_created_at = clk 1\<rparr>)
              (\<lambda>db'. Inr (Some n, db'))
        | _ \<Rightarrow> Inl IntegrityError))"

text \<open>The scope columns of an audit row are foreign keys, checked when they are not null.\<close>

definition insert_audit_log ::
    "int \<Rightarrow> wf_db \<Rightarrow> tenant_context \<Rightarrow> string \<Rightarrow> string \<Rightarrow> string \<Rightarrow> string option \<Rightarrow> string \<Rightarrow>
     string option \<Rightarrow> string option \<Rightarrow> exc + wf_db" where
  "insert_audit_log now db ctx uuid event_type status tool detail approval execution =
     (if uuid \<notin> set (map u_audit_id (audit_logs db)) \<and>
         (tenant_id ctx, workspace_id ctx) \<in> set (workspaces db) \<and>
         (case session_id ctx of None \<Rightarrow> True
          | Some s \<Rightarrow> (tenant_id ctx, workspace_id ctx, s) \<in> set (chat_sessions db)) \<and>
         (case ctx_scope ctx of None \<Rightarrow> True
          | Some sc \<Rightarrow> sc \<in> set (map run_scope (agent_runs db)) \<and>
              approval_fk db sc approval \<and> execution_fk db sc execution)
      then Inr (db\<lparr>audit_logs := audit_logs db @
        [\<lparr>u_audit_id = uuid, u_tenant_id = tenant_id ctx, u_workspace_id = workspace_id ctx,
          u_session_id = session_id ctx, u_run_id = run_id ctx, u_approval_id = approval,
          u_execution_id = execution, u_event_type = event_type, u_status = status,
          u_tool_name = tool, u_detail_redacted = detail, u_created_at = now\<rparr>]\<rparr>)
      else Inl IntegrityError)"

end
