(* ===== verification/Py_Json.thy ===== *)
theory Py_Json
  imports Prelude "HOL-Library.List_Lexorder" "HOL-Library.Char_ord"
begin

text \<open>
  The part of Python's \<open>json\<close> module the program uses: \<open>json.dumps\<close> with \<open>sort_keys=True\<close>,
  \<open>separators=(",", ":")\<close> and \<open>ensure_ascii=False\<close> (the canonical form that is hashed), and
  \<open>json.loads\<close>. Strings are UTF-8 byte strings. A floating point number is kept as its source text:
  the payloads modelled here hold none, and a float read from a row is only ever rejected. A \<open>dict\<close>
  is an association list with distinct keys in insertion order.
\<close>

datatype json =
    JNull
  | JBool bool
  | JInt int
  | JFloat string
  | JStr string
  | JArr "json list"
  | JObj "(string \<times> json) list"

section \<open>Printing\<close>

abbreviation quote_char :: char where "quote_char \<equiv> CHR 0x22"
abbreviation backslash :: char where "backslash \<equiv> CHR 0x5C"

definition hexd :: "nat \<Rightarrow> char" where
  "hexd n = ''0123456789abcdef'' ! n"

text \<open>The escapes of \<open>json.encoder\<close>: quote, backslash and the control characters below 0x20.\<close>

definition escape_char :: "char \<Rightarrow> string" where
  "escape_char c =
     (if c = quote_char then [backslash, quote_char]
      else if c = backslash then [backslash, backslash]
      else if c = CHR 0x08 then [backslash, CHR ''b'']
      else if c = CHR 0x0C then [backslash, CHR ''f'']
      else if c = CHR 0x0A then [backslash, CHR ''n'']
      else if c = CHR 0x0D then [backslash, CHR ''r'']
      else if c = CHR 0x09 then [backslash, CHR ''t'']
      else if of_char c < (32::nat)
      then [backslash, CHR ''u'', CHR ''0'', CHR ''0'', hexd (of_char c div 16), hexd (of_char c mod 16)]
      else [c])"

definition print_string :: "string \<Rightarrow> string" where
  "print_string s = [quote_char] @ concat (map escape_char s) @ [quote_char]"

fun nat_repr :: "nat \<Rightarrow> string" where
  "nat_repr n = (if n < 10 then [char_of (48 + n)]
     else nat_repr (n div 10) @ [char_of (48 + n mod 10)])"

declare nat_repr.simps [simp del]

definition int_repr :: "int \<Rightarrow> string" where
  "int_repr i = (if i < 0 then CHR ''-'' # nat_repr (nat (- i)) else nat_repr (nat i))"

fun sep_concat :: "string \<Rightarrow> string list \<Rightarrow> string" where
  "sep_concat sep [] = []"
| "sep_concat sep [x] = x"
| "sep_concat sep (x # y # xs) = x @ sep @ sep_concat sep (y # xs)"

fun print_json :: "json \<Rightarrow> string" where
  "print_json JNull = ''null''"
| "print_json (JBool b) = (if b then ''true'' else ''false'')"
| "print_json (JInt i) = int_repr i"
| "print_json (JFloat s) = s"
| "print_json (JStr s) = print_string s"
| "print_json (JArr xs) = ''['' @ sep_concat '','' (map print_json xs) @ '']''"
| "print_json (JObj kvs) =
     ''{'' @ sep_concat '','' (map (\<lambda>kv. print_string (fst kv) @ '':'' @ print_json (snd kv)) kvs) @ ''}''"

fun sort_keys :: "json \<Rightarrow> json" where
  "sort_keys (JArr xs) = JArr (map sort_keys xs)"
| "sort_keys (JObj kvs) = JObj (sort_key fst (map (\<lambda>kv. (fst kv, sort_keys (snd kv))) kvs))"
| "sort_keys j = j"

definition dumps :: "json \<Rightarrow> string" where
  "dumps j = print_json (sort_keys j)"


section \<open>Parsing\<close>

definition is_ws :: "char \<Rightarrow> bool" where
  "is_ws c \<longleftrightarrow> c \<in> set [CHR '' '', CHR 0x09, CHR 0x0A, CHR 0x0D]"

definition skip_ws :: "string \<Rightarrow> string" where
  "skip_ws s = dropWhile is_ws s"

definition is_digit :: "char \<Rightarrow> bool" where
  "is_digit c \<longleftrightarrow> c \<in> set ''0123456789''"

definition digit_val :: "char \<Rightarrow> nat" where
  "digit_val c = of_char c - 48"

definition digits_val :: "string \<Rightarrow> nat" where
  "digits_val ds = foldl (\<lambda>n c. 10 * n + digit_val c) 0 ds"

definition hex_val :: "char \<Rightarrow> nat option" where
  "hex_val c =
     (let n = of_char c in
      if 48 \<le> n \<and> n \<le> 57 then Some (n - 48)
      else if 97 \<le> n \<and> n \<le> 102 then Some (n - 87)
      else if 65 \<le> n \<and> n \<le> 70 then Some (n - 55)
      else None)"

fun hex4 :: "string \<Rightarrow> (nat \<times> string) option" where
  "hex4 (a # b # c # d # s) =
     (case (hex_val a, hex_val b, hex_val c, hex_val d) of
        (Some p, Some q, Some r, Some t) \<Rightarrow> Some (((p * 16 + q) * 16 + r) * 16 + t, s)
      | _ \<Rightarrow> None)"
| "hex4 _ = None"

definition utf8 :: "nat \<Rightarrow> string" where
  "utf8 n =
     (if n < 128 then [char_of n]
      else if n < 2048 then [char_of (192 + n div 64), char_of (128 + n mod 64)]
      else if n < 65536 then [char_of (224 + n div 4096), char_of (128 + n div 64 mod 64),
                              char_of (128 + n mod 64)]
      else [char_of (240 + n div 262144), char_of (128 + n div 4096 mod 64),
            char_of (128 + n div 64 mod 64), char_of (128 + n mod 64)])"

text \<open>After \<open>\u\<close>: a high surrogate followed by an escaped low surrogate is one code point.\<close>

definition unicode_escape :: "string \<Rightarrow> (string \<times> string) option" where
  "unicode_escape s =
     (case hex4 s of None \<Rightarrow> None
      | Some (u, s') \<Rightarrow>
          (if 0xD800 \<le> u \<and> u \<le> 0xDBFF then
             (case s' of b # x # s'' \<Rightarrow>
                if b = backslash \<and> x = CHR ''u'' then
                  (case hex4 s'' of None \<Rightarrow> None
                   | Some (v, s''') \<Rightarrow>
                       if 0xDC00 \<le> v \<and> v \<le> 0xDFFF
                       then Some (utf8 (0x10000 + (u - 0xD800) * 1024 + (v - 0xDC00)), s''')
                       else Some (utf8 u, s'))
                else Some (utf8 u, s')
              | _ \<Rightarrow> Some (utf8 u, s'))
           else Some (utf8 u, s')))"

definition simple_escape :: "char \<Rightarrow> char option" where
  "simple_escape c =
     (if c = quote_char then Some quote_char
      else if c = backslash then Some backslash
      else if c = CHR ''/'' then Some (CHR ''/'')
      else if c = CHR ''b'' then Some (CHR 0x08)
      else if c = CHR ''f'' then Some (CHR 0x0C)
      else if c = CHR ''n'' then Some (CHR 0x0A)
      else if c = CHR ''r'' then Some (CHR 0x0D)
      else if c = CHR ''t'' then Some (CHR 0x09)
      else None)"

lemma hex4_length: "hex4 s = Some (u, s') \<Longrightarrow> length s' < length s"
  by (cases s rule: hex4.cases) (auto split: option.splits prod.splits)

lemma unicode_escape_length: "unicode_escape s = Some (u, s') \<Longrightarrow> length s' < length s"
  by (fastforce simp: unicode_escape_def dest: hex4_length
      split: option.splits prod.splits if_splits list.splits)

text \<open>The characters of a string literal up to its closing quote (the opening one is consumed).\<close>

function parse_chars :: "string \<Rightarrow> (string \<times> string) option" where
  "parse_chars s = (case s of
     [] \<Rightarrow> None
   | c # t \<Rightarrow>
       if c = quote_char then Some ([], t)
       else if of_char c < (32::nat) then None
       else if c \<noteq> backslash then map_option (\<lambda>(cs, r). (c # cs, r)) (parse_chars t)
       else (case t of
           [] \<Rightarrow> None
         | e # u \<Rightarrow>
             if e = CHR ''u'' then
               (case unicode_escape u of None \<Rightarrow> None
                | Some (cs, v) \<Rightarrow> map_option (\<lambda>(ds, r). (cs @ ds, r)) (parse_chars v))
             else (case simple_escape e of None \<Rightarrow> None
                | Some d \<Rightarrow> map_option (\<lambda>(cs, r). (d # cs, r)) (parse_chars u))))"
  by pat_completeness auto
termination
  by (relation "measure length") (auto dest!: unicode_escape_length)

declare parse_chars.simps [simp del]

text \<open>The three parts of \<open>(-?(?:0|[1-9][0-9]*))(\.[0-9]+)?([eE][-+]?[0-9]+)?\<close> after the sign.\<close>

definition int_part :: "string \<Rightarrow> string" where
  "int_part s = (case s of [] \<Rightarrow> []
     | c # _ \<Rightarrow> if c = CHR ''0'' then [c] else takeWhile is_digit s)"

definition frac_part :: "string \<Rightarrow> string" where
  "frac_part s = (case s of [] \<Rightarrow> []
     | c # t \<Rightarrow> if c = CHR ''.'' \<and> takeWhile is_digit t \<noteq> []
         then c # takeWhile is_digit t else [])"

definition exp_part :: "string \<Rightarrow> string" where
  "exp_part s = (case s of [] \<Rightarrow> []
     | c # t \<Rightarrow>
         if c \<in> set ''eE'' then
           (let sg = (case t of [] \<Rightarrow> [] | d # _ \<Rightarrow> if d \<in> set ''+-'' then [d] else []);
                ds = takeWhile is_digit (drop (length sg) t)
            in if ds \<noteq> [] then c # sg @ ds else [])
         else [])"

definition parse_number :: "string \<Rightarrow> (json \<times> string) option" where
  "parse_number s =
     (let sign = (s \<noteq> [] \<and> hd s = CHR ''-'');
          s1 = (if sign then tl s else s);
          ip = int_part s1;
          s2 = drop (length ip) s1;
          fp = frac_part s2;
          s3 = drop (length fp) s2;
          ep = exp_part s3
      in if ip = [] then None
         else if fp = [] \<and> ep = []
         then Some (JInt (if sign then - int (digits_val ip) else int (digits_val ip)), s2)
         else Some (JFloat ((if sign then ''-'' else []) @ ip @ fp @ ep), drop (length ep) s3))"

definition starts_with :: "string \<Rightarrow> string \<Rightarrow> bool" where
  "starts_with p s \<longleftrightarrow> take (length p) s = p"

text \<open>Scalars that are recognised by their first characters.\<close>

definition parse_atom :: "string \<Rightarrow> (json \<times> string) option" where
  "parse_atom s =
     (if starts_with ''null'' s then Some (JNull, drop 4 s)
      else if starts_with ''true'' s then Some (JBool True, drop 4 s)
      else if starts_with ''false'' s then Some (JBool False, drop 5 s)
      else case parse_number s of
        Some r \<Rightarrow> Some r
      | None \<Rightarrow>
          if starts_with ''NaN'' s then Some (JFloat ''NaN'', drop 3 s)
          else if starts_with ''Infinity'' s then Some (JFloat ''Infinity'', drop 8 s)
          else if starts_with ''-Infinity'' s then Some (JFloat ''-Infinity'', drop 9 s)
          else None)"

text \<open>A repeated key keeps its first position and takes the last value, as in a \<open>dict\<close>.\<close>

fun dict_set :: "(string \<times> 'v) list \<Rightarrow> string \<Rightarrow> 'v \<Rightarrow> (string \<times> 'v) list" where
  "dict_set [] k v = [(k, v)]"
| "dict_set ((k', v') # d) k v = (if k' = k then (k, v) # d else (k', v') # dict_set d k v)"

text \<open>
  The scanner, with a nesting bound \<open>n\<close> that \<open>loads\<close> sets to the length of the text: each recursive
  call consumes at least one character before it, so the bound is never the reason for a failure.
\<close>

fun parse_value :: "nat \<Rightarrow> string \<Rightarrow> (json \<times> string) option"
  and parse_items :: "nat \<Rightarrow> string \<Rightarrow> (json list \<times> string) option"
  and parse_members :: "nat \<Rightarrow> (string \<times> json) list \<Rightarrow> string \<Rightarrow> ((string \<times> json) list \<times> string) option"
where
  "parse_value 0 s = None"
| "parse_value (Suc n) s = (case s of
     [] \<Rightarrow> None
   | c # t \<Rightarrow>
       if c = quote_char then map_option (\<lambda>(cs, r). (JStr cs, r)) (parse_chars t)
       else if c = CHR ''['' then
         (case skip_ws t of
            [] \<Rightarrow> None
          | d # u \<Rightarrow> if d = CHR '']'' then Some (JArr [], u)
              else map_option (\<lambda>(xs, r). (JArr xs, r)) (parse_items n (d # u)))
       else if c = CHR ''{'' then
         (case skip_ws t of
            [] \<Rightarrow> None
          | d # u \<Rightarrow> if d = CHR ''}'' then Some (JObj [], u)
              else map_option (\<lambda>(kvs, r). (JObj kvs, r)) (parse_members n [] (d # u)))
       else parse_atom s)"
| "parse_items 0 s = None"
| "parse_items (Suc n) s =
     (case parse_value n s of None \<Rightarrow> None
      | Some (x, r) \<Rightarrow>
          (case skip_ws r of
             [] \<Rightarrow> None
           | d # u \<Rightarrow>
               if d = CHR '']'' then Some ([x], u)
               else if d = CHR '','' then map_option (\<lambda>(xs, r'). (x # xs, r')) (parse_items n (skip_ws u))
               else None))"
| "parse_members 0 acc s = None"
| "parse_members (Suc n) acc s = (case s of
     [] \<Rightarrow> None
   | c # t \<Rightarrow>
       if c \<noteq> quote_char then None
       else (case parse_chars t of None \<Rightarrow> None
         | Some (k, r) \<Rightarrow>
             (case skip_ws r of
                [] \<Rightarrow> None
              | d # u \<Rightarrow>
                  if d \<noteq> CHR '':'' then None
                  else (case parse_value n (skip_ws u) of None \<Rightarrow> None
                    | Some (v, r') \<Rightarrow>
                        (case skip_ws r' of
                           [] \<Rightarrow> None
                         | e # w \<Rightarrow>
                             if e = CHR ''}'' then Some (dict_set acc k v, w)
                             else if e = CHR '','' then parse_members n (dict_set acc k v) (skip_ws w)
                             else None)))))"

definition loads :: "string \<Rightarrow> json option" where
  "loads s =
     (case parse_value (Suc (length s)) (skip_ws s) of
        None \<Rightarrow> None
      | Some (j, r) \<Rightarrow> if skip_ws r = [] then Some j else None)"

end
