(* ===== verification/Py_Json_Facts.thy ===== *)
theory Py_Json_Facts
  imports Py_Json
begin

text \<open>
  Facts about the model of Python's \<open>json\<close> module: every scanner consumes at least one character, the
  nesting bound of \<open>loads\<close> is never what makes it fail (\<open>loads_bound\<close>), and reading back what
  \<open>dumps\<close> printed gives the printed value with its keys sorted (\<open>loads_dumps\<close>).
\<close>

section \<open>Reading back what was printed\<close>

lemma hex_val_hexd: "n < 16 \<Longrightarrow> hex_val (hexd n) = Some n"
proof -
  have "\<forall>n \<in> set [0..<16]. hex_val (hexd n) = Some n" by code_simp
  then show "n < 16 \<Longrightarrow> hex_val (hexd n) = Some n" by simp
qed

lemma hex_val_zero: "hex_val (CHR ''0'') = Some 0"
  by code_simp

lemma unicode_escape_control:
  assumes "of_char c < (32::nat)"
  shows "unicode_escape (CHR ''0'' # CHR ''0'' # hexd (of_char c div 16) # hexd (of_char c mod 16) # s)
    = Some ([c], s)"
proof -
  have "(of_char c :: nat) div 16 < 16" "(of_char c :: nat) mod 16 < 16" using assms by simp_all
  moreover have "(of_char c :: nat) div 16 * 16 + of_char c mod 16 = of_char c" by simp
  ultimately show ?thesis
    using assms by (simp add: unicode_escape_def hex_val_hexd hex_val_zero utf8_def)
qed

lemma parse_chars_quote: "parse_chars (quote_char # r) = Some ([], r)"
  by (simp add: parse_chars.simps[of "quote_char # r"])

lemma parse_chars_plain:
  "c \<noteq> quote_char \<Longrightarrow> c \<noteq> backslash \<Longrightarrow> \<not> of_char c < (32::nat) \<Longrightarrow>
   parse_chars (c # t) = map_option (\<lambda>(cs, r). (c # cs, r)) (parse_chars t)"
  by (simp add: parse_chars.simps[of "c # t"])

lemma parse_chars_simple:
  "e \<noteq> CHR ''u'' \<Longrightarrow> simple_escape e = Some d \<Longrightarrow>
   parse_chars (backslash # e # u) = map_option (\<lambda>(cs, r). (d # cs, r)) (parse_chars u)"
  by (simp add: parse_chars.simps[of "backslash # e # u"])

lemma parse_chars_control:
  "of_char c < (32::nat) \<Longrightarrow>
   parse_chars (backslash # CHR ''u'' # CHR ''0'' # CHR ''0'' # hexd (of_char c div 16) #
     hexd (of_char c mod 16) # u) = map_option (\<lambda>(cs, r). (c # cs, r)) (parse_chars u)"
  by (subst parse_chars.simps) (simp add: unicode_escape_control split: option.splits)

lemma parse_chars_escape:
  "parse_chars (escape_char c @ t) = map_option (\<lambda>(cs, r). (c # cs, r)) (parse_chars t)"
  unfolding escape_char_def
  by (auto simp: parse_chars_simple simple_escape_def parse_chars_control parse_chars_plain)

lemma parse_chars_print:
  "parse_chars (concat (map escape_char s) @ quote_char # r) = Some (s, r)"
  by (induction s) (simp_all add: parse_chars_quote parse_chars_escape)

subsection \<open>Numbers\<close>

lemma digit_of_nat: "n < (10::nat) \<Longrightarrow> is_digit (char_of (48 + n))"
proof -
  have "\<forall>n \<in> set [0..<10]. is_digit (char_of (48 + n :: nat))" by code_simp
  then show "n < (10::nat) \<Longrightarrow> is_digit (char_of (48 + n))" by simp
qed

lemma digit_val_of_nat: "n < (10::nat) \<Longrightarrow> digit_val (char_of (48 + n)) = n"
  by (simp add: digit_val_def of_char_of)

lemma nat_repr_digits: "c \<in> set (nat_repr n) \<Longrightarrow> is_digit c"
proof (induction n rule: nat_repr.induct)
  case (1 n)
  then show ?case
    by (auto simp: nat_repr.simps[of n] digit_of_nat split: if_splits)
qed

lemma digits_val_snoc: "digits_val (ds @ [c]) = 10 * digits_val ds + digit_val c"
  by (simp add: digits_val_def)

lemma digits_val_nat_repr [simp]: "digits_val (nat_repr n) = n"
proof (induction n rule: nat_repr.induct)
  case (1 n)
  show ?case
  proof (cases "n < 10")
    case True
    then show ?thesis by (simp add: nat_repr.simps[of n] digits_val_def digit_val_of_nat)
  next
    case False
    with 1 show ?thesis by (simp add: nat_repr.simps[of n] digits_val_snoc digit_val_of_nat)
  qed
qed

lemma nat_repr_neq_Nil [simp]: "nat_repr n \<noteq> []"
  by (subst nat_repr.simps) simp

lemma nat_repr_leading_zero: "nat_repr n = CHR ''0'' # ds \<Longrightarrow> n = 0 \<and> ds = []"
proof (induction n arbitrary: ds rule: nat_repr.induct)
  case (1 n)
  show ?case
  proof (cases "n < 10")
    case True
    then have "digit_val (CHR ''0'') = n" "ds = []"
      using "1.prems" digit_val_of_nat[OF True] by (auto simp: nat_repr.simps[of n])
    then show ?thesis by (simp add: digit_val_def)
  next
    case False
    then obtain ds' where "nat_repr (n div 10) = CHR ''0'' # ds'"
      using "1.prems" nat_repr_neq_Nil[of "n div 10"]
      by (cases "nat_repr (n div 10)") (auto simp: nat_repr.simps[of n])
    then show ?thesis using "1.IH"[OF False] False by auto
  qed
qed

text \<open>What may follow a number without becoming part of it.\<close>

definition num_end :: "string \<Rightarrow> bool" where
  "num_end r \<longleftrightarrow> (case r of [] \<Rightarrow> True | c # _ \<Rightarrow> \<not> is_digit c \<and> c \<notin> set ''.eE'')"

lemma takeWhile_digits:
  assumes "\<And>c. c \<in> set ds \<Longrightarrow> is_digit c" "num_end r"
  shows "takeWhile is_digit (ds @ r) = ds"
  using assms by (cases r) (auto simp: num_end_def takeWhile_append)

lemma nat_repr_hd: "\<exists>c t. nat_repr n = c # t \<and> is_digit c"
  using nat_repr_digits[of _ n] nat_repr_neq_Nil[of n] by (cases "nat_repr n") auto

lemma int_part_nat_repr:
  assumes "num_end r"
  shows "int_part (nat_repr n @ r) = nat_repr n"
proof -
  obtain c t where ct: "nat_repr n = c # t" using nat_repr_hd by blast
  have tw: "takeWhile is_digit (nat_repr n @ r) = nat_repr n"
    by (rule takeWhile_digits[OF _ assms]) (rule nat_repr_digits)
  have "t = []" if "c = CHR ''0''" using nat_repr_leading_zero[of n t] ct that by simp
  with tw ct show ?thesis by (auto simp: int_part_def)
qed

lemma num_end_parts: "num_end r \<Longrightarrow> frac_part r = [] \<and> exp_part r = []"
  by (cases r) (auto simp: num_end_def frac_part_def exp_part_def)

lemma parse_number_nat:
  assumes "num_end r"
  shows "parse_number (nat_repr n @ r) = Some (JInt (int n), r)"
proof -
  obtain c t where ct: "nat_repr n = c # t" "is_digit c" using nat_repr_hd by blast
  have "hd (nat_repr n @ r) \<noteq> CHR ''-''" using ct by (auto simp: is_digit_def)
  then show ?thesis
    by (simp add: parse_number_def int_part_nat_repr[OF assms] num_end_parts[OF assms])
qed

lemma parse_number_neg:
  assumes "num_end r"
  shows "parse_number (CHR ''-'' # nat_repr n @ r) = Some (JInt (- int n), r)"
  by (simp add: parse_number_def int_part_nat_repr[OF assms] num_end_parts[OF assms])

lemma parse_number_int:
  assumes "num_end r"
  shows "parse_number (int_repr i @ r) = Some (JInt i, r)"
  using parse_number_nat[OF assms, of "nat i"] parse_number_neg[OF assms, of "nat (- i)"]
  by (auto simp: int_repr_def)

subsection \<open>The nesting bound\<close>

lemma skip_ws_length: "length (skip_ws s) \<le> length s"
  by (simp add: skip_ws_def length_dropWhile_le)

lemma skip_ws_Cons_length: "skip_ws s = c # t \<Longrightarrow> length t < length s"
  using skip_ws_length[of s] by simp

lemma parse_chars_length: "parse_chars s = Some (cs, r) \<Longrightarrow> length r < length s"
proof (induction s arbitrary: cs r rule: parse_chars.induct)
  case (1 s)
  show ?case
    using "1.prems" "1.IH"
    by (subst (asm) parse_chars.simps)
      (fastforce split: list.splits if_splits option.splits prod.splits dest!: unicode_escape_length)
qed

lemma int_part_neq_Nil: "int_part s \<noteq> [] \<Longrightarrow> s \<noteq> []"
  by (auto simp: int_part_def)

lemma parse_number_length:
  assumes "parse_number s = Some (j, r)"
  shows "length r < length s"
proof -
  define s1 where "s1 = (if s \<noteq> [] \<and> hd s = CHR ''-'' then tl s else s)"
  have "int_part s1 \<noteq> []" "length r \<le> length (drop (length (int_part s1)) s1)"
    using assms by (auto simp: parse_number_def Let_def s1_def split: if_splits)
  moreover from this(1) have "s1 \<noteq> []" by (rule int_part_neq_Nil)
  then have "0 < length s1" by simp
  moreover have "0 < length (int_part s1)" using calculation(1) by simp
  moreover have "length s1 \<le> length s" by (simp add: s1_def)
  ultimately show ?thesis by (simp only: length_drop)
qed

lemma starts_with_drop_length:
  "starts_with p s \<Longrightarrow> 0 < n \<Longrightarrow> p \<noteq> [] \<Longrightarrow> length (drop n s) < length s"
  by (cases s) (auto simp: starts_with_def)

lemma parse_atom_length: "parse_atom s = Some (j, r) \<Longrightarrow> length r < length s"
  unfolding parse_atom_def
  by (auto dest: parse_number_length split: if_splits option.splits
      simp del: length_drop intro!: starts_with_drop_length)

text \<open>One unfolding of each scanner, inverted.\<close>

lemma parse_value_SucE:
  assumes "parse_value (Suc n) s = Some (j, r)"
  obtains (str) t cs where "s = quote_char # t" "parse_chars t = Some (cs, r)" "j = JStr cs"
  | (arr0) t where "s = CHR ''['' # t" "skip_ws t = CHR '']'' # r" "j = JArr []"
  | (arr) t d u xs where "s = CHR ''['' # t" "skip_ws t = d # u" "d \<noteq> CHR '']''"
      "parse_items n (d # u) = Some (xs, r)" "j = JArr xs"
  | (obj0) t where "s = CHR ''{'' # t" "skip_ws t = CHR ''}'' # r" "j = JObj []"
  | (obj) t d u kvs where "s = CHR ''{'' # t" "skip_ws t = d # u" "d \<noteq> CHR ''}''"
      "parse_members n [] (d # u) = Some (kvs, r)" "j = JObj kvs"
  | (atom) c t where "s = c # t" "c \<noteq> quote_char" "c \<noteq> CHR ''[''" "c \<noteq> CHR ''{''"
      "parse_atom s = Some (j, r)"
proof (cases s)
  case (Cons c t)
  consider "c = quote_char" | "c = CHR ''[''" | "c = CHR ''{''"
    | "c \<noteq> quote_char" "c \<noteq> CHR ''[''" "c \<noteq> CHR ''{''" by blast
  then show ?thesis
  proof cases
    case 1 then show ?thesis using assms Cons str by auto
  next
    case 2 then show ?thesis using assms Cons arr0 arr by (auto split: list.splits if_splits)
  next
    case 3 then show ?thesis using assms Cons obj0 obj by (auto split: list.splits if_splits)
  next
    case 4 then show ?thesis using assms Cons atom by simp
  qed
qed (use assms in simp)

lemma parse_items_SucE:
  assumes "parse_items (Suc n) s = Some (xs, r)"
  obtains (one) x r' where "parse_value n s = Some (x, r')" "skip_ws r' = CHR '']'' # r" "xs = [x]"
  | (more) x r' u ys where "parse_value n s = Some (x, r')" "skip_ws r' = CHR '','' # u"
      "parse_items n (skip_ws u) = Some (ys, r)" "xs = x # ys"
  using assms by (auto split: option.splits list.splits if_splits)

lemma parse_members_SucE:
  assumes "parse_members (Suc n) acc s = Some (kvs, r)"
  obtains (one) t k r1 u v r2 where "s = quote_char # t" "parse_chars t = Some (k, r1)"
      "skip_ws r1 = CHR '':'' # u" "parse_value n (skip_ws u) = Some (v, r2)"
      "skip_ws r2 = CHR ''}'' # r" "kvs = dict_set acc k v"
  | (more) t k r1 u v r2 w where "s = quote_char # t" "parse_chars t = Some (k, r1)"
      "skip_ws r1 = CHR '':'' # u" "parse_value n (skip_ws u) = Some (v, r2)"
      "skip_ws r2 = CHR '','' # w" "parse_members n (dict_set acc k v) (skip_ws w) = Some (kvs, r)"
  using assms by (auto split: option.splits list.splits if_splits)

lemma parse_lengths:
  "(\<forall>s j r. parse_value n s = Some (j, r) \<longrightarrow> length r < length s) \<and>
   (\<forall>s xs r. parse_items n s = Some (xs, r) \<longrightarrow> length r < length s) \<and>
   (\<forall>acc s kvs r. parse_members n acc s = Some (kvs, r) \<longrightarrow> length r < length s)"
proof (induction n)
  case (Suc n)
  note IHv = Suc[THEN conjunct1, rule_format] and IHi = Suc[THEN conjunct2, THEN conjunct1, rule_format]
    and IHm = Suc[THEN conjunct2, THEN conjunct2, rule_format]
  have "length r < length s" if "parse_value (Suc n) s = Some (j, r)" for s j r
    using that
  proof (cases rule: parse_value_SucE)
    case str then show ?thesis using parse_chars_length by fastforce
  next
    case arr0 then show ?thesis using skip_ws_Cons_length by fastforce
  next
    case arr then show ?thesis using IHi skip_ws_Cons_length by fastforce
  next
    case obj0 then show ?thesis using skip_ws_Cons_length by fastforce
  next
    case obj then show ?thesis using IHm skip_ws_Cons_length by fastforce
  next
    case atom then show ?thesis using parse_atom_length by blast
  qed
  moreover have "length r < length s" if "parse_items (Suc n) s = Some (xs, r)" for s xs r
    using that
  proof (cases rule: parse_items_SucE)
    case one then show ?thesis using IHv skip_ws_Cons_length by fastforce
  next
    case (more x r' u ys)
    then show ?thesis
      using IHv[OF more(1)] skip_ws_Cons_length[OF more(2)] IHi[OF more(3)] skip_ws_length[of u]
      by linarith
  qed
  moreover have "length r < length s" if "parse_members (Suc n) acc s = Some (kvs, r)" for acc s kvs r
    using that
  proof (cases rule: parse_members_SucE)
    case (one t k r1 u v r2)
    then show ?thesis
      using parse_chars_length[OF one(2)] skip_ws_Cons_length[OF one(3)] IHv[OF one(4)]
        skip_ws_Cons_length[OF one(5)] skip_ws_length[of u] by simp
  next
    case (more t k r1 u v r2 w)
    then show ?thesis
      using parse_chars_length[OF more(2)] skip_ws_Cons_length[OF more(3)] IHv[OF more(4)]
        skip_ws_Cons_length[OF more(5)] skip_ws_length[of u] IHm[OF more(6)] skip_ws_length[of w]
      by simp
  qed
  ultimately show ?case by blast
qed simp

lemmas parse_value_length = parse_lengths[THEN conjunct1, rule_format]
  and parse_items_length = parse_lengths[THEN conjunct2, THEN conjunct1, rule_format]
  and parse_members_length = parse_lengths[THEN conjunct2, THEN conjunct2, rule_format]

lemma parse_bound:
  "(\<forall>s j r n. parse_value m s = Some (j, r) \<longrightarrow> length s - length r \<le> n \<longrightarrow> parse_value n s = Some (j, r)) \<and>
   (\<forall>s xs r n. parse_items m s = Some (xs, r) \<longrightarrow> length s - length r \<le> n \<longrightarrow> parse_items n s = Some (xs, r)) \<and>
   (\<forall>acc s kvs r n. parse_members m acc s = Some (kvs, r) \<longrightarrow> length s - length r \<le> n \<longrightarrow>
      parse_members n acc s = Some (kvs, r))"
proof (induction m)
  case (Suc m)
  note IHv = Suc[THEN conjunct1, rule_format] and IHi = Suc[THEN conjunct2, THEN conjunct1, rule_format]
    and IHm = Suc[THEN conjunct2, THEN conjunct2, rule_format]
  have "parse_value n s = Some (j, r)"
    if p: "parse_value (Suc m) s = Some (j, r)" and n: "length s - length r \<le> n" for s j r n
  proof -
    obtain n' where n': "n = Suc n'" using n parse_value_length[OF p] by (cases n) auto
    from p show ?thesis
    proof (cases rule: parse_value_SucE)
      case (arr t d u xs)
      moreover have "parse_items n' (d # u) = Some (xs, r)"
        using n n' arr skip_ws_Cons_length[OF arr(2)] by (intro IHi[OF arr(4)]) auto
      ultimately show ?thesis using n' by simp
    next
      case (obj t d u kvs)
      moreover have "parse_members n' [] (d # u) = Some (kvs, r)"
        using n n' obj skip_ws_Cons_length[OF obj(2)] by (intro IHm[OF obj(4)]) auto
      ultimately show ?thesis using n' by simp
    qed (use n' in simp_all)
  qed
  moreover have "parse_items n s = Some (xs, r)"
    if p: "parse_items (Suc m) s = Some (xs, r)" and n: "length s - length r \<le> n" for s xs r n
  proof -
    obtain n' where n': "n = Suc n'" using n parse_items_length[OF p] by (cases n) auto
    from p show ?thesis
    proof (cases rule: parse_items_SucE)
      case (one x r')
      moreover have "parse_value n' s = Some (x, r')"
        using n n' one skip_ws_Cons_length[OF one(2)] by (intro IHv[OF one(1)]) auto
      ultimately show ?thesis using n' by simp
    next
      case (more x r' u ys)
      note len = parse_value_length[OF more(1)] skip_ws_Cons_length[OF more(2)]
        parse_items_length[OF more(3)] skip_ws_length[of u]
      have "parse_value n' s = Some (x, r')" "parse_items n' (skip_ws u) = Some (ys, r)"
        using n n' more len by (auto intro!: IHv[OF more(1)] IHi[OF more(3)])
      with more n' show ?thesis by simp
    qed
  qed
  moreover have "parse_members n acc s = Some (kvs, r)"
    if p: "parse_members (Suc m) acc s = Some (kvs, r)" and n: "length s - length r \<le> n" for acc s kvs r n
  proof -
    obtain n' where n': "n = Suc n'" using n parse_members_length[OF p] by (cases n) auto
    from p show ?thesis
    proof (cases rule: parse_members_SucE)
      case (one t k r1 u v r2)
      have "parse_value n' (skip_ws u) = Some (v, r2)"
        using n n' one parse_chars_length[OF one(2)] skip_ws_Cons_length[OF one(3)]
          parse_value_length[OF one(4)] skip_ws_Cons_length[OF one(5)] skip_ws_length[of u]
        by (intro IHv[OF one(4)]) auto
      with one n' show ?thesis by simp
    next
      case (more t k r1 u v r2 w)
      note len = parse_chars_length[OF more(2)] skip_ws_Cons_length[OF more(3)]
        parse_value_length[OF more(4)] skip_ws_Cons_length[OF more(5)] skip_ws_length[of u]
        parse_members_length[OF more(6)] skip_ws_length[of w]
      have "parse_value n' (skip_ws u) = Some (v, r2)"
        "parse_members n' (dict_set acc k v) (skip_ws w) = Some (kvs, r)"
        using n n' more len by (auto intro!: IHv[OF more(4)] IHm[OF more(6)])
      with more n' show ?thesis by simp
    qed
  qed
  ultimately show ?case by blast
qed simp

text \<open>Raising the nesting bound of \<open>loads\<close> changes nothing.\<close>

lemma loads_bound:
  assumes "parse_value m (skip_ws s) = Some (j, r)"
  shows "parse_value (Suc (length s)) (skip_ws s) = Some (j, r)"
proof -
  have "length (skip_ws s) - length r \<le> Suc (length s)" using skip_ws_length[of s] by simp
  then show ?thesis using parse_bound[THEN conjunct1, rule_format, OF assms] by blast
qed

subsection \<open>Reading back a printed value\<close>

text \<open>The values of Python objects without floats: keys of a dict are distinct.\<close>

fun json_ok :: "json \<Rightarrow> bool" where
  "json_ok (JFloat s) = False"
| "json_ok (JArr xs) = (\<forall>x\<in>set xs. json_ok x)"
| "json_ok (JObj kvs) = (distinct (map fst kvs) \<and> (\<forall>kv\<in>set kvs. json_ok (snd kv)))"
| "json_ok _ = True"

lemma is_ws_simps [simp]: "\<not> is_ws quote_char" "\<not> is_ws (CHR ''['')" "\<not> is_ws (CHR '']'')"
  "\<not> is_ws (CHR ''{'')" "\<not> is_ws (CHR ''}'')" "\<not> is_ws (CHR '','')" "\<not> is_ws (CHR '':'')"
  by (simp_all add: is_ws_def)

lemma skip_ws_nonws [simp]: "\<not> is_ws c \<Longrightarrow> skip_ws (c # t) = c # t"
  by (simp add: skip_ws_def)

lemma digit_facts:
  "is_digit c \<Longrightarrow> \<not> is_ws c \<and> c \<noteq> CHR '']'' \<and> c \<noteq> CHR ''}'' \<and> c \<noteq> CHR ''['' \<and> c \<noteq> CHR ''{'' \<and>
    c \<noteq> quote_char \<and> c \<noteq> CHR ''n'' \<and> c \<noteq> CHR ''t'' \<and> c \<noteq> CHR ''f'' \<and> c \<noteq> CHR ''-''"
  by (auto simp: is_digit_def is_ws_def)

lemma int_repr_hd: "\<exists>c t. int_repr i = c # t \<and> (is_digit c \<or> c = CHR ''-'')"
  using nat_repr_hd[of "nat i"] by (auto simp: int_repr_def)

lemma print_json_hd:
  assumes "json_ok j"
  shows "\<exists>c t. print_json j = c # t \<and> \<not> is_ws c \<and> c \<noteq> CHR '']'' \<and> c \<noteq> CHR ''}''"
proof (cases j)
  case (JInt i)
  then show ?thesis using int_repr_hd[of i] digit_facts by (fastforce simp: is_ws_def)
qed (use assms in \<open>auto simp: print_string_def is_ws_def\<close>)

lemma skip_ws_print [simp]: "json_ok j \<Longrightarrow> skip_ws (print_json j @ r) = print_json j @ r"
  using print_json_hd[of j] by auto

lemma parse_atom_int:
  assumes "num_end r"
  shows "parse_atom (int_repr i @ r) = Some (JInt i, r)"
  using int_repr_hd[of i] digit_facts parse_number_int[OF assms, of i]
  by (fastforce simp: parse_atom_def starts_with_def)

lemma dict_set_new: "k \<notin> fst ` set acc \<Longrightarrow> dict_set acc k v = acc @ [(k, v)]"
  by (induction acc) auto

definition reads :: "json \<Rightarrow> bool" where
  "reads j \<longleftrightarrow> (\<forall>n r. num_end r \<longrightarrow> length (print_json j) \<le> n \<longrightarrow>
     parse_value n (print_json j @ r) = Some (j, r))"

lemma readsD: "reads j \<Longrightarrow> num_end r \<Longrightarrow> length (print_json j) \<le> n \<Longrightarrow>
    parse_value n (print_json j @ r) = Some (j, r)"
  by (simp add: reads_def)

lemma readsI:
  assumes "\<And>n r. num_end r \<Longrightarrow> length (print_json j) \<le> Suc n \<Longrightarrow>
      parse_value (Suc n) (print_json j @ r) = Some (j, r)" "print_json j \<noteq> []"
  shows "reads j"
  unfolding reads_def
proof (intro allI impI)
  fix n r assume "num_end r" "length (print_json j) \<le> n"
  then show "parse_value n (print_json j @ r) = Some (j, r)" using assms by (cases n) auto
qed

lemma num_end_sep [simp]: "num_end []" "num_end (CHR '','' # r)" "num_end (CHR '']'' # r)" "num_end (CHR ''}'' # r)"
  by (simp_all add: num_end_def is_digit_def)

lemma parse_items_print:
  assumes "xs \<noteq> []" "\<forall>x\<in>set xs. json_ok x \<and> reads x"
    "length (sep_concat '','' (map print_json xs)) < n"
  shows "parse_items n (sep_concat '','' (map print_json xs) @ CHR '']'' # r) = Some (xs, r)"
  using assms
proof (induction xs arbitrary: n rule: induct_list012)
  case (2 x)
  then obtain n' where "n = Suc n'" by (cases n) auto
  with 2 show ?case by (simp add: readsD)
next
  case (3 x y zs)
  then obtain n' where n': "n = Suc n'" by (cases n) auto
  have "skip_ws (sep_concat '','' (map print_json (y # zs)) @ q) =
      sep_concat '','' (map print_json (y # zs)) @ q" for q
    using "3.prems" by (cases zs) simp_all
  with 3 n' show ?case by (simp add: readsD)
qed simp

definition print_member :: "string \<times> json \<Rightarrow> string" where
  "print_member kv = print_string (fst kv) @ '':'' @ print_json (snd kv)"

lemma parse_members_print:
  assumes "kvs \<noteq> []" "\<forall>kv\<in>set kvs. json_ok (snd kv) \<and> reads (snd kv)" "distinct (map fst (acc @ kvs))"
    "length (sep_concat '','' (map print_member kvs)) < n"
  shows "parse_members n acc (sep_concat '','' (map print_member kvs) @ CHR ''}'' # r) = Some (acc @ kvs, r)"
  using assms
proof (induction kvs arbitrary: n acc rule: induct_list012)
  case (2 kv)
  then obtain n' where "n = Suc n'" by (cases n) auto
  with 2 show ?case
    by (cases kv) (simp add: readsD print_member_def print_string_def parse_chars_print dict_set_new)
next
  case (3 kv kv' kvs)
  then obtain n' where n': "n = Suc n'" by (cases n) auto
  have sk: "skip_ws (sep_concat '','' (map print_member (kv' # kvs)) @ q) =
      sep_concat '','' (map print_member (kv' # kvs)) @ q" for q
    by (cases kvs) (simp_all add: print_member_def print_string_def)
  have IH: "parse_members n' (acc @ [kv]) (sep_concat '','' (map print_member (kv' # kvs)) @ CHR ''}'' # r) =
      Some ((acc @ [kv]) @ kv' # kvs, r)"
    using "3.prems" n' by (intro "3.IH"(2)) auto
  obtain k v where kv: "kv = (k, v)" by (cases kv)
  have "k \<notin> fst ` set acc" using "3.prems"(3) kv by auto
  moreover have "length (print_json v) \<le> n'" "reads v" "json_ok v"
    using "3.prems" n' kv by (auto simp: print_member_def)
  ultimately show ?case
    using IH sk n' kv
    by (simp add: readsD print_member_def[of "(k, v)"] print_string_def parse_chars_print dict_set_new)
qed simp

lemma parse_value_print: "json_ok j \<Longrightarrow> reads j"
proof (induction j rule: print_json.induct)
  case (6 xs)
  show ?case unfolding reads_def
  proof (intro allI impI)
    fix n r assume n: "num_end r" "length (print_json (JArr xs)) \<le> n"
    then obtain n' where n': "n = Suc n'" by (cases n) auto
    show "parse_value n (print_json (JArr xs) @ r) = Some (JArr xs, r)"
    proof (cases xs)
      case Nil with n' show ?thesis by simp
    next
      case (Cons y ys)
      obtain c t where "sep_concat '','' (map print_json xs) = c # t" "\<not> is_ws c" "c \<noteq> CHR '']''"
        using print_json_hd[of y] "6.prems" Cons by (cases ys) auto
      moreover have "parse_items n' (sep_concat '','' (map print_json xs) @ CHR '']'' # r) = Some (xs, r)"
        using 6 n n' Cons by (intro parse_items_print) auto
      ultimately show ?thesis using n' by simp
    qed
  qed
next
  case (7 kvs)
  show ?case unfolding reads_def
  proof (intro allI impI)
    fix n r assume n: "num_end r" "length (print_json (JObj kvs)) \<le> n"
    then obtain n' where n': "n = Suc n'" by (cases n) auto
    have pm: "print_json (JObj kvs) = CHR ''{'' # sep_concat '','' (map print_member kvs) @ ''}''"
      by (simp add: print_member_def[abs_def])
    show "parse_value n (print_json (JObj kvs) @ r) = Some (JObj kvs, r)"
    proof (cases kvs)
      case Nil with n' show ?thesis by simp
    next
      case (Cons y ys)
      obtain t where t: "sep_concat '','' (map print_member kvs) = quote_char # t"
        using Cons by (cases ys) (auto simp: print_member_def print_string_def)
      have "parse_members n' [] (sep_concat '','' (map print_member kvs) @ CHR ''}'' # r) = Some ([] @ kvs, r)"
        using 7 n n' Cons pm by (intro parse_members_print) auto
      then show ?thesis using n' t by (simp add: pm del: print_json.simps)
    qed
  qed
next
  case (3 i)
  show ?case unfolding reads_def
  proof (intro allI impI)
    fix n r assume n: "num_end r" "length (print_json (JInt i)) \<le> n"
    obtain c t where ct: "int_repr i = c # t" "is_digit c \<or> c = CHR ''-''" using int_repr_hd by blast
    then obtain n' where n': "n = Suc n'" using n by (cases n) auto
    have "c \<noteq> quote_char" "c \<noteq> CHR ''[''" "c \<noteq> CHR ''{''" using ct(2) digit_facts by auto
    then show "parse_value n (print_json (JInt i) @ r) = Some (JInt i, r)"
      using parse_atom_int[OF n(1), of i] n' ct by simp
  qed
qed (auto simp: print_string_def parse_chars_print parse_atom_def starts_with_def intro!: readsI split: if_splits)

lemma loads_print: "json_ok j \<Longrightarrow> loads (print_json j) = Some j"
proof -
  assume ok: "json_ok j"
  have "parse_value (Suc (length (print_json j))) (print_json j @ []) = Some (j, [])"
    using parse_value_print[OF ok] by (rule readsD) simp_all
  moreover have "skip_ws (print_json j) = print_json j" using skip_ws_print[OF ok, of "[]"] by simp
  ultimately show "loads (print_json j) = Some j" by (simp add: loads_def skip_ws_def)
qed

lemma distinct_sort_key: "distinct (map f kvs) \<Longrightarrow> distinct (map f (sort_key g kvs))"
  by (simp add: distinct_map)

lemma json_ok_sort_keys: "json_ok j \<Longrightarrow> json_ok (sort_keys j)"
proof (induction j rule: sort_keys.induct)
  case (2 kvs)
  then have "distinct (map fst (sort_key fst (map (\<lambda>kv. (fst kv, sort_keys (snd kv))) kvs)))"
    by (intro distinct_sort_key) (simp add: comp_def)
  with 2 show ?case by auto
qed auto

lemma loads_dumps: "json_ok j \<Longrightarrow> loads (dumps j) = Some (sort_keys j)"
  by (simp add: dumps_def loads_print json_ok_sort_keys)

end
