(* ===== verification/Checkpoint_Payloads.thy ===== *)
theory Checkpoint_Payloads
  imports Workflow_Models Py_Json_Facts "HOL-Library.Monad_Syntax"
begin

text \<open>
  The checkpoint payload models of \<open>workflow/models.py\<close>: one record per payload class, the validation
  its pydantic declaration asks for (\<open>model_validate\<close> on a JSON object: no extra keys, the declared
  lengths and patterns, strict integers, literals with their defaults, then the class's own
  \<open>model_validator\<close>) and its \<open>model_dump(mode="json")\<close>. A failed validation is \<open>None\<close>: every caller
  turns \<open>ValidationError\<close> into the same error whatever field caused it.
\<close>

section \<open>Field constraints\<close>

type_synonym json_object = "(string \<times> json) list"

text \<open>\<open>len(s)\<close> counts code points: the bytes of the UTF-8 form that do not continue a character.\<close>

definition py_len :: "string \<Rightarrow> nat" where
  "py_len s = rowcount (\<lambda>c. \<not> (128 \<le> (of_char c :: nat) \<and> of_char c < (192::nat))) s"

definition len_between :: "nat \<Rightarrow> nat \<Rightarrow> string \<Rightarrow> bool" where
  "len_between lo hi s \<longleftrightarrow> lo \<le> py_len s \<and> py_len s \<le> hi"

definition is_hex :: "char \<Rightarrow> bool" where
  "is_hex c \<longleftrightarrow> c \<in> set ''0123456789abcdefABCDEF''"

definition uuid_pattern :: "string \<Rightarrow> bool" where
  "uuid_pattern s \<longleftrightarrow> length s = 36 \<and>
     (\<forall>i < 36. if i \<in> {8, 13, 18, 23} then s ! i = CHR ''-'' else is_hex (s ! i))"

definition sha256_pattern :: "string \<Rightarrow> bool" where
  "sha256_pattern s \<longleftrightarrow> length s = 64 \<and> (\<forall>c \<in> set s. c \<in> set ''0123456789abcdef'')"

definition uuid_field :: "string \<Rightarrow> bool" where
  "uuid_field s \<longleftrightarrow> len_between 36 36 s"

definition strict_uuid_field :: "string \<Rightarrow> bool" where
  "strict_uuid_field s \<longleftrightarrow> len_between 36 36 s \<and> uuid_pattern s"

definition strict_digest_field :: "string \<Rightarrow> bool" where
  "strict_digest_field s \<longleftrightarrow> len_between 64 64 s \<and> sha256_pattern s"

abbreviation message_id_field :: "string \<Rightarrow> bool" where "message_id_field \<equiv> len_between 1 128"
abbreviation tool_call_id_field :: "string \<Rightarrow> bool" where "tool_call_id_field \<equiv> len_between 1 128"
abbreviation cursor_field :: "string \<Rightarrow> bool" where "cursor_field \<equiv> len_between 1 255"
abbreviation ref_field :: "string \<Rightarrow> bool" where "ref_field \<equiv> len_between 1 255"
abbreviation request_id_field :: "string \<Rightarrow> bool" where "request_id_field \<equiv> len_between 1 255"
abbreviation digest_field :: "string \<Rightarrow> bool" where "digest_field \<equiv> len_between 64 64"
abbreviation idempotency_key_field :: "string \<Rightarrow> bool" where
  "idempotency_key_field \<equiv> len_between 1 128"

subsection \<open>Readers of one field\<close>

definition get_str :: "(string \<Rightarrow> bool) \<Rightarrow> json_object \<Rightarrow> string \<Rightarrow> string option" where
  "get_str ok d k = (case map_of d k of Some (JStr s) \<Rightarrow> if ok s then Some s else None | _ \<Rightarrow> None)"

definition get_int :: "(int \<Rightarrow> bool) \<Rightarrow> json_object \<Rightarrow> string \<Rightarrow> int option" where
  "get_int ok d k = (case map_of d k of Some (JInt i) \<Rightarrow> if ok i then Some i else None | _ \<Rightarrow> None)"

text \<open>\<open>str | None\<close> with default \<open>None\<close>.\<close>

definition get_opt_str :: "(string \<Rightarrow> bool) \<Rightarrow> json_object \<Rightarrow> string \<Rightarrow> string option option" where
  "get_opt_str ok d k = (case map_of d k of
      None \<Rightarrow> Some None
    | Some JNull \<Rightarrow> Some None
    | Some (JStr s) \<Rightarrow> if ok s then Some (Some s) else None
    | _ \<Rightarrow> None)"

definition get_enum :: "(string \<Rightarrow> 'a option) \<Rightarrow> json_object \<Rightarrow> string \<Rightarrow> 'a option" where
  "get_enum of_value d k = (case map_of d k of Some (JStr s) \<Rightarrow> of_value s | _ \<Rightarrow> None)"

text \<open>\<open>Literal[v] = v\<close>: absent or exactly that value.\<close>

definition get_lit :: "json \<Rightarrow> json_object \<Rightarrow> string \<Rightarrow> unit option" where
  "get_lit v d k = (case map_of d k of None \<Rightarrow> Some () | Some j \<Rightarrow> if j = v then Some () else None)"

text \<open>\<open>extra="forbid"\<close> and the \<open>schema_version\<close> field of the base class.\<close>

definition base_payload :: "string list \<Rightarrow> json_object \<Rightarrow> unit option" where
  "base_payload ks d =
     (if list_all (\<lambda>kv. fst kv = ''schema_version'' \<or> fst kv \<in> set ks) d
      then get_lit (JInt 1) d ''schema_version'' else None)"

definition opt_json :: "string option \<Rightarrow> json" where
  "opt_json v = (case v of None \<Rightarrow> JNull | Some s \<Rightarrow> JStr s)"

definition check :: "bool \<Rightarrow> unit option" where
  "check b = (if b then Some () else None)"


section \<open>Payload classes\<close>

record run_started_payload =
  rs_tenant_id :: string
  rs_workspace_id :: string
  rs_session_id :: string
  rs_run_id :: string
  rs_started_at_ms :: int
  rs_model_cursor :: string
  rs_cursor :: string

record plan_awaiting_payload =
  pa_run_id :: string
  pa_plan_id :: string
  pa_plan_version :: int
  pa_plan_digest :: string
  pa_decision_cursor :: string
  pa_cursor :: string

record plan_step_payload =
  ps_run_id :: string
  ps_plan_id :: string
  ps_plan_version :: int
  ps_plan_digest :: string
  ps_step_id :: string
  ps_step_run_id :: string
  ps_attempt :: int
  ps_execution_cursor :: string
  ps_cursor :: string

record plan_replan_payload =
  pr_run_id :: string
  pr_plan_id :: string
  pr_plan_version :: int
  pr_plan_digest :: string
  pr_failed_step_run_id :: string
  pr_failure_digest :: string
  pr_cursor :: string

record model_output_payload =
  mo_run_id :: string
  mo_message_id :: string
  mo_output_digest :: string
  mo_model_cursor :: string
  mo_cursor :: string

record awaiting_approval_payload =
  aa_run_id :: string
  aa_approval_id :: string
  aa_tool_call_id :: string
  aa_approval_expires_at_ms :: int
  aa_resume_cursor :: string
  aa_cursor :: string

record dispatching_payload =
  ed_run_id :: string
  ed_execution_id :: string
  ed_tool_call_id :: string
  ed_recovery_strategy :: recovery_strategy
  ed_input_hash :: string
  ed_input_ref :: string
  ed_idempotency_key :: "string option"
  ed_dispatch_cursor :: string
  ed_cursor :: string

record result_observed_payload =
  eo_run_id :: string
  eo_execution_id :: string
  eo_result_status :: execution_status
  eo_result_digest :: string
  eo_result_ref :: string
  eo_external_request_id :: "string option"
  eo_resume_cursor :: string
  eo_cursor :: string

record terminal_payload =
  rt_run_id :: string
  rt_terminal_status :: run_status
  rt_finished_at_ms :: int
  rt_final_digest :: string

datatype checkpoint_payload =
    RunStartedPayload run_started_payload
  | PlanAwaitingApprovalPayload plan_awaiting_payload
  | PlanStepReadyPayload plan_step_payload
  | PlanReplanRequiredPayload plan_replan_payload
  | ModelOutputPayload model_output_payload
  | AwaitingApprovalPayload awaiting_approval_payload
  | ExecutionDispatchingPayload dispatching_payload
  | ExecutionResultObservedPayload result_observed_payload
  | RunTerminalPayload terminal_payload

text \<open>The key of \<open>PHASE_PAYLOADS\<close> whose class the payload belongs to.\<close>

fun payload_phase :: "checkpoint_payload \<Rightarrow> checkpoint_phase" where
  "payload_phase (RunStartedPayload _) = C_RUN_STARTED"
| "payload_phase (PlanAwaitingApprovalPayload _) = C_PLAN_AWAITING_APPROVAL"
| "payload_phase (PlanStepReadyPayload _) = C_PLAN_STEP_READY"
| "payload_phase (PlanReplanRequiredPayload _) = C_PLAN_REPLAN_REQUIRED"
| "payload_phase (ModelOutputPayload _) = C_MODEL_OUTPUT_COMMITTED"
| "payload_phase (AwaitingApprovalPayload _) = C_AWAITING_APPROVAL"
| "payload_phase (ExecutionDispatchingPayload _) = C_EXECUTION_DISPATCHING"
| "payload_phase (ExecutionResultObservedPayload _) = C_EXECUTION_RESULT_OBSERVED"
| "payload_phase (RunTerminalPayload _) = C_RUN_TERMINAL"

text \<open>\<open>payload.run_id\<close>, a field of every class.\<close>

fun payload_run_id :: "checkpoint_payload \<Rightarrow> string" where
  "payload_run_id (RunStartedPayload p) = rs_run_id p"
| "payload_run_id (PlanAwaitingApprovalPayload p) = pa_run_id p"
| "payload_run_id (PlanStepReadyPayload p) = ps_run_id p"
| "payload_run_id (PlanReplanRequiredPayload p) = pr_run_id p"
| "payload_run_id (ModelOutputPayload p) = mo_run_id p"
| "payload_run_id (AwaitingApprovalPayload p) = aa_run_id p"
| "payload_run_id (ExecutionDispatchingPayload p) = ed_run_id p"
| "payload_run_id (ExecutionResultObservedPayload p) = eo_run_id p"
| "payload_run_id (RunTerminalPayload p) = rt_run_id p"


section \<open>\<open>model_validate\<close>\<close>

definition validate_run_started :: "json_object \<Rightarrow> run_started_payload option" where
  "validate_run_started d = do {
     base_payload [''tenant_id'', ''workspace_id'', ''session_id'', ''run_id'', ''started_at_ms'',
       ''model_cursor'', ''next_step'', ''cursor''] d;
     t \<leftarrow> get_str uuid_field d ''tenant_id'';
     w \<leftarrow> get_str uuid_field d ''workspace_id'';
     s \<leftarrow> get_str uuid_field d ''session_id'';
     r \<leftarrow> get_str uuid_field d ''run_id'';
     n \<leftarrow> get_int (\<lambda>_. True) d ''started_at_ms'';
     m \<leftarrow> get_str cursor_field d ''model_cursor'';
     get_lit (JStr ''model_inference'') d ''next_step'';
     c \<leftarrow> get_str cursor_field d ''cursor'';
     check (c = m);
     Some \<lparr>rs_tenant_id = t, rs_workspace_id = w, rs_session_id = s, rs_run_id = r,
       rs_started_at_ms = n, rs_model_cursor = m, rs_cursor = c\<rparr> }"

definition validate_plan_awaiting :: "json_object \<Rightarrow> plan_awaiting_payload option" where
  "validate_plan_awaiting d = do {
     base_payload [''run_id'', ''plan_id'', ''plan_version'', ''plan_digest'', ''decision_cursor'',
       ''next_step'', ''cursor''] d;
     r \<leftarrow> get_str strict_uuid_field d ''run_id'';
     p \<leftarrow> get_str strict_uuid_field d ''plan_id'';
     v \<leftarrow> get_int (\<lambda>i. 1 \<le> i) d ''plan_version'';
     g \<leftarrow> get_str strict_digest_field d ''plan_digest'';
     m \<leftarrow> get_str cursor_field d ''decision_cursor'';
     get_lit (JStr ''plan_decision'') d ''next_step'';
     c \<leftarrow> get_str cursor_field d ''cursor'';
     check (c = m);
     Some \<lparr>pa_run_id = r, pa_plan_id = p, pa_plan_version = v, pa_plan_digest = g,
       pa_decision_cursor = m, pa_cursor = c\<rparr> }"

definition execution_cursor_literal :: "string \<Rightarrow> bool" where
  "execution_cursor_literal s \<longleftrightarrow>
     s \<in> set [''dispatch_step'', ''continue_step'', ''select_next'', ''final_summary'']"

definition validate_plan_step :: "json_object \<Rightarrow> plan_step_payload option" where
  "validate_plan_step d = do {
     base_payload [''run_id'', ''plan_id'', ''plan_version'', ''plan_digest'', ''step_id'',
       ''step_run_id'', ''attempt'', ''execution_cursor'', ''next_step'', ''cursor''] d;
     r \<leftarrow> get_str strict_uuid_field d ''run_id'';
     p \<leftarrow> get_str strict_uuid_field d ''plan_id'';
     v \<leftarrow> get_int (\<lambda>i. 1 \<le> i) d ''plan_version'';
     g \<leftarrow> get_str strict_digest_field d ''plan_digest'';
     s \<leftarrow> get_str strict_uuid_field d ''step_id'';
     q \<leftarrow> get_str strict_uuid_field d ''step_run_id'';
     a \<leftarrow> get_int (\<lambda>i. 1 \<le> i \<and> i \<le> 20) d ''attempt'';
     m \<leftarrow> get_str execution_cursor_literal d ''execution_cursor'';
     get_lit (JStr ''plan_step_execution'') d ''next_step'';
     c \<leftarrow> get_str cursor_field d ''cursor'';
     check (c = m);
     Some \<lparr>ps_run_id = r, ps_plan_id = p, ps_plan_version = v, ps_plan_digest = g,
       ps_step_id = s, ps_step_run_id = q, ps_attempt = a, ps_execution_cursor = m,
       ps_cursor = c\<rparr> }"

definition validate_plan_replan :: "json_object \<Rightarrow> plan_replan_payload option" where
  "validate_plan_replan d = do {
     base_payload [''run_id'', ''plan_id'', ''plan_version'', ''plan_digest'',
       ''failed_step_run_id'', ''failure_digest'', ''revision_cursor'', ''next_step'', ''cursor''] d;
     r \<leftarrow> get_str strict_uuid_field d ''run_id'';
     p \<leftarrow> get_str strict_uuid_field d ''plan_id'';
     v \<leftarrow> get_int (\<lambda>i. 1 \<le> i) d ''plan_version'';
     g \<leftarrow> get_str strict_digest_field d ''plan_digest'';
     f \<leftarrow> get_str strict_uuid_field d ''failed_step_run_id'';
     h \<leftarrow> get_str strict_digest_field d ''failure_digest'';
     get_lit (JStr ''generate_revision'') d ''revision_cursor'';
     get_lit (JStr ''plan_revision'') d ''next_step'';
     c \<leftarrow> get_str cursor_field d ''cursor'';
     check (c = ''generate_revision'');
     Some \<lparr>pr_run_id = r, pr_plan_id = p, pr_plan_version = v, pr_plan_digest = g,
       pr_failed_step_run_id = f, pr_failure_digest = h, pr_cursor = c\<rparr> }"

definition validate_model_output :: "json_object \<Rightarrow> model_output_payload option" where
  "validate_model_output d = do {
     base_payload [''run_id'', ''message_id'', ''output_digest'', ''model_cursor'', ''next_step'',
       ''cursor''] d;
     r \<leftarrow> get_str uuid_field d ''run_id'';
     i \<leftarrow> get_str message_id_field d ''message_id'';
     g \<leftarrow> get_str digest_field d ''output_digest'';
     m \<leftarrow> get_str cursor_field d ''model_cursor'';
     get_lit (JStr ''tool_plan_or_terminal'') d ''next_step'';
     c \<leftarrow> get_str cursor_field d ''cursor'';
     check (c = m);
     Some \<lparr>mo_run_id = r, mo_message_id = i, mo_output_digest = g, mo_model_cursor = m,
       mo_cursor = c\<rparr> }"

definition validate_awaiting_approval :: "json_object \<Rightarrow> awaiting_approval_payload option" where
  "validate_awaiting_approval d = do {
     base_payload [''run_id'', ''approval_id'', ''tool_call_id'', ''approval_expires_at_ms'',
       ''resume_cursor'', ''next_step'', ''cursor''] d;
     r \<leftarrow> get_str uuid_field d ''run_id'';
     a \<leftarrow> get_str uuid_field d ''approval_id'';
     t \<leftarrow> get_str tool_call_id_field d ''tool_call_id'';
     n \<leftarrow> get_int (\<lambda>_. True) d ''approval_expires_at_ms'';
     m \<leftarrow> get_str cursor_field d ''resume_cursor'';
     get_lit (JStr ''approval_resolution'') d ''next_step'';
     c \<leftarrow> get_str cursor_field d ''cursor'';
     check (c = m);
     Some \<lparr>aa_run_id = r, aa_approval_id = a, aa_tool_call_id = t, aa_approval_expires_at_ms = n,
       aa_resume_cursor = m, aa_cursor = c\<rparr> }"

definition validate_dispatching :: "json_object \<Rightarrow> dispatching_payload option" where
  "validate_dispatching d = do {
     base_payload [''run_id'', ''execution_id'', ''tool_call_id'', ''recovery_strategy'',
       ''input_hash'', ''input_ref'', ''idempotency_key'', ''dispatch_cursor'', ''next_step'',
       ''cursor''] d;
     r \<leftarrow> get_str uuid_field d ''run_id'';
     x \<leftarrow> get_str uuid_field d ''execution_id'';
     t \<leftarrow> get_str tool_call_id_field d ''tool_call_id'';
     s \<leftarrow> get_enum recovery_strategy_of_value d ''recovery_strategy'';
     h \<leftarrow> get_str digest_field d ''input_hash'';
     f \<leftarrow> get_str ref_field d ''input_ref'';
     k \<leftarrow> get_opt_str idempotency_key_field d ''idempotency_key'';
     m \<leftarrow> get_str cursor_field d ''dispatch_cursor'';
     get_lit (JStr ''execution_observation'') d ''next_step'';
     c \<leftarrow> get_str cursor_field d ''cursor'';
     check (c = m);
     check (\<not> (s = S_IDEMPOTENT_RETRY \<and> \<not> truthy k));
     Some \<lparr>ed_run_id = r, ed_execution_id = x, ed_tool_call_id = t, ed_recovery_strategy = s,
       ed_input_hash = h, ed_input_ref = f, ed_idempotency_key = k, ed_dispatch_cursor = m,
       ed_cursor = c\<rparr> }"

definition validate_result_observed :: "json_object \<Rightarrow> result_observed_payload option" where
  "validate_result_observed d = do {
     base_payload [''run_id'', ''execution_id'', ''result_status'', ''result_digest'',
       ''result_ref'', ''external_request_id'', ''resume_cursor'', ''next_step'', ''cursor''] d;
     r \<leftarrow> get_str uuid_field d ''run_id'';
     x \<leftarrow> get_str uuid_field d ''execution_id'';
     s \<leftarrow> get_enum execution_status_of_value d ''result_status'';
     g \<leftarrow> get_str digest_field d ''result_digest'';
     f \<leftarrow> get_str ref_field d ''result_ref'';
     e \<leftarrow> get_opt_str request_id_field d ''external_request_id'';
     m \<leftarrow> get_str cursor_field d ''resume_cursor'';
     get_lit (JStr ''continue_or_terminal'') d ''next_step'';
     c \<leftarrow> get_str cursor_field d ''cursor'';
     check (c = m);
     Some \<lparr>eo_run_id = r, eo_execution_id = x, eo_result_status = s, eo_result_digest = g,
       eo_result_ref = f, eo_external_request_id = e, eo_resume_cursor = m, eo_cursor = c\<rparr> }"

definition validate_terminal :: "json_object \<Rightarrow> terminal_payload option" where
  "validate_terminal d = do {
     base_payload [''run_id'', ''terminal_status'', ''finished_at_ms'', ''final_digest'',
       ''next_step'', ''cursor''] d;
     r \<leftarrow> get_str uuid_field d ''run_id'';
     s \<leftarrow> get_enum run_status_of_value d ''terminal_status'';
     n \<leftarrow> get_int (\<lambda>_. True) d ''finished_at_ms'';
     g \<leftarrow> get_str digest_field d ''final_digest'';
     get_lit JNull d ''next_step'';
     get_lit JNull d ''cursor'';
     check (s \<in> set TERMINAL_RUN_STATUSES);
     Some \<lparr>rt_run_id = r, rt_terminal_status = s, rt_finished_at_ms = n, rt_final_digest = g\<rparr> }"

text \<open>\<open>PHASE_PAYLOADS[phase].model_validate(value)\<close>.\<close>

fun model_validate :: "checkpoint_phase \<Rightarrow> json \<Rightarrow> checkpoint_payload option" where
  "model_validate C_RUN_STARTED (JObj d) = map_option RunStartedPayload (validate_run_started d)"
| "model_validate C_PLAN_AWAITING_APPROVAL (JObj d) =
     map_option PlanAwaitingApprovalPayload (validate_plan_awaiting d)"
| "model_validate C_PLAN_STEP_READY (JObj d) = map_option PlanStepReadyPayload (validate_plan_step d)"
| "model_validate C_PLAN_REPLAN_REQUIRED (JObj d) =
     map_option PlanReplanRequiredPayload (validate_plan_replan d)"
| "model_validate C_MODEL_OUTPUT_COMMITTED (JObj d) =
     map_option ModelOutputPayload (validate_model_output d)"
| "model_validate C_AWAITING_APPROVAL (JObj d) =
     map_option AwaitingApprovalPayload (validate_awaiting_approval d)"
| "model_validate C_EXECUTION_DISPATCHING (JObj d) =
     map_option ExecutionDispatchingPayload (validate_dispatching d)"
| "model_validate C_EXECUTION_RESULT_OBSERVED (JObj d) =
     map_option ExecutionResultObservedPayload (validate_result_observed d)"
| "model_validate C_RUN_TERMINAL (JObj d) = map_option RunTerminalPayload (validate_terminal d)"
| "model_validate _ _ = None"


section \<open>\<open>model_dump\<close>\<close>

fun payload_fields :: "checkpoint_payload \<Rightarrow> json_object" where
  "payload_fields (RunStartedPayload p) =
     [(''tenant_id'', JStr (rs_tenant_id p)), (''workspace_id'', JStr (rs_workspace_id p)),
      (''session_id'', JStr (rs_session_id p)), (''run_id'', JStr (rs_run_id p)),
      (''started_at_ms'', JInt (rs_started_at_ms p)), (''model_cursor'', JStr (rs_model_cursor p)),
      (''next_step'', JStr ''model_inference''), (''cursor'', JStr (rs_cursor p))]"
| "payload_fields (PlanAwaitingApprovalPayload p) =
     [(''run_id'', JStr (pa_run_id p)), (''plan_id'', JStr (pa_plan_id p)),
      (''plan_version'', JInt (pa_plan_version p)), (''plan_digest'', JStr (pa_plan_digest p)),
      (''decision_cursor'', JStr (pa_decision_cursor p)), (''next_step'', JStr ''plan_decision''),
      (''cursor'', JStr (pa_cursor p))]"
| "payload_fields (PlanStepReadyPayload p) =
     [(''run_id'', JStr (ps_run_id p)), (''plan_id'', JStr (ps_plan_id p)),
      (''plan_version'', JInt (ps_plan_version p)), (''plan_digest'', JStr (ps_plan_digest p)),
      (''step_id'', JStr (ps_step_id p)), (''step_run_id'', JStr (ps_step_run_id p)),
      (''attempt'', JInt (ps_attempt p)), (''execution_cursor'', JStr (ps_execution_cursor p)),
      (''next_step'', JStr ''plan_step_execution''), (''cursor'', JStr (ps_cursor p))]"
| "payload_fields (PlanReplanRequiredPayload p) =
     [(''run_id'', JStr (pr_run_id p)), (''plan_id'', JStr (pr_plan_id p)),
      (''plan_version'', JInt (pr_plan_version p)), (''plan_digest'', JStr (pr_plan_digest p)),
      (''failed_step_run_id'', JStr (pr_failed_step_run_id p)),
      (''failure_digest'', JStr (pr_failure_digest p)),
      (''revision_cursor'', JStr ''generate_revision''), (''next_step'', JStr ''plan_revision''),
      (''cursor'', JStr (pr_cursor p))]"
| "payload_fields (ModelOutputPayload p) =
     [(''run_id'', JStr (mo_run_id p)), (''message_id'', JStr (mo_message_id p)),
      (''output_digest'', JStr (mo_output_digest p)), (''model_cursor'', JStr (mo_model_cursor p)),
      (''next_step'', JStr ''tool_plan_or_terminal''), (''cursor'', JStr (mo_cursor p))]"
| "payload_fields (AwaitingApprovalPayload p) =
     [(''run_id'', JStr (aa_run_id p)), (''approval_id'', JStr (aa_approval_id p)),
      (''tool_call_id'', JStr (aa_tool_call_id p)),
      (''approval_expires_at_ms'', JInt (aa_approval_expires_at_ms p)),
      (''resume_cursor'', JStr (aa_resume_cursor p)), (''next_step'', JStr ''approval_resolution''),
      (''cursor'', JStr (aa_cursor p))]"
| "payload_fields (ExecutionDispatchingPayload p) =
     [(''run_id'', JStr (ed_run_id p)), (''execution_id'', JStr (ed_execution_id p)),
      (''tool_call_id'', JStr (ed_tool_call_id p)),
      (''recovery_strategy'', JStr (recovery_strategy_value (ed_recovery_strategy p))),
      (''input_hash'', JStr (ed_input_hash p)), (''input_ref'', JStr (ed_input_ref p)),
      (''idempotency_key'', opt_json (ed_idempotency_key p)),
      (''dispatch_cursor'', JStr (ed_dispatch_cursor p)),
      (''next_step'', JStr ''execution_observation''), (''cursor'', JStr (ed_cursor p))]"
| "payload_fields (ExecutionResultObservedPayload p) =
     [(''run_id'', JStr (eo_run_id p)), (''execution_id'', JStr (eo_execution_id p)),
      (''result_status'', JStr (execution_status_value (eo_result_status p))),
      (''result_digest'', JStr (eo_result_digest p)), (''result_ref'', JStr (eo_result_ref p)),
      (''external_request_id'', opt_json (eo_external_request_id p)),
      (''resume_cursor'', JStr (eo_resume_cursor p)), (''next_step'', JStr ''continue_or_terminal''),
      (''cursor'', JStr (eo_cursor p))]"
| "payload_fields (RunTerminalPayload p) =
     [(''run_id'', JStr (rt_run_id p)),
      (''terminal_status'', JStr (run_status_value (rt_terminal_status p))),
      (''finished_at_ms'', JInt (rt_finished_at_ms p)), (''final_digest'', JStr (rt_final_digest p)),
      (''next_step'', JNull), (''cursor'', JNull)]"

definition model_dump :: "checkpoint_payload \<Rightarrow> json" where
  "model_dump p = JObj ((''schema_version'', JInt 1) # payload_fields p)"

end
