(* ===== verification/Checkpoint_Codec.thy ===== *)
theory Checkpoint_Codec
  imports Checkpoint_Payloads Sha256
begin

text \<open>
  The checkpoint codec of \<open>workflow/recovery.py\<close>: canonical JSON, the secret-key screen, encoding a
  validated payload and decoding a stored checkpoint row with every check on the way. The theorem of
  this theory is that decoding the row that encoding produced gives back the payload, and that
  decoding succeeds on no row whose hash, schema version or scope disagrees with its payload.
\<close>

section \<open>Canonical JSON and the secret screen\<close>

text \<open>
  An exception message that quotes a string with \<open>repr\<close> (the rejected key, the unknown phase) keeps
  its fixed part here.
\<close>

definition canonical_json :: "json \<Rightarrow> string" where
  "canonical_json v = dumps v"

definition SECRET_KEY_MARKERS :: "string list" where
  "SECRET_KEY_MARKERS = [''secret'', ''token'', ''password'', ''apikey'', ''authorization'']"

text \<open>
  \<open>"".join(c for c in key.lower() if c.isalnum())\<close> on the ASCII characters. The bytes of other
  characters are kept; the payload classes have none in their keys.
\<close>

definition lower_char :: "char \<Rightarrow> char" where
  "lower_char c = (let n = of_char c :: nat in if 65 \<le> n \<and> n \<le> 90 then char_of (n + 32) else c)"

definition is_alnum :: "char \<Rightarrow> bool" where
  "is_alnum c \<longleftrightarrow> (let n = of_char c :: nat in
     (48 \<le> n \<and> n \<le> 57) \<or> (65 \<le> n \<and> n \<le> 90) \<or> (97 \<le> n \<and> n \<le> 122) \<or> 128 \<le> n)"

definition normalize_key :: "string \<Rightarrow> string" where
  "normalize_key k = filter is_alnum (map lower_char k)"

fun substring :: "string \<Rightarrow> string \<Rightarrow> bool" where
  "substring p [] = (p = [])"
| "substring p (c # s) = (starts_with p (c # s) \<or> substring p s)"

definition secret_key :: "string \<Rightarrow> bool" where
  "secret_key k \<longleftrightarrow> list_ex (\<lambda>m. substring m (normalize_key k)) SECRET_KEY_MARKERS"

text \<open>\<open>True\<close> when \<open>reject_secret_fields\<close> returns, \<open>False\<close> when it raises \<open>CorruptCheckpointError\<close>.\<close>

fun no_secret_fields :: "json \<Rightarrow> bool" where
  "no_secret_fields (JObj kvs) = list_all (\<lambda>kv. \<not> secret_key (fst kv) \<and> no_secret_fields (snd kv)) kvs"
| "no_secret_fields (JArr xs) = list_all no_secret_fields xs"
| "no_secret_fields _ = True"

definition reject_secret_fields :: "json \<Rightarrow> exc + unit" where
  "reject_secret_fields v =
     ensure (no_secret_fields v) (CorruptCheckpointError ''checkpoint payload contains forbidden key'')"


section \<open>Encoding\<close>

record encoded_payload =
  en_payload_json :: string
  en_payload_hash :: string
  en_schema_version :: int

definition encode_checkpoint_payload :: "int \<Rightarrow> checkpoint_payload \<Rightarrow> exc + encoded_payload" where
  "encode_checkpoint_payload max_bytes p =
     rbind (reject_secret_fields (model_dump p)) (\<lambda>_.
       let encoded = canonical_json (model_dump p) in
       rbind (ensure (\<not> int (length encoded) > max_bytes)
                (CheckpointTooLargeError (''checkpoint payload exceeds '' @ int_repr max_bytes @ '' bytes ('' @
                   int_repr (int (length encoded)) @ '' bytes)''))) (\<lambda>_.
         Inr \<lparr>en_payload_json = encoded, en_payload_hash = sha256_hex encoded,
              en_schema_version = 1\<rparr>))"

definition parse_phase :: "string \<Rightarrow> exc + checkpoint_phase" where
  "parse_phase v = need (checkpoint_phase_of_value v)
     (IncompatibleCheckpointError ''unsupported checkpoint phase'')"

definition validate_phase_payload ::
    "checkpoint_phase \<Rightarrow> json \<Rightarrow> exc + checkpoint_payload" where
  "validate_phase_payload phase payload = need (model_validate phase payload)
     (CorruptCheckpointError ''checkpoint payload does not match phase schema'')"


section \<open>Decoding\<close>

definition decode_json_object :: "string \<Rightarrow> exc + json_object" where
  "decode_json_object s =
     rbind (need (loads s) (CorruptCheckpointError ''checkpoint payload_json is not valid JSON''))
       (\<lambda>v. case v of JObj d \<Rightarrow> Inr d
          | _ \<Rightarrow> Inl (CorruptCheckpointError ''checkpoint payload_json must decode to an object''))"

text \<open>
  \<open>payload_data.get("schema_version") == n\<close>: Python's \<open>True\<close> equals 1. A float is unequal here; one
  that equals \<open>n\<close> in Python is rejected by the payload class just after, with the same exception.
\<close>

definition py_eq_int :: "json option \<Rightarrow> int \<Rightarrow> bool" where
  "py_eq_int v n \<longleftrightarrow> (case v of Some (JInt i) \<Rightarrow> i = n | Some (JBool b) \<Rightarrow> (if b then 1 else 0) = n
     | _ \<Rightarrow> False)"

definition validate_row_scope :: "checkpoint_record \<Rightarrow> checkpoint_payload \<Rightarrow> exc + unit" where
  "validate_row_scope c p =
     rbind (ensure (payload_run_id p = cr_run_id c)
       (CorruptCheckpointError ''checkpoint payload run_id does not match row scope'')) (\<lambda>_.
     case p of
       RunStartedPayload q \<Rightarrow>
         rbind (ensure (rs_tenant_id q = cr_tenant_id c)
           (CorruptCheckpointError ''checkpoint payload tenant_id does not match row scope'')) (\<lambda>_.
         rbind (ensure (rs_workspace_id q = cr_workspace_id c)
           (CorruptCheckpointError ''checkpoint payload workspace_id does not match row scope'')) (\<lambda>_.
         ensure (rs_session_id q = cr_session_id c)
           (CorruptCheckpointError ''checkpoint payload session_id does not match row scope'')))
     | AwaitingApprovalPayload q \<Rightarrow> ensure (cr_approval_id c = Some (aa_approval_id q))
         (CorruptCheckpointError ''checkpoint approval_id does not match payload'')
     | ExecutionDispatchingPayload q \<Rightarrow> ensure (cr_execution_id c = Some (ed_execution_id q))
         (CorruptCheckpointError ''checkpoint execution_id does not match payload'')
     | ExecutionResultObservedPayload q \<Rightarrow> ensure (cr_execution_id c = Some (eo_execution_id q))
         (CorruptCheckpointError ''checkpoint execution_id does not match payload'')
     | _ \<Rightarrow> Inr ())"

definition decode_checkpoint ::
    "checkpoint_record \<Rightarrow> exc + checkpoint_phase \<times> checkpoint_payload" where
  "decode_checkpoint c =
     rbind (ensure (cr_schema_version c = 1)
       (IncompatibleCheckpointError (''unsupported checkpoint schema_version '' @
          int_repr (cr_schema_version c)))) (\<lambda>_.
     rbind (decode_json_object (cr_payload_json c)) (\<lambda>d.
     rbind (ensure (py_eq_int (map_of d ''schema_version'') (cr_schema_version c))
       (CorruptCheckpointError ''checkpoint schema version does not match payload'')) (\<lambda>_.
     rbind (parse_phase (cr_phase c)) (\<lambda>phase.
     rbind (validate_phase_payload phase (JObj d)) (\<lambda>p.
     rbind (ensure (sha256_hex (canonical_json (model_dump p)) = cr_payload_hash c)
       (CorruptCheckpointError ''checkpoint payload hash mismatch'')) (\<lambda>_.
     rbind (reject_secret_fields (model_dump p)) (\<lambda>_.
     rbind (validate_row_scope c p) (\<lambda>_.
       Inr (phase, p)))))))))"


section \<open>Validation depends on the dictionary only\<close>

lemma base_payload_dom:
  "base_payload ks d =
     (if \<forall>k \<in> dom (map_of d). k = ''schema_version'' \<or> k \<in> set ks
      then get_lit (JInt 1) d ''schema_version'' else None)"
  by (auto simp: base_payload_def list_all_iff dom_map_of_conv_image_fst)

lemmas field_defs = get_str_def get_int_def get_opt_str_def get_enum_def get_lit_def check_def

lemmas validate_defs = validate_run_started_def validate_plan_awaiting_def validate_plan_step_def
  validate_plan_replan_def validate_model_output_def validate_awaiting_approval_def
  validate_dispatching_def validate_result_observed_def validate_terminal_def

lemma model_validate_cong:
  assumes "map_of d = map_of d'"
  shows "model_validate ph (JObj d) = model_validate ph (JObj d')"
  by (cases ph) (simp_all only: model_validate.simps validate_defs base_payload_dom field_defs assms)

text \<open>Sorting the keys of an object of scalars leaves the dictionary as it is.\<close>

fun scalar :: "json \<Rightarrow> bool" where
  "scalar (JArr xs) = False"
| "scalar (JObj kvs) = False"
| "scalar _ = True"

lemma sort_keys_scalar: "scalar j \<Longrightarrow> sort_keys j = j"
  by (cases j) auto

lemma sort_keys_flat:
  assumes "\<forall>kv \<in> set d. scalar (snd kv)"
  shows "sort_keys (JObj d) = JObj (sort_key fst d)"
proof -
  have "map (\<lambda>kv. (fst kv, sort_keys (snd kv))) d = d"
    using assms by (intro map_idI) (simp add: sort_keys_scalar)
  then show ?thesis by simp
qed

lemma map_of_sort_key: "distinct (map fst d) \<Longrightarrow> map_of (sort_key fst d) = map_of d"
  by (subst map_of_inject_set) (simp_all add: distinct_sort_key)


section \<open>Dumped payloads\<close>

abbreviation dump_fields :: "checkpoint_payload \<Rightarrow> json_object" where
  "dump_fields p \<equiv> (''schema_version'', JInt 1) # payload_fields p"

lemma scalar_opt_json [simp]: "scalar (opt_json v)"
  by (simp add: opt_json_def split: option.splits)

lemma dump_fields_scalar: "\<forall>kv \<in> set (dump_fields p). scalar (snd kv)"
  by (cases p) simp_all

lemma dump_fields_distinct: "distinct (map fst (dump_fields p))"
  by (cases p) simp_all

lemma json_ok_opt [simp]: "json_ok (opt_json v)"
  by (simp add: opt_json_def split: option.splits)

lemma model_dump_json_ok: "json_ok (model_dump p)"
  using dump_fields_distinct[of p] by (cases p) (simp_all add: model_dump_def)

lemma no_secret_opt [simp]: "no_secret_fields (opt_json v)"
  by (simp add: opt_json_def split: option.splits)

definition payload_keys :: "string list" where
  "payload_keys = [''schema_version'', ''tenant_id'', ''workspace_id'', ''session_id'', ''run_id'',
     ''started_at_ms'', ''model_cursor'', ''next_step'', ''cursor'', ''plan_id'', ''plan_version'',
     ''plan_digest'', ''decision_cursor'', ''step_id'', ''step_run_id'', ''attempt'',
     ''execution_cursor'', ''failed_step_run_id'', ''failure_digest'', ''revision_cursor'',
     ''message_id'', ''output_digest'', ''approval_id'', ''tool_call_id'',
     ''approval_expires_at_ms'', ''resume_cursor'', ''execution_id'', ''recovery_strategy'',
     ''input_hash'', ''input_ref'', ''idempotency_key'', ''dispatch_cursor'', ''result_status'',
     ''result_digest'', ''result_ref'', ''external_request_id'', ''terminal_status'',
     ''finished_at_ms'', ''final_digest'']"

lemma payload_keys_not_secret: "list_all (\<lambda>k. \<not> secret_key k) payload_keys"
  by code_simp

lemma model_dump_no_secret [simp]: "no_secret_fields (model_dump p)"
proof -
  have "\<forall>kv \<in> set (dump_fields p). fst kv \<in> set payload_keys \<and> no_secret_fields (snd kv)"
    by (cases p) (simp_all add: payload_keys_def)
  then show ?thesis
    using payload_keys_not_secret by (auto simp: model_dump_def list_all_iff)
qed

section \<open>Validating a dumped payload\<close>

lemma get_str_SomeD: "get_str ok d k = Some s \<Longrightarrow> ok s"
  by (auto simp: get_str_def split: option.splits json.splits if_splits)

lemma get_int_SomeD: "get_int ok d k = Some s \<Longrightarrow> ok s"
  by (auto simp: get_int_def split: option.splits json.splits if_splits)

lemma get_opt_str_SomeD: "get_opt_str ok d k = Some v \<Longrightarrow> pred_option ok v"
  by (auto simp: get_opt_str_def split: option.splits json.splits if_splits)

lemma check_Some_iff: "check b = Some u \<longleftrightarrow> b"
  by (simp add: check_def)

text \<open>Readers applied to an object literal whose first matching key is known.\<close>

lemma get_hit:
  "get_str ok ((k, JStr s) # d) k = (if ok s then Some s else None)"
  "get_int oki ((k, JInt i) # d) k = (if oki i then Some i else None)"
  "get_enum f ((k, JStr s) # d) k = f s"
  "get_opt_str ok ((k, opt_json v) # d) k = (if pred_option ok v then Some v else None)"
  "get_lit j ((k, j') # d) k = (if j' = j then Some () else None)"
  by (auto simp: field_defs opt_json_def split: option.splits)

lemma get_skip:
  assumes "k' \<noteq> k"
  shows "get_str ok ((k', v) # d) k = get_str ok d k"
  "get_int oki ((k', v) # d) k = get_int oki d k"
  "get_enum f ((k', v) # d) k = get_enum f d k"
  "get_opt_str ok ((k', v) # d) k = get_opt_str ok d k"
  "get_lit j ((k', v) # d) k = get_lit j d k"
  using assms by (simp_all add: field_defs)

lemma base_payload_dump:
  "base_payload ks ((''schema_version'', JInt 1) # d) =
     check (list_all (\<lambda>kv. fst kv = ''schema_version'' \<or> fst kv \<in> set ks) d)"
  by (simp add: base_payload_def get_hit check_def)

lemmas read_simps = get_hit get_skip base_payload_dump check_Some_iff bind_eq_Some_conv

lemmas read_dests = get_str_SomeD get_int_SomeD get_opt_str_SomeD

lemma validate_dump_run_started:
  "validate_run_started d = Some p \<Longrightarrow> validate_run_started (dump_fields (RunStartedPayload p)) = Some p"
  unfolding validate_run_started_def by (auto simp: read_simps dest!: read_dests)

lemma validate_dump_plan_awaiting:
  "validate_plan_awaiting d = Some p \<Longrightarrow>
   validate_plan_awaiting (dump_fields (PlanAwaitingApprovalPayload p)) = Some p"
  unfolding validate_plan_awaiting_def by (auto simp: read_simps dest!: read_dests)

lemma validate_dump_plan_step:
  "validate_plan_step d = Some p \<Longrightarrow> validate_plan_step (dump_fields (PlanStepReadyPayload p)) = Some p"
  unfolding validate_plan_step_def by (auto simp: read_simps dest!: read_dests)

lemma validate_dump_plan_replan:
  "validate_plan_replan d = Some p \<Longrightarrow>
   validate_plan_replan (dump_fields (PlanReplanRequiredPayload p)) = Some p"
  unfolding validate_plan_replan_def by (auto simp: read_simps dest!: read_dests)

lemma validate_dump_model_output:
  "validate_model_output d = Some p \<Longrightarrow> validate_model_output (dump_fields (ModelOutputPayload p)) = Some p"
  unfolding validate_model_output_def by (auto simp: read_simps dest!: read_dests)

lemma validate_dump_awaiting_approval:
  "validate_awaiting_approval d = Some p \<Longrightarrow>
   validate_awaiting_approval (dump_fields (AwaitingApprovalPayload p)) = Some p"
  unfolding validate_awaiting_approval_def by (auto simp: read_simps dest!: read_dests)

lemma validate_dump_dispatching:
  "validate_dispatching d = Some p \<Longrightarrow>
   validate_dispatching (dump_fields (ExecutionDispatchingPayload p)) = Some p"
  unfolding validate_dispatching_def
  by (auto simp: read_simps dest!: read_dests)

lemma validate_dump_result_observed:
  "validate_result_observed d = Some p \<Longrightarrow>
   validate_result_observed (dump_fields (ExecutionResultObservedPayload p)) = Some p"
  unfolding validate_result_observed_def
  by (auto simp: read_simps dest!: read_dests)

lemma validate_dump_terminal:
  "validate_terminal d = Some p \<Longrightarrow> validate_terminal (dump_fields (RunTerminalPayload p)) = Some p"
  unfolding validate_terminal_def by (auto simp: read_simps dest!: read_dests)

lemmas validate_dump = validate_dump_run_started validate_dump_plan_awaiting validate_dump_plan_step
  validate_dump_plan_replan validate_dump_model_output validate_dump_awaiting_approval
  validate_dump_dispatching validate_dump_result_observed validate_dump_terminal

text \<open>A validated payload belongs to its phase and validates again after being dumped.\<close>

lemma model_validate_phase: "model_validate ph j = Some p \<Longrightarrow> payload_phase p = ph"
  by (cases "(ph, j)" rule: model_validate.cases) auto

lemma model_validate_dump:
  assumes "model_validate ph j = Some p"
  shows "model_validate ph (model_dump p) = Some p"
  using assms unfolding model_dump_def
  by (cases "(ph, j)" rule: model_validate.cases)
    (clarsimp simp del: payload_fields.simps; erule validate_dump)+

section \<open>Round trip\<close>

lemma encode_checkpoint_payload_Inr_iff [res_simps]:
  "encode_checkpoint_payload m p = Inr en \<longleftrightarrow>
     int (length (canonical_json (model_dump p))) \<le> m \<and>
     en = \<lparr>en_payload_json = canonical_json (model_dump p),
           en_payload_hash = sha256_hex (canonical_json (model_dump p)), en_schema_version = 1\<rparr>"
  by (auto simp: encode_checkpoint_payload_def reject_secret_fields_def res_simps Let_def)

lemma decode_json_object_dump:
  obtains d where "decode_json_object (canonical_json (model_dump p)) = Inr d"
    and "map_of d = map_of (dump_fields p)"
proof -
  have "loads (canonical_json (model_dump p)) = Some (JObj (sort_key fst (dump_fields p)))"
    unfolding canonical_json_def loads_dumps[OF model_dump_json_ok]
    unfolding model_dump_def sort_keys_flat[OF dump_fields_scalar] ..
  then have "decode_json_object (canonical_json (model_dump p)) = Inr (sort_key fst (dump_fields p))"
    unfolding decode_json_object_def by (simp del: sort_key_simps)
  then show thesis
    using map_of_sort_key[OF dump_fields_distinct] by (rule that)
qed

lemma decode_encoded:
  assumes val: "model_validate ph j = Some p"
    and enc: "encode_checkpoint_payload m p = Inr en"
    and row: "cr_payload_json c = en_payload_json en" "cr_payload_hash c = en_payload_hash en"
      "cr_schema_version c = en_schema_version en" "cr_phase c = checkpoint_phase_value ph"
    and scope: "validate_row_scope c p = Inr ()"
  shows "decode_checkpoint c = Inr (ph, p)"
proof -
  obtain d where dec: "decode_json_object (canonical_json (model_dump p)) = Inr d"
    and d: "map_of d = map_of (dump_fields p)"
    by (rule decode_json_object_dump)
  have "model_validate ph (JObj d) = Some p"
    using model_validate_cong[OF d, of ph] model_validate_dump[OF val] by (simp only: model_dump_def)
  moreover have "py_eq_int (map_of d ''schema_version'') 1"
    unfolding d by (simp add: py_eq_int_def)
  ultimately show ?thesis
    using enc row scope dec
    by (simp add: decode_checkpoint_def res_simps parse_phase_def validate_phase_payload_def
        reject_secret_fields_def)
qed

lemma decode_json_object_Inr_iff [res_simps]:
  "decode_json_object s = Inr d \<longleftrightarrow> loads s = Some (JObj d)"
  by (cases "loads s") (auto simp: decode_json_object_def split: json.splits)

lemma decode_checkpoint_Inr_iff:
  "decode_checkpoint c = Inr (ph, p) \<longleftrightarrow>
     cr_schema_version c = 1 \<and> cr_phase c = checkpoint_phase_value ph \<and>
     (\<exists>d. loads (cr_payload_json c) = Some (JObj d) \<and> py_eq_int (map_of d ''schema_version'') 1 \<and>
        model_validate ph (JObj d) = Some p) \<and>
     sha256_hex (canonical_json (model_dump p)) = cr_payload_hash c \<and>
     validate_row_scope c p = Inr ()"
  unfolding decode_checkpoint_def parse_phase_def validate_phase_payload_def reject_secret_fields_def
  by (auto simp: res_simps checkpoint_phase_of_value_iff)

end
