(* ===== verification/Workflow_Coordinator.thy ===== *)
theory Workflow_Coordinator
  imports Workflow_Mutations Checkpoint_Codec
begin

text \<open>
  \<open>WorkflowCoordinator\<close> of \<open>workflow/coordinator.py\<close>: the operations the rest of the program calls.
  Each runs in one write transaction: \<open>Inl\<close> means that the exception left the transaction and its
  writes were rolled back, \<open>Inr (v, db)\<close> that it committed with the tables \<open>db\<close>. An operation issues
  several statements; \<open>shift n clk\<close> is the clock as seen after the first \<open>n\<close> readings.
  A coordinator bound to a connection of its caller runs the same functions inside the caller's
  transaction.
\<close>

section \<open>Settings\<close>

record settings =
  s_heartbeat_ms :: int
  s_lease_ttl_ms :: int
  s_max_checkpoint_payload_bytes :: int
  s_max_concurrent_runs_per_tenant :: int
  s_max_steps :: int
  s_max_step_attempts :: int
  s_max_tool_rounds :: int

definition repository :: "settings \<Rightarrow> repo_config" where
  "repository s = \<lparr>heartbeat_ms = s_heartbeat_ms s, lease_ttl_ms = s_lease_ttl_ms s,
     plan_round_budget = Some (s_max_steps s * s_max_step_attempts s * s_max_tool_rounds s)\<rparr>"

definition shift :: "nat \<Rightarrow> clock \<Rightarrow> clock" where
  "shift n clk = (\<lambda>i. clk (n + i))"

text \<open>\<open>f"{v}"\<close> of an optional string.\<close>

definition fmt_opt :: "string option \<Rightarrow> string" where
  "fmt_opt v = (case v of None \<Rightarrow> ''None'' | Some s \<Rightarrow> s)"

definition run_started_cursor :: "tenant_context \<Rightarrow> string" where
  "run_started_cursor ctx = ''run:'' @ fmt_opt (run_id ctx) @ '':model_inference''"

definition terminal_digest :: "string option \<Rightarrow> run_status \<Rightarrow> int \<Rightarrow> string" where
  "terminal_digest rid target finished =
     sha256_hex (fmt_opt rid @ '':'' @ run_status_value target @ '':'' @ int_repr finished)"

definition enforce_run_quota :: "settings \<Rightarrow> wf_db \<Rightarrow> string \<Rightarrow> exc + unit" where
  "enforce_run_quota s db t =
     ensure (\<not> int (count_active_runs db t) \<ge> s_max_concurrent_runs_per_tenant s)
       (TenantRunQuotaError ''tenant run quota exceeded'')"


section \<open>Checkpoints\<close>

fun PHASE_ALLOWED_EXECUTION_STATUSES :: "checkpoint_phase \<Rightarrow> execution_status list" where
  "PHASE_ALLOWED_EXECUTION_STATUSES C_EXECUTION_DISPATCHING = [X_REPLAYING, X_EXECUTING]"
| "PHASE_ALLOWED_EXECUTION_STATUSES C_EXECUTION_RESULT_OBSERVED =
     [X_SUCCEEDED, X_FAILED_RETRYABLE, X_FAILED_TERMINAL, X_UNCERTAIN, X_BLOCKED_INCOMPATIBLE,
      X_BLOCKED_CORRUPT]"
| "PHASE_ALLOWED_EXECUTION_STATUSES _ = []"

text \<open>The guards shared by the two execution phases; \<open>x\<close> is the payload's execution identifier.\<close>

definition validate_execution_scope ::
    "checkpoint_phase \<Rightarrow> string \<Rightarrow> string option \<Rightarrow> string option \<Rightarrow> execution_status option \<Rightarrow>
     int option \<Rightarrow> exc + string option \<times> string option" where
  "validate_execution_scope phase x approval execution status ver =
     rbind (ensure (execution = None \<or> execution = Some x)
       (InvalidTransitionError ''checkpoint execution_id does not match payload'')) (\<lambda>_.
     rbind (ensure (\<not> (status \<noteq> None \<and> ver = None))
       (InvalidTransitionError ''execution checkpoint version is required with status guard'')) (\<lambda>_.
     rbind (ensure (\<not> (ver \<noteq> None \<and> status = None))
       (InvalidTransitionError ''execution checkpoint status is required with version guard'')) (\<lambda>_.
     rbind (ensure (case status of None \<Rightarrow> False
              | Some s \<Rightarrow> s \<in> set (PHASE_ALLOWED_EXECUTION_STATUSES phase))
       (InvalidTransitionError (checkpoint_phase_value phase @
          '' checkpoints require execution status in {'' @
          sep_concat '', '' (sort (map execution_status_value
            (PHASE_ALLOWED_EXECUTION_STATUSES phase))) @ ''}''))) (\<lambda>_.
       Inr (approval, Some x)))))"

definition validate_checkpoint_scope ::
    "run_lease \<Rightarrow> checkpoint_phase \<Rightarrow> checkpoint_payload \<Rightarrow> string option \<Rightarrow> string option \<Rightarrow>
     execution_status option \<Rightarrow> int option \<Rightarrow> exc + string option \<times> string option" where
  "validate_checkpoint_scope lease phase p approval execution status ver =
     rbind (ensure (Some (payload_run_id p) = run_id (l_context lease))
       (InvalidTransitionError ''checkpoint payload run_id does not match active run'')) (\<lambda>_.
     case p of
       RunStartedPayload q \<Rightarrow>
         rbind (ensure (rs_tenant_id q = tenant_id (l_context lease))
           (InvalidTransitionError ''checkpoint payload tenant_id does not match active run'')) (\<lambda>_.
         rbind (ensure (rs_workspace_id q = workspace_id (l_context lease))
           (InvalidTransitionError ''checkpoint payload workspace_id does not match active run'')) (\<lambda>_.
         rbind (ensure (Some (rs_session_id q) = session_id (l_context lease))
           (InvalidTransitionError ''checkpoint payload session_id does not match active run'')) (\<lambda>_.
           Inr (None, None))))
     | AwaitingApprovalPayload q \<Rightarrow>
         rbind (ensure (execution = None)
           (InvalidTransitionError ''awaiting_approval checkpoints cannot include execution_id'')) (\<lambda>_.
         rbind (ensure (approval = None \<or> approval = Some (aa_approval_id q))
           (InvalidTransitionError ''checkpoint approval_id does not match payload'')) (\<lambda>_.
           Inr (Some (aa_approval_id q), None)))
     | ExecutionDispatchingPayload q \<Rightarrow>
         validate_execution_scope phase (ed_execution_id q) approval execution status ver
     | ExecutionResultObservedPayload q \<Rightarrow>
         validate_execution_scope phase (eo_execution_id q) approval execution status ver
     | _ \<Rightarrow> Inr (approval, execution))"

definition write_checkpoint ::
    "clock \<Rightarrow> wf_db \<Rightarrow> run_lease \<Rightarrow> string \<Rightarrow> int option \<Rightarrow> string \<Rightarrow> string \<Rightarrow> string \<Rightarrow> int \<Rightarrow>
     string option \<Rightarrow> string option \<Rightarrow> execution_status option \<Rightarrow> int option \<Rightarrow> exc + int \<times> wf_db" where
  "write_checkpoint clk db lease cid seq phase payload hash schema approval execution status ver =
     rbind (insert_checkpoint clk db lease cid seq phase payload hash schema approval execution
              status ver) (\<lambda>(inserted, db').
     rbind (need inserted (StaleFenceError ''run lease is stale'')) (\<lambda>n. Inr (n, db')))"

text \<open>\<open>uuid\<close> is the fresh \<open>uuid4()\<close> used when the caller gives no identifier.\<close>

definition checkpoint ::
    "clock \<Rightarrow> settings \<Rightarrow> wf_db \<Rightarrow> run_lease \<Rightarrow> checkpoint_phase \<Rightarrow> json \<Rightarrow> string \<Rightarrow> string option \<Rightarrow>
     int option \<Rightarrow> string option \<Rightarrow> string option \<Rightarrow> execution_status option \<Rightarrow> int option \<Rightarrow>
     exc + checkpoint_write \<times> wf_db" where
  "checkpoint clk s db lease phase payload uuid cid seq approval execution status ver =
     rbind (validate_phase_payload phase payload) (\<lambda>p.
     rbind (validate_checkpoint_scope lease phase p approval execution status ver)
       (\<lambda>(approval', execution').
     rbind (encode_checkpoint_payload (s_max_checkpoint_payload_bytes s) p) (\<lambda>en.
     let cid' = (if truthy cid then fmt_opt cid else uuid) in
     rbind (write_checkpoint clk db lease cid' seq (checkpoint_phase_value phase)
              (en_payload_json en) (en_payload_hash en) (en_schema_version en)
              approval' execution' status ver) (\<lambda>(n, db').
       Inr (\<lparr>cw_checkpoint_id = cid', cw_checkpoint_seq = n, cw_phase = phase,
              cw_payload_json = en_payload_json en, cw_payload_hash = en_payload_hash en,
              cw_schema_version = en_schema_version en\<rparr>, db')))))"

text \<open>The calls of \<open>checkpoint\<close> inside the coordinator give only a sequence number.\<close>

abbreviation checkpoint_at ::
    "clock \<Rightarrow> settings \<Rightarrow> wf_db \<Rightarrow> run_lease \<Rightarrow> checkpoint_phase \<Rightarrow> json \<Rightarrow> string \<Rightarrow> int \<Rightarrow>
     exc + checkpoint_write \<times> wf_db" where
  "checkpoint_at clk s db lease phase payload uuid n \<equiv>
     checkpoint clk s db lease phase payload uuid None (Some n) None None None None"


section \<open>Starting runs\<close>

definition start_run ::
    "clock \<Rightarrow> settings \<Rightarrow> wf_db \<Rightarrow> tenant_context \<Rightarrow> string \<Rightarrow> exc + run_lease \<times> wf_db" where
  "start_run clk s db ctx rid =
     rbind (enforce_run_quota s db (tenant_id ctx)) (\<lambda>_.
       create_run (clk 0) (repository s) db ctx rid R_RUNNING None None None)"

definition run_started_json :: "tenant_context \<Rightarrow> int \<Rightarrow> json" where
  "run_started_json ctx started = JObj
     [(''tenant_id'', JStr (tenant_id ctx)), (''workspace_id'', JStr (workspace_id ctx)),
      (''session_id'', opt_json (session_id ctx)), (''run_id'', opt_json (run_id ctx)),
      (''started_at_ms'', JInt started), (''model_cursor'', JStr (run_started_cursor ctx)),
      (''cursor'', JStr (run_started_cursor ctx))]"

text \<open>The tail both \<open>RUN_STARTED\<close> starters share: read the new run back and write checkpoint 1.\<close>

definition write_run_started ::
    "clock \<Rightarrow> settings \<Rightarrow> wf_db \<Rightarrow> tenant_context \<Rightarrow> run_lease \<Rightarrow> string \<Rightarrow> string \<Rightarrow>
     exc + run_lease \<times> wf_db" where
  "write_run_started clk s db ctx lease uuid missing =
     rbind (get_run db ctx) (\<lambda>found.
     rbind (need found (RuntimeError missing)) (\<lambda>record.
     rbind (checkpoint_at clk s db lease C_RUN_STARTED
              (run_started_json ctx (rr_created_at record)) uuid 1) (\<lambda>(_, db').
       Inr (lease, db'))))"

definition start_run_with_checkpoint ::
    "clock \<Rightarrow> settings \<Rightarrow> wf_db \<Rightarrow> tenant_context \<Rightarrow> string \<Rightarrow> string \<Rightarrow> exc + run_lease \<times> wf_db" where
  "start_run_with_checkpoint clk s db ctx rid uuid =
     rbind (enforce_run_quota s db (tenant_id ctx)) (\<lambda>_.
     rbind (create_run (clk 0) (repository s) db ctx rid R_RUNNING None None None) (\<lambda>(lease, db1).
       write_run_started (shift 1 clk) s db1 ctx lease uuid ''run record missing after creation''))"

definition plan_decision_cursor :: "string \<Rightarrow> int \<Rightarrow> string" where
  "plan_decision_cursor pid pver = ''plan:'' @ pid @ '':v'' @ int_repr pver @ '':decision''"

text \<open>
  \<open>PlanAwaitingApprovalPayload(..)\<close> validates in its constructor; pydantic's \<open>ValidationError\<close> is a
  \<open>ValueError\<close> and is not translated here.
\<close>

definition plan_awaiting_json :: "tenant_context \<Rightarrow> string \<Rightarrow> int \<Rightarrow> string \<Rightarrow> exc + json" where
  "plan_awaiting_json ctx pid pver digest =
     rbind (need (model_validate C_PLAN_AWAITING_APPROVAL (JObj
        [(''run_id'', opt_json (run_id ctx)), (''plan_id'', JStr pid), (''plan_version'', JInt pver),
         (''plan_digest'', JStr digest),
         (''decision_cursor'', JStr (plan_decision_cursor pid pver)),
         (''cursor'', JStr (plan_decision_cursor pid pver))])) (ValueError ''ValidationError''))
     (\<lambda>p. Inr (model_dump p))"

definition start_plan_run_with_checkpoint ::
    "clock \<Rightarrow> settings \<Rightarrow> wf_db \<Rightarrow> tenant_context \<Rightarrow> string \<Rightarrow> string \<Rightarrow> int \<Rightarrow> string \<Rightarrow> string \<Rightarrow>
     exc + run_lease \<times> wf_db" where
  "start_plan_run_with_checkpoint clk s db ctx rid pid pver digest uuid =
     rbind (ensure (plan_version_exists db ctx pid pver (Some digest))
       (StaleFenceError ''Plan version or digest is stale'')) (\<lambda>_.
     rbind (enforce_run_quota s db (tenant_id ctx)) (\<lambda>_.
     rbind (create_run (clk 0) (repository s) db ctx rid R_AWAITING_USER (Some pid) (Some pver)
              (Some pver)) (\<lambda>(lease, db1).
     rbind (plan_awaiting_json ctx pid pver digest) (\<lambda>payload.
     rbind (checkpoint_at (shift 1 clk) s db1 lease C_PLAN_AWAITING_APPROVAL payload uuid 1)
       (\<lambda>(_, db2). Inr (lease, db2))))))"

definition start_approved_plan_run_with_checkpoint ::
    "clock \<Rightarrow> settings \<Rightarrow> wf_db \<Rightarrow> tenant_context \<Rightarrow> string \<Rightarrow> string \<Rightarrow> int \<Rightarrow> string \<Rightarrow> string \<Rightarrow>
     exc + run_lease \<times> wf_db" where
  "start_approved_plan_run_with_checkpoint clk s db ctx rid pid pver digest uuid =
     rbind (ensure (plan_version_exists db ctx pid pver (Some digest))
       (StaleFenceError ''Plan version or digest is stale'')) (\<lambda>_.
     rbind (enforce_run_quota s db (tenant_id ctx)) (\<lambda>_.
     rbind (create_run (clk 0) (repository s) db ctx rid R_RUNNING (Some pid) (Some pver)
              (Some pver)) (\<lambda>(lease, db1).
       write_run_started (shift 1 clk) s db1 ctx lease uuid
         ''Plan rerun record missing after creation'')))"


section \<open>Acquiring leases\<close>

definition need_lease ::
    "exc \<Rightarrow> exc + run_lease option \<times> wf_db \<Rightarrow> exc + run_lease \<times> wf_db" where
  "need_lease e m = rbind m (\<lambda>(l, db'). rbind (need l e) (\<lambda>lease. Inr (lease, db')))"

definition acquire_run ::
    "clock \<Rightarrow> settings \<Rightarrow> wf_db \<Rightarrow> tenant_context \<Rightarrow> string \<Rightarrow> exc + run_lease \<times> wf_db" where
  "acquire_run clk s db ctx rid =
     need_lease (LeaseConflictError ''run lease is still current'')
       (take_over_run (clk 0) (repository s) db ctx rid)"

definition co_resume_waiting_run ::
    "clock \<Rightarrow> settings \<Rightarrow> wf_db \<Rightarrow> tenant_context \<Rightarrow> string \<Rightarrow> exc + run_lease \<times> wf_db" where
  "co_resume_waiting_run clk s db ctx rid =
     need_lease (LeaseConflictError ''awaiting_user run could not be resumed'')
       (resume_waiting_run (clk 0) (repository s) db ctx rid)"

definition co_resume_waiting_plan_run ::
    "clock \<Rightarrow> settings \<Rightarrow> wf_db \<Rightarrow> tenant_context \<Rightarrow> string \<Rightarrow> string \<Rightarrow> int \<Rightarrow> int \<Rightarrow>
     exc + run_lease \<times> wf_db" where
  "co_resume_waiting_plan_run clk s db ctx rid pid pver expected =
     need_lease (StaleFenceError ''waiting Plan run fence is stale'')
       (resume_waiting_plan_run (clk 0) (repository s) db ctx rid pid pver expected)"

definition co_fence_waiting_plan_run ::
    "clock \<Rightarrow> settings \<Rightarrow> wf_db \<Rightarrow> tenant_context \<Rightarrow> string \<Rightarrow> string \<Rightarrow> int \<Rightarrow> int \<Rightarrow> string \<Rightarrow> string \<Rightarrow>
     exc + run_lease \<times> wf_db" where
  "co_fence_waiting_plan_run clk s db ctx rid pid pver expected digest uuid =
     rbind (need_lease (StaleFenceError ''waiting Plan run fence is stale'')
       (fence_waiting_plan_run (clk 0) (repository s) db ctx rid pid pver digest expected))
       (\<lambda>(lease, db1).
     rbind (plan_awaiting_json ctx pid pver digest) (\<lambda>payload.
     rbind (checkpoint_at (shift 1 clk) s db1 lease C_PLAN_AWAITING_APPROVAL payload uuid
              (get_next_checkpoint_seq db1 ctx)) (\<lambda>(_, db2). Inr (lease, db2))))"


section \<open>Ending runs\<close>

definition run_terminal_json :: "string option \<Rightarrow> run_status \<Rightarrow> int \<Rightarrow> json" where
  "run_terminal_json rid target finished = JObj
     [(''run_id'', opt_json rid), (''terminal_status'', JStr (run_status_value target)),
      (''finished_at_ms'', JInt finished),
      (''final_digest'', JStr (terminal_digest rid target finished))]"

text \<open>The tail both terminal operations share: read the finish time back and write the checkpoint.\<close>

definition write_run_terminal ::
    "clock \<Rightarrow> settings \<Rightarrow> wf_db \<Rightarrow> tenant_context \<Rightarrow> run_lease \<Rightarrow> run_status \<Rightarrow> string \<Rightarrow> string \<Rightarrow>
     exc + run_lease \<times> wf_db" where
  "write_run_terminal clk s db ctx lease target uuid missing =
     rbind (get_run db ctx) (\<lambda>found.
     rbind (need found (RuntimeError missing)) (\<lambda>record.
     rbind (need (rr_finished_at record) (RuntimeError missing)) (\<lambda>finished.
     rbind (checkpoint_at clk s db lease C_RUN_TERMINAL
              (run_terminal_json (run_id ctx) target finished) uuid
              (get_next_checkpoint_seq db ctx)) (\<lambda>(_, db').
       Inr (lease, db')))))"

definition co_cancel_waiting_plan_run ::
    "clock \<Rightarrow> settings \<Rightarrow> wf_db \<Rightarrow> tenant_context \<Rightarrow> string \<Rightarrow> string \<Rightarrow> int \<Rightarrow> int \<Rightarrow> string \<Rightarrow>
     exc + run_lease \<times> wf_db" where
  "co_cancel_waiting_plan_run clk s db ctx rid pid pver expected uuid =
     rbind (need_lease (StaleFenceError ''waiting Plan run fence is stale'')
       (cancel_waiting_plan_run (clk 0) (repository s) db ctx rid pid pver expected))
       (\<lambda>(lease, db1).
     write_run_terminal (shift 1 clk) s db1 ctx lease R_CANCELLED uuid
       ''cancelled Plan run missing finished_at'')"

definition heartbeat :: "clock \<Rightarrow> settings \<Rightarrow> wf_db \<Rightarrow> run_lease \<Rightarrow> exc + run_lease \<times> wf_db" where
  "heartbeat clk s db lease =
     need_lease (StaleFenceError ''run lease is stale'')
       (refresh_lease (clk 0) (repository s) db lease)"

definition transition_run ::
    "clock \<Rightarrow> settings \<Rightarrow> wf_db \<Rightarrow> run_lease \<Rightarrow> run_status \<Rightarrow> exc + run_lease \<times> wf_db" where
  "transition_run clk s db lease target =
     need_lease (StaleFenceError ''run lease is stale'')
       (transition_run_row (clk 0) (repository s) db lease target)"

definition finish_run ::
    "clock \<Rightarrow> settings \<Rightarrow> wf_db \<Rightarrow> run_lease \<Rightarrow> run_status \<Rightarrow> exc + run_lease \<times> wf_db" where
  "finish_run clk s db lease target =
     rbind (ensure (target \<in> set TERMINAL_RUN_STATUSES)
       (InvalidTransitionError (run_status_value target @ '' is not a terminal run status''))) (\<lambda>_.
     rbind (ensure (\<not> (target = R_COMPLETED \<and> has_nonterminal_execution db (l_context lease)))
       (InvalidTransitionError ''run cannot complete while executions are nonterminal'')) (\<lambda>_.
     need_lease (StaleFenceError ''run lease is stale'')
       (transition_run_row (clk 0) (repository s) db lease target)))"

definition finish_run_with_checkpoint ::
    "clock \<Rightarrow> settings \<Rightarrow> wf_db \<Rightarrow> run_lease \<Rightarrow> run_status \<Rightarrow> string \<Rightarrow> exc + run_lease \<times> wf_db" where
  "finish_run_with_checkpoint clk s db lease target uuid =
     rbind (finish_run clk s db lease target) (\<lambda>(transitioned, db1).
     write_run_terminal (shift 1 clk) s db1 (l_context lease) transitioned target uuid
       ''terminal run record missing finished_at'')"


section \<open>Cancellation\<close>

text \<open>
  The fields of \<open>PlanReference\<close> plus the run status, the data of a \<open>plan.run_status\<close> event, and what
  the operation does with the event once its transaction has ended.
\<close>

record plan_run_event =
  pe_context :: tenant_context
  pe_plan_id :: string
  pe_plan_version :: int
  pe_aggregate_version :: int
  pe_status :: run_status

datatype event_handoff = No_event | Publish plan_run_event | Defer plan_run_event

record coordinator_env =
  ce_connection :: bool
  ce_event_router :: bool
  ce_post_commit_events :: bool

text \<open>
  \<open>plans_get\<close> stands for \<open>PlanRepository.get\<close> on the same connection, of which only the identifier,
  the current version and the aggregate version are used: they are the contents of the event.
\<close>

definition cancellation_event ::
    "(string \<Rightarrow> exc + (string \<times> int \<times> int) option) \<Rightarrow> tenant_context \<Rightarrow> run_record option \<Rightarrow>
     run_record \<Rightarrow> exc + plan_run_event option" where
  "cancellation_event plans_get ctx before record =
     (case (before, rr_plan_id record) of
        (Some b, Some pid) \<Rightarrow>
          if rr_status b = R_AWAITING_USER then
            rbind (plans_get pid) (\<lambda>plan. case plan of
              None \<Rightarrow> Inr None
            | Some (pid', cur, agg) \<Rightarrow>
                rbind (ensure (session_id ctx \<noteq> None \<and> run_id ctx \<noteq> None) AssertionError) (\<lambda>_.
                  Inr (Some \<lparr>pe_context = ctx, pe_plan_id = pid', pe_plan_version = cur,
                         pe_aggregate_version = agg, pe_status = R_CANCELLED\<rparr>)))
          else Inr None
      | _ \<Rightarrow> Inr None)"

text \<open>The lease the cancellation writes its checkpoint under is rebuilt from the run it read back.\<close>

definition cancelled_run_lease :: "tenant_context \<Rightarrow> run_record \<Rightarrow> run_lease" where
  "cancelled_run_lease ctx record =
     \<lparr>l_context = ctx, l_owner = (if truthy (rr_lease_owner record) then fmt_opt (rr_lease_owner record)
        else []), l_fencing_token = rr_fencing_token record, l_version = rr_version record,
      l_expires_at = (case rr_lease_expires_at record of None \<Rightarrow> 0 | Some e \<Rightarrow> e)\<rparr>"

text \<open>Whether the latest checkpoint already closes the run; an unknown phase raises.\<close>

definition terminal_checkpoint_written :: "wf_db \<Rightarrow> tenant_context \<Rightarrow> exc + bool" where
  "terminal_checkpoint_written db ctx =
     (case get_latest_checkpoint db ctx of
        None \<Rightarrow> Inr False
      | Some latest \<Rightarrow>
          rbind (need (checkpoint_phase_of_value (cr_phase latest)) (ValueError ''CheckpointPhase''))
            (\<lambda>phase. Inr (phase = C_RUN_TERMINAL)))"

definition hand_off :: "coordinator_env \<Rightarrow> plan_run_event option \<Rightarrow> event_handoff" where
  "hand_off env ev =
     (case ev of None \<Rightarrow> No_event
      | Some e \<Rightarrow> if \<not> ce_event_router env then No_event
          else if \<not> ce_connection env then Publish e else Defer e)"

text \<open>The second half: write the closing checkpoint of a cancelled run and prepare its event.\<close>

definition close_cancelled_run ::
    "coordinator_env \<Rightarrow> (string \<Rightarrow> exc + (string \<times> int \<times> int) option) \<Rightarrow> clock \<Rightarrow> settings \<Rightarrow> wf_db \<Rightarrow>
     tenant_context \<Rightarrow> string \<Rightarrow> run_record option \<Rightarrow> run_record \<Rightarrow> int \<Rightarrow>
     exc + (run_record \<times> event_handoff) \<times> wf_db" where
  "close_cancelled_run env plans_get clk s db ctx uuid before record finished =
     rbind (terminal_checkpoint_written db ctx) (\<lambda>closed.
     if closed then Inr ((record, No_event), db)
     else
       rbind (checkpoint_at clk s db (cancelled_run_lease ctx record) C_RUN_TERMINAL
         (run_terminal_json (run_id ctx) R_CANCELLED finished) uuid
         (get_next_checkpoint_seq db ctx)) (\<lambda>(_, db').
       rbind (cancellation_event plans_get ctx before record) (\<lambda>ev.
         Inr ((record, hand_off env ev), db'))))"

definition request_cancellation ::
    "coordinator_env \<Rightarrow> (string \<Rightarrow> exc + (string \<times> int \<times> int) option) \<Rightarrow> clock \<Rightarrow> settings \<Rightarrow> wf_db \<Rightarrow>
     tenant_context \<Rightarrow> string \<Rightarrow> exc + (run_record \<times> event_handoff) \<times> wf_db" where
  "request_cancellation env plans_get clk s db ctx uuid =
     (if ce_connection env \<and> ce_event_router env \<and> \<not> ce_post_commit_events env
      then Inl (ValueError
        ''externally owned cancellation transactions require a PostCommitEventQueue'')
      else
        rbind (get_run db ctx) (\<lambda>before.
        rbind (request_cancellation_row (clk 0) (repository s) db ctx) (\<lambda>(found, db1).
        rbind (need found (RuntimeError ''run record missing for cancellation'')) (\<lambda>record.
        case rr_finished_at record of
          None \<Rightarrow> Inr ((record, No_event), db1)
        | Some finished \<Rightarrow>
            if rr_status record \<noteq> R_CANCELLED then Inr ((record, No_event), db1)
            else close_cancelled_run env plans_get (shift 1 clk) s db1 ctx uuid before record finished))))"

definition raise_if_cancel_requested :: "wf_db \<Rightarrow> tenant_context \<Rightarrow> exc + unit" where
  "raise_if_cancel_requested db ctx =
     rbind (get_run db ctx) (\<lambda>found.
     rbind (need found (PlanExecutionBlocked ''run is missing'')) (\<lambda>run.
       ensure (\<not> (rr_cancel_requested_at run \<noteq> None \<or> rr_status run = R_CANCELLED))
         PlanCancellationRequested))"


section \<open>Approvals and executions\<close>

text \<open>
  The expiry of an approval is committed before the exception that reports it is raised, so the
  operation returns its outcome and the tables separately.
\<close>

definition decide_approval ::
    "clock \<Rightarrow> wf_db \<Rightarrow> tenant_context \<Rightarrow> string \<Rightarrow> bool \<Rightarrow> int \<Rightarrow> (exc + approval_record) \<times> wf_db" where
  "decide_approval clk db ctx i approved ver =
     (case resolve_approval (clk 0) db ctx i approved ver of
        Inl e \<Rightarrow> (Inl e, db)
      | Inr (Some a, db1) \<Rightarrow> (Inr a, db1)
      | Inr (None, db1) \<Rightarrow>
          (case mark_approval_expired (clk 1) db1 ctx i ver of
             (True, db2) \<Rightarrow> (Inl (InvalidTransitionError ''approval expired''), db2)
           | (False, db2) \<Rightarrow>
               (case get_approval db2 ctx i of
                  None \<Rightarrow> (Inl (VersionConflictError ''approval record not found''), db)
                | Some cur \<Rightarrow>
                    if ar_status cur \<noteq> A_AWAITING_USER
                    then (Inl (VersionConflictError ''approval already resolved''), db)
                    else if ar_version cur \<noteq> ver
                    then (Inl (VersionConflictError ''approval version conflict''), db)
                    else (Inl (InvalidTransitionError ''approval could not be resolved''), db))))"

definition create_approval ::
    "clock \<Rightarrow> wf_db \<Rightarrow> run_lease \<Rightarrow> string \<Rightarrow> string \<Rightarrow> int \<Rightarrow> exc + approval_record \<times> wf_db" where
  "create_approval clk db lease i tool_call expires =
     rbind (insert_approval clk db lease i tool_call expires) (\<lambda>(inserted, db').
     rbind (need inserted (StaleFenceError ''run lease is stale'')) (\<lambda>a. Inr (a, db')))"

text \<open>\<open>None\<close> reports a lost lease or an execution of the run that has not ended.\<close>

definition create_execution ::
    "clock \<Rightarrow> settings \<Rightarrow> wf_db \<Rightarrow> run_lease \<Rightarrow> string \<Rightarrow> string option \<Rightarrow> string \<Rightarrow> string \<Rightarrow>
     string \<Rightarrow> recovery_strategy \<Rightarrow> string option \<Rightarrow> string \<Rightarrow> string \<Rightarrow> execution_status \<Rightarrow>
     exc + execution_record option \<times> wf_db" where
  "create_execution clk s db lease i approval tool_call name kind strategy idem payload hash status =
     insert_execution clk (repository s) db lease i approval tool_call name kind strategy idem
       payload hash status"

definition execution_conflict :: "int \<Rightarrow> wf_db \<Rightarrow> run_lease \<Rightarrow> exc" where
  "execution_conflict now db lease =
     (if \<not> has_current_lease now db lease then StaleFenceError ''run lease is stale''
      else VersionConflictError ''execution version conflict'')"

definition transition_execution ::
    "clock \<Rightarrow> wf_db \<Rightarrow> run_lease \<Rightarrow> string \<Rightarrow> execution_status \<Rightarrow> int \<Rightarrow> execution_status \<Rightarrow>
     exc + run_lease \<times> wf_db" where
  "transition_execution clk db lease i expected_status expected_version target =
     rbind (transition_execution_row clk db lease i expected_status expected_version target)
       (\<lambda>(done, db').
     rbind (need done (execution_conflict (clk 2) db' lease)) (\<lambda>_. Inr (lease, db')))"

definition complete_execution ::
    "clock \<Rightarrow> wf_db \<Rightarrow> run_lease \<Rightarrow> string \<Rightarrow> execution_status \<Rightarrow> int \<Rightarrow> execution_status \<Rightarrow>
     string option \<Rightarrow> string option \<Rightarrow> string option \<Rightarrow> exc + execution_recovery_record \<times> wf_db" where
  "complete_execution clk db lease i expected_status expected_version target ext ref digest =
     rbind (update_execution_metadata clk db lease i expected_status expected_version ext ref digest
              (Some target)) (\<lambda>(done, db').
     rbind (need done (execution_conflict (clk 2) db' lease)) (\<lambda>x. Inr (x, db')))"

definition record_external_request_id ::
    "clock \<Rightarrow> wf_db \<Rightarrow> run_lease \<Rightarrow> string \<Rightarrow> execution_status \<Rightarrow> int \<Rightarrow> string \<Rightarrow>
     exc + execution_recovery_record \<times> wf_db" where
  "record_external_request_id clk db lease i expected_status expected_version ext =
     rbind (update_execution_metadata clk db lease i expected_status expected_version (Some ext)
              None None None) (\<lambda>(done, db').
     rbind (need done (execution_conflict (clk 2) db' lease)) (\<lambda>x. Inr (x, db')))"

end
