(* ===== verification/Workflow_Evolution.thy ===== *)
theory Workflow_Evolution
  imports Workflow_Coordinator
begin

text \<open>
  How the repository statements change the tables. A scope selects at most one run row; every update of
  a run row is an instance of \<open>run_evolves\<close> (identity and creation columns kept, version plus one, the
  fencing token kept with its owner or plus one, a legal status change at most), every update of an
  approval or execution row of \<open>approval_evolves\<close> or \<open>exec_evolves\<close>, and checkpoints are only added.
\<close>

section \<open>Scopes select one row\<close>

lemma context_predicate_iff [rows_simps]:
  "context_predicate ctx r \<longleftrightarrow> ctx_scope ctx = Some (run_scope r)"
  by (auto simp: context_predicate_def ctx_scope_def run_scope_def split: option.splits)

lemma execution_scope_predicate_iff [rows_simps]:
  "execution_scope_predicate ctx x \<longleftrightarrow> ctx_scope ctx = Some (exec_scope x)"
  by (auto simp: execution_scope_predicate_def ctx_scope_def exec_scope_def split: option.splits)

lemma checkpoint_scope_predicate_iff [rows_simps]:
  "checkpoint_scope_predicate ctx c \<longleftrightarrow> ctx_scope ctx = Some (checkpoint_scope c)"
  by (auto simp: checkpoint_scope_predicate_def ctx_scope_def checkpoint_scope_def split: option.splits)

lemma approval_scope_predicate_iff [rows_simps]:
  "approval_scope_predicate ctx i a \<longleftrightarrow> ctx_scope ctx = Some (approval_scope a) \<and> a_approval_id a = i"
  by (auto simp: approval_scope_predicate_def ctx_scope_def approval_scope_def split: option.splits)

text \<open>A lease that has not run out at the database time \<open>now\<close>.\<close>

definition live :: "int \<Rightarrow> run_row \<Rightarrow> bool" where
  "live now r \<longleftrightarrow> (case r_lease_expires_at r of None \<Rightarrow> False | Some e \<Rightarrow> e > now)"

definition holds :: "run_lease \<Rightarrow> run_row \<Rightarrow> bool" where
  "holds lease r \<longleftrightarrow> ctx_scope (l_context lease) = Some (run_scope r) \<and>
     r_lease_owner r = Some (l_owner lease) \<and> r_fencing_token r = l_fencing_token lease \<and>
     r_version r = l_version lease"

lemma current_lease_predicate_iff [rows_simps]:
  "current_lease_predicate lease now r \<longleftrightarrow> holds lease r \<and> live now r"
  by (auto simp: current_lease_predicate_def holds_def live_def ctx_scope_def run_scope_def
      split: option.splits)

lemma has_current_lease_iff:
  "has_current_lease now db lease \<longleftrightarrow> (\<exists>r \<in> set (agent_runs db). holds lease r \<and> live now r)"
  by (auto simp: has_current_lease_def find_None_iff rows_simps)

lemma find_run_row:
  assumes "schema_ok db" "r \<in> set (agent_runs db)" "ctx_scope ctx = Some (run_scope r)"
  shows "List.find (context_predicate ctx) (agent_runs db) = Some r"
  using assms
  by (intro find_by_key[where k = r_run_id]) (auto simp: schema_ok_def rows_simps run_scope_def)

definition run_of_row :: "run_row \<Rightarrow> run_record" where
  "run_of_row r = \<lparr>rr_context = \<lparr>tenant_id = r_tenant_id r, workspace_id = r_workspace_id r,
       session_id = Some (r_session_id r), run_id = Some (r_run_id r), request_started_at_ms = 0\<rparr>,
     rr_status = r_status r, rr_plan_id = r_plan_id r,
     rr_initial_plan_version = r_initial_plan_version r,
     rr_active_plan_version = r_active_plan_version r,
     rr_cancel_requested_at = r_cancel_requested_at r,
     rr_runtime_instance_id = r_runtime_instance_id r,
     rr_lease_owner = r_lease_owner r, rr_fencing_token = r_fencing_token r,
     rr_lease_expires_at = r_lease_expires_at r, rr_heartbeat_at = r_heartbeat_at r,
     rr_version = r_version r, rr_created_at = r_created_at r,
     rr_updated_at = r_updated_at r, rr_finished_at = r_finished_at r\<rparr>"

lemma run_from_row_ok: "run_row_ok r \<Longrightarrow> run_from_row r = Inr (run_of_row r)"
  by (auto simp: run_from_row_def run_of_row_def run_row_ok_def binding_complete_def mk_context_def
      res_simps post_init_def require_non_empty_def)

lemma run_from_row_Inr: "run_from_row r = Inr rec \<Longrightarrow> rec = run_of_row r"
  by (auto simp: run_from_row_def run_of_row_def res_simps split: if_splits)

lemma run_of_row_simps [simp]:
  "rr_status (run_of_row r) = r_status r" "rr_plan_id (run_of_row r) = r_plan_id r"
  "rr_cancel_requested_at (run_of_row r) = r_cancel_requested_at r"
  "rr_lease_owner (run_of_row r) = r_lease_owner r"
  "rr_fencing_token (run_of_row r) = r_fencing_token r"
  "rr_lease_expires_at (run_of_row r) = r_lease_expires_at r"
  "rr_version (run_of_row r) = r_version r" "rr_created_at (run_of_row r) = r_created_at r"
  "rr_finished_at (run_of_row r) = r_finished_at r"
  by (simp_all add: run_of_row_def)

lemma get_run_Some:
  "get_run db ctx = Inr (Some rec) \<Longrightarrow>
   \<exists>r \<in> set (agent_runs db). ctx_scope ctx = Some (run_scope r) \<and> rec = run_of_row r"
  by (auto simp: get_run_def res_simps rows_simps dest!: find_SomeD run_from_row_Inr
      split: option.splits)

lemma get_run_row:
  assumes "schema_ok db" "r \<in> set (agent_runs db)" "ctx_scope ctx = Some (run_scope r)"
  shows "get_run db ctx = Inr (Some (run_of_row r))"
  using find_run_row[OF assms] schema_okD(2)[OF assms(1,2)]
  by (simp add: get_run_def run_from_row_ok)

lemma get_run_None_iff:
  assumes "schema_ok db"
  shows "get_run db ctx = Inr None \<longleftrightarrow> (\<forall>r \<in> set (agent_runs db). ctx_scope ctx \<noteq> Some (run_scope r))"
proof
  show "\<forall>r \<in> set (agent_runs db). ctx_scope ctx \<noteq> Some (run_scope r)" if "get_run db ctx = Inr None"
    using that get_run_row[OF assms, of _ ctx] by fastforce
  show "get_run db ctx = Inr None" if "\<forall>r \<in> set (agent_runs db). ctx_scope ctx \<noteq> Some (run_scope r)"
    using that by (auto simp: get_run_def rows_simps split: option.splits dest!: find_SomeD)
qed

lemma get_run_cases [consumes 1, case_names missing found]:
  assumes "schema_ok db"
  obtains (missing) "get_run db ctx = Inr None"
      "\<forall>r \<in> set (agent_runs db). ctx_scope ctx \<noteq> Some (run_scope r)"
  | (found) r where "r \<in> set (agent_runs db)" "ctx_scope ctx = Some (run_scope r)"
      "get_run db ctx = Inr (Some (run_of_row r))"
  using get_run_row[OF assms, of _ ctx] get_run_None_iff[OF assms, of ctx] by blast

section \<open>How one operation changes the rows\<close>

definition run_evolves :: "run_row \<Rightarrow> run_row \<Rightarrow> bool" where
  "run_evolves r r' \<longleftrightarrow>
     run_scope r' = run_scope r \<and> (run_row_ok r \<longrightarrow> run_row_ok r') \<and>
     r_plan_id r' = r_plan_id r \<and> r_initial_plan_version r' = r_initial_plan_version r \<and>
     r_created_at r' = r_created_at r \<and>
     r_version r' = r_version r + 1 \<and>
     (r_fencing_token r' = r_fencing_token r \<and> r_lease_owner r' = r_lease_owner r \<or>
      r_fencing_token r' = r_fencing_token r + 1) \<and>
     (r_status r' = r_status r \<or> r_status r' \<in> set (LEGAL_RUN_TRANSITIONS (r_status r))) \<and>
     (r_cancel_requested_at r \<noteq> None \<longrightarrow> r_cancel_requested_at r' = r_cancel_requested_at r) \<and>
     (if run_terminal (r_status r') \<and> \<not> run_terminal (r_status r) then r_finished_at r' \<noteq> None
      else r_finished_at r' = r_finished_at r)"

definition run_fresh :: "run_row \<Rightarrow> bool" where
  "run_fresh r \<longleftrightarrow> run_row_ok r \<and> r_version r = 1 \<and> r_fencing_token r = 1 \<and> r_lease_owner r \<noteq> None \<and>
     r_status r \<in> {R_RUNNING, R_AWAITING_USER} \<and> r_cancel_requested_at r = None \<and>
     r_finished_at r = None"

definition runs_evolved :: "scope option \<Rightarrow> run_row list \<Rightarrow> run_row list \<Rightarrow> bool" where
  "runs_evolved sc rows rows' \<longleftrightarrow> list_all2 (\<lambda>r r'. r' = r \<or> run_evolves r r' \<and> sc = Some (run_scope r)) rows rows'"

lemma runs_evolved_refl [simp]: "runs_evolved sc rows rows"
  by (simp add: runs_evolved_def list.rel_refl)

lemma runs_evolved_upd:
  assumes "\<And>r. r \<in> set rows \<Longrightarrow> p r \<Longrightarrow> run_evolves r (f r) \<and> sc = Some (run_scope r)"
  shows "runs_evolved sc rows (upd_where p f rows)"
  using assms unfolding runs_evolved_def by (induction rows) auto

lemma runs_evolved_keys:
  assumes "runs_evolved sc rows rows'"
  shows "map run_scope rows' = map run_scope rows" "map r_run_id rows' = map r_run_id rows"
  using assms unfolding runs_evolved_def
  by (induction rule: list_all2_induct) (auto simp: run_evolves_def run_scope_def)

lemma runs_evolved_ok:
  "runs_evolved sc rows rows' \<Longrightarrow> \<forall>r \<in> set rows. run_row_ok r \<Longrightarrow> \<forall>r \<in> set rows'. run_row_ok r"
  unfolding runs_evolved_def by (induction rule: list_all2_induct) (auto simp: run_evolves_def)

text \<open>An operation updates run rows in place, or adds one row.\<close>

definition only_runs :: "scope option \<Rightarrow> wf_db \<Rightarrow> wf_db \<Rightarrow> bool" where
  "only_runs sc db db' \<longleftrightarrow>
     (\<exists>rows. db' = db\<lparr>agent_runs := rows\<rparr> \<and> runs_evolved sc (agent_runs db) rows)"

definition only_new_run :: "scope option \<Rightarrow> wf_db \<Rightarrow> wf_db \<Rightarrow> bool" where
  "only_new_run sc db db' \<longleftrightarrow> (\<exists>r. insert_agent_run db r = Inr db' \<and> run_fresh r \<and> sc = Some (run_scope r))"

lemma only_runs_schema_ok:
  assumes "schema_ok db" "only_runs sc db db'"
  shows "schema_ok db'"
proof -
  obtain rows where db': "db' = db\<lparr>agent_runs := rows\<rparr>" and ev: "runs_evolved sc (agent_runs db) rows"
    using assms(2) by (auto simp: only_runs_def)
  have "run_scope ` set rows = run_scope ` set (agent_runs db)"
    using runs_evolved_keys(1)[OF ev] by (metis list.set_map)
  moreover have "\<forall>r \<in> set rows. run_row_ok r"
    using runs_evolved_ok[OF ev] schema_okD(2)[OF assms(1)] by blast
  ultimately show ?thesis
    using assms(1) runs_evolved_keys(2)[OF ev] db' unfolding schema_ok_def
    by (intro conjI) simp_all
qed

lemma only_new_run_schema_ok: "schema_ok db \<Longrightarrow> only_new_run sc db db' \<Longrightarrow> schema_ok db'"
  unfolding only_new_run_def run_fresh_def using insert_agent_run_schema_ok by blast

lemma only_runs_refl [simp]: "only_runs sc db db"
  unfolding only_runs_def by (rule exI[of _ "agent_runs db"]) simp

lemma only_runs_upd:
  assumes "\<And>r. r \<in> set (agent_runs db) \<Longrightarrow> p r \<Longrightarrow> run_evolves r (f r) \<and> sc = Some (run_scope r)"
  shows "only_runs sc db (snd (update_runs p f db))"
  using runs_evolved_upd[of "agent_runs db" p f] assms by (auto simp: only_runs_def update_runs_def)

lemma lease_after_update_db:
  "lease_after_update u ctx owner token ver = Inr (res, db') \<Longrightarrow> db' = snd u"
  by (auto simp: lease_after_update_def res_simps split: if_splits)

lemma same_row:
  assumes "schema_ok db" "r \<in> set (agent_runs db)" "r' \<in> set (agent_runs db)"
    "ctx_scope ctx = Some (run_scope r)" "ctx_scope ctx = Some (run_scope r')"
  shows "r' = r"
  using assms schema_ok_same_scope_same_row[of db r r'] by simp

lemma create_run_row:
  assumes "create_run now cfg db ctx rid st pid ipv apv = Inr (l, db')"
    and "st \<in> {R_RUNNING, R_AWAITING_USER}" "context_ok ctx"
  obtains r where "insert_agent_run db r = Inr db'" "run_fresh r" "ctx_scope ctx = Some (run_scope r)"
    "r_status r = st" "r_lease_owner r = Some rid" "r_lease_expires_at r = Some (now + lease_ttl_ms cfg)"
    "r_created_at r = now" "r_plan_id r = pid" "require_lease db' ctx rid 1 1 = Inr l"
proof -
  obtain s r where sr: "session_id ctx = Some s" "run_id ctx = Some r"
    using assms(1) by (auto simp: create_run_def split: if_splits option.splits)
  let ?r = "\<lparr>r_run_id = r, r_tenant_id = tenant_id ctx, r_workspace_id = workspace_id ctx,
    r_session_id = s, r_plan_id = pid, r_initial_plan_version = ipv, r_active_plan_version = apv,
    r_cancel_requested_at = None, r_status = st, r_runtime_instance_id = Some rid,
    r_lease_owner = Some rid, r_fencing_token = 1, r_lease_expires_at = Some (now + lease_ttl_ms cfg),
    r_heartbeat_at = Some now, r_schema_version = 1, r_version = 1, r_created_at = now,
    r_updated_at = now, r_finished_at = None\<rparr>"
  have "insert_agent_run db ?r = Inr db'" "require_lease db' ctx rid 1 1 = Inr l"
    "binding_complete pid ipv apv"
    using assms(1) sr by (auto simp: create_run_def res_simps binding_complete_def split: if_splits)
  moreover from this have "run_fresh ?r"
    using assms(2,3) sr by (auto simp: run_fresh_def run_row_ok_def context_ok_def)
  ultimately show thesis
    using sr by (intro that[of ?r]) (simp_all add: ctx_scope_def run_scope_def)
qed

lemma create_run_only:
  assumes "create_run now cfg db ctx rid st pid ipv apv = Inr (l, db')"
    and "st \<in> {R_RUNNING, R_AWAITING_USER}" "context_ok ctx"
  shows "only_new_run (ctx_scope ctx) db db'"
  by (rule create_run_row[OF assms]) (auto simp: only_new_run_def)

lemmas evolve_simps = run_evolves_def run_row_ok_def run_scope_def binding_complete_def

lemma take_over_run_only:
  assumes "schema_ok db" "take_over_run now cfg db ctx rid = Inr (res, db')"
  shows "only_runs (ctx_scope ctx) db db'"
  using assms(1)
proof (cases rule: get_run_cases[where ctx = ctx])
  case missing
  with assms(2) show ?thesis by (simp add: take_over_run_def)
next
  case (found r)
  with assms(2) show ?thesis
    by (auto simp: take_over_run_def rows_simps split: if_splits dest!: lease_after_update_db
        intro!: only_runs_upd) (auto simp: evolve_simps)
qed

lemma resume_waiting_run_only:
  assumes "schema_ok db" "resume_waiting_run now cfg db ctx rid = Inr (res, db')"
  shows "only_runs (ctx_scope ctx) db db'"
  using assms(1)
proof (cases rule: get_run_cases[where ctx = ctx])
  case missing
  with assms(2) show ?thesis by (simp add: resume_waiting_run_def)
next
  case (found r)
  with assms(2) show ?thesis
    by (auto simp: resume_waiting_run_def rows_simps split: if_splits dest!: lease_after_update_db
        intro!: only_runs_upd) (auto simp: evolve_simps)
qed

lemma resume_waiting_plan_run_only:
  assumes "schema_ok db" "resume_waiting_plan_run now cfg db ctx rid pid pver ex = Inr (res, db')"
  shows "only_runs (ctx_scope ctx) db db'"
  using assms(1)
proof (cases rule: get_run_cases[where ctx = ctx])
  case missing
  with assms(2) show ?thesis by (simp add: resume_waiting_plan_run_def)
next
  case (found r)
  with assms(2) show ?thesis
    by (auto simp: resume_waiting_plan_run_def rows_simps split: if_splits
        dest!: lease_after_update_db intro!: only_runs_upd) (auto simp: evolve_simps)
qed

lemma fence_waiting_plan_run_only:
  assumes "schema_ok db" "fence_waiting_plan_run now cfg db ctx rid pid pver dg ex = Inr (res, db')"
  shows "only_runs (ctx_scope ctx) db db'"
  using assms(1)
proof (cases rule: get_run_cases[where ctx = ctx])
  case missing
  with assms(2) show ?thesis by (simp add: fence_waiting_plan_run_def)
next
  case (found r)
  with assms(2) show ?thesis
    by (auto simp: fence_waiting_plan_run_def rows_simps split: if_splits
        dest!: lease_after_update_db intro!: only_runs_upd) (auto simp: evolve_simps)
qed

lemma cancel_waiting_plan_run_only:
  assumes "schema_ok db" "cancel_waiting_plan_run now cfg db ctx rid pid pver ex = Inr (res, db')"
  shows "only_runs (ctx_scope ctx) db db'"
  using assms(1)
proof (cases rule: get_run_cases[where ctx = ctx])
  case missing
  with assms(2) show ?thesis by (simp add: cancel_waiting_plan_run_def)
next
  case (found r)
  with assms(2) show ?thesis
    by (auto simp: cancel_waiting_plan_run_def rows_simps split: if_splits
        dest!: lease_after_update_db intro!: only_runs_upd) (auto simp: evolve_simps)
qed

lemma refresh_lease_only:
  "refresh_lease now cfg db lease = Inr (res, db') \<Longrightarrow> only_runs (ctx_scope (l_context lease)) db db'"
  unfolding refresh_lease_def
  by (auto dest!: lease_after_update_db intro!: only_runs_upd)
    (auto simp: evolve_simps rows_simps holds_def)

lemma terminal_statuses_set:
  "{R_COMPLETED, R_FAILED_TERMINAL, R_CANCELLED, R_BLOCKED_CORRUPT, R_BLOCKED_INCOMPATIBLE} =
   set TERMINAL_RUN_STATUSES"
  by (simp add: TERMINAL_RUN_STATUSES_def)

lemma request_cancellation_row_only:
  assumes "schema_ok db" "request_cancellation_row now cfg db ctx = Inr (res, db')"
  shows "only_runs (ctx_scope ctx) db db'"
  using assms(1)
proof (cases rule: get_run_cases[where ctx = ctx])
  case missing
  with assms(2) show ?thesis by (simp add: request_cancellation_row_def)
next
  case (found r)
  show ?thesis
  proof (cases "run_terminal (r_status r) \<or> r_cancel_requested_at r \<noteq> None")
    case True
    with assms(2) found(3) show ?thesis
      by (auto simp: request_cancellation_row_def terminal_statuses_set split: if_splits)
  next
    case False
    then have "run_evolves q (cancellation_values now cfg (r_status r) q)"
      if "r_status q = r_status r" for q
      using that by (auto simp: evolve_simps cancellation_values_def Let_def split: option.splits)
    then have "only_runs (ctx_scope ctx) db (snd (update_runs (\<lambda>q. context_predicate ctx q \<and> r_version q = r_version r \<and>
        r_status q = r_status r) (cancellation_values now cfg (r_status r)) db))"
      by (intro only_runs_upd) (simp add: rows_simps)
    with False assms(2) found(3) show ?thesis
      by (simp add: request_cancellation_row_def terminal_statuses_set Let_def res_simps)
  qed
qed

lemma validate_run_transition_Inr [res_simps]:
  "validate_run_transition cur lease target = Inr u \<longleftrightarrow>
     rr_lease_owner cur = Some (l_owner lease) \<and> rr_fencing_token cur = l_fencing_token lease \<and>
     rr_version cur = l_version lease \<and> target \<in> set (LEGAL_RUN_TRANSITIONS (rr_status cur))"
  by (auto simp: validate_run_transition_def)

lemma transition_evolves:
  assumes "target \<in> set (LEGAL_RUN_TRANSITIONS (r_status r))"
  shows "run_evolves r (transition_values now cfg target r)"
  unfolding transition_values_def Let_def terminal_statuses_set
  using assms LEGAL_RUN_source_active[OF assms] by (auto simp: evolve_simps)

lemma transition_run_row_only:
  assumes "schema_ok db" "transition_run_row now cfg db lease target = Inr (res, db')"
  shows "only_runs (ctx_scope (l_context lease)) db db'"
  using assms(1)
proof (cases rule: get_run_cases[where ctx = "l_context lease"])
  case missing
  with assms(2) show ?thesis by (simp add: transition_run_row_def)
next
  case (found r)
  have legal: "target \<in> set (LEGAL_RUN_TRANSITIONS (r_status r))"
    using assms(2) found(3) by (auto simp: transition_run_row_def res_simps)
  have "run_evolves q (transition_values now cfg target q) \<and> ctx_scope (l_context lease) = Some (run_scope q)"
    if "q \<in> set (agent_runs db)" "current_lease_predicate lease now q" for q
    using same_row[OF assms(1) found(1) that(1) found(2)] that(2) legal transition_evolves[of target q]
    by (simp add: holds_def rows_simps)
  note evolves = only_runs_upd[OF this]
  show ?thesis
    using assms(2) found(3)
    by (auto simp: transition_run_row_def res_simps dest!: lease_after_update_db intro!: evolves)
qed


section \<open>Approvals\<close>

definition approval_evolves :: "approval_row \<Rightarrow> approval_row \<Rightarrow> bool" where
  "approval_evolves a a' \<longleftrightarrow>
     approval_scope a' = approval_scope a \<and> a_approval_id a' = a_approval_id a \<and>
     a_tool_call_id a' = a_tool_call_id a \<and> a_requested_at a' = a_requested_at a \<and>
     a_expires_at a' = a_expires_at a \<and> a_version a' = a_version a + 1 \<and>
     a_status a' \<in> set (LEGAL_APPROVAL_TRANSITIONS (a_status a)) \<and> a_resolved_at a' \<noteq> None"

definition approvals_evolved :: "scope option \<Rightarrow> approval_row list \<Rightarrow> approval_row list \<Rightarrow> bool" where
  "approvals_evolved sc rows rows' \<longleftrightarrow> list_all2 (\<lambda>a a'. a' = a \<or> approval_evolves a a' \<and> sc = Some (approval_scope a)) rows rows'"

lemma approvals_evolved_refl [simp]: "approvals_evolved sc rows rows"
  by (simp add: approvals_evolved_def list.rel_refl)

lemma approvals_evolved_keys:
  "approvals_evolved sc rows rows' \<Longrightarrow>
   map (\<lambda>a. (approval_scope a, a_approval_id a)) rows' = map (\<lambda>a. (approval_scope a, a_approval_id a)) rows"
  unfolding approvals_evolved_def by (induction rule: list_all2_induct) (auto simp: approval_evolves_def)

text \<open>An operation updates approvals in place or adds one that waits for the user.\<close>

definition only_approvals :: "scope option \<Rightarrow> wf_db \<Rightarrow> wf_db \<Rightarrow> bool" where
  "only_approvals sc db db' \<longleftrightarrow>
     (\<exists>rows. db' = db\<lparr>approval_requests := rows\<rparr> \<and> approvals_evolved sc (approval_requests db) rows) \<or>
     (\<exists>a. insert_approval_request db a = Inr db' \<and> a_status a = A_AWAITING_USER \<and> a_version a = 1 \<and>
        sc = Some (approval_scope a))"

lemma only_approvals_refl [simp]: "only_approvals sc db db"
  unfolding only_approvals_def by (intro disjI1 exI[of _ "approval_requests db"]) simp

lemma only_approvals_schema_ok:
  assumes "schema_ok db" "only_approvals sc db db'"
  shows "schema_ok db'"
  using assms(2) unfolding only_approvals_def
proof (elim disjE exE conjE)
  fix rows assume db': "db' = db\<lparr>approval_requests := rows\<rparr>"
    and "approvals_evolved sc (approval_requests db) rows"
  from approvals_evolved_keys[OF this(2)]
  have keys: "map fst (map (\<lambda>a. (approval_scope a, a_approval_id a)) rows) =
        map fst (map (\<lambda>a. (approval_scope a, a_approval_id a)) (approval_requests db))"
    "map snd (map (\<lambda>a. (approval_scope a, a_approval_id a)) rows) =
        map snd (map (\<lambda>a. (approval_scope a, a_approval_id a)) (approval_requests db))" by simp_all
  then have scopes: "set (map approval_scope rows) = set (map approval_scope (approval_requests db))"
    and ids: "map a_approval_id rows = map a_approval_id (approval_requests db)"
    by (simp_all only: map_map comp_def fst_conv snd_conv)
  have "set (map approval_scope rows) \<subseteq> run_scope ` set (agent_runs db)"
    unfolding scopes using assms(1) by (auto simp: schema_ok_def)
  then have "\<forall>a \<in> set rows. approval_scope a \<in> run_scope ` set (agent_runs db)" by auto
  with ids show ?thesis
    using assms(1) db' unfolding schema_ok_def by (intro conjI) simp_all
qed (use assms(1) insert_approval_schema_ok in blast)

lemma approvals_evolved_upd:
  assumes "\<And>a. a \<in> set rows \<Longrightarrow> p a \<Longrightarrow> approval_evolves a (f a) \<and> sc = Some (approval_scope a)"
  shows "approvals_evolved sc rows (upd_where p f rows)"
  using assms unfolding approvals_evolved_def by (induction rows) auto

lemma only_approvals_upd:
  assumes "\<And>a. a \<in> set (approval_requests db) \<Longrightarrow> p a \<Longrightarrow> approval_evolves a (f a) \<and> sc = Some (approval_scope a)"
  shows "only_approvals sc db (snd (update_approvals p f db))"
  using approvals_evolved_upd[of "approval_requests db" p f] assms
  by (auto simp: only_approvals_def update_approvals_def)

lemma resolve_approval_only:
  assumes "resolve_approval now db ctx i approved ver = Inr (res, db')"
  shows "only_approvals (ctx_scope ctx) db db'"
proof -
  have "only_approvals (ctx_scope ctx) db (snd (update_approvals
      (\<lambda>a. approval_scope_predicate ctx i a \<and> a_status a = A_AWAITING_USER \<and> a_version a = ver \<and>
         a_expires_at a > now)
      (\<lambda>a. a\<lparr>a_status := if approved then A_APPROVED else A_REJECTED, a_resolved_at := Some now,
         a_version := a_version a + 1\<rparr>) db))"
    by (rule only_approvals_upd) (simp add: approval_evolves_def rows_simps approval_scope_def)
  then show ?thesis
    using assms by (auto simp: resolve_approval_def Let_def res_simps split: if_splits)
qed

lemma mark_approval_expired_only: "only_approvals (ctx_scope ctx) db (snd (mark_approval_expired now db ctx i ver))"
  unfolding mark_approval_expired_def Let_def snd_conv
  by (rule only_approvals_upd) (simp add: approval_evolves_def rows_simps approval_scope_def)

lemma insert_approval_row:
  assumes "insert_approval clk db lease i tc ex = Inr (res, db')" "db' \<noteq> db"
  obtains a where "insert_approval_request db a = Inr db'" "a_status a = A_AWAITING_USER"
    "a_version a = 1" "a_approval_id a = i" "ctx_scope (l_context lease) = Some (approval_scope a)"
    "has_current_lease (clk 0) db lease"
  using assms unfolding insert_approval_def
  by (auto simp: res_simps split: if_splits option.splits)
    (rule that, assumption, auto simp: ctx_scope_def approval_scope_def)

lemma insert_approval_only:
  assumes "insert_approval clk db lease i tc ex = Inr (res, db')"
  shows "only_approvals (ctx_scope (l_context lease)) db db'"
proof (cases "db' = db")
  case False
  show ?thesis
    by (rule insert_approval_row[OF assms False]) (auto simp: only_approvals_def)
qed simp

section \<open>Executions\<close>

definition exec_evolves :: "execution_row \<Rightarrow> execution_row \<Rightarrow> bool" where
  "exec_evolves x x' \<longleftrightarrow>
     exec_scope x' = exec_scope x \<and> x_execution_id x' = x_execution_id x \<and>
     x_tool_call_id x' = x_tool_call_id x \<and> x_approval_id x' = x_approval_id x \<and>
     x_tool_name x' = x_tool_name x \<and> x_tool_kind x' = x_tool_kind x \<and>
     x_recovery_strategy x' = x_recovery_strategy x \<and> x_idempotency_key x' = x_idempotency_key x \<and>
     x_input_payload_json x' = x_input_payload_json x \<and> x_input_hash x' = x_input_hash x \<and>
     x_created_at x' = x_created_at x \<and> x_version x' = x_version x + 1 \<and>
     (x_status x' = x_status x \<or> x_status x' \<in> set (LEGAL_EXECUTION_TRANSITIONS (x_status x))) \<and>
     (x_external_request_id x \<noteq> None \<longrightarrow> x_external_request_id x' = x_external_request_id x) \<and>
     (x_result_ref x \<noteq> None \<longrightarrow> x_result_ref x' = x_result_ref x) \<and>
     (x_result_digest x \<noteq> None \<longrightarrow> x_result_digest x' = x_result_digest x)"

definition execs_evolved :: "scope option \<Rightarrow> execution_row list \<Rightarrow> execution_row list \<Rightarrow> bool" where
  "execs_evolved sc rows rows' \<longleftrightarrow> list_all2 (\<lambda>x x'. x' = x \<or> exec_evolves x x' \<and> sc = Some (exec_scope x)) rows rows'"

lemma execs_evolved_refl [simp]: "execs_evolved sc rows rows"
  by (simp add: execs_evolved_def list.rel_refl)

lemma execs_evolved_keys:
  "execs_evolved sc rows rows' \<Longrightarrow>
   map (\<lambda>x. (exec_scope x, x_execution_id x)) rows' = map (\<lambda>x. (exec_scope x, x_execution_id x)) rows"
  unfolding execs_evolved_def by (induction rule: list_all2_induct) (auto simp: exec_evolves_def)

text \<open>
  An operation updates executions in place or adds one, and it adds one only to a run whose
  executions have all ended.
\<close>

definition only_execs :: "scope option \<Rightarrow> wf_db \<Rightarrow> wf_db \<Rightarrow> bool" where
  "only_execs sc db db' \<longleftrightarrow>
     (\<exists>rows. db' = db\<lparr>tool_executions := rows\<rparr> \<and> execs_evolved sc (tool_executions db) rows) \<or>
     (\<exists>x. insert_tool_execution db x = Inr db' \<and> x_version x = 1 \<and> sc = Some (exec_scope x) \<and>
        (\<forall>y \<in> set (tool_executions db). exec_scope y = exec_scope x \<longrightarrow> exec_terminal (x_status y)))"

lemma only_execs_refl [simp]: "only_execs sc db db"
  unfolding only_execs_def by (intro disjI1 exI[of _ "tool_executions db"]) simp

lemma only_execs_schema_ok:
  assumes "schema_ok db" "only_execs sc db db'"
  shows "schema_ok db'"
  using assms(2) unfolding only_execs_def
proof (elim disjE exE conjE)
  fix rows assume db': "db' = db\<lparr>tool_executions := rows\<rparr>"
    and "execs_evolved sc (tool_executions db) rows"
  from execs_evolved_keys[OF this(2)]
  have keys: "map fst (map (\<lambda>x. (exec_scope x, x_execution_id x)) rows) =
        map fst (map (\<lambda>x. (exec_scope x, x_execution_id x)) (tool_executions db))"
    "map snd (map (\<lambda>x. (exec_scope x, x_execution_id x)) rows) =
        map snd (map (\<lambda>x. (exec_scope x, x_execution_id x)) (tool_executions db))" by simp_all
  then have scopes: "set (map exec_scope rows) = set (map exec_scope (tool_executions db))"
    and ids: "map x_execution_id rows = map x_execution_id (tool_executions db)"
    by (simp_all only: map_map comp_def fst_conv snd_conv)
  have "set (map exec_scope rows) \<subseteq> run_scope ` set (agent_runs db)"
    unfolding scopes using assms(1) by (auto simp: schema_ok_def)
  then have "\<forall>x \<in> set rows. exec_scope x \<in> run_scope ` set (agent_runs db)" by auto
  with ids show ?thesis
    using assms(1) db' unfolding schema_ok_def by (intro conjI) simp_all
qed (use assms(1) insert_execution_schema_ok in blast)

lemma execs_evolved_upd:
  assumes "\<And>x. x \<in> set rows \<Longrightarrow> p x \<Longrightarrow> exec_evolves x (f x) \<and> sc = Some (exec_scope x)"
  shows "execs_evolved sc rows (upd_where p f rows)"
  using assms unfolding execs_evolved_def by (induction rows) auto

lemma only_execs_upd:
  assumes "\<And>x. x \<in> set (tool_executions db) \<Longrightarrow> p x \<Longrightarrow> exec_evolves x (f x) \<and> sc = Some (exec_scope x)"
  shows "only_execs sc db (snd (update_executions p f db))"
  using execs_evolved_upd[of "tool_executions db" p f] assms
  by (auto simp: only_execs_def update_executions_def)

lemma nonterminal_statuses: "s \<in> set NONTERMINAL_EXECUTION_STATUSES \<longleftrightarrow> \<not> exec_terminal s"
  by (cases s) (simp_all add: NONTERMINAL_EXECUTION_STATUSES_def execution_statuses_def)

lemma insert_execution_row:
  assumes "insert_execution clk cfg db lease i ap tc nm kd st idem pl h status = Inr (res, db')" "db' \<noteq> db"
  obtains x where "insert_tool_execution db x = Inr db'" "x_version x = 1" "x_execution_id x = i"
    "x_status x = status" "ctx_scope (l_context lease) = Some (exec_scope x)"
    "\<forall>y \<in> set (tool_executions db). execution_scope_predicate (l_context lease) y \<longrightarrow>
       exec_terminal (x_status y)"
    "has_current_lease (clk 0) db lease"
proof -
  obtain s r where sr: "session_id (l_context lease) = Some s" "run_id (l_context lease) = Some r"
    using assms by (auto simp: insert_execution_def split: if_splits option.splits)
  show thesis
    using assms sr unfolding insert_execution_def
    by (auto simp: res_simps Let_def nonterminal_statuses split: if_splits)
      (rule that, assumption, auto simp: ctx_scope_def exec_scope_def)+
qed

lemma insert_execution_only:
  assumes "insert_execution clk cfg db lease i ap tc nm kd st idem pl h status = Inr (res, db')"
  shows "only_execs (ctx_scope (l_context lease)) db db'"
proof (cases "db' = db")
  case False
  show ?thesis
    by (rule insert_execution_row[OF assms False])
      (auto simp: only_execs_def rows_simps)
qed simp

lemma execution_values_evolves:
  "target \<in> set (LEGAL_EXECUTION_TRANSITIONS (x_status x)) \<Longrightarrow>
   exec_evolves x (execution_values now target x)"
  by (simp add: execution_values_def exec_evolves_def exec_scope_def Let_def)

lemma transition_execution_row_only:
  assumes "transition_execution_row clk db lease i es ev target = Inr (res, db')"
  shows "only_execs (ctx_scope (l_context lease)) db db'"
proof -
  have legal: "target \<in> set (LEGAL_EXECUTION_TRANSITIONS es)"
    using assms by (auto simp: transition_execution_row_def split: if_splits)
  show ?thesis
    using assms
    by (auto simp: transition_execution_row_def Let_def res_simps rows_simps split: if_splits
        intro!: only_execs_upd execution_values_evolves)
qed

lemma metadata_values_evolves:
  assumes "case target of None \<Rightarrow> True | Some t \<Rightarrow> t \<in> set (LEGAL_EXECUTION_TRANSITIONS (x_status x))"
    "compatible ext (x_external_request_id x)" "compatible ref (x_result_ref x)"
    "compatible digest (x_result_digest x)"
  shows "exec_evolves x (metadata_values now ext ref digest target x)"
  using assms
  by (auto simp: metadata_values_def exec_evolves_def exec_scope_def Let_def compatible_def keep_or_def
      split: option.splits)

lemma update_execution_metadata_only:
  assumes "update_execution_metadata clk db lease i es ev ext ref digest target = Inr (res, db')"
  shows "only_execs (ctx_scope (l_context lease)) db db'"
  using assms
  by (auto simp: update_execution_metadata_def Let_def res_simps rows_simps split: if_splits option.splits
      intro!: only_execs_upd metadata_values_evolves)

section \<open>Checkpoints\<close>

definition only_checkpoint :: "scope option \<Rightarrow> wf_db \<Rightarrow> wf_db \<Rightarrow> bool" where
  "only_checkpoint sc db db' \<longleftrightarrow>
     (\<exists>c. insert_execution_checkpoint db c = Inr db' \<and> sc = Some (checkpoint_scope c))"

lemma only_checkpoint_append:
  "only_checkpoint sc db db' \<Longrightarrow>
   \<exists>c. db' = db\<lparr>execution_checkpoints := execution_checkpoints db @ [c]\<rparr>"
  by (auto simp: only_checkpoint_def insert_execution_checkpoint_def split: if_splits)

lemma only_checkpoint_schema_ok: "schema_ok db \<Longrightarrow> only_checkpoint sc db db' \<Longrightarrow> schema_ok db'"
  unfolding only_checkpoint_def using insert_checkpoint_schema_ok by blast

lemma insert_checkpoint_row:
  assumes "insert_checkpoint clk db lease cid seq ph pl h sv ap ex es ev = Inr (Some n, db')"
  obtains c where "insert_execution_checkpoint db c = Inr db'"
    "ctx_scope (l_context lease) = Some (checkpoint_scope c)" "cr_checkpoint_seq c = n"
    "n = (case seq of None \<Rightarrow> get_next_checkpoint_seq db (l_context lease) | Some k \<Rightarrow> k)"
    "cr_checkpoint_id c = cid" "cr_phase c = ph" "cr_payload_json c = pl" "cr_payload_hash c = h"
    "cr_schema_version c = sv" "cr_approval_id c = ap" "cr_execution_id c = ex"
    "has_current_lease (clk 0) db lease"
proof -
  obtain s r where sr: "session_id (l_context lease) = Some s" "run_id (l_context lease) = Some r"
    using assms by (auto simp: insert_checkpoint_def res_simps Let_def split: if_splits option.splits)
  let ?n = "case seq of None \<Rightarrow> get_next_checkpoint_seq db (l_context lease) | Some k \<Rightarrow> k"
  let ?c = "\<lparr>cr_checkpoint_id = cid, cr_tenant_id = tenant_id (l_context lease),
    cr_workspace_id = workspace_id (l_context lease), cr_session_id = s, cr_run_id = r,
    cr_approval_id = ap, cr_execution_id = ex, cr_phase = ph, cr_checkpoint_seq = ?n,
    cr_payload_json = pl, cr_payload_hash = h, cr_schema_version = sv, cr_created_at = clk 1\<rparr>"
  have "insert_execution_checkpoint db ?c = Inr db'" "n = ?n" "has_current_lease (clk 0) db lease"
    using assms sr by (auto simp: insert_checkpoint_def res_simps Let_def split: if_splits)
  then show thesis
    using sr by (intro that[of ?c]) (simp_all add: ctx_scope_def checkpoint_scope_def)
qed

lemma insert_checkpoint_only:
  assumes "insert_checkpoint clk db lease cid seq ph pl h sv ap ex es ev = Inr (Some n, db')"
  shows "only_checkpoint (ctx_scope (l_context lease)) db db'"
  by (rule insert_checkpoint_row[OF assms]) (auto simp: only_checkpoint_def)

lemma checkpoint_only:
  assumes "checkpoint clk s db lease ph pl uuid cid seq ap ex es ev = Inr (w, db')"
  shows "only_checkpoint (ctx_scope (l_context lease)) db db'"
  using assms
  by (auto simp: checkpoint_def write_checkpoint_def res_simps Let_def dest: insert_checkpoint_only)

end
