(* ===== verification/Workflow_Protocol.thy ===== *)
theory Workflow_Protocol
  imports Workflow_Evolution
begin

text \<open>
  The coordinator as a state machine: \<open>wf_step\<close> has one rule per operation that writes, \<open>table_step\<close> is
  the change a step makes to one table. Two interfaces are stated as locales and interpreted on the
  model: \<open>status_machine\<close> for the three status columns and \<open>versioned_rows\<close> for the three tables whose
  rows carry a version; what holds of every history of the system follows from them. Deleting a
  session or an account is not a step of this machine.
\<close>

section \<open>The step relation\<close>

text \<open>One rule per operation of the coordinator that writes, and one for the other components.\<close>

inductive wf_step :: "settings \<Rightarrow> scope option \<Rightarrow> wf_db \<Rightarrow> wf_db \<Rightarrow> bool" for s :: settings where
  start: "start_run clk s db ctx rid = Inr (l, db') \<Longrightarrow> context_ok ctx \<Longrightarrow> wf_step s (ctx_scope ctx) db db'"
| start_checkpointed:
    "start_run_with_checkpoint clk s db ctx rid uuid = Inr (l, db') \<Longrightarrow> context_ok ctx \<Longrightarrow>
     wf_step s (ctx_scope ctx) db db'"
| start_plan:
    "start_plan_run_with_checkpoint clk s db ctx rid pid pver dg uuid = Inr (l, db') \<Longrightarrow>
     context_ok ctx \<Longrightarrow> wf_step s (ctx_scope ctx) db db'"
| start_approved_plan:
    "start_approved_plan_run_with_checkpoint clk s db ctx rid pid pver dg uuid = Inr (l, db') \<Longrightarrow>
     context_ok ctx \<Longrightarrow> wf_step s (ctx_scope ctx) db db'"
| acquire: "acquire_run clk s db ctx rid = Inr (l, db') \<Longrightarrow> wf_step s (ctx_scope ctx) db db'"
| resume: "co_resume_waiting_run clk s db ctx rid = Inr (l, db') \<Longrightarrow> wf_step s (ctx_scope ctx) db db'"
| resume_plan:
    "co_resume_waiting_plan_run clk s db ctx rid pid pver ex = Inr (l, db') \<Longrightarrow> wf_step s (ctx_scope ctx) db db'"
| fence_plan:
    "co_fence_waiting_plan_run clk s db ctx rid pid pver ex dg uuid = Inr (l, db') \<Longrightarrow> wf_step s (ctx_scope ctx) db db'"
| cancel_plan:
    "co_cancel_waiting_plan_run clk s db ctx rid pid pver ex uuid = Inr (l, db') \<Longrightarrow> wf_step s (ctx_scope ctx) db db'"
| beat: "heartbeat clk s db lease = Inr (l, db') \<Longrightarrow> wf_step s (ctx_scope (l_context lease)) db db'"
| transition: "transition_run clk s db lease target = Inr (l, db') \<Longrightarrow> wf_step s (ctx_scope (l_context lease)) db db'"
| finish: "finish_run clk s db lease target = Inr (l, db') \<Longrightarrow> wf_step s (ctx_scope (l_context lease)) db db'"
| finish_checkpointed:
    "finish_run_with_checkpoint clk s db lease target uuid = Inr (l, db') \<Longrightarrow> wf_step s (ctx_scope (l_context lease)) db db'"
| cancel:
    "request_cancellation env plans_get clk s db ctx uuid = Inr (r, db') \<Longrightarrow> wf_step s (ctx_scope ctx) db db'"
| decide: "snd (decide_approval clk db ctx i ap ver) = db' \<Longrightarrow> wf_step s (ctx_scope ctx) db db'"
| approve: "create_approval clk db lease i tc ex = Inr (a, db') \<Longrightarrow> wf_step s (ctx_scope (l_context lease)) db db'"
| execute:
    "create_execution clk s db lease i ap tc nm kd st idem pl h status = Inr (x, db') \<Longrightarrow>
     wf_step s (ctx_scope (l_context lease)) db db'"
| transition_execution:
    "transition_execution clk db lease i es ev target = Inr (l, db') \<Longrightarrow> wf_step s (ctx_scope (l_context lease)) db db'"
| complete:
    "complete_execution clk db lease i es ev target ext ref dg = Inr (x, db') \<Longrightarrow> wf_step s (ctx_scope (l_context lease)) db db'"
| record_request:
    "record_external_request_id clk db lease i es ev rq = Inr (x, db') \<Longrightarrow> wf_step s (ctx_scope (l_context lease)) db db'"
| persist: "write_checkpoint clk db lease cid seq ph pl h sv ap ex es ev = Inr (n, db') \<Longrightarrow> wf_step s (ctx_scope (l_context lease)) db db'"
| save:
    "checkpoint clk s db lease phase pl uuid cid seq ap ex es ev = Inr (w, db') \<Longrightarrow> wf_step s (ctx_scope (l_context lease)) db db'"
| environment:
    "wf_step s None db (db\<lparr>workspaces := ws, chat_sessions := cs, agent_plan_versions := pvs,
       memory_entries := ms, audit_logs := au\<rparr>)"

text \<open>A step in whatever scope.\<close>

abbreviation any_step :: "settings \<Rightarrow> wf_db \<Rightarrow> wf_db \<Rightarrow> bool" where
  "any_step s db db' \<equiv> \<exists>sc. wf_step s sc db db'"

section \<open>Steps as table changes\<close>

definition other_tables :: "wf_db \<Rightarrow> wf_db \<Rightarrow> bool" where
  "other_tables db db' \<longleftrightarrow>
     agent_runs db' = agent_runs db \<and> approval_requests db' = approval_requests db \<and>
     tool_executions db' = tool_executions db \<and> execution_checkpoints db' = execution_checkpoints db"

text \<open>A change of one table that adds no run, and any change of one table.\<close>

definition update_step :: "scope option \<Rightarrow> wf_db \<Rightarrow> wf_db \<Rightarrow> bool" where
  "update_step sc db db' \<longleftrightarrow> only_runs sc db db' \<or> only_approvals sc db db' \<or> only_execs sc db db' \<or>
     only_checkpoint sc db db' \<or> other_tables db db'"

definition table_step :: "scope option \<Rightarrow> wf_db \<Rightarrow> wf_db \<Rightarrow> bool" where
  "table_step sc db db' \<longleftrightarrow> only_new_run sc db db' \<or> update_step sc db db'"

abbreviation any_table_step :: "wf_db \<Rightarrow> wf_db \<Rightarrow> bool" where
  "any_table_step db db' \<equiv> \<exists>sc. table_step sc db db'"

lemma table_step_cases [consumes 1, case_names new_run runs approvals execs checkpoint other]:
  assumes "table_step sc db db'"
  obtains "only_new_run sc db db'" | "only_runs sc db db'" | "only_approvals sc db db'" | "only_execs sc db db'"
    | "only_checkpoint sc db db'" | "other_tables db db'"
  using assms by (auto simp: table_step_def update_step_def)

lemma table_step_schema_ok: "table_step sc db db' \<Longrightarrow> schema_ok db \<Longrightarrow> schema_ok db'"
proof (erule table_step_cases)
  show "schema_ok db \<Longrightarrow> other_tables db db' \<Longrightarrow> schema_ok db'"
    by (simp add: schema_ok_def other_tables_def)
qed (blast intro: only_new_run_schema_ok only_runs_schema_ok only_approvals_schema_ok
    only_execs_schema_ok only_checkpoint_schema_ok)+

lemma any_table_step_schema_ok: "any_table_step db db' \<Longrightarrow> schema_ok db \<Longrightarrow> schema_ok db'"
  using table_step_schema_ok by blast

lemma table_steps_schema_ok: "any_table_step\<^sup>*\<^sup>* db db' \<Longrightarrow> schema_ok db \<Longrightarrow> schema_ok db'"
  by (induction rule: rtranclp_induct) (auto intro: table_step_schema_ok)

lemma update_steps_two: "update_step sc a b \<Longrightarrow> update_step sc b c \<Longrightarrow> (update_step sc)\<^sup>*\<^sup>* a c"
  by (meson r_into_rtranclp rtranclp.rtrancl_into_rtrancl)

lemma need_lease_Inr [res_simps]: "need_lease e m = Inr (l, db') \<longleftrightarrow> m = Inr (Some l, db')"
  by (cases m) (auto simp: need_lease_def res_simps)

lemma require_lease_context: "require_lease db ctx ow tk vr = Inr l \<Longrightarrow> l_context l = ctx"
  by (auto simp: require_lease_def res_simps split: option.splits)

lemma create_run_context: "create_run now cfg db ctx rid st pid ipv apv = Inr (l, db') \<Longrightarrow> l_context l = ctx"
  by (auto simp: create_run_def res_simps split: if_splits option.splits dest: require_lease_context)

lemma lease_after_update_context:
  "lease_after_update u ctx ow tk vr = Inr (Some l, db') \<Longrightarrow> l_context l = ctx"
  by (auto simp: lease_after_update_def res_simps split: if_splits dest: require_lease_context)

lemma fence_waiting_plan_run_context:
  "fence_waiting_plan_run now cfg db ctx rid pid pver dg ex = Inr (Some l, db') \<Longrightarrow> l_context l = ctx"
  by (auto simp: fence_waiting_plan_run_def res_simps split: if_splits option.splits
      dest: lease_after_update_context)

lemma cancel_waiting_plan_run_context:
  "cancel_waiting_plan_run now cfg db ctx rid pid pver ex = Inr (Some l, db') \<Longrightarrow> l_context l = ctx"
  by (auto simp: cancel_waiting_plan_run_def res_simps split: if_splits option.splits
      dest: lease_after_update_context)

lemma finish_run_context:
  "finish_run clk s db lease t = Inr (l, db') \<Longrightarrow> l_context l = l_context lease"
  by (auto simp: finish_run_def transition_run_row_def res_simps split: option.splits
      dest: lease_after_update_context)

lemmas lease_contexts = create_run_context fence_waiting_plan_run_context
  cancel_waiting_plan_run_context finish_run_context

lemma write_run_started_only:
  "write_run_started clk s db ctx l uuid msg = Inr (l', db') \<Longrightarrow> only_checkpoint (ctx_scope (l_context l)) db db'"
  by (auto simp: write_run_started_def res_simps dest: checkpoint_only)

lemma write_run_terminal_only:
  "write_run_terminal clk s db ctx l t uuid msg = Inr (l', db') \<Longrightarrow> only_checkpoint (ctx_scope (l_context l)) db db'"
  by (auto simp: write_run_terminal_def res_simps dest: checkpoint_only)

lemmas run_ops_only = take_over_run_only[rotated] resume_waiting_run_only[rotated]
  resume_waiting_plan_run_only[rotated] fence_waiting_plan_run_only[rotated]
  cancel_waiting_plan_run_only[rotated] transition_run_row_only[rotated]
  request_cancellation_row_only[rotated]

lemma finish_run_only: "schema_ok db \<Longrightarrow> finish_run clk s db lease t = Inr (l, db') \<Longrightarrow>
   only_runs (ctx_scope (l_context lease)) db db'"
  by (auto simp: finish_run_def res_simps dest: transition_run_row_only)

lemma cancelled_run_lease_context [simp]: "l_context (cancelled_run_lease ctx record) = ctx"
  by (simp add: cancelled_run_lease_def)

lemma close_cancelled_run_only:
  assumes "close_cancelled_run env pg clk s db ctx uuid before record fin = Inr (r, db')" "db' \<noteq> db"
  shows "only_checkpoint (ctx_scope ctx) db db'"
proof -
  obtain w p n where "checkpoint_at clk s db (cancelled_run_lease ctx record) C_RUN_TERMINAL p uuid n = Inr (w, db')"
    using assms by (auto simp: close_cancelled_run_def res_simps split: if_splits)
  from checkpoint_only[OF this] show ?thesis by simp
qed

lemma request_cancellation_tables:
  assumes "schema_ok db" "request_cancellation env pg clk s db ctx uuid = Inr (r, db')"
  shows "\<exists>db1. only_runs (ctx_scope ctx) db db1 \<and> (db' = db1 \<or> only_checkpoint (ctx_scope ctx) db1 db')"
proof -
  obtain before found rec db1 where
    row: "request_cancellation_row (clk 0) (repository s) db ctx = Inr (found, db1)"
    and rest: "(case rr_finished_at rec of
          None \<Rightarrow> Inr ((rec, No_event), db1)
        | Some finished \<Rightarrow>
            if rr_status rec \<noteq> R_CANCELLED then Inr ((rec, No_event), db1)
            else close_cancelled_run env pg (shift 1 clk) s db1 ctx uuid before rec finished) = Inr (r, db')"
    using assms(2) unfolding request_cancellation_def by (auto simp: res_simps split: if_splits)
  have "only_checkpoint (ctx_scope ctx) db1 db'" if "db' \<noteq> db1"
    using rest that close_cancelled_run_only by (auto split: option.splits if_splits)
  then show ?thesis using request_cancellation_row_only[OF assms(1) row] by blast
qed

lemma decide_approval_tables:
  "\<exists>db1. only_approvals (ctx_scope ctx) db db1 \<and> only_approvals (ctx_scope ctx) db1 (snd (decide_approval clk db ctx i ap ver))"
proof (cases "resolve_approval (clk 0) db ctx i ap ver")
  case (Inl e)
  then show ?thesis by (auto simp: decide_approval_def intro: exI[of _ db])
next
  case (Inr p)
  obtain res db1 where p: "p = (res, db1)" by (cases p)
  have 1: "only_approvals (ctx_scope ctx) db db1" using resolve_approval_only Inr p by blast
  show ?thesis
  proof (cases res)
    case None
    show ?thesis
      using 1 None Inr p mark_approval_expired_only[where db = db1 and now = "clk 1" and ctx = ctx and i = i and ver = ver]
      by (cases "mark_approval_expired (clk 1) db1 ctx i ver")
        (auto simp: decide_approval_def split: bool.splits option.splits intro: exI[of _ db])
  next
    case (Some a)
    then show ?thesis using 1 Inr p by (auto simp: decide_approval_def intro: exI[of _ db1])
  qed
qed

lemma update_stepI:
  "only_runs sc db db' \<Longrightarrow> update_step sc db db'" "only_approvals sc db db' \<Longrightarrow> update_step sc db db'"
  "only_execs sc db db' \<Longrightarrow> update_step sc db db'" "only_checkpoint sc db db' \<Longrightarrow> update_step sc db db'"
  "other_tables db db' \<Longrightarrow> update_step sc db db'"
  by (simp_all add: update_step_def)

definition starts_run :: "settings \<Rightarrow> scope option \<Rightarrow> wf_db \<Rightarrow> wf_db \<Rightarrow> bool" where
  "starts_run s sc db db' \<longleftrightarrow> (\<exists>now ctx rid st pid ipv apv l db1.
     enforce_run_quota s db (tenant_id ctx) = Inr () \<and> context_ok ctx \<and>
     sc = ctx_scope ctx \<and> st \<in> {R_RUNNING, R_AWAITING_USER} \<and>
     create_run now (repository s) db ctx rid st pid ipv apv = Inr (l, db1) \<and>
     (db' = db1 \<or> only_checkpoint sc db1 db'))"

lemma starts_runI:
  assumes "create_run now (repository s) db ctx rid st pid ipv apv = Inr (l, db1)"
    "enforce_run_quota s db (tenant_id ctx) = Inr ()" "context_ok ctx"
    "st \<in> {R_RUNNING, R_AWAITING_USER}" "db' = db1 \<or> only_checkpoint (ctx_scope ctx) db1 db'"
  shows "starts_run s (ctx_scope ctx) db db'"
  using assms unfolding starts_run_def by blast

text \<open>The operations that update a run and then write a checkpoint for it.\<close>

lemma run_then_checkpoint:
  assumes "only_runs sc db db1" "only_checkpoint (ctx_scope (l_context l)) db1 db'"
    "sc = ctx_scope (l_context l)"
  shows "(update_step sc)\<^sup>*\<^sup>* db db'"
  using update_steps_two[OF update_stepI(1)[OF assms(1)]] update_stepI(4)[OF assms(2)] assms(3) by simp

lemma co_fence_tables:
  assumes "co_fence_waiting_plan_run clk s db ctx rid pid pver ex dg uuid = Inr (l, db')" "schema_ok db"
  shows "(update_step (ctx_scope ctx))\<^sup>*\<^sup>* db db'"
proof -
  obtain db1 w p where f: "fence_waiting_plan_run (clk 0) (repository s) db ctx rid pid pver dg ex = Inr (Some l, db1)"
    and c: "checkpoint_at (shift 1 clk) s db1 l C_PLAN_AWAITING_APPROVAL p uuid
      (get_next_checkpoint_seq db1 ctx) = Inr (w, db')"
    using assms(1) by (auto simp: co_fence_waiting_plan_run_def res_simps)
  show ?thesis
    using run_then_checkpoint[OF fence_waiting_plan_run_only[OF assms(2) f] checkpoint_only[OF c]]
      fence_waiting_plan_run_context[OF f] by simp
qed

lemma co_cancel_tables:
  assumes "co_cancel_waiting_plan_run clk s db ctx rid pid pver ex uuid = Inr (l, db')" "schema_ok db"
  shows "(update_step (ctx_scope ctx))\<^sup>*\<^sup>* db db'"
proof -
  obtain db1 l1 m where f: "cancel_waiting_plan_run (clk 0) (repository s) db ctx rid pid pver ex = Inr (Some l1, db1)"
    and c: "write_run_terminal (shift 1 clk) s db1 ctx l1 R_CANCELLED uuid m = Inr (l, db')"
    using assms(1) by (auto simp: co_cancel_waiting_plan_run_def res_simps)
  show ?thesis
    using run_then_checkpoint[OF cancel_waiting_plan_run_only[OF assms(2) f] write_run_terminal_only[OF c]]
      cancel_waiting_plan_run_context[OF f] by simp
qed

lemma finish_checkpoint_tables:
  assumes "finish_run_with_checkpoint clk s db lease t uuid = Inr (l, db')" "schema_ok db"
  shows "(update_step (ctx_scope (l_context lease)))\<^sup>*\<^sup>* db db'"
proof -
  obtain db1 l1 m where f: "finish_run clk s db lease t = Inr (l1, db1)"
    and c: "write_run_terminal (shift 1 clk) s db1 (l_context lease) l1 t uuid m = Inr (l, db')"
    using assms(1) by (auto simp: finish_run_with_checkpoint_def res_simps)
  show ?thesis
    using run_then_checkpoint[OF finish_run_only[OF assms(2) f] write_run_terminal_only[OF c]]
      finish_run_context[OF f] by simp
qed

text \<open>
  The shape of a step: it adds one run under the quota, with its first checkpoint or without, or it
  changes the tables without adding a run.
\<close>

lemma wf_step_shape:
  assumes "wf_step s sc db db'" "schema_ok db"
  shows "(update_step sc)\<^sup>*\<^sup>* db db' \<or> starts_run s sc db db'"
  using assms
proof (cases rule: wf_step.cases)
  case (start clk ctx rid l)
  then show ?thesis by (auto simp: start_run_def res_simps intro: starts_runI)
next
  case (start_checkpointed clk ctx rid uuid l)
  then show ?thesis
    by (auto simp: start_run_with_checkpoint_def res_simps 
      dest!: write_run_started_only dest: lease_contexts intro: starts_runI)
next
  case (start_plan clk ctx rid pid pver dg uuid l)
  then show ?thesis
    by (auto simp: start_plan_run_with_checkpoint_def res_simps 
      dest!: checkpoint_only dest: lease_contexts intro: starts_runI)
next
  case (start_approved_plan clk ctx rid pid pver dg uuid l)
  then show ?thesis
    by (auto simp: start_approved_plan_run_with_checkpoint_def res_simps 
      dest!: write_run_started_only dest: lease_contexts intro: starts_runI)
next
  case (acquire clk ctx rid l)
  with assms(2) show ?thesis by (auto simp: acquire_run_def res_simps dest!: run_ops_only intro: update_stepI)
next
  case (resume clk ctx rid l)
  with assms(2) show ?thesis
    by (auto simp: co_resume_waiting_run_def res_simps dest!: run_ops_only intro: update_stepI)
next
  case (resume_plan clk ctx rid pid pver ex l)
  with assms(2) show ?thesis
    by (auto simp: co_resume_waiting_plan_run_def res_simps dest!: run_ops_only intro: update_stepI)
next
  case (fence_plan clk ctx rid pid pver ex dg uuid l)
  with assms(2) show ?thesis by (simp add: co_fence_tables)
next
  case (cancel_plan clk ctx rid pid pver ex uuid l)
  with assms(2) show ?thesis by (simp add: co_cancel_tables)
next
  case (beat clk lease l)
  then show ?thesis by (auto simp: heartbeat_def res_simps dest!: refresh_lease_only intro: update_stepI)
next
  case (transition clk lease target l)
  with assms(2) show ?thesis by (auto simp: transition_run_def res_simps dest!: run_ops_only intro: update_stepI)
next
  case (finish clk lease target l)
  with assms(2) show ?thesis by (auto dest!: finish_run_only[rotated] intro: update_stepI)
next
  case (finish_checkpointed clk lease target uuid l)
  with assms(2) show ?thesis by (simp add: finish_checkpoint_tables)
next
  case (cancel env plans_get clk ctx uuid r)
  with assms(2) show ?thesis
    by (auto dest!: request_cancellation_tables[rotated] intro: update_stepI update_steps_two[OF update_stepI(1) update_stepI(4)])
next
  case (decide clk ctx i ap ver)
  then show ?thesis
    using decide_approval_tables[where db = db and clk = clk and ctx = ctx and i = i and ap = ap and ver = ver]
    by (auto intro: update_steps_two[OF update_stepI(2) update_stepI(2)])
next
  case (approve clk lease i tc ex a)
  then show ?thesis by (auto simp: create_approval_def res_simps dest!: insert_approval_only intro: update_stepI)
next
  case (execute clk lease i ap tc nm kd st idem pl h status x)
  then show ?thesis by (auto simp: create_execution_def dest!: insert_execution_only intro: update_stepI)
next
  case (transition_execution clk lease i es ev target l)
  then show ?thesis
    by (auto simp: transition_execution_def res_simps dest!: transition_execution_row_only intro: update_stepI)
next
  case (complete clk lease i es ev target ext ref dg x)
  then show ?thesis
    by (auto simp: complete_execution_def res_simps dest!: update_execution_metadata_only intro: update_stepI)
next
  case (record_request clk lease i es ev rq x)
  then show ?thesis
    by (auto simp: record_external_request_id_def res_simps dest!: update_execution_metadata_only intro: update_stepI)
next
  case (persist clk lease cid seq ph pl h sv ap ex es ev n)
  then show ?thesis by (auto simp: write_checkpoint_def res_simps dest!: insert_checkpoint_only intro: update_stepI)
next
  case (save clk lease phase pl uuid cid seq ap ex es ev w)
  then show ?thesis by (auto dest!: checkpoint_only intro: update_stepI)
next
  case (environment ws cs pvs ms au)
  then show ?thesis by (auto simp: other_tables_def intro!: r_into_rtranclp update_stepI(5))
qed

lemma update_step_table_step: "(update_step sc)\<^sup>*\<^sup>* db db' \<Longrightarrow> (table_step sc)\<^sup>*\<^sup>* db db'"
  by (induction rule: rtranclp_induct) (auto simp: table_step_def intro: rtranclp.rtrancl_into_rtrancl)

lemma starts_run_tables: "starts_run s sc db db' \<Longrightarrow> (table_step sc)\<^sup>*\<^sup>* db db'"
  unfolding starts_run_def
  by (elim exE conjE, drule (2) create_run_only)
    (auto simp: table_step_def update_step_def
      intro: r_into_rtranclp rtranclp.rtrancl_into_rtrancl[OF r_into_rtranclp])

lemma wf_step_tables: "wf_step s sc db db' \<Longrightarrow> schema_ok db \<Longrightarrow> (table_step sc)\<^sup>*\<^sup>* db db'"
  using wf_step_shape update_step_table_step starts_run_tables by blast

lemma table_steps_any: "(table_step sc)\<^sup>*\<^sup>* db db' \<Longrightarrow> any_table_step\<^sup>*\<^sup>* db db'"
  by (induction rule: rtranclp_induct) (auto intro: rtranclp.rtrancl_into_rtrancl)

lemma wf_steps_tables:
  "(any_step s)\<^sup>*\<^sup>* db db' \<Longrightarrow> schema_ok db \<Longrightarrow> any_table_step\<^sup>*\<^sup>* db db' \<and> schema_ok db'"
proof (induction rule: rtranclp_induct)
  case (step y z)
  then have "any_table_step\<^sup>*\<^sup>* y z" "any_table_step\<^sup>*\<^sup>* db y"
    using wf_step_tables table_steps_any by blast+
  with step show ?case using rtranclp_trans[of any_table_step db y z] table_steps_schema_ok by blast
qed auto

section \<open>What a table change leaves alone\<close>

lemma only_new_run_frame:
  "only_new_run sc db db' \<Longrightarrow> approval_requests db' = approval_requests db \<and>
   tool_executions db' = tool_executions db \<and> execution_checkpoints db' = execution_checkpoints db \<and>
   (\<exists>r. agent_runs db' = agent_runs db @ [r] \<and> run_fresh r \<and> sc = Some (run_scope r))"
  by (auto simp: only_new_run_def insert_agent_run_def split: if_splits)

lemma only_runs_frame:
  "only_runs sc db db' \<Longrightarrow> approval_requests db' = approval_requests db \<and>
   tool_executions db' = tool_executions db \<and> execution_checkpoints db' = execution_checkpoints db \<and>
   runs_evolved sc (agent_runs db) (agent_runs db')"
  by (auto simp: only_runs_def)

lemma only_approvals_frame:
  "only_approvals sc db db' \<Longrightarrow> agent_runs db' = agent_runs db \<and>
   tool_executions db' = tool_executions db \<and> execution_checkpoints db' = execution_checkpoints db \<and>
   (approvals_evolved sc (approval_requests db) (approval_requests db') \<or>
    (\<exists>a. approval_requests db' = approval_requests db @ [a] \<and> a_status a = A_AWAITING_USER \<and>
      sc = Some (approval_scope a)))"
  by (auto simp: only_approvals_def insert_approval_request_def split: if_splits)

lemma only_execs_frame:
  "only_execs sc db db' \<Longrightarrow> agent_runs db' = agent_runs db \<and>
   approval_requests db' = approval_requests db \<and> execution_checkpoints db' = execution_checkpoints db \<and>
   (execs_evolved sc (tool_executions db) (tool_executions db') \<or>
    (\<exists>x. tool_executions db' = tool_executions db @ [x] \<and> sc = Some (exec_scope x) \<and>
      (\<forall>y \<in> set (tool_executions db). exec_scope y = exec_scope x \<longrightarrow> exec_terminal (x_status y))))"
  by (auto simp: only_execs_def insert_tool_execution_def split: if_splits)

lemma only_checkpoint_frame:
  "only_checkpoint sc db db' \<Longrightarrow> agent_runs db' = agent_runs db \<and>
   approval_requests db' = approval_requests db \<and> tool_executions db' = tool_executions db \<and>
   (\<exists>c. execution_checkpoints db' = execution_checkpoints db @ [c] \<and> sc = Some (checkpoint_scope c))"
  by (auto simp: only_checkpoint_def insert_execution_checkpoint_def split: if_splits)

lemma other_tables_frame:
  "other_tables db db' \<Longrightarrow> agent_runs db' = agent_runs db \<and> approval_requests db' = approval_requests db \<and>
   tool_executions db' = tool_executions db \<and> execution_checkpoints db' = execution_checkpoints db"
  by (simp add: other_tables_def)

lemmas table_frames = only_new_run_frame only_runs_frame only_approvals_frame only_execs_frame
  only_checkpoint_frame


section \<open>Status machines\<close>

text \<open>
  The contract of the three status columns: a table of legal successors in which the final statuses
  have none. Whatever path a row takes, a final status is kept.
\<close>

locale status_machine =
  fixes legal :: "'s \<Rightarrow> 's list" and final :: "'s \<Rightarrow> bool"
  assumes final_has_no_successor: "final s \<Longrightarrow> legal s = []"
begin

lemma final_absorbing:
  assumes "(\<lambda>s t. t = s \<or> t \<in> set (legal s))\<^sup>*\<^sup>* s t" "final s"
  shows "t = s"
  using assms by (induction rule: rtranclp_induct) (auto simp: final_has_no_successor)

lemma never_left_final:
  assumes "t = s \<or> t \<in> set (legal s)" "\<not> final t"
  shows "\<not> final s"
  using assms final_has_no_successor by auto

end

interpretation run_status: status_machine LEGAL_RUN_TRANSITIONS run_terminal
  by unfold_locales (auto simp: TERMINAL_RUN_STATUSES_def)

interpretation approval_status: status_machine LEGAL_APPROVAL_TRANSITIONS "\<lambda>s. s \<noteq> A_AWAITING_USER"
proof
  show "s \<noteq> A_AWAITING_USER \<Longrightarrow> LEGAL_APPROVAL_TRANSITIONS s = []" for s by (cases s) auto
qed

interpretation exec_status: status_machine LEGAL_EXECUTION_TRANSITIONS exec_terminal
  by unfold_locales (auto simp: TERMINAL_EXECUTION_STATUSES_def)


section \<open>Versioned rows\<close>

text \<open>
  The contract of a table whose rows carry a key and a version: a step of the system keeps every row,
  unchanged or evolved, and an evolution keeps the key and moves the version on. Then a row and its
  version together identify its contents for the whole history: the version number is a fence.
\<close>

locale versioned_rows =
  fixes step :: "'db \<Rightarrow> 'db \<Rightarrow> bool" and inv :: "'db \<Rightarrow> bool" and rows :: "'db \<Rightarrow> 'r list"
    and key :: "'r \<Rightarrow> 'k" and ver :: "'r \<Rightarrow> int" and evolves :: "'r \<Rightarrow> 'r \<Rightarrow> bool"
  assumes inv_step: "step db db' \<Longrightarrow> inv db \<Longrightarrow> inv db'"
    and inv_distinct: "inv db \<Longrightarrow> distinct (map key (rows db))"
    and step_row: "step db db' \<Longrightarrow> inv db \<Longrightarrow> r \<in> set (rows db) \<Longrightarrow>
          \<exists>r' \<in> set (rows db'). r' = r \<or> evolves r r'"
    and evolves_key: "evolves r r' \<Longrightarrow> key r' = key r"
    and evolves_ver: "evolves r r' \<Longrightarrow> ver r < ver r'"
begin

lemma steps_inv: "step\<^sup>*\<^sup>* db db' \<Longrightarrow> inv db \<Longrightarrow> inv db'"
  by (induction rule: rtranclp_induct) (auto intro: inv_step)

lemma history:
  assumes "evolves\<^sup>*\<^sup>* r r'"
  shows "key r' = key r \<and> ver r \<le> ver r' \<and> (ver r' = ver r \<longrightarrow> r' = r)"
  using assms
proof (induction rule: rtranclp_induct)
  case (step y z)
  then show ?case using evolves_key[OF step.hyps(2)] evolves_ver[OF step.hyps(2)] by auto
qed simp

lemma later_row:
  assumes "step\<^sup>*\<^sup>* db db'" "inv db" "r \<in> set (rows db)"
  shows "\<exists>r' \<in> set (rows db'). evolves\<^sup>*\<^sup>* r r'"
  using assms
proof (induction rule: rtranclp_induct)
  case (step y z)
  then obtain r' where r': "r' \<in> set (rows y)" "evolves\<^sup>*\<^sup>* r r'" by blast
  moreover have "inv y" using steps_inv step by blast
  ultimately obtain r'' where "r'' \<in> set (rows z)" "r'' = r' \<or> evolves r' r''"
    using step_row[OF step.hyps(2)] by blast
  then show ?case using r'(2) rtranclp.rtrancl_into_rtrancl[of evolves r r' r''] by blast
qed auto

lemma same_key_later:
  assumes "step\<^sup>*\<^sup>* db db'" "inv db" "r \<in> set (rows db)" "r' \<in> set (rows db')" "key r' = key r"
  shows "evolves\<^sup>*\<^sup>* r r'"
proof -
  obtain q where q: "q \<in> set (rows db')" "evolves\<^sup>*\<^sup>* r q" using later_row[OF assms(1-3)] by blast
  have "q = r'"
    using distinct_key_unique[OF inv_distinct[OF steps_inv[OF assms(1,2)]] q(1) assms(4)]
      history[OF q(2)] assms(5) by simp
  with q(2) show ?thesis by simp
qed

text \<open>A reader that saw version \<open>v\<close> superseded never meets it again.\<close>

lemma version_fence:
  assumes "step\<^sup>*\<^sup>* db db'" "inv db" "r \<in> set (rows db)" "r' \<in> set (rows db')" "key r' = key r"
  shows "ver r \<le> ver r'" "ver r' = ver r \<Longrightarrow> r' = r"
  using history[OF same_key_later[OF assms]] by auto

end

lemma evolved_row:
  "list_all2 (\<lambda>r r'. r' = r \<or> P r r' \<and> Q r) rows rows' \<Longrightarrow> r \<in> set rows \<Longrightarrow>
   \<exists>r' \<in> set rows'. r' = r \<or> P r r'"
  by (drule (1) list_all2_leftE) blast

lemma run_evolves_row:
  assumes "any_table_step db db'" "schema_ok db" "r \<in> set (agent_runs db)"
  shows "\<exists>r' \<in> set (agent_runs db'). r' = r \<or> run_evolves r r'"
proof -
  obtain sc where "table_step sc db db'" using assms(1) by blast
  then show ?thesis
  proof (cases rule: table_step_cases)
    case runs
    then show ?thesis
      using assms(3) evolved_row[of run_evolves _ "agent_runs db" "agent_runs db'" r] by (auto dest: only_runs_frame simp: runs_evolved_def)
  qed (use assms(3) table_frames[of sc db db'] other_tables_frame[of db db'] in auto)
qed

interpretation run_rows: versioned_rows any_table_step schema_ok agent_runs run_scope r_version run_evolves
proof
  show "distinct (map run_scope (agent_runs db))" if "schema_ok db" for db
    using schema_okD(1)[OF that] by (auto simp: distinct_map inj_on_def run_scope_def)
qed (rule any_table_step_schema_ok run_evolves_row; assumption | simp add: run_evolves_def)+

lemma approval_evolves_row:
  assumes "any_table_step db db'" "schema_ok db" "a \<in> set (approval_requests db)"
  shows "\<exists>a' \<in> set (approval_requests db'). a' = a \<or> approval_evolves a a'"
proof -
  obtain sc where "table_step sc db db'" using assms(1) by blast
  then show ?thesis
  proof (cases rule: table_step_cases)
    case approvals
    then show ?thesis
      using assms(3) evolved_row[of approval_evolves _ "approval_requests db" "approval_requests db'" a]
      by (auto dest!: only_approvals_frame simp: approvals_evolved_def)
  qed (use assms(3) table_frames[of sc db db'] other_tables_frame[of db db'] in auto)
qed

interpretation approval_rows:
  versioned_rows any_table_step schema_ok approval_requests a_approval_id a_version approval_evolves
  by unfold_locales
    (rule any_table_step_schema_ok approval_evolves_row schema_okD(3); assumption
      | simp add: approval_evolves_def)+

lemma exec_evolves_row:
  assumes "any_table_step db db'" "schema_ok db" "x \<in> set (tool_executions db)"
  shows "\<exists>x' \<in> set (tool_executions db'). x' = x \<or> exec_evolves x x'"
proof -
  obtain sc where "table_step sc db db'" using assms(1) by blast
  then show ?thesis
  proof (cases rule: table_step_cases)
    case execs
    then show ?thesis
      using assms(3) evolved_row[of exec_evolves _ "tool_executions db" "tool_executions db'" x]
      by (auto dest!: only_execs_frame simp: execs_evolved_def)
  qed (use assms(3) table_frames[of sc db db'] other_tables_frame[of db db'] in auto)
qed

interpretation exec_rows:
  versioned_rows any_table_step schema_ok tool_executions x_execution_id x_version exec_evolves
  by unfold_locales
    (rule any_table_step_schema_ok exec_evolves_row schema_okD(4); assumption | simp add: exec_evolves_def)+

end
