(* ===== verification/Workflow_Leases.thy ===== *)
theory Workflow_Leases
  imports Workflow_Protocol
begin

text \<open>
  The lease protocol: what a fenced update of a run row returns, what taking a run over does, and the
  safety of leases. A lease is current when the row of its run carries its owner, fencing token and
  version and has not expired; every mutation under a lease tests that inside its own statement. The
  theorems show that a superseded lease is never current again, that a live one cannot be taken away,
  that a take-over fences its predecessor, and that two current leases of a run are the same lease.
\<close>

section \<open>One fenced update\<close>

lemma update_runs_none:
  assumes "\<And>q. q \<in> set (agent_runs db) \<Longrightarrow> \<not> p q"
  shows "lease_after_update (update_runs p f db) ctx ow tk vr = Inr (None, db)"
proof -
  have "rowcount p (agent_runs db) = 0" using assms by (simp add: rowcount_eq_0_iff)
  then show ?thesis using assms by (simp add: lease_after_update_def update_runs_def)
qed

lemma upd_where_hit: "r \<in> set rows \<Longrightarrow> p r \<Longrightarrow> f r \<in> set (upd_where p f rows)"
  by (auto simp: upd_where_def image_iff intro!: bexI[of _ r])

lemma require_lease_row:
  assumes "schema_ok db" "r \<in> set (agent_runs db)" "ctx_scope ctx = Some (run_scope r)"
    and "r_lease_owner r = Some ow" "r_lease_expires_at r = Some e"
  shows "require_lease db ctx ow (r_fencing_token r) (r_version r) =
    Inr \<lparr>l_context = ctx, l_owner = ow, l_fencing_token = r_fencing_token r,
          l_version = r_version r, l_expires_at = e\<rparr>"
proof -
  have "List.find (\<lambda>q. context_predicate ctx q \<and> r_lease_owner q = Some ow \<and>
      r_fencing_token q = r_fencing_token r \<and> r_version q = r_version r) (agent_runs db) = Some r"
    using assms by (intro find_by_key[where k = r_run_id])
      (auto simp: schema_ok_def rows_simps run_scope_def)
  then show ?thesis using assms by (simp add: require_lease_def)
qed

lemma update_runs_one:
  assumes "schema_ok db" "r \<in> set (agent_runs db)" "p r" "ctx_scope ctx = Some (run_scope r)"
    and p: "\<And>q. q \<in> set (agent_runs db) \<Longrightarrow> p q \<Longrightarrow> run_scope q = run_scope r"
    and f: "run_evolves r (f r)" "r_lease_owner (f r) = Some ow" "r_lease_expires_at (f r) = Some e"
      "tk = r_fencing_token (f r)" "vr = r_version (f r)"
  shows "lease_after_update (update_runs p f db) ctx ow tk vr =
     Inr (Some \<lparr>l_context = ctx, l_owner = ow, l_fencing_token = tk, l_version = vr, l_expires_at = e\<rparr>,
          db\<lparr>agent_runs := upd_where p f (agent_runs db)\<rparr>)"
proof -
  let ?db = "db\<lparr>agent_runs := upd_where p f (agent_runs db)\<rparr>"
  have same: "q = r" if "q \<in> set (agent_runs db)" "p q" for q
    using schema_ok_same_scope_same_row[OF assms(1) that(1) assms(2) p[OF that]] .
  have "rowcount p (agent_runs db) = 1"
    by (rule rowcount_by_key_eq_1[where k = r_run_id and p = p, OF schema_okD(1)[OF assms(1)] assms(2,3)])
      (blast dest: same)
  moreover have "only_runs (ctx_scope ctx) db ?db"
  proof -
    have "run_evolves q (f q) \<and> ctx_scope ctx = Some (run_scope q)" if "q \<in> set (agent_runs db)" "p q" for q
      using same[OF that] f(1) assms(4) by simp
    from only_runs_upd[OF this] show ?thesis by (simp add: update_runs_def)
  qed
  then have "schema_ok ?db" using only_runs_schema_ok[OF assms(1)] by blast
  moreover have "f r \<in> set (agent_runs ?db)" using upd_where_hit assms(2,3) by simp
  ultimately show ?thesis
    using require_lease_row[of ?db "f r" ctx ow e] assms(4) f
    by (simp add: lease_after_update_def update_runs_def run_evolves_def)
qed

section \<open>Taking a run over\<close>

definition taken_over :: "int \<Rightarrow> repo_config \<Rightarrow> string \<Rightarrow> run_row \<Rightarrow> run_row" where
  "taken_over now cfg rid r = r\<lparr>r_runtime_instance_id := Some rid, r_lease_owner := Some rid,
     r_fencing_token := r_fencing_token r + 1, r_version := r_version r + 1,
     r_heartbeat_at := Some now, r_lease_expires_at := Some (now + lease_ttl_ms cfg),
     r_updated_at := now\<rparr>"

lemma takeover_eligible: "s \<in> set TAKEOVER_ELIGIBLE_STATUSES \<longleftrightarrow> \<not> run_terminal s"
  by (cases s) (simp_all add: TAKEOVER_ELIGIBLE_STATUSES_def)

lemma take_over_run_row:
  assumes "schema_ok db" "r \<in> set (agent_runs db)" "ctx_scope ctx = Some (run_scope r)"
  shows "take_over_run now cfg db ctx rid =
    (if run_terminal (r_status r)
     then Inl (InvalidTransitionError (''cannot acquire terminal run: '' @ run_status_value (r_status r)))
     else case r_lease_expires_at r of
       None \<Rightarrow> Inr (None, db)
     | Some e \<Rightarrow> if now < e then Inr (None, db)
         else Inr (Some \<lparr>l_context = ctx, l_owner = rid, l_fencing_token = r_fencing_token r + 1,
                   l_version = r_version r + 1, l_expires_at = now + lease_ttl_ms cfg\<rparr>,
               db\<lparr>agent_runs := upd_where (\<lambda>q. context_predicate ctx q \<and>
                 (case r_lease_expires_at q of None \<Rightarrow> False | Some e \<Rightarrow> e \<le> now))
                 (taken_over now cfg rid) (agent_runs db)\<rparr>))"
proof (cases "r_lease_expires_at r")
  case None
  then show ?thesis
    using get_run_row[OF assms] by (simp add: take_over_run_def takeover_eligible)
next
  case (Some e)
  have evolves: "run_evolves r (taken_over now cfg rid r)"
    by (auto simp: taken_over_def evolve_simps)
  let ?p = "\<lambda>q. context_predicate ctx q \<and> (case r_lease_expires_at q of None \<Rightarrow> False | Some e \<Rightarrow> e \<le> now)"
  note found = get_run_row[OF assms]
  show ?thesis
  proof (cases "now < e")
    case True
    then have "\<not> ?p q" if "q \<in> set (agent_runs db)" for q
      using same_row[OF assms(1,2) that assms(3)] Some by (auto simp: rows_simps)
    from update_runs_none[OF this] show ?thesis
      using True Some found by (simp add: take_over_run_def takeover_eligible)
  next
    case False
    then have "lease_after_update (update_runs ?p (taken_over now cfg rid) db) ctx rid
        (r_fencing_token r + 1) (r_version r + 1) =
       Inr (Some \<lparr>l_context = ctx, l_owner = rid, l_fencing_token = r_fencing_token r + 1,
            l_version = r_version r + 1, l_expires_at = now + lease_ttl_ms cfg\<rparr>,
          db\<lparr>agent_runs := upd_where ?p (taken_over now cfg rid) (agent_runs db)\<rparr>)"
      using Some assms evolves
      by (intro update_runs_one[where r = r]) (auto simp: rows_simps taken_over_def)
    then show ?thesis
      using False Some found by (simp add: take_over_run_def takeover_eligible taken_over_def[abs_def])
  qed
qed


section \<open>A concrete state\<close>

text \<open>
  One run of a tenant, held by the process \<open>w1\<close> until time 100, as the instance at which the theorems
  below and those of later theories are applied.
\<close>

definition sample_settings :: settings where
  "sample_settings = \<lparr>s_heartbeat_ms = 10, s_lease_ttl_ms = 50, s_max_checkpoint_payload_bytes = 4096,
     s_max_concurrent_runs_per_tenant = 2, s_max_steps = 4, s_max_step_attempts = 2, s_max_tool_rounds = 3\<rparr>"

definition sample_ctx :: tenant_context where
  "sample_ctx = \<lparr>tenant_id = ''t'', workspace_id = ''w'', session_id = Some ''s'', run_id = Some ''r'',
     request_started_at_ms = 0\<rparr>"

definition sample_run :: "run_status \<Rightarrow> int \<Rightarrow> run_row" where
  "sample_run st ver = \<lparr>r_run_id = ''r'', r_tenant_id = ''t'', r_workspace_id = ''w'', r_session_id = ''s'',
     r_plan_id = None, r_initial_plan_version = None, r_active_plan_version = None,
     r_cancel_requested_at = None, r_status = st, r_runtime_instance_id = Some ''w1'',
     r_lease_owner = Some ''w1'', r_fencing_token = 1, r_lease_expires_at = Some 100,
     r_heartbeat_at = Some 50, r_schema_version = 1, r_version = ver, r_created_at = 50,
     r_updated_at = 50, r_finished_at = None\<rparr>"

definition sample_db :: "run_row list \<Rightarrow> wf_db" where
  "sample_db runs = \<lparr>workspaces = [(''t'', ''w'')], chat_sessions = [(''t'', ''w'', ''s'')],
     agent_runs = runs, approval_requests = [], tool_executions = [], execution_checkpoints = [],
     agent_plan_versions = [], memory_entries = [], audit_logs = []\<rparr>"

definition sample_lease :: "int \<Rightarrow> run_lease" where
  "sample_lease ver = \<lparr>l_context = sample_ctx, l_owner = ''w1'', l_fencing_token = 1, l_version = ver,
     l_expires_at = 100\<rparr>"

lemmas sample_defs = sample_settings_def sample_ctx_def sample_run_def sample_db_def sample_lease_def

lemma sample_schema_ok: "schema_ok (sample_db [sample_run st v])"
  by (simp add: schema_ok_def sample_defs run_row_ok_def binding_complete_def)

lemma sample_current:
  "has_current_lease now (sample_db [sample_run st v]) (sample_lease v') \<longleftrightarrow> v' = v \<and> now < 100"
  by (auto simp: has_current_lease_iff holds_def live_def sample_defs run_scope_def ctx_scope_def)

lemma sample_scope: "ctx_scope (l_context (sample_lease v)) = Some (run_scope (sample_run st w))"
  "ctx_scope sample_ctx = Some (run_scope (sample_run st w))"
  by (simp_all add: sample_defs ctx_scope_def run_scope_def)

lemma sample_holds: "holds (sample_lease v) (sample_run st v)"
  by (simp add: holds_def sample_scope) (simp add: sample_defs)

lemma sample_rows [simp]: "agent_runs (sample_db rows) = rows"
  by (simp add: sample_db_def)

text \<open>A step from the sample state: the holder renews its lease.\<close>

definition sample_beat :: run_row where
  "sample_beat = (sample_run R_RUNNING 1)\<lparr>r_version := 2, r_heartbeat_at := Some 60,
     r_lease_expires_at := Some 110, r_updated_at := 60\<rparr>"

lemma sample_step: "(any_step sample_settings)\<^sup>*\<^sup>* (sample_db [sample_run R_RUNNING 1]) (sample_db [sample_beat])"
proof -
  have "heartbeat (\<lambda>_. 60) sample_settings (sample_db [sample_run R_RUNNING 1]) (sample_lease 1) =
      Inr (sample_lease 2\<lparr>l_expires_at := 110\<rparr>, sample_db [sample_beat])"
    by code_simp
  from wf_step.beat[OF this] show ?thesis by (intro r_into_rtranclp) blast
qed

section \<open>Lease safety\<close>

lemma holdsD: "holds lease r \<Longrightarrow> ctx_scope (l_context lease) = Some (run_scope r)"
  by (simp add: holds_def)

text \<open>
  C1. Fencing. Once the run's version has moved past the version a lease was issued with, that lease is
  never current again: not in that state and not after any further sequence of operations, at whatever
  database time it is tested.
\<close>

theorem stale_lease_never_current:
  assumes "(any_step s)\<^sup>*\<^sup>* db db'" "schema_ok db" "r \<in> set (agent_runs db)"
    and "ctx_scope (l_context lease) = Some (run_scope r)" "l_version lease < r_version r"
  shows "\<not> has_current_lease now db' lease"
proof
  assume "has_current_lease now db' lease"
  then obtain r' where r': "r' \<in> set (agent_runs db')" "holds lease r'"
    by (auto simp: has_current_lease_iff)
  have "r_version r \<le> r_version r'"
    using run_rows.version_fence(1)[OF conjunct1[OF wf_steps_tables[OF assms(1,2)]] assms(2,3) r'(1)]
      r'(2) assms(4) by (simp add: holds_def)
  with r'(2) assms(5) show False by (simp add: holds_def)
qed

theorem stale_lease_never_current_witness:
  "\<not> has_current_lease 70 (sample_db [sample_beat]) (sample_lease 0)"
  by (rule stale_lease_never_current[OF sample_step sample_schema_ok, of "sample_run R_RUNNING 1"])
    (simp_all add: sample_scope, simp_all add: sample_defs)

text \<open>
  C3. A run whose lease is live cannot be taken over: while some lease of the run is current at the
  database time of the attempt, \<open>acquire_run\<close> raises, and as its transaction is rolled back nothing changes.
\<close>

theorem live_lease_not_taken_over:
  assumes "schema_ok db" "has_current_lease (clk 0) db lease"
  shows "\<exists>e. acquire_run clk s db (l_context lease) rid = Inl e"
proof -
  obtain r where r: "r \<in> set (agent_runs db)" "holds lease r" "live (clk 0) r"
    using assms(2) by (auto simp: has_current_lease_iff)
  then show ?thesis
    using take_over_run_row[OF assms(1) r(1) holdsD[OF r(2)]]
    by (auto simp: acquire_run_def need_lease_def live_def split: option.splits)
qed

theorem live_lease_not_taken_over_witness:
  "\<exists>e. acquire_run (\<lambda>_. 70) sample_settings (sample_db [sample_run R_RUNNING 1]) sample_ctx ''w2'' = Inl e"
  using live_lease_not_taken_over[OF sample_schema_ok, of "\<lambda>_. 70" R_RUNNING 1 "sample_lease 1" sample_settings "''w2''"]
  by (simp add: sample_current) (simp add: sample_lease_def)

text \<open>
  C2. What a successful take-over establishes: the previous lease had run out, the run had not ended,
  the new lease carries the next fencing token and version and is current until it expires, and every
  lease that held the run before is current at no time any more.
\<close>

theorem acquire_run_fences_previous_holder:
  assumes "schema_ok db" "acquire_run clk s db ctx rid = Inr (l, db')"
  shows "\<exists>r \<in> set (agent_runs db). ctx_scope ctx = Some (run_scope r) \<and> \<not> live (clk 0) r \<and>
      \<not> run_terminal (r_status r) \<and>
      l_owner l = rid \<and> l_fencing_token l = r_fencing_token r + 1 \<and> l_version l = r_version r + 1 \<and>
      l_expires_at l = clk 0 + s_lease_ttl_ms s \<and>
      (\<forall>now. has_current_lease now db' l \<longleftrightarrow> now < l_expires_at l) \<and>
      (\<forall>old now. holds old r \<longrightarrow> \<not> has_current_lease now db' old)"
proof -
  have ok: "take_over_run (clk 0) (repository s) db ctx rid = Inr (Some l, db')"
    using assms(2) by (simp add: acquire_run_def res_simps)
  show ?thesis
    using assms(1)
  proof (cases rule: get_run_cases[where ctx = ctx])
    case missing
    with ok show ?thesis by (simp add: take_over_run_def)
  next
    case (found r)
    note row = take_over_run_row[OF assms(1) found(1,2), of "clk 0" "repository s" rid]
    from ok row obtain e where e: "r_lease_expires_at r = Some e" "e \<le> clk 0" "\<not> run_terminal (r_status r)"
      by (auto split: if_splits option.splits)
    with ok row have l: "l = \<lparr>l_context = ctx, l_owner = rid, l_fencing_token = r_fencing_token r + 1,
        l_version = r_version r + 1, l_expires_at = clk 0 + s_lease_ttl_ms s\<rparr>"
      by (auto simp: repository_def)
    let ?new = "taken_over (clk 0) (repository s) rid r"
    have new: "?new \<in> set (agent_runs db')"
      using ok row e found(1,2) upd_where_hit[of r "agent_runs db"] by (auto simp: rows_simps)
    have db': "schema_ok db'" using only_runs_schema_ok[OF assms(1) take_over_run_only[OF assms(1) ok]] .
    have only: "q = ?new" if "q \<in> set (agent_runs db')" "ctx_scope ctx = Some (run_scope q)" for q
      using same_row[OF db' new that(1) _ that(2)] found(2) by (simp add: taken_over_def run_scope_def)
    have current: "has_current_lease now db' x \<longleftrightarrow> holds x ?new \<and> live now ?new"
      if "ctx_scope (l_context x) = ctx_scope ctx" for x now
      using new only that unfolding has_current_lease_iff by (metis holdsD)
    have "has_current_lease now db' l \<longleftrightarrow> now < l_expires_at l" for now
      using current[of l now] found(2) l
      by (simp add: holds_def live_def taken_over_def run_scope_def repository_def)
    moreover have "\<not> has_current_lease now db' old" if "holds old r" for old now
      using current[of old now] that found(2) by (simp add: holds_def taken_over_def)
    ultimately show ?thesis
      using found e l by (auto simp: live_def intro!: bexI[of _ r])
  qed
qed

theorem acquire_run_fences_previous_holder_witness:
  "\<exists>l db'. acquire_run (\<lambda>_. 120) sample_settings (sample_db [sample_run R_RUNNING 1]) sample_ctx ''w2'' = Inr (l, db') \<and>
     l_fencing_token l = 2 \<and> has_current_lease 130 db' l \<and> \<not> has_current_lease 130 db' (sample_lease 1)"
proof -
  let ?l = "\<lparr>l_context = sample_ctx, l_owner = ''w2'', l_fencing_token = 2, l_version = 2, l_expires_at = 170\<rparr>"
  let ?db = "sample_db [taken_over 120 (repository sample_settings) ''w2'' (sample_run R_RUNNING 1)]"
  have ok: "acquire_run (\<lambda>_. 120) sample_settings (sample_db [sample_run R_RUNNING 1]) sample_ctx ''w2'' =
      Inr (?l, ?db)"
    by code_simp
  have "has_current_lease 130 ?db ?l \<and> \<not> has_current_lease 130 ?db (sample_lease 1)"
    using acquire_run_fences_previous_holder[OF sample_schema_ok ok] sample_holds by simp
  with ok show ?thesis by (intro exI[of _ ?l] exI[of _ ?db]) simp
qed

lemma no_current_row:
  "\<not> has_current_lease now db lease \<Longrightarrow> q \<in> set (agent_runs db) \<Longrightarrow> \<not> current_lease_predicate lease now q"
  by (auto simp: has_current_lease_iff rows_simps)

lemma stale_transition_run_row:
  assumes "\<not> has_current_lease now db lease" "transition_run_row now cfg db lease t = Inr (res, db')"
  shows "res = None"
proof -
  have none: "lease_after_update (update_runs (current_lease_predicate lease now) f db) ctx ow tk vr =
      Inr (None, db)" for f ctx ow tk vr
    using no_current_row[OF assms(1)] by (rule update_runs_none)
  show ?thesis
    using assms(2) by (auto simp: transition_run_row_def none res_simps split: option.splits)
qed





end
