(* ===== verification/Workflow_Invariants.thy ===== *)
theory Workflow_Invariants
  imports Workflow_Leases
begin

text \<open>
  What holds in every state the coordinator's operations can reach from empty workflow tables, in
  whatever order the operations of different processes are interleaved: one unfinished tool
  execution per run, ended runs stay as they ended, the finish time belongs to the terminal status,
  and the quota of active runs of a tenant.
\<close>

section \<open>Reachable states\<close>

definition initial_db :: "wf_db \<Rightarrow> bool" where
  "initial_db db \<longleftrightarrow> agent_runs db = [] \<and> approval_requests db = [] \<and> tool_executions db = [] \<and>
     execution_checkpoints db = []"

definition reachable :: "settings \<Rightarrow> wf_db \<Rightarrow> bool" where
  "reachable s db \<longleftrightarrow> (\<exists>db0. initial_db db0 \<and> (any_step s)\<^sup>*\<^sup>* db0 db)"

lemma initial_schema_ok: "initial_db db \<Longrightarrow> schema_ok db"
  by (simp add: initial_db_def schema_ok_def)

lemma reachable_schema_ok: "reachable s db \<Longrightarrow> schema_ok db"
  unfolding reachable_def using initial_schema_ok wf_steps_tables by blast

text \<open>An invariant of the table changes holds in every reachable state.\<close>

lemma table_invariant:
  assumes "reachable s db" "\<And>db0. initial_db db0 \<Longrightarrow> P db0"
    and "\<And>sc db db'. table_step sc db db' \<Longrightarrow> schema_ok db \<Longrightarrow> P db \<Longrightarrow> P db'"
  shows "P db"
proof -
  obtain db0 where db0: "initial_db db0" "any_table_step\<^sup>*\<^sup>* db0 db"
    using assms(1) initial_schema_ok wf_steps_tables unfolding reachable_def by blast
  from db0(2) have "P db \<and> schema_ok db"
    by (induction rule: rtranclp_induct)
      (use assms(2,3) db0(1) initial_schema_ok table_step_schema_ok in blast)+
  then show ?thesis ..
qed

text \<open>A reachable state with a run and its first tool execution.\<close>

definition sample_exec :: execution_row where
  "sample_exec = \<lparr>x_execution_id = ''x'', x_tenant_id = ''t'', x_workspace_id = ''w'', x_session_id = ''s'',
     x_run_id = ''r'', x_approval_id = None, x_tool_call_id = ''c'', x_tool_name = ''read'',
     x_tool_kind = ''native'', x_status = X_EXECUTING, x_recovery_strategy = S_READ_ONLY_REPLAY,
     x_idempotency_key = None, x_input_payload_json = ''{}'', x_input_hash = ''h'',
     x_external_request_id = None, x_result_ref = None, x_result_digest = None, x_schema_version = 1,
     x_version = 1, x_created_at = 60, x_updated_at = 60, x_finished_at = None\<rparr>"

definition sample_exec_db :: wf_db where
  "sample_exec_db = (sample_db [sample_run R_RUNNING 1])\<lparr>tool_executions := [sample_exec]\<rparr>"

lemma sample_start:
  "start_run (\<lambda>_. 50) sample_settings (sample_db []) sample_ctx ''w1'' =
     Inr (sample_lease 1, sample_db [sample_run R_RUNNING 1])"
  by code_simp

lemma sample_reachable: "reachable sample_settings (sample_db [sample_run R_RUNNING 1])"
proof -
  have "initial_db (sample_db [])" by (simp add: initial_db_def sample_db_def)
  moreover have "any_step sample_settings (sample_db []) (sample_db [sample_run R_RUNNING 1])"
    using wf_step.start[OF sample_start] by (auto simp: context_ok_def sample_ctx_def)
  ultimately show ?thesis unfolding reachable_def by blast
qed

lemma reachable_step: "reachable s db \<Longrightarrow> wf_step s sc db db' \<Longrightarrow> reachable s db'"
  unfolding reachable_def by (blast intro: rtranclp.rtrancl_into_rtrancl)

lemma sample_exec_reachable: "reachable sample_settings sample_exec_db"
proof -
  have "\<exists>x. create_execution (\<lambda>_. 60) sample_settings (sample_db [sample_run R_RUNNING 1]) (sample_lease 1)
      ''x'' None ''c'' ''read'' ''native'' S_READ_ONLY_REPLAY None ''{}'' ''h'' X_EXECUTING = Inr (x, sample_exec_db)"
    by (simp add: create_execution_def insert_execution_def sample_current)
      (simp add: sample_defs sample_exec_def sample_exec_db_def repository_def insert_tool_execution_def
        exec_scope_def run_scope_def approval_fk_def get_execution_def context_predicate_def
        execution_scope_predicate_def need_def)
  then show ?thesis using reachable_step[OF sample_reachable] wf_step.execute by blast
qed

section \<open>One unfinished execution per run\<close>

definition single_execution :: "wf_db \<Rightarrow> bool" where
  "single_execution db \<longleftrightarrow> (\<forall>x \<in> set (tool_executions db). \<forall>y \<in> set (tool_executions db).
     exec_scope x = exec_scope y \<longrightarrow> \<not> exec_terminal (x_status x) \<longrightarrow> \<not> exec_terminal (x_status y) \<longrightarrow> x = y)"

lemma exec_evolves_nonterminal:
  "exec_evolves x x' \<Longrightarrow> \<not> exec_terminal (x_status x') \<Longrightarrow> \<not> exec_terminal (x_status x)"
  using exec_status.never_left_final[of "x_status x'" "x_status x"] by (auto simp: exec_evolves_def)

lemma exec_evolves_keys:
  "exec_evolves x x' \<Longrightarrow> exec_scope x' = exec_scope x \<and> x_execution_id x' = x_execution_id x"
  by (simp add: exec_evolves_def)

lemma single_execution_evolved:
  assumes "schema_ok db'" "single_execution db"
    and "execs_evolved sc (tool_executions db) (tool_executions db')"
  shows "single_execution db'"
  unfolding single_execution_def
proof (intro ballI impI)
  fix x' y' assume x': "x' \<in> set (tool_executions db')" "\<not> exec_terminal (x_status x')"
    and y': "y' \<in> set (tool_executions db')" "\<not> exec_terminal (x_status y')"
    and scope: "exec_scope x' = exec_scope y'"
  obtain x y where x: "x \<in> set (tool_executions db)" "x' = x \<or> exec_evolves x x'"
    and y: "y \<in> set (tool_executions db)" "y' = y \<or> exec_evolves y y'"
    using list_all2_rightE[OF assms(3)[unfolded execs_evolved_def]] x'(1) y'(1) by meson
  have "exec_scope x = exec_scope y"
    using x(2) y(2) scope exec_evolves_keys by metis
  moreover have "\<not> exec_terminal (x_status x)" "\<not> exec_terminal (x_status y)"
    using x(2) y(2) x'(2) y'(2) exec_evolves_nonterminal by blast+
  ultimately have "x = y" using assms(2) x(1) y(1) unfolding single_execution_def by blast
  then have "x_execution_id x' = x_execution_id y'" using x(2) y(2) exec_evolves_keys by metis
  then show "x' = y'" using distinct_key_unique[OF schema_okD(4)[OF assms(1)] x'(1) y'(1)] by simp
qed

lemma single_execution_step:
  assumes "table_step sc db db'" "schema_ok db" "single_execution db"
  shows "single_execution db'"
  using assms(1)
proof (cases rule: table_step_cases)
  case execs
  from only_execs_frame[OF this] show ?thesis
  proof (elim conjE disjE)
    assume "execs_evolved sc (tool_executions db) (tool_executions db')"
    then show ?thesis
      using single_execution_evolved table_step_schema_ok[OF assms(1,2)] assms(3) by blast
  next
    assume "\<exists>x. tool_executions db' = tool_executions db @ [x] \<and> sc = Some (exec_scope x) \<and>
      (\<forall>y \<in> set (tool_executions db). exec_scope y = exec_scope x \<longrightarrow> exec_terminal (x_status y))"
    with assms(3) show ?thesis by (auto simp: single_execution_def)
  qed
qed (use assms(3) table_frames[of sc db db'] other_tables_frame[of db db'] in \<open>auto simp: single_execution_def\<close>)

lemma single_execution_initial: "initial_db db \<Longrightarrow> single_execution db"
  by (simp add: initial_db_def single_execution_def)

text \<open>
  C4. In every reachable state a run has at most one tool execution that has not ended: however the
  operations of different workers interleave, no second one is ever started.
\<close>

theorem at_most_one_unfinished_execution:
  assumes "reachable s db" "x \<in> set (tool_executions db)" "y \<in> set (tool_executions db)"
    and "exec_scope x = exec_scope y" "\<not> exec_terminal (x_status x)" "\<not> exec_terminal (x_status y)"
  shows "x = y"
proof -
  have "single_execution db"
    by (rule table_invariant[OF assms(1)]) (blast intro: single_execution_initial single_execution_step)+
  with assms(2-) show ?thesis unfolding single_execution_def by blast
qed

theorem at_most_one_unfinished_execution_witness:
  "hd (tool_executions sample_exec_db) = last (tool_executions sample_exec_db)"
  by (rule at_most_one_unfinished_execution[OF sample_exec_reachable])
    (simp_all add: sample_exec_db_def sample_exec_def)

section \<open>Ended runs\<close>

lemma run_evolves_terminal:
  assumes "run_evolves\<^sup>*\<^sup>* r r'" "run_terminal (r_status r)"
  shows "r_status r' = r_status r \<and> r_finished_at r' = r_finished_at r"
  using assms
proof (induction rule: rtranclp_induct)
  case (step y z)
  then have "r_status z = r_status y"
    using run_status.final_has_no_successor[of "r_status y"] by (auto simp: run_evolves_def)
  with step show ?case by (auto simp: run_evolves_def)
qed simp

text \<open>
  C20. A run that has ended stays ended: after any further operations its row is still there with the same
  terminal status and the same finish time.
\<close>

theorem terminal_run_is_final:
  assumes "(any_step s)\<^sup>*\<^sup>* db db'" "schema_ok db" "r \<in> set (agent_runs db)" "run_terminal (r_status r)"
  shows "\<exists>r' \<in> set (agent_runs db'). run_scope r' = run_scope r \<and> r_status r' = r_status r \<and>
    r_finished_at r' = r_finished_at r"
proof -
  obtain r' where "r' \<in> set (agent_runs db')" "run_evolves\<^sup>*\<^sup>* r r'"
    using run_rows.later_row[OF conjunct1[OF wf_steps_tables[OF assms(1,2)]] assms(2,3)] by blast
  then show ?thesis
    using run_evolves_terminal[OF _ assms(4)] run_rows.history by blast
qed

theorem terminal_run_is_final_witness:
  "\<exists>r' \<in> set (agent_runs (sample_db [sample_run R_FAILED_TERMINAL 3])). r_status r' = R_FAILED_TERMINAL"
  using terminal_run_is_final[OF rtranclp.rtrancl_refl sample_schema_ok, of "sample_run R_FAILED_TERMINAL 3"]
  by (auto simp: sample_run_def TERMINAL_RUN_STATUSES_def)

definition finish_times_ok :: "wf_db \<Rightarrow> bool" where
  "finish_times_ok db \<longleftrightarrow>
     (\<forall>r \<in> set (agent_runs db). run_terminal (r_status r) \<longleftrightarrow> r_finished_at r \<noteq> None)"

lemma run_evolves_finish:
  "run_evolves r r' \<Longrightarrow> (run_terminal (r_status r) \<longleftrightarrow> r_finished_at r \<noteq> None) \<Longrightarrow>
   (run_terminal (r_status r') \<longleftrightarrow> r_finished_at r' \<noteq> None)"
proof (cases "run_terminal (r_status r)")
  case True
  moreover assume "run_evolves r r'"
  ultimately have "r_status r' = r_status r"
    using run_status.final_has_no_successor[of "r_status r"] by (auto simp: run_evolves_def)
  moreover assume "run_terminal (r_status r) \<longleftrightarrow> r_finished_at r \<noteq> None"
  ultimately show ?thesis using True \<open>run_evolves r r'\<close> by (simp add: run_evolves_def)
qed (simp add: run_evolves_def split: if_splits)

lemma finish_times_step:
  assumes "table_step sc db db'" "finish_times_ok db"
  shows "finish_times_ok db'"
  using assms(1)
proof (cases rule: table_step_cases)
  case runs
  then have "list_all2 (\<lambda>r r'. r' = r \<or> run_evolves r r' \<and> sc = Some (run_scope r)) (agent_runs db) (agent_runs db')"
    by (auto dest: only_runs_frame simp: runs_evolved_def)
  note old = list_all2_rightE[OF this]
  show ?thesis
    unfolding finish_times_ok_def
  proof
    fix r' assume "r' \<in> set (agent_runs db')"
    then obtain r where "r \<in> set (agent_runs db)" "r' = r \<or> run_evolves r r'" using old by blast
    then show "run_terminal (r_status r') \<longleftrightarrow> r_finished_at r' \<noteq> None"
      using assms(2) run_evolves_finish[of r r'] unfolding finish_times_ok_def by blast
  qed
next
  case new_run
  then show ?thesis
    using assms(2) by (auto dest!: only_new_run_frame simp: finish_times_ok_def run_fresh_def)
qed (use assms(2) table_frames[of sc db db'] other_tables_frame[of db db'] in \<open>auto simp: finish_times_ok_def\<close>)

lemma finish_times_initial: "initial_db db \<Longrightarrow> finish_times_ok db"
  by (simp add: initial_db_def finish_times_ok_def)

text \<open>
  C21. In every reachable state a run has a finish time exactly when its status is terminal.
\<close>

theorem finished_iff_terminal:
  assumes "reachable s db" "r \<in> set (agent_runs db)"
  shows "run_terminal (r_status r) \<longleftrightarrow> r_finished_at r \<noteq> None"
proof -
  have "finish_times_ok db"
    by (rule table_invariant[OF assms(1)]) (blast intro: finish_times_initial finish_times_step)+
  with assms(2) show ?thesis by (simp add: finish_times_ok_def)
qed

theorem finished_iff_terminal_witness:
  "\<not> run_terminal (r_status (sample_run R_RUNNING 1))"
  using finished_iff_terminal[OF sample_reachable, of "sample_run R_RUNNING 1"]
  by (simp add: sample_run_def)

section \<open>The run quota\<close>

lemma active_statuses: "st \<in> set ACTIVE_RUN_STATUSES \<longleftrightarrow> \<not> run_terminal st"
  by (cases st) (simp_all add: ACTIVE_RUN_STATUSES_def)

lemma run_evolves_active:
  assumes "run_evolves r r'" "r_status r' \<in> set ACTIVE_RUN_STATUSES"
  shows "r_tenant_id r' = r_tenant_id r \<and> r_status r \<in> set ACTIVE_RUN_STATUSES"
  using assms run_status.never_left_final[of "r_status r'" "r_status r"]
  unfolding active_statuses by (auto simp: run_evolves_def run_scope_def)

lemma count_active_evolved:
  assumes "runs_evolved sc rows rows'"
  shows "rowcount (\<lambda>r. r_tenant_id r = t \<and> r_status r \<in> set ACTIVE_RUN_STATUSES) rows' \<le>
    rowcount (\<lambda>r. r_tenant_id r = t \<and> r_status r \<in> set ACTIVE_RUN_STATUSES) rows"
  using assms unfolding runs_evolved_def
  by (induction rule: list_all2_induct) (auto dest!: run_evolves_active)

text \<open>Updates never make a run active again.\<close>

lemma count_active_update_step:
  assumes "update_step sc db db'"
  shows "count_active_runs db' t \<le> count_active_runs db t"
proof -
  have "agent_runs db' = agent_runs db \<or> runs_evolved sc (agent_runs db) (agent_runs db')"
    using assms table_frames[of sc db db'] other_tables_frame[of db db'] unfolding update_step_def by blast
  then show ?thesis using count_active_evolved unfolding count_active_runs_def by fastforce
qed

lemma count_active_update_steps:
  "(update_step sc)\<^sup>*\<^sup>* db db' \<Longrightarrow> count_active_runs db' t \<le> count_active_runs db t"
  by (induction rule: rtranclp_induct) (auto dest: count_active_update_step[where t = t])

lemma count_active_starts_run:
  assumes "starts_run s sc db db'"
  shows "count_active_runs db' t \<le> count_active_runs db t \<or>
    int (count_active_runs db' t) \<le> s_max_concurrent_runs_per_tenant s"
proof -
  obtain now ctx rid st pid ipv apv l db1 where quota: "enforce_run_quota s db (tenant_id ctx) = Inr ()"
    and ctx: "context_ok ctx" "st \<in> {R_RUNNING, R_AWAITING_USER}"
    and run: "create_run now (repository s) db ctx rid st pid ipv apv = Inr (l, db1)"
    and cp: "db' = db1 \<or> only_checkpoint sc db1 db'"
    using assms unfolding starts_run_def by blast
  obtain r where r: "agent_runs db1 = agent_runs db @ [r]" "ctx_scope ctx = Some (run_scope r)"
    using create_run_only[OF run ctx(2,1)] only_new_run_frame[of "ctx_scope ctx" db db1] by auto
  have "agent_runs db' = agent_runs db @ [r]" using cp r(1) only_checkpoint_frame[of sc db1 db'] by auto
  then show ?thesis
    using quota r(2) by (auto simp: count_active_runs_def enforce_run_quota_def res_simps ctx_scope_def
        run_scope_def split: option.splits)
qed

text \<open>
  C15. In every reachable state the number of active runs of a tenant is within its quota, however many
  runs were started, resumed, taken over, cancelled or ended, by whichever process.
\<close>

theorem run_quota_respected:
  assumes "reachable s db" "0 \<le> s_max_concurrent_runs_per_tenant s"
  shows "int (count_active_runs db t) \<le> s_max_concurrent_runs_per_tenant s"
proof -
  obtain db0 where db0: "initial_db db0" and steps: "(any_step s)\<^sup>*\<^sup>* db0 db"
    using assms(1) unfolding reachable_def by blast
  from steps show ?thesis
  proof (induction rule: rtranclp_induct)
    case base
    then show ?case using db0 assms(2) by (simp add: count_active_runs_def initial_db_def)
  next
    case (step y z)
    have "schema_ok y" using wf_steps_tables[OF step.hyps(1) initial_schema_ok[OF db0]] by blast
    then obtain sc where "(update_step sc)\<^sup>*\<^sup>* y z \<or> starts_run s sc y z"
      using step.hyps(2) wf_step_shape by blast
    then have "count_active_runs z t \<le> count_active_runs y t \<or>
        int (count_active_runs z t) \<le> s_max_concurrent_runs_per_tenant s"
      using count_active_update_steps[of sc y z t] count_active_starts_run[of s sc y z t] by blast
    then show ?case using step.IH by linarith
  qed
qed

theorem run_quota_respected_witness:
  "int (count_active_runs (sample_db [sample_run R_RUNNING 1]) ''t'') \<le> 2"
  using run_quota_respected[OF sample_reachable, of "''t''"] by (simp add: sample_settings_def)

end
