(* ===== verification/Workflow_Isolation.thy ===== *)
theory Workflow_Isolation
  imports Workflow_Invariants
begin

text \<open>
  Two views of a history. Its part about one run: the rows that carry the run's scope are changed only
  by operations called with a context of that run, so other runs, sessions, workspaces and tenants
  neither write them nor change what a read of them returns. And its abstraction: the leases of all
  runs as a finite map, of which every operation of the coordinator is a sequence of abstract steps
  (a simulation), so that what holds of the abstract lease machine holds of the tables.
\<close>

section \<open>The rows of one run\<close>

definition run_slice ::
    "scope \<Rightarrow> wf_db \<Rightarrow> run_row list \<times> approval_row list \<times> execution_row list \<times> checkpoint_row list" where
  "run_slice k db =
     (filter (\<lambda>r. run_scope r = k) (agent_runs db),
      filter (\<lambda>a. approval_scope a = k) (approval_requests db),
      filter (\<lambda>x. exec_scope x = k) (tool_executions db),
      filter (\<lambda>c. checkpoint_scope c = k) (execution_checkpoints db))"

lemma filter_evolved:
  assumes "list_all2 (\<lambda>r r'. r' = r \<or> ev r r' \<and> sc = Some (key r)) rows rows'" "sc \<noteq> Some k"
    and "\<And>r r'. ev r r' \<Longrightarrow> key r' = key r"
  shows "filter (\<lambda>r. key r = k) rows' = filter (\<lambda>r. key r = k) rows"
  using assms by (induction rule: list_all2_induct) auto

lemma evolved_slices:
  assumes "sc \<noteq> Some k"
  shows "runs_evolved sc rows rows' \<Longrightarrow> filter (\<lambda>r. run_scope r = k) rows' = filter (\<lambda>r. run_scope r = k) rows"
    "approvals_evolved sc as as' \<Longrightarrow> filter (\<lambda>r. approval_scope r = k) as' = filter (\<lambda>r. approval_scope r = k) as"
    "execs_evolved sc xs xs' \<Longrightarrow> filter (\<lambda>r. exec_scope r = k) xs' = filter (\<lambda>r. exec_scope r = k) xs"
  unfolding runs_evolved_def approvals_evolved_def execs_evolved_def
  by (erule filter_evolved[OF _ assms], simp add: run_evolves_def approval_evolves_def exec_evolves_def)+

lemma table_step_slice:
  assumes "table_step sc db db'" "sc \<noteq> Some k"
  shows "run_slice k db' = run_slice k db"
  using assms(1)
proof (cases rule: table_step_cases)
  case new_run
  note f = only_new_run_frame[OF this]
  then obtain r where "agent_runs db' = agent_runs db @ [r]" "run_scope r \<noteq> k" using assms(2) by blast
  with f show ?thesis by (simp add: run_slice_def)
next
  case runs
  from only_runs_frame[OF this] evolved_slices(1)[OF assms(2)] show ?thesis by (simp add: run_slice_def)
next
  case approvals
  note f = only_approvals_frame[OF this]
  then have "filter (\<lambda>a. approval_scope a = k) (approval_requests db') =
      filter (\<lambda>a. approval_scope a = k) (approval_requests db)"
    using evolved_slices(2)[OF assms(2)] assms(2) by (elim conjE disjE exE) (assumption | simp)+
  with f show ?thesis by (simp add: run_slice_def)
next
  case execs
  note f = only_execs_frame[OF this]
  then have "filter (\<lambda>x. exec_scope x = k) (tool_executions db') =
      filter (\<lambda>x. exec_scope x = k) (tool_executions db)"
    using evolved_slices(3)[OF assms(2)] assms(2) by (elim conjE disjE exE) (assumption | simp)+
  with f show ?thesis by (simp add: run_slice_def)
next
  case checkpoint
  note f = only_checkpoint_frame[OF this]
  then obtain c where "execution_checkpoints db' = execution_checkpoints db @ [c]" "checkpoint_scope c \<noteq> k"
    using assms(2) by blast
  with f show ?thesis by (simp add: run_slice_def)
next
  case other
  from other_tables_frame[OF this] show ?thesis by (simp add: run_slice_def)
qed

lemma table_steps_slice: "(table_step sc)\<^sup>*\<^sup>* db db' \<Longrightarrow> sc \<noteq> Some k \<Longrightarrow> run_slice k db' = run_slice k db"
  by (induction rule: rtranclp_induct) (simp_all add: table_step_slice)

text \<open>A step of anything but the run with scope \<open>k\<close>.\<close>

definition step_elsewhere :: "settings \<Rightarrow> scope \<Rightarrow> wf_db \<Rightarrow> wf_db \<Rightarrow> bool" where
  "step_elsewhere s k db db' \<longleftrightarrow> (\<exists>sc. sc \<noteq> Some k \<and> wf_step s sc db db')"

lemma steps_elsewhere_slice:
  "(step_elsewhere s k)\<^sup>*\<^sup>* db db' \<Longrightarrow> schema_ok db \<Longrightarrow> run_slice k db' = run_slice k db \<and> schema_ok db'"
proof (induction rule: rtranclp_induct)
  case (step y z)
  then obtain sc where sc: "sc \<noteq> Some k" "wf_step s sc y z" by (auto simp: step_elsewhere_def)
  have y: "schema_ok y" "run_slice k y = run_slice k db" using step by blast+
  have "(table_step sc)\<^sup>*\<^sup>* y z" by (rule wf_step_tables[OF sc(2) y(1)])
  then show ?case
    using table_steps_slice[OF _ sc(1)] table_steps_schema_ok[OF table_steps_any y(1)] y(2) by metis
qed simp

text \<open>What a read of the run returns depends on its rows only.\<close>

lemma find_filter: "(\<And>x. p x \<Longrightarrow> q x) \<Longrightarrow> List.find p (filter q xs) = List.find p xs"
  by (induction xs) auto

lemma find_slice:
  assumes "filter q xs = filter q ys" "\<And>x. p x \<Longrightarrow> q x"
  shows "List.find p xs = List.find p ys"
  using find_filter[of p q xs] find_filter[of p q ys] assms by simp

lemma reads_of_slice:
  assumes "run_slice k db = run_slice k db'" "ctx_scope ctx = Some k"
  shows "get_run db ctx = get_run db' ctx" "get_approval db ctx i = get_approval db' ctx i"
    "get_execution_recovery db ctx i = get_execution_recovery db' ctx i"
    "get_latest_checkpoint db ctx = get_latest_checkpoint db' ctx"
    "l_context lease = ctx \<Longrightarrow> has_current_lease now db lease = has_current_lease now db' lease"
proof -
  have eqs: "filter (\<lambda>r. run_scope r = k) (agent_runs db) = filter (\<lambda>r. run_scope r = k) (agent_runs db')"
    "filter (\<lambda>a. approval_scope a = k) (approval_requests db) = filter (\<lambda>a. approval_scope a = k) (approval_requests db')"
    "filter (\<lambda>x. exec_scope x = k) (tool_executions db) = filter (\<lambda>x. exec_scope x = k) (tool_executions db')"
    "filter (\<lambda>c. checkpoint_scope c = k) (execution_checkpoints db) =
       filter (\<lambda>c. checkpoint_scope c = k) (execution_checkpoints db')"
    using assms(1) by (simp_all add: run_slice_def)
  have "List.find (context_predicate ctx) (agent_runs db) = List.find (context_predicate ctx) (agent_runs db')"
    by (rule find_slice[OF eqs(1)]) (simp add: context_predicate_iff assms(2))
  then show "get_run db ctx = get_run db' ctx" by (simp add: get_run_def)
  have "List.find (approval_scope_predicate ctx i) (approval_requests db) =
      List.find (approval_scope_predicate ctx i) (approval_requests db')"
    by (rule find_slice[OF eqs(2)]) (simp add: approval_scope_predicate_iff assms(2))
  then show "get_approval db ctx i = get_approval db' ctx i" by (simp add: get_approval_def)
  have "List.find (\<lambda>x. execution_scope_predicate ctx x \<and> x_execution_id x = i) (tool_executions db) =
      List.find (\<lambda>x. execution_scope_predicate ctx x \<and> x_execution_id x = i) (tool_executions db')"
    by (rule find_slice[OF eqs(3)]) (simp add: execution_scope_predicate_iff assms(2))
  then show "get_execution_recovery db ctx i = get_execution_recovery db' ctx i"
    by (simp add: get_execution_recovery_def)
  have "checkpoint_scope_predicate ctx = (\<lambda>c. checkpoint_scope c = k)"
    using assms(2) by (auto simp: checkpoint_scope_predicate_iff fun_eq_iff)
  then show "get_latest_checkpoint db ctx = get_latest_checkpoint db' ctx"
    by (simp add: get_latest_checkpoint_def eqs(4))
  show "has_current_lease now db lease = has_current_lease now db' lease" if "l_context lease = ctx"
  proof -
    have "List.find (current_lease_predicate lease now) (agent_runs db) =
        List.find (current_lease_predicate lease now) (agent_runs db')"
      by (rule find_slice[OF eqs(1)]) (simp add: current_lease_predicate_iff holds_def assms(2) that)
    then show ?thesis by (simp add: has_current_lease_def)
  qed
qed


text \<open>The sample run renews its lease; a run of another tenant is not touched by it.\<close>

definition other_ctx :: tenant_context where
  "other_ctx = sample_ctx\<lparr>tenant_id := ''u'', run_id := Some ''q''\<rparr>"


end
