(* ===== verification/Lease_Refinement.thy ===== *)
theory Lease_Refinement
  imports Workflow_Invariants
begin

text \<open>
  The lease contract as an abstract machine. Its state is a finite map from run scopes to owner,
  fencing token, version and status; a step starts a run with token 1, works on a run under the token
  it has, or moves the token on, and each moves the version by one. The coordinator over its tables
  refines it: \<open>lease_map_of\<close> abstracts the tables, and every operation is a sequence of abstract steps at
  the scope it was called with. What is proved of the abstract machine then holds of the tables.
\<close>

section \<open>The abstract machine\<close>

record lease_view =
  v_owner :: "string option"
  v_token :: int
  v_version :: int
  v_status :: run_status

type_synonym lease_map = "scope \<rightharpoonup> lease_view"

definition status_step :: "lease_view \<Rightarrow> lease_view \<Rightarrow> bool" where
  "status_step v v' \<longleftrightarrow> v_version v' = v_version v + 1 \<and>
     (v_status v' = v_status v \<or> v_status v' \<in> set (LEGAL_RUN_TRANSITIONS (v_status v)))"

inductive lease_spec :: "scope option \<Rightarrow> lease_map \<Rightarrow> lease_map \<Rightarrow> bool" where
  fresh: "m k = None \<Longrightarrow> v_owner v \<noteq> None \<Longrightarrow> v_token v = 1 \<Longrightarrow> v_version v = 1 \<Longrightarrow>
    \<not> run_terminal (v_status v) \<Longrightarrow> lease_spec (Some k) m (m(k \<mapsto> v))"
| keep: "m k = Some v \<Longrightarrow> v_owner v' = v_owner v \<Longrightarrow> v_token v' = v_token v \<Longrightarrow> status_step v v' \<Longrightarrow>
    lease_spec (Some k) m (m(k \<mapsto> v'))"
| take: "m k = Some v \<Longrightarrow> v_token v' = v_token v + 1 \<Longrightarrow> status_step v v' \<Longrightarrow>
    lease_spec (Some k) m (m(k \<mapsto> v'))"

inductive_cases lease_spec_cases: "lease_spec sc m m'"

abbreviation any_lease_step :: "lease_map \<Rightarrow> lease_map \<Rightarrow> bool" where
  "any_lease_step m m' \<equiv> \<exists>sc. lease_spec sc m m'"

text \<open>Tokens and versions only grow, and under one token there is one owner.\<close>

definition view_later :: "lease_view \<Rightarrow> lease_view \<Rightarrow> bool" where
  "view_later v v' \<longleftrightarrow> v_token v \<le> v_token v' \<and> v_version v \<le> v_version v' \<and>
     (v_token v' = v_token v \<longrightarrow> v_owner v' = v_owner v) \<and>
     v_token v' - v_token v \<le> v_version v' - v_version v"

lemma view_later_refl [simp]: "view_later v v"
  by (simp add: view_later_def)

lemma view_later_trans: "view_later u v \<Longrightarrow> view_later v w \<Longrightarrow> view_later u w"
  by (auto simp: view_later_def)

lemma lease_spec_later:
  assumes "lease_spec sc m m'" "m k = Some v"
  shows "\<exists>v'. m' k = Some v' \<and> view_later v v'"
  using assms
proof (cases rule: lease_spec.cases)
  case (fresh k' v')
  then show ?thesis using assms(2) by auto
next
  case (keep k' w v')
  then show ?thesis using assms(2) by (cases "k' = k") (auto simp: view_later_def status_step_def)
next
  case (take k' w v')
  then show ?thesis using assms(2) by (cases "k' = k") (auto simp: view_later_def status_step_def)
qed

lemma lease_specs_later:
  assumes "any_lease_step\<^sup>*\<^sup>* m m'" "m k = Some v"
  shows "\<exists>v'. m' k = Some v' \<and> view_later v v'"
  using assms
proof (induction rule: rtranclp_induct)
  case (step y z)
  then obtain u sc where "y k = Some u" "view_later v u" "lease_spec sc y z" by blast
  then show ?case using lease_spec_later view_later_trans by blast
qed simp

section \<open>The simulation\<close>

definition view_of :: "run_row \<Rightarrow> lease_view" where
  "view_of r = \<lparr>v_owner = r_lease_owner r, v_token = r_fencing_token r, v_version = r_version r,
     v_status = r_status r\<rparr>"

definition lease_map_of :: "wf_db \<Rightarrow> lease_map" where
  "lease_map_of db = map_of (map (\<lambda>r. (run_scope r, view_of r)) (agent_runs db))"

lemma schema_ok_scopes: "schema_ok db \<Longrightarrow> distinct (map run_scope (agent_runs db))"
  using schema_okD(1) by (auto simp: distinct_map inj_on_def run_scope_def)

lemma lease_map_of_row:
  assumes "schema_ok db" "r \<in> set (agent_runs db)"
  shows "lease_map_of db (run_scope r) = Some (view_of r)"
  unfolding lease_map_of_def
  using schema_ok_scopes[OF assms(1)] assms(2) by (intro map_of_is_SomeI) (auto simp: comp_def)

lemma run_evolves_spec:
  assumes "run_evolves r r'" "m (run_scope r) = Some (view_of r)"
  shows "lease_spec (Some (run_scope r)) m (m(run_scope r \<mapsto> view_of r'))"
proof -
  have "status_step (view_of r) (view_of r')"
    using assms(1) by (auto simp: run_evolves_def status_step_def view_of_def)
  moreover have "r_fencing_token r' = r_fencing_token r \<and> r_lease_owner r' = r_lease_owner r \<or>
      r_fencing_token r' = r_fencing_token r + 1"
    using assms(1) by (auto simp: run_evolves_def)
  ultimately show ?thesis
    using lease_spec.keep[where m = m, OF assms(2)] lease_spec.take[where m = m, OF assms(2)]
    by (auto simp: view_of_def)
qed

text \<open>An update in place changes at most one entry of the map.\<close>

lemma evolved_map:
  assumes "list_all2 (\<lambda>r r'. r' = r \<or> run_evolves r r' \<and> sc = Some (run_scope r)) rows rows'"
    and "distinct (map run_scope rows)"
  shows "rows' = rows \<or> (\<exists>r \<in> set rows. \<exists>r'. run_evolves r r' \<and> sc = Some (run_scope r) \<and>
    map_of (map (\<lambda>r. (run_scope r, view_of r)) rows') =
      (map_of (map (\<lambda>r. (run_scope r, view_of r)) rows))(run_scope r \<mapsto> view_of r'))"
  using assms
proof (induction rule: list_all2_induct)
  case (Cons r rows r' rows')
  show ?case
  proof (cases "r' = r")
    case True
    have "distinct (map run_scope rows)" using Cons.prems by simp
    note Cons.IH[OF this]
    then show ?thesis
    proof (elim disjE bexE exE conjE)
      fix q q' assume q: "q \<in> set rows" "run_evolves q q'" "sc = Some (run_scope q)"
        and eq: "map_of (map (\<lambda>r. (run_scope r, view_of r)) rows') =
          (map_of (map (\<lambda>r. (run_scope r, view_of r)) rows))(run_scope q \<mapsto> view_of q')"
      have "run_scope q \<noteq> run_scope r" using Cons.prems q(1) by (metis distinct.simps(2) image_eqI list.set_map list.simps(9))
      then show ?thesis
        using q True fun_upd_twist[of "run_scope q" "run_scope r"]
        by (intro disjI2 bexI[of _ q] exI[of _ q']) (simp_all only: map_of.simps list.map fst_conv snd_conv eq, auto)
    qed (use True in simp)
  next
    case False
    then have r: "run_evolves r r'" "sc = Some (run_scope r)" using Cons.hyps(1) by auto
    have "rows' = rows"
      using Cons.IH Cons.prems r(2) by auto
    moreover have "run_scope r' = run_scope r" using r(1) by (simp add: run_evolves_def)
    ultimately show ?thesis using r by (intro disjI2 bexI[of _ r] exI[of _ r']) (auto simp: fun_eq_iff)
  qed
qed simp

lemma lease_map_new_run:
  assumes "schema_ok db" "only_new_run sc db db'"
  shows "lease_spec sc (lease_map_of db) (lease_map_of db')"
proof -
  obtain r where r: "agent_runs db' = agent_runs db @ [r]" "run_fresh r" "sc = Some (run_scope r)"
    using only_new_run_frame[OF assms(2)] by blast
  have "schema_ok db'" using only_new_run_schema_ok[OF assms] .
  then have new: "run_scope r \<notin> run_scope ` set (agent_runs db)"
    using schema_ok_scopes[of db'] r(1) by auto
  then have "lease_map_of db (run_scope r) = None"
    by (simp add: lease_map_of_def map_of_eq_None_iff image_image)
  moreover have "lease_map_of db' = (lease_map_of db)(run_scope r \<mapsto> view_of r)"
  proof
    fix k show "lease_map_of db' k = ((lease_map_of db)(run_scope r \<mapsto> view_of r)) k"
      using calculation r(1) by (auto simp: lease_map_of_def map_add_def split: option.splits)
  qed
  moreover have "\<not> run_terminal (r_status r)"
    using r(2) by (auto simp: run_fresh_def TERMINAL_RUN_STATUSES_def)
  ultimately show ?thesis
    using lease_spec.fresh[of "lease_map_of db" "run_scope r" "view_of r"] r(2,3)
    by (simp add: run_fresh_def view_of_def)
qed

lemma lease_map_table_step:
  assumes "table_step sc db db'" "schema_ok db"
  shows "(lease_spec sc)\<^sup>*\<^sup>* (lease_map_of db) (lease_map_of db')"
  using assms(1)
proof (cases rule: table_step_cases)
  case new_run
  from lease_map_new_run[OF assms(2) this] show ?thesis by (rule r_into_rtranclp[where r = "lease_spec sc"])
next
  case runs
  from only_runs_frame[OF this] have "runs_evolved sc (agent_runs db) (agent_runs db')" by blast
  from evolved_map[OF this[unfolded runs_evolved_def] schema_ok_scopes[OF assms(2)]]
  show ?thesis
  proof (elim disjE bexE exE conjE)
    fix r r' assume r: "r \<in> set (agent_runs db)" "run_evolves r r'" "sc = Some (run_scope r)"
      and eq: "map_of (map (\<lambda>r. (run_scope r, view_of r)) (agent_runs db')) =
        (map_of (map (\<lambda>r. (run_scope r, view_of r)) (agent_runs db)))(run_scope r \<mapsto> view_of r')"
    from run_evolves_spec[where m = "lease_map_of db", OF r(2) lease_map_of_row[OF assms(2) r(1)]] show ?thesis
      unfolding r(3) using eq by (intro r_into_rtranclp) (simp add: lease_map_of_def)
  qed (simp add: lease_map_of_def)
qed (use table_frames[of sc db db'] other_tables_frame[of db db'] in \<open>auto simp: lease_map_of_def\<close>)

lemma lease_map_table_steps:
  "(table_step sc)\<^sup>*\<^sup>* db db' \<Longrightarrow> schema_ok db \<Longrightarrow> (lease_spec sc)\<^sup>*\<^sup>* (lease_map_of db) (lease_map_of db')"
proof (induction rule: rtranclp_induct)
  case (step y z)
  have "schema_ok y" using table_steps_schema_ok[OF table_steps_any[OF step.hyps(1)] step.prems] .
  from lease_map_table_step[OF step.hyps(2) this] show ?case
    using step.IH[OF step.prems] by (meson rtranclp_trans)
qed simp

text \<open>
  C6. Refinement. Every operation of the coordinator, seen through the abstraction of its tables to the
  map of leases, is a sequence of steps of the abstract lease machine at the scope of its context.
\<close>

theorem coordinator_refines_lease_spec:
  assumes "wf_step s sc db db'" "schema_ok db"
  shows "(lease_spec sc)\<^sup>*\<^sup>* (lease_map_of db) (lease_map_of db')"
  using lease_map_table_steps[OF wf_step_tables[OF assms] assms(2)] .

theorem coordinator_refines_lease_spec_witness:
  "(lease_spec (Some (''t'', ''w'', ''s'', ''r'')))\<^sup>*\<^sup>*
     (lease_map_of (sample_db [])) (lease_map_of (sample_db [sample_run R_RUNNING 1]))"
proof -
  have "wf_step sample_settings (ctx_scope sample_ctx) (sample_db []) (sample_db [sample_run R_RUNNING 1])"
    by (rule wf_step.start[OF sample_start]) (simp add: context_ok_def sample_ctx_def)
  moreover have "schema_ok (sample_db [])" by (simp add: schema_ok_def sample_db_def)
  ultimately show ?thesis
    using coordinator_refines_lease_spec by (auto simp: ctx_scope_def sample_ctx_def)
qed

section \<open>What the refinement gives\<close>

lemma wf_steps_leases:
  "(any_step s)\<^sup>*\<^sup>* db db' \<Longrightarrow> schema_ok db \<Longrightarrow> any_lease_step\<^sup>*\<^sup>* (lease_map_of db) (lease_map_of db')"
proof (induction rule: rtranclp_induct)
  case (step y z)
  then obtain sc where sc: "wf_step s sc y z" by blast
  have y: "schema_ok y" using wf_steps_tables[OF step.hyps(1) step.prems] by blast
  have "(lease_spec sc)\<^sup>*\<^sup>* (lease_map_of y) (lease_map_of z)"
    using lease_map_table_steps[OF wf_step_tables[OF sc y] y] .
  then have "any_lease_step\<^sup>*\<^sup>* (lease_map_of y) (lease_map_of z)"
    by (rule rtranclp_mono[THEN predicate2D, rotated]) blast
  with step.IH[OF step.prems] show ?case by (meson rtranclp_trans)
qed simp

text \<open>
  C11. A fencing token identifies its holder for good: if a run carries the same fencing token at two
  points of a history, whatever happened in between, it has the same owner at both, and in between the
  token never decreased. An external system that remembers the highest token it has seen can
  therefore turn away every process that lost the run.
\<close>

theorem fencing_token_identifies_owner:
  assumes "(any_step s)\<^sup>*\<^sup>* db db'" "schema_ok db" "r \<in> set (agent_runs db)" "r' \<in> set (agent_runs db')"
    and "run_scope r' = run_scope r"
  shows "r_fencing_token r \<le> r_fencing_token r' \<and>
    (r_fencing_token r' = r_fencing_token r \<longrightarrow> r_lease_owner r' = r_lease_owner r)"
proof -
  have "schema_ok db'" using wf_steps_tables[OF assms(1,2)] by blast
  from lease_map_of_row[OF this assms(4)] lease_specs_later[OF wf_steps_leases[OF assms(1,2)]
      lease_map_of_row[OF assms(2,3)]] assms(5)
  have "view_later (view_of r) (view_of r')" by simp
  then show ?thesis by (simp add: view_later_def view_of_def)
qed

theorem fencing_token_identifies_owner_witness:
  "r_fencing_token sample_beat = r_fencing_token (sample_run R_RUNNING 1) \<and>
   r_lease_owner sample_beat = r_lease_owner (sample_run R_RUNNING 1)"
proof -
  have "run_scope sample_beat = run_scope (sample_run R_RUNNING 1)"
    "r_fencing_token sample_beat = r_fencing_token (sample_run R_RUNNING 1)"
    by (simp_all add: sample_beat_def sample_run_def run_scope_def)
  then show ?thesis
    using fencing_token_identifies_owner[OF sample_step sample_schema_ok, of "sample_run R_RUNNING 1" sample_beat]
    by simp
qed

end
