(* ===== verification/Workflow_Approvals.thy ===== *)
theory Workflow_Approvals
  imports Workflow_Invariants
begin

text \<open>
  Approvals: what \<open>decide_approval\<close> does on every branch, and that a decision is made once. The
  statement that resolves an approval tests status, version and expiry itself, and an approval that
  has run out is marked as such in the same transaction.
\<close>

section \<open>Deciding\<close>

definition resolved :: "int \<Rightarrow> approval_status \<Rightarrow> approval_row \<Rightarrow> approval_row" where
  "resolved now st a = a\<lparr>a_status := st, a_resolved_at := Some now, a_version := a_version a + 1\<rparr>"

text \<open>The tables with one approval replaced.\<close>

definition with_approval :: "wf_db \<Rightarrow> approval_row \<Rightarrow> approval_row \<Rightarrow> wf_db" where
  "with_approval db a a' = db\<lparr>approval_requests := map (\<lambda>b. if b = a then a' else b) (approval_requests db)\<rparr>"

lemma update_approvals_row:
  assumes "schema_ok db" "a \<in> set (approval_requests db)"
    and key: "\<And>b. p b \<Longrightarrow> a_approval_id b = a_approval_id a"
  shows "update_approvals p f db = (if p a then (1, with_approval db a (f a)) else (0, db))"
proof -
  note ids = schema_okD(3)[OF assms(1)]
  have same: "b = a" if "b \<in> set (approval_requests db)" "p b" for b
    using distinct_key_unique[OF ids that(1) assms(2)] key[OF that(2)] by simp
  show ?thesis
  proof (cases "p a")
    case True
    have "rowcount p (approval_requests db) = 1"
      by (rule rowcount_by_key_eq_1[where k = a_approval_id and p = p, OF ids assms(2) True])
        (blast dest: same)
    moreover have "upd_where p f (approval_requests db) =
        map (\<lambda>b. if b = a then f a else b) (approval_requests db)"
      unfolding upd_where_def
    proof (rule map_cong[OF refl])
      fix b assume "b \<in> set (approval_requests db)"
      then have "p b \<longleftrightarrow> b = a" using same True by blast
      then show "(if p b then f b else b) = (if b = a then f a else b)" by simp
    qed
    ultimately show ?thesis using True by (simp add: update_approvals_def with_approval_def)
  next
    case False
    have none: "\<not> p b" if "b \<in> set (approval_requests db)" for b using same[OF that] False by blast
    then have "rowcount p (approval_requests db) = 0" by (simp add: rowcount_eq_0_iff)
    moreover have "upd_where p f (approval_requests db) = approval_requests db"
      unfolding upd_where_def by (rule map_idI) (simp add: none)
    ultimately show ?thesis using False by (simp add: update_approvals_def)
  qed
qed

lemma find_approval:
  assumes "distinct (map a_approval_id rows)" "a \<in> set rows" "ctx_scope ctx = Some (approval_scope a)"
  shows "List.find (approval_scope_predicate ctx (a_approval_id a)) rows = Some a"
  using assms by (intro find_by_key[where k = a_approval_id]) (simp_all add: approval_scope_predicate_iff)

lemma with_approval_ids:
  "a_approval_id a' = a_approval_id a \<Longrightarrow>
   map a_approval_id (approval_requests (with_approval db a a')) = map a_approval_id (approval_requests db)"
  by (simp add: with_approval_def)

lemma get_approval_row:
  assumes "schema_ok db" "a \<in> set (approval_requests db)" "ctx_scope ctx = Some (approval_scope a)"
  shows "get_approval db ctx (a_approval_id a) = Some (approval_from_row ctx a)"
  using find_approval[OF schema_okD(3)[OF assms(1)] assms(2,3)] by (simp add: get_approval_def)

lemma get_approval_resolved:
  assumes "schema_ok db" "a \<in> set (approval_requests db)" "ctx_scope ctx = Some (approval_scope a)"
  shows "get_approval (with_approval db a (resolved now st a)) ctx (a_approval_id a) =
    Some (approval_from_row ctx (resolved now st a))"
proof -
  let ?a = "resolved now st a" and ?db = "with_approval db a (resolved now st a)"
  have "distinct (map a_approval_id (approval_requests ?db))"
    using schema_okD(3)[OF assms(1)] by (simp add: with_approval_ids resolved_def)
  moreover have "?a \<in> set (approval_requests ?db)" using assms(2) by (auto simp: with_approval_def)
  moreover have "ctx_scope ctx = Some (approval_scope ?a)"
    using assms(3) by (simp add: resolved_def approval_scope_def)
  ultimately show ?thesis
    using find_approval[of "approval_requests ?db" ?a ctx] by (simp add: get_approval_def resolved_def)
qed

text \<open>The two fenced statements on the row they address.\<close>

lemma resolve_approval_resolved:
  "resolve_approval now db ctx i approved ver =
     (let upd = update_approvals
        (\<lambda>a. approval_scope_predicate ctx i a \<and> a_status a = A_AWAITING_USER \<and> a_version a = ver \<and>
           a_expires_at a > now)
        (resolved now (if approved then A_APPROVED else A_REJECTED)) db
      in if fst upd \<noteq> 1 then Inr (None, snd upd)
         else rbind (need (get_approval (snd upd) ctx i) AssertionError) (\<lambda>a. Inr (Some a, snd upd)))"
  by (simp add: resolve_approval_def resolved_def[abs_def] Let_def)

lemma resolve_approval_row:
  assumes "schema_ok db" "a \<in> set (approval_requests db)" "ctx_scope ctx = Some (approval_scope a)"
  shows "resolve_approval now db ctx (a_approval_id a) approved ver =
    (if a_status a = A_AWAITING_USER \<and> a_version a = ver \<and> now < a_expires_at a
     then let a' = resolved now (if approved then A_APPROVED else A_REJECTED) a
          in Inr (Some (approval_from_row ctx a'), with_approval db a a')
     else Inr (None, db))"
proof -
  let ?st = "if approved then A_APPROVED else A_REJECTED"
  have "update_approvals (\<lambda>b. approval_scope_predicate ctx (a_approval_id a) b \<and>
      a_status b = A_AWAITING_USER \<and> a_version b = ver \<and> a_expires_at b > now) (resolved now ?st) db =
    (if a_status a = A_AWAITING_USER \<and> a_version a = ver \<and> now < a_expires_at a
     then (1, with_approval db a (resolved now ?st a)) else (0, db))"
    using assms(3) by (subst update_approvals_row[OF assms(1,2)]) (simp_all add: approval_scope_predicate_iff)
  then show ?thesis
    unfolding resolve_approval_resolved by (simp add: get_approval_resolved[OF assms] Let_def)
qed

lemma mark_approval_expired_row:
  assumes "schema_ok db" "a \<in> set (approval_requests db)" "ctx_scope ctx = Some (approval_scope a)"
  shows "mark_approval_expired now db ctx (a_approval_id a) ver =
    (if a_status a = A_AWAITING_USER \<and> a_version a = ver \<and> a_expires_at a \<le> now
     then (True, with_approval db a (resolved now A_EXPIRED a)) else (False, db))"
proof -
  have "update_approvals (\<lambda>b. approval_scope_predicate ctx (a_approval_id a) b \<and>
      a_status b = A_AWAITING_USER \<and> a_version b = ver \<and> a_expires_at b \<le> now) (resolved now A_EXPIRED) db =
    (if a_status a = A_AWAITING_USER \<and> a_version a = ver \<and> a_expires_at a \<le> now
     then (1, with_approval db a (resolved now A_EXPIRED a)) else (0, db))"
    using assms(3) by (subst update_approvals_row[OF assms(1,2)]) (simp_all add: approval_scope_predicate_iff)
  then show ?thesis by (simp add: mark_approval_expired_def Let_def resolved_def[abs_def])
qed

text \<open>
  C16. \<open>decide_approval\<close> on every branch. A decision that is still open, at the expected version and
  before its expiry is recorded as asked; one past its expiry is marked expired and reported as such,
  the mark being kept; one already made or at another version is left alone and reported as a
  conflict. An approval is never granted or rejected after its expiry.
\<close>

theorem decide_approval_correct:
  assumes "schema_ok db" "a \<in> set (approval_requests db)" "ctx_scope ctx = Some (approval_scope a)"
    and "clk 0 \<le> clk 1"
  shows "decide_approval clk db ctx (a_approval_id a) approved ver =
    (if a_status a \<noteq> A_AWAITING_USER then (Inl (VersionConflictError ''approval already resolved''), db)
     else if a_version a \<noteq> ver then (Inl (VersionConflictError ''approval version conflict''), db)
     else if clk 0 < a_expires_at a
     then let a' = resolved (clk 0) (if approved then A_APPROVED else A_REJECTED) a
          in (Inr (approval_from_row ctx a'), with_approval db a a')
     else (Inl (InvalidTransitionError ''approval expired''),
           with_approval db a (resolved (clk 1) A_EXPIRED a)))"
proof -
  have fields: "ar_status (approval_from_row ctx a) = a_status a"
    "ar_version (approval_from_row ctx a) = a_version a" by (simp_all add: approval_from_row_def)
  show ?thesis
    using assms(4) get_approval_row[OF assms(1-3)] fields
    by (simp add: decide_approval_def resolve_approval_row[OF assms(1-3)]
        mark_approval_expired_row[OF assms(1-3)] Let_def)
qed

definition sample_approval :: approval_row where
  "sample_approval = \<lparr>a_approval_id = ''a'', a_tenant_id = ''t'', a_workspace_id = ''w'', a_session_id = ''s'',
     a_run_id = ''r'', a_tool_call_id = ''c'', a_status = A_AWAITING_USER, a_requested_at = 60,
     a_resolved_at = None, a_expires_at = 90, a_version = 1\<rparr>"

definition sample_approval_db :: "wf_db" where
  "sample_approval_db = (sample_db [sample_run R_AWAITING_USER 2])\<lparr>approval_requests := [sample_approval]\<rparr>"

lemma sample_approval_facts:
  "schema_ok sample_approval_db" "sample_approval \<in> set (approval_requests sample_approval_db)"
  "ctx_scope sample_ctx = Some (approval_scope sample_approval)"
  using sample_schema_ok[of R_AWAITING_USER 2]
  by (auto simp: sample_approval_db_def schema_ok_def sample_approval_def approval_scope_def ctx_scope_def
      run_scope_def sample_defs)

theorem decide_approval_correct_witness:
  "fst (decide_approval (\<lambda>_. 95) sample_approval_db sample_ctx ''a'' True 1) =
     Inl (InvalidTransitionError ''approval expired'')"
  using decide_approval_correct[OF sample_approval_facts, of "\<lambda>_. 95" True 1]
  by (simp add: sample_approval_def)

section \<open>Decided once\<close>

text \<open>
  C17. A decision is final: an approval that has been granted, rejected or marked expired is never
  changed again, by any sequence of operations.
\<close>

theorem approval_decided_once:
  assumes "(any_step s)\<^sup>*\<^sup>* db db'" "schema_ok db" "a \<in> set (approval_requests db)"
    and "a_status a \<noteq> A_AWAITING_USER"
  shows "a \<in> set (approval_requests db')"
proof -
  obtain a' where a': "a' \<in> set (approval_requests db')" "approval_evolves\<^sup>*\<^sup>* a a'"
    using approval_rows.later_row[OF conjunct1[OF wf_steps_tables[OF assms(1,2)]] assms(2,3)] by blast
  from a'(2) have "a' = a"
  proof (induction rule: rtranclp_induct)
    case (step y z)
    then show ?case
      using assms(4) approval_status.final_has_no_successor[of "a_status a"] by (auto simp: approval_evolves_def)
  qed simp
  with a'(1) show ?thesis by simp
qed

theorem approval_decided_once_witness:
  "resolved 95 A_REJECTED sample_approval \<in>
     set (approval_requests (with_approval sample_approval_db sample_approval (resolved 95 A_REJECTED sample_approval)))"
proof (rule approval_decided_once[OF rtranclp.rtrancl_refl])
  show "schema_ok (with_approval sample_approval_db sample_approval (resolved 95 A_REJECTED sample_approval))"
    using sample_approval_facts(1)
    by (auto simp: with_approval_def schema_ok_def sample_approval_db_def resolved_def approval_scope_def)
qed (auto simp: with_approval_def sample_approval_db_def resolved_def)

end
