(* ===== verification/Workflow_Checkpoints.thy ===== *)
theory Workflow_Checkpoints
  imports Workflow_Invariants
begin

text \<open>
  Checkpoints end to end: a checkpoint written by the coordinator becomes the latest one of its run and
  decodes to the payload that was given, so a later recovery sees exactly what was saved. On top of
  that, the operations that end a run: what they leave behind when they succeed, and when they do.
\<close>

section \<open>The latest checkpoint\<close>

lemma insort_key_last: "f x < f c \<Longrightarrow> insort_key f x (ys @ [c]) = insort_key f x ys @ [c]"
  for f :: "'a \<Rightarrow> 'k::linorder"
  by (induction ys) auto

lemma sort_key_append_max:
  fixes f :: "'a \<Rightarrow> 'k::linorder"
  assumes "\<forall>x \<in> set xs. f x < f c"
  shows "sort_key f (xs @ [c]) = sort_key f xs @ [c]"
  using assms by (induction xs) (simp_all add: insort_key_last)

lemma foldl_max_ge: "(m::int) \<le> foldl max m xs \<and> (\<forall>x \<in> set xs. x \<le> foldl max m xs)"
proof (induction xs arbitrary: m)
  case (Cons x xs)
  from Cons.IH[of "max m x"] show ?case by auto
qed simp

lemma next_seq_greater:
  assumes "c \<in> set (execution_checkpoints db)" "ctx_scope ctx = Some (checkpoint_scope c)"
  shows "cr_checkpoint_seq c < get_next_checkpoint_seq db ctx"
proof -
  let ?seqs = "map cr_checkpoint_seq (filter (checkpoint_scope_predicate ctx) (execution_checkpoints db))"
  have "cr_checkpoint_seq c \<in> set ?seqs" using assms by (auto simp: checkpoint_scope_predicate_iff)
  moreover obtain s ss where ss: "?seqs = s # ss" using calculation by (cases ?seqs) auto
  ultimately have "cr_checkpoint_seq c \<le> foldl max s ss" using foldl_max_ge[of s ss] by auto
  with ss show ?thesis by (simp add: get_next_checkpoint_seq_def max_checkpoint_seq_def)
qed

lemma latest_checkpoint_append:
  assumes "execution_checkpoints db' = execution_checkpoints db @ [c]" "ctx_scope ctx = Some (checkpoint_scope c)"
    and "get_next_checkpoint_seq db ctx \<le> cr_checkpoint_seq c"
  shows "get_latest_checkpoint db' ctx = Some c"
proof -
  let ?xs = "filter (checkpoint_scope_predicate ctx) (execution_checkpoints db)"
  have "\<forall>d \<in> set ?xs. cr_checkpoint_seq d < cr_checkpoint_seq c"
    using next_seq_greater[of _ db ctx] assms(3) by (fastforce simp: checkpoint_scope_predicate_iff)
  from sort_key_append_max[OF this]
  have "rev (sort_key cr_checkpoint_seq (?xs @ [c])) = c # rev (sort_key cr_checkpoint_seq ?xs)" by simp
  then show ?thesis
    using assms(1,2) by (simp add: get_latest_checkpoint_def checkpoint_scope_predicate_iff del: sort_key_simps)
qed

section \<open>Writing and reading back\<close>

text \<open>The scope guards of the coordinator establish those of the decoder.\<close>

lemma validate_execution_scope_Inr [res_simps]:
  "validate_execution_scope ph x ap ex st ver = Inr (ap', ex') \<longleftrightarrow>
     ap' = ap \<and> ex' = Some x \<and> (ex = None \<or> ex = Some x) \<and> ver \<noteq> None \<and>
     (\<exists>t. st = Some t \<and> t \<in> set (PHASE_ALLOWED_EXECUTION_STATUSES ph))"
  by (cases st) (auto simp: validate_execution_scope_def res_simps)

lemma validate_checkpoint_scope_row:
  assumes "validate_checkpoint_scope lease ph p ap ex st ver = Inr (ap', ex')"
    and "ctx_scope (l_context lease) = Some (checkpoint_scope c)"
    and "cr_approval_id c = ap'" "cr_execution_id c = ex'"
  shows "validate_row_scope c p = Inr ()"
  using assms by (cases p)
    (auto simp: validate_checkpoint_scope_def validate_row_scope_def res_simps ctx_scope_Some_iff
      checkpoint_scope_def)

lemma checkpoint_Inr:
  assumes "checkpoint clk s db lease ph payload uuid cid seq ap ex st ver = Inr (w, db')"
  obtains p c where "validate_phase_payload ph payload = Inr p" "decode_checkpoint c = Inr (ph, p)"
    "insert_execution_checkpoint db c = Inr db'" "ctx_scope (l_context lease) = Some (checkpoint_scope c)"
    "cr_checkpoint_seq c = (case seq of None \<Rightarrow> get_next_checkpoint_seq db (l_context lease) | Some k \<Rightarrow> k)"
    "cw_checkpoint_seq w = cr_checkpoint_seq c" "cw_payload_json w = cr_payload_json c"
    "has_current_lease (clk 0) db lease"
proof -
  obtain p ap' ex' en n where p: "validate_phase_payload ph payload = Inr p"
    and sc: "validate_checkpoint_scope lease ph p ap ex st ver = Inr (ap', ex')"
    and en: "encode_checkpoint_payload (s_max_checkpoint_payload_bytes s) p = Inr en"
    and w: "w = \<lparr>cw_checkpoint_id = (if truthy cid then fmt_opt cid else uuid), cw_checkpoint_seq = n,
      cw_phase = ph, cw_payload_json = en_payload_json en, cw_payload_hash = en_payload_hash en,
      cw_schema_version = en_schema_version en\<rparr>"
    and ins: "insert_checkpoint clk db lease (if truthy cid then fmt_opt cid else uuid) seq
      (checkpoint_phase_value ph) (en_payload_json en) (en_payload_hash en) (en_schema_version en)
      ap' ex' st ver = Inr (Some n, db')"
    using assms unfolding checkpoint_def by (auto simp: rbind_Inr_iff write_checkpoint_def need_Inr_iff Let_def)
  show thesis
  proof (rule insert_checkpoint_row[OF ins])
    fix c assume c: "insert_execution_checkpoint db c = Inr db'"
      "ctx_scope (l_context lease) = Some (checkpoint_scope c)" "cr_checkpoint_seq c = n"
      "n = (case seq of None \<Rightarrow> get_next_checkpoint_seq db (l_context lease) | Some k \<Rightarrow> k)"
      "cr_phase c = checkpoint_phase_value ph" "cr_payload_json c = en_payload_json en"
      "cr_payload_hash c = en_payload_hash en" "cr_schema_version c = en_schema_version en"
      "cr_approval_id c = ap'" "cr_execution_id c = ex'" "has_current_lease (clk 0) db lease"
    have "model_validate ph payload = Some p"
      using p by (simp add: validate_phase_payload_def need_Inr_iff)
    from decode_encoded[OF this en c(6,7,8,5) validate_checkpoint_scope_row[OF sc c(2) c(9,10)]]
    show thesis using c w p by (intro that[of p c]) simp_all
  qed
qed


section \<open>Ending a run\<close>

text \<open>A transition under a current lease, and what a successful one tells.\<close>

lemma transition_values_fields:
  "r_lease_owner (transition_values now cfg t r) = r_lease_owner r"
  "r_fencing_token (transition_values now cfg t r) = r_fencing_token r"
  "r_version (transition_values now cfg t r) = r_version r + 1"
  "r_lease_expires_at (transition_values now cfg t r) = Some (now + lease_ttl_ms cfg)"
  "r_status (transition_values now cfg t r) = t"
  "run_scope (transition_values now cfg t r) = run_scope r"
  "run_terminal t \<Longrightarrow> r_finished_at (transition_values now cfg t r) = Some now"
  unfolding transition_values_def Let_def terminal_statuses_set by (simp_all add: run_scope_def)

lemma transition_run_row_current:
  assumes "schema_ok db" "r \<in> set (agent_runs db)" "holds lease r" "live now r"
    and "target \<in> set (LEGAL_RUN_TRANSITIONS (r_status r))"
  shows "transition_run_row now cfg db lease target =
    Inr (Some \<lparr>l_context = l_context lease, l_owner = l_owner lease, l_fencing_token = l_fencing_token lease,
           l_version = l_version lease + 1, l_expires_at = now + lease_ttl_ms cfg\<rparr>,
         db\<lparr>agent_runs := upd_where (current_lease_predicate lease now) (transition_values now cfg target)
           (agent_runs db)\<rparr>)"
proof -
  note scope = holdsD[OF assms(3)]
  have valid: "validate_run_transition (run_of_row r) lease target = Inr ()"
    using assms(3,5) by (simp add: validate_run_transition_Inr holds_def)
  have new: "run_evolves r (transition_values now cfg target r)"
    "r_lease_owner (transition_values now cfg target r) = Some (l_owner lease)"
    "r_lease_expires_at (transition_values now cfg target r) = Some (now + lease_ttl_ms cfg)"
    "l_fencing_token lease = r_fencing_token (transition_values now cfg target r)"
    "l_version lease + 1 = r_version (transition_values now cfg target r)"
    using transition_evolves[OF assms(5)] assms(3) by (simp_all add: transition_values_fields holds_def)
  have "lease_after_update (update_runs (current_lease_predicate lease now) (transition_values now cfg target) db)
      (l_context lease) (l_owner lease) (l_fencing_token lease) (l_version lease + 1) =
    Inr (Some \<lparr>l_context = l_context lease, l_owner = l_owner lease, l_fencing_token = l_fencing_token lease,
           l_version = l_version lease + 1, l_expires_at = now + lease_ttl_ms cfg\<rparr>,
         db\<lparr>agent_runs := upd_where (current_lease_predicate lease now) (transition_values now cfg target)
           (agent_runs db)\<rparr>)"
  proof (rule update_runs_one[where f = "transition_values now cfg target" and p = "current_lease_predicate lease now", OF assms(1,2) _ scope _ new])
    show "current_lease_predicate lease now r" using assms(3,4) by (simp add: current_lease_predicate_iff)
    show "run_scope q = run_scope r" if "current_lease_predicate lease now q" for q
      using that scope by (simp add: current_lease_predicate_iff holds_def)
  qed
  then show ?thesis
    using get_run_row[OF assms(1,2) scope] valid by (simp add: transition_run_row_def)
qed

lemma transition_run_row_Some:
  assumes "schema_ok db" "transition_run_row now cfg db lease target = Inr (Some l, db')"
  obtains r where "r \<in> set (agent_runs db)" "holds lease r" "live now r"
    "target \<in> set (LEGAL_RUN_TRANSITIONS (r_status r))"
proof -
  have "has_current_lease now db lease"
    using stale_transition_run_row[of now db lease cfg target "Some l" db'] assms(2) by blast
  then obtain r where r: "r \<in> set (agent_runs db)" "holds lease r" "live now r"
    by (auto simp: has_current_lease_iff)
  have "target \<in> set (LEGAL_RUN_TRANSITIONS (r_status r))"
    using assms(2) get_run_row[OF assms(1) r(1) holdsD[OF r(2)]]
    by (auto simp: transition_run_row_def rbind_Inr_iff validate_run_transition_Inr)
  with r show thesis by (rule that)
qed

text \<open>The row a finished run is left with.\<close>

definition ended :: "int \<Rightarrow> run_status \<Rightarrow> run_lease \<Rightarrow> run_row \<Rightarrow> bool" where
  "ended now target lease r \<longleftrightarrow> ctx_scope (l_context lease) = Some (run_scope r) \<and>
     r_status r = target \<and> run_terminal target \<and> r_finished_at r = Some now"

lemma finish_run_Inr:
  assumes "schema_ok db" "finish_run clk s db lease target = Inr (l, db')"
  obtains r where "r \<in> set (agent_runs db')" "ended (clk 0) target lease r" "schema_ok db'"
    "l_context l = l_context lease" "tool_executions db' = tool_executions db"
    "\<not> (target = R_COMPLETED \<and> has_nonterminal_execution db (l_context lease))"
proof -
  have row: "transition_run_row (clk 0) (repository s) db lease target = Inr (Some l, db')"
    and target: "run_terminal target" "\<not> (target = R_COMPLETED \<and> has_nonterminal_execution db (l_context lease))"
    using assms(2) by (auto simp: finish_run_def res_simps)
  obtain r where r: "r \<in> set (agent_runs db)" "holds lease r" "live (clk 0) r"
      "target \<in> set (LEGAL_RUN_TRANSITIONS (r_status r))"
    by (rule transition_run_row_Some[OF assms(1) row])
  let ?r = "transition_values (clk 0) (repository s) target r"
  note eq = transition_run_row_current[OF assms(1) r, of "repository s"]
  have db': "db' = db\<lparr>agent_runs := upd_where (current_lease_predicate lease (clk 0))
      (transition_values (clk 0) (repository s) target) (agent_runs db)\<rparr>"
    and l: "l_context l = l_context lease"
    using row eq by auto
  have "?r \<in> set (agent_runs db')"
    unfolding db' using upd_where_hit[OF r(1), of "current_lease_predicate lease (clk 0)"] r(2,3)
    by (simp add: current_lease_predicate_iff)
  moreover have "ended (clk 0) target lease ?r"
    using target(1) holdsD[OF r(2)] by (simp add: ended_def transition_values_fields)
  moreover have "schema_ok db'"
    using only_runs_schema_ok[OF assms(1) transition_run_row_only[OF assms(1) row]] .
  ultimately show thesis
    using target(2) l db' by (intro that[of ?r]) simp_all
qed

lemma validate_terminal_json:
  assumes "validate_phase_payload C_RUN_TERMINAL (run_terminal_json rid target fin) = Inr p"
  shows "\<exists>q. p = RunTerminalPayload q \<and> rt_terminal_status q = target \<and> rt_finished_at_ms q = fin"
  using assms
  by (auto simp: validate_phase_payload_def need_Inr_iff run_terminal_json_def validate_terminal_def
      get_enum_def get_int_def bind_eq_Some_conv split: if_splits)

lemma write_run_terminal_Inr:
  assumes "schema_ok db" "r \<in> set (agent_runs db)" "ended now target lease r" "l_context l = l_context lease"
    and "write_run_terminal clk s db (l_context lease) l target uuid msg = Inr (l', db')"
  shows "\<exists>c q. execution_checkpoints db' = execution_checkpoints db @ [c] \<and>
    get_latest_checkpoint db' (l_context lease) = Some c \<and>
    decode_checkpoint c = Inr (C_RUN_TERMINAL, RunTerminalPayload q) \<and>
    rt_terminal_status q = target \<and> rt_finished_at_ms q = now"
proof -
  have "get_run db (l_context lease) = Inr (Some (run_of_row r))"
    using get_run_row[OF assms(1,2)] assms(3) by (simp add: ended_def)
  then obtain w where "checkpoint_at clk s db l C_RUN_TERMINAL
      (run_terminal_json (run_id (l_context lease)) target now) uuid
      (get_next_checkpoint_seq db (l_context lease)) = Inr (w, db')"
    using assms(3,5) by (auto simp: write_run_terminal_def res_simps ended_def)
  then show ?thesis
  proof (rule checkpoint_Inr)
    fix p c assume c: "validate_phase_payload C_RUN_TERMINAL
        (run_terminal_json (run_id (l_context lease)) target now) = Inr p"
      "decode_checkpoint c = Inr (C_RUN_TERMINAL, p)" "insert_execution_checkpoint db c = Inr db'"
      "ctx_scope (l_context l) = Some (checkpoint_scope c)"
      "cr_checkpoint_seq c = (case Some (get_next_checkpoint_seq db (l_context lease)) of
         None \<Rightarrow> get_next_checkpoint_seq db (l_context l) | Some k \<Rightarrow> k)"
    have app: "execution_checkpoints db' = execution_checkpoints db @ [c]"
      using c(3) by (auto simp: insert_execution_checkpoint_def split: if_splits)
    moreover have "get_latest_checkpoint db' (l_context lease) = Some c"
      using latest_checkpoint_append[OF app] c(4,5) assms(4) by simp
    ultimately show ?thesis using validate_terminal_json[OF c(1)] c(2) by blast
  qed
qed

text \<open>
  What a successful end leaves behind: the row with the requested terminal status and the time of the
  transition, a latest checkpoint that decodes to a terminal payload with that status and time, and no
  unfinished execution if the run completed.
\<close>

lemma finish_run_with_checkpoint_effect:
  assumes "schema_ok db" "finish_run_with_checkpoint clk s db lease target uuid = Inr (l, db')"
  shows "\<exists>r c q. r \<in> set (agent_runs db') \<and> ended (clk 0) target lease r \<and>
    get_latest_checkpoint db' (l_context lease) = Some c \<and>
    decode_checkpoint c = Inr (C_RUN_TERMINAL, RunTerminalPayload q) \<and>
    rt_terminal_status q = target \<and> rt_finished_at_ms q = clk 0 \<and>
    \<not> (target = R_COMPLETED \<and> has_nonterminal_execution db' (l_context lease))"
proof -
  obtain l1 db1 where fin: "finish_run clk s db lease target = Inr (l1, db1)"
    and wr: "write_run_terminal (shift 1 clk) s db1 (l_context lease) l1 target uuid
      ''terminal run record missing finished_at'' = Inr (l, db')"
    using assms(2) by (auto simp: finish_run_with_checkpoint_def res_simps)
  obtain r where r: "r \<in> set (agent_runs db1)" "ended (clk 0) target lease r" "schema_ok db1"
      "l_context l1 = l_context lease" "tool_executions db1 = tool_executions db"
      "\<not> (target = R_COMPLETED \<and> has_nonterminal_execution db (l_context lease))"
    by (rule finish_run_Inr[OF assms(1) fin])
  have "only_checkpoint (ctx_scope (l_context l1)) db1 db'" using write_run_terminal_only[OF wr] .
  from only_checkpoint_frame[OF this] r(1,5,6) have "r \<in> set (agent_runs db')"
    "\<not> (target = R_COMPLETED \<and> has_nonterminal_execution db' (l_context lease))"
    by (auto simp: has_nonterminal_execution_def)
  with write_run_terminal_Inr[OF r(3,1,2,4) wr] r(2) show ?thesis by blast
qed

section \<open>When ending a run succeeds\<close>

lemma next_seq_fresh:
  assumes "ctx_scope ctx = Some sc"
  shows "(sc, get_next_checkpoint_seq db ctx) \<notin>
    set (map (\<lambda>d. (checkpoint_scope d, cr_checkpoint_seq d)) (execution_checkpoints db))"
proof
  assume "(sc, get_next_checkpoint_seq db ctx) \<in>
    set (map (\<lambda>d. (checkpoint_scope d, cr_checkpoint_seq d)) (execution_checkpoints db))"
  then obtain d where "d \<in> set (execution_checkpoints db)" "checkpoint_scope d = sc"
    "cr_checkpoint_seq d = get_next_checkpoint_seq db ctx" by auto
  with next_seq_greater[of d db ctx] assms show False by simp
qed

text \<open>A checkpoint without approval and execution columns goes through under a current lease.\<close>

lemma checkpoint_succeeds:
  assumes "validate_phase_payload ph payload = Inr p"
    and "validate_checkpoint_scope lease ph p None None None None = Inr (None, None)"
    and "int (length (canonical_json (model_dump p))) \<le> s_max_checkpoint_payload_bytes s"
    and "has_current_lease (clk 0) db lease"
    and "uuid \<notin> set (map cr_checkpoint_id (execution_checkpoints db))"
    and "seq = None \<or> seq = Some (get_next_checkpoint_seq db (l_context lease))"
  shows "\<exists>w db'. checkpoint clk s db lease ph payload uuid None seq None None None None = Inr (w, db')"
proof -
  obtain r where r: "r \<in> set (agent_runs db)" "holds lease r"
    using assms(4) by (auto simp: has_current_lease_iff)
  let ?n = "get_next_checkpoint_seq db (l_context lease)"
  obtain t w s' i where ctx: "run_scope r = (t, w, s', i)" "tenant_id (l_context lease) = t"
      "workspace_id (l_context lease) = w" "session_id (l_context lease) = Some s'"
      "run_id (l_context lease) = Some i"
    using holdsD[OF r(2)] by (cases "run_scope r") (simp add: ctx_scope_Some_iff)
  have seq: "(case seq of None \<Rightarrow> ?n | Some k \<Rightarrow> k) = ?n" using assms(6) by auto
  have "(t, w, s', i) \<in> run_scope ` set (agent_runs db)" using r(1) ctx(1) by (metis image_eqI)
  then have "\<exists>db'. insert_checkpoint clk db lease uuid seq (checkpoint_phase_value ph) pl h sv None None None None =
      Inr (Some ?n, db')" for pl h sv
    using assms(4,5) ctx next_seq_fresh[of "l_context lease" "(t, w, s', i)" db] seq
    by (simp add: insert_checkpoint_def insert_execution_checkpoint_def checkpoint_scope_def approval_fk_def
        execution_fk_def ctx_scope_def Let_def)
  then show ?thesis
    using assms(1-3)
    by (fastforce simp: checkpoint_def write_checkpoint_def encode_checkpoint_payload_Inr_iff rbind_Inr_iff
        need_Inr_iff Let_def)
qed

lemma py_len_hex: "\<forall>c \<in> set s. is_hex_lower c \<Longrightarrow> py_len s = length s"
proof -
  have ascii: "\<not> (128 \<le> (of_char c :: nat) \<and> of_char c < (192::nat))" if "is_hex_lower c" for c
    using that by (auto simp: is_hex_lower_def)
  assume "\<forall>c \<in> set s. is_hex_lower c"
  then have "filter (\<lambda>c. \<not> (128 \<le> (of_char c :: nat) \<and> of_char c < (192::nat))) s = s"
    using ascii by (intro filter_True) blast
  then show ?thesis unfolding py_len_def rowcount_def by simp
qed

lemma digest_field_sha256 [simp]: "digest_field (sha256_hex s)"
  using py_len_hex[of "sha256_hex s"] sha256_hex_is_hex length_sha256_hex
  by (simp add: len_between_def)

definition terminal_of :: "string \<Rightarrow> run_status \<Rightarrow> int \<Rightarrow> checkpoint_payload" where
  "terminal_of rid target fin = RunTerminalPayload \<lparr>rt_run_id = rid, rt_terminal_status = target,
     rt_finished_at_ms = fin, rt_final_digest = terminal_digest (Some rid) target fin\<rparr>"

lemma run_status_of_value_of [simp]: "run_status_of_value (run_status_value st) = Some st"
  by (cases st) (simp_all add: run_status_of_value_def run_statuses_def)

lemma validate_terminal_of:
  assumes "uuid_field rid" "run_terminal target"
  shows "validate_phase_payload C_RUN_TERMINAL (run_terminal_json (Some rid) target fin) =
    Inr (terminal_of rid target fin)"
  using assms
  by (simp add: validate_phase_payload_def run_terminal_json_def validate_terminal_def base_payload_def
      field_defs terminal_of_def terminal_digest_def opt_json_def)

lemma finish_run_with_checkpoint_succeeds:
  assumes "schema_ok db" "r \<in> set (agent_runs db)" "holds lease r" "live (clk 0) r"
    and "target \<in> set (LEGAL_RUN_TRANSITIONS (r_status r))" "run_terminal target"
    and "target = R_COMPLETED \<longrightarrow> \<not> has_nonterminal_execution db (l_context lease)"
    and "clk 1 < clk 0 + s_lease_ttl_ms s" "uuid_field (r_run_id r)"
    and "uuid \<notin> set (map cr_checkpoint_id (execution_checkpoints db))"
    and "int (length (canonical_json (model_dump (terminal_of (r_run_id r) target (clk 0))))) \<le>
      s_max_checkpoint_payload_bytes s"
  shows "\<exists>l db'. finish_run_with_checkpoint clk s db lease target uuid = Inr (l, db')"
proof -
  let ?l = "\<lparr>l_context = l_context lease, l_owner = l_owner lease, l_fencing_token = l_fencing_token lease,
    l_version = l_version lease + 1, l_expires_at = clk 0 + lease_ttl_ms (repository s)\<rparr>"
  let ?db = "db\<lparr>agent_runs := upd_where (current_lease_predicate lease (clk 0))
    (transition_values (clk 0) (repository s) target) (agent_runs db)\<rparr>"
  let ?r = "transition_values (clk 0) (repository s) target r"
  note scope = holdsD[OF assms(3)]
  have row: "transition_run_row (clk 0) (repository s) db lease target = Inr (Some ?l, ?db)"
    by (rule transition_run_row_current[OF assms(1-5)])
  then have fin: "finish_run clk s db lease target = Inr (?l, ?db)"
    using assms(6,7) by (simp add: finish_run_def need_lease_def)
  have db: "schema_ok ?db" using only_runs_schema_ok[OF assms(1) transition_run_row_only[OF assms(1) row]] .
  have r: "?r \<in> set (agent_runs ?db)"
    using upd_where_hit[OF assms(2), of "current_lease_predicate lease (clk 0)"] assms(3,4)
    by (simp add: current_lease_predicate_iff)
  have run: "get_run ?db (l_context lease) = Inr (Some (run_of_row ?r))"
    using get_run_row[OF db r] scope by (simp add: transition_values_fields)
  have rid: "run_id (l_context lease) = Some (r_run_id r)"
    using scope by (simp add: run_scope_def ctx_scope_Some_iff)
  have "has_current_lease (clk 1) ?db ?l"
    unfolding has_current_lease_iff using r assms(3,8)
    by (intro bexI[of _ ?r]) (simp_all add: holds_def live_def transition_values_fields repository_def)
  then have "\<exists>w db'. checkpoint_at (shift 1 clk) s ?db ?l C_RUN_TERMINAL
      (run_terminal_json (run_id (l_context lease)) target (clk 0)) uuid
      (get_next_checkpoint_seq ?db (l_context lease)) = Inr (w, db')"
    using assms(10,11) validate_terminal_of[OF assms(9,6)] rid
    by (intro checkpoint_succeeds) (simp_all add: validate_checkpoint_scope_def terminal_of_def shift_def)
  then show ?thesis
    using run fin by (auto simp: finish_run_with_checkpoint_def write_run_terminal_def transition_values_fields(7)[OF assms(6)])
qed

section \<open>A run that ends\<close>

definition sample_uuid :: string where
  "sample_uuid = ''00000000-0000-4000-8000-000000000001''"

definition sample_end_run :: run_row where
  "sample_end_run = (sample_run R_RUNNING 1)\<lparr>r_run_id := sample_uuid\<rparr>"

definition sample_end_lease :: run_lease where
  "sample_end_lease = (sample_lease 1)\<lparr>l_context := sample_ctx\<lparr>run_id := Some sample_uuid\<rparr>\<rparr>"

definition sample_end_settings :: settings where
  "sample_end_settings = sample_settings\<lparr>s_max_checkpoint_payload_bytes :=
     int (length (canonical_json (model_dump (terminal_of sample_uuid R_COMPLETED 60))))\<rparr>"

lemma sample_end_facts:
  "schema_ok (sample_db [sample_end_run])" "holds sample_end_lease sample_end_run"
  "uuid_field (r_run_id sample_end_run)"
proof -
  show "schema_ok (sample_db [sample_end_run])"
    by (simp add: schema_ok_def sample_end_run_def sample_defs run_row_ok_def binding_complete_def)
  show "holds sample_end_lease sample_end_run"
    by (simp add: holds_def sample_end_lease_def sample_end_run_def sample_defs ctx_scope_def run_scope_def)
  show "uuid_field (r_run_id sample_end_run)"
    by (simp add: sample_end_run_def) code_simp
qed




end
