(* ===== verification/Workflow_Cancellation.thy ===== *)
theory Workflow_Cancellation
  imports Workflow_Checkpoints
begin

text \<open>
  Cancellation: a request is recorded in the row of the run and stays there, so every later check sees
  it, and a run that waits for the user is ended in the same transaction with its closing checkpoint.
\<close>

section \<open>The statement\<close>

lemma cancellation_values_fields:
  "run_scope (cancellation_values now cfg st r) = run_scope r"
  "r_cancel_requested_at (cancellation_values now cfg st r) \<noteq> None"
  "r_status (cancellation_values now cfg st r) = (if st = R_AWAITING_USER then R_CANCELLED else r_status r)"
  "st = R_AWAITING_USER \<Longrightarrow> r_finished_at (cancellation_values now cfg st r) = Some now"
  by (auto simp: cancellation_values_def Let_def run_scope_def split: option.splits)

lemma request_cancellation_row_eq:
  assumes "schema_ok db" "r \<in> set (agent_runs db)" "ctx_scope ctx = Some (run_scope r)"
  shows "\<exists>r' db'. request_cancellation_row now cfg db ctx = Inr (Some (run_of_row r'), db') \<and>
    r' \<in> set (agent_runs db') \<and> schema_ok db' \<and> ctx_scope ctx = Some (run_scope r') \<and>
    (if run_terminal (r_status r) \<or> r_cancel_requested_at r \<noteq> None then r' = r \<and> db' = db
     else r' = cancellation_values now cfg (r_status r) r)"
proof (cases "run_terminal (r_status r) \<or> r_cancel_requested_at r \<noteq> None")
  case True
  then have "request_cancellation_row now cfg db ctx = Inr (Some (run_of_row r), db)"
    using get_run_row[OF assms] unfolding request_cancellation_row_def terminal_statuses_set by auto
  with True assms show ?thesis by auto
next
  case False
  let ?r = "cancellation_values now cfg (r_status r) r"
  let ?p = "\<lambda>q. context_predicate ctx q \<and> r_version q = r_version r \<and> r_status q = r_status r"
  let ?db = "snd (update_runs ?p (cancellation_values now cfg (r_status r)) db)"
  have eq: "request_cancellation_row now cfg db ctx = rbind (get_run ?db ctx) (\<lambda>rec. Inr (rec, ?db))"
    using False get_run_row[OF assms]
    unfolding request_cancellation_row_def terminal_statuses_set by (simp add: Let_def)
  have new: "?r \<in> set (agent_runs ?db)"
    using upd_where_hit[OF assms(2), of ?p] assms(3) by (simp add: update_runs_def context_predicate_iff)
  have "run_evolves q (cancellation_values now cfg (r_status r) q)" if "r_status q = r_status r" for q
    using False that by (auto simp: evolve_simps cancellation_values_def Let_def split: option.splits)
  then have "only_runs (ctx_scope ctx) db ?db" by (intro only_runs_upd) (simp add: context_predicate_iff)
  then have db: "schema_ok ?db" using only_runs_schema_ok[OF assms(1)] by blast
  have "get_run ?db ctx = Inr (Some (run_of_row ?r))"
    using get_run_row[OF db new] assms(3) by (simp add: cancellation_values_fields)
  then show ?thesis
    using eq new db assms(3) False by (intro exI[of _ ?r] exI[of _ ?db]) (simp add: cancellation_values_fields)
qed

section \<open>The operation\<close>

lemma close_cancelled_run_latest:
  assumes "close_cancelled_run env pg clk s db ctx uuid before rec fin = Inr (res, db')"
  shows "\<exists>c. get_latest_checkpoint db' ctx = Some c \<and> cr_phase c = checkpoint_phase_value C_RUN_TERMINAL"
proof -
  consider (closed) "terminal_checkpoint_written db ctx = Inr True" "db' = db"
    | (written) w where "checkpoint_at clk s db (cancelled_run_lease ctx rec) C_RUN_TERMINAL
        (run_terminal_json (run_id ctx) R_CANCELLED fin) uuid (get_next_checkpoint_seq db ctx) = Inr (w, db')"
    using assms by (auto simp: close_cancelled_run_def rbind_Inr_iff split: if_splits)
  then show ?thesis
  proof cases
    case closed
    then show ?thesis
      by (auto simp: terminal_checkpoint_written_def rbind_Inr_iff need_Inr_iff checkpoint_phase_of_value_iff
          split: option.splits)
  next
    case written
    then show ?thesis
    proof (rule checkpoint_Inr)
      fix p c assume c: "decode_checkpoint c = Inr (C_RUN_TERMINAL, p)" "insert_execution_checkpoint db c = Inr db'"
        "ctx_scope (l_context (cancelled_run_lease ctx rec)) = Some (checkpoint_scope c)"
        "cr_checkpoint_seq c = (case Some (get_next_checkpoint_seq db ctx) of
           None \<Rightarrow> get_next_checkpoint_seq db (l_context (cancelled_run_lease ctx rec)) | Some k \<Rightarrow> k)"
      have app: "execution_checkpoints db' = execution_checkpoints db @ [c]"
        using c(2) by (auto simp: insert_execution_checkpoint_def split: if_splits)
      from latest_checkpoint_append[OF app] c show ?thesis by (simp add: decode_checkpoint_Inr_iff)
    qed
  qed
qed

text \<open>The run rows are those of the statement; the rest only adds a checkpoint.\<close>

lemma request_cancellation_Inr:
  assumes "schema_ok db" "request_cancellation env pg clk s db ctx uuid = Inr ((rec, ev), db')"
  obtains r r' where "r \<in> set (agent_runs db)" "ctx_scope ctx = Some (run_scope r)"
    "r' \<in> set (agent_runs db')" "ctx_scope ctx = Some (run_scope r')" "rec = run_of_row r'" "schema_ok db'"
    "if run_terminal (r_status r) \<or> r_cancel_requested_at r \<noteq> None then r' = r
     else r' = cancellation_values (clk 0) (repository s) (r_status r) r"
    "r_status r' = R_CANCELLED \<Longrightarrow> r_finished_at r' \<noteq> None \<Longrightarrow>
      \<exists>c. get_latest_checkpoint db' ctx = Some c \<and> cr_phase c = checkpoint_phase_value C_RUN_TERMINAL"
proof -
  obtain before rec' db1 where
    row: "request_cancellation_row (clk 0) (repository s) db ctx = Inr (Some rec', db1)"
    and rest: "(case rr_finished_at rec' of
          None \<Rightarrow> Inr ((rec', No_event), db1)
        | Some finished \<Rightarrow>
            if rr_status rec' \<noteq> R_CANCELLED then Inr ((rec', No_event), db1)
            else close_cancelled_run env pg (shift 1 clk) s db1 ctx uuid before rec' finished) = Inr ((rec, ev), db')"
    using assms(2) unfolding request_cancellation_def by (auto simp: res_simps split: if_splits)
  from assms(1) show thesis
  proof (cases rule: get_run_cases[where ctx = ctx])
    case missing
    with row show ?thesis by (simp add: request_cancellation_row_def)
  next
    case (found r)
    from request_cancellation_row_eq[OF assms(1) found(1,2), of "clk 0" "repository s"] row
    obtain r' where r': "rec' = run_of_row r'" "r' \<in> set (agent_runs db1)" "schema_ok db1"
      "ctx_scope ctx = Some (run_scope r')"
      "if run_terminal (r_status r) \<or> r_cancel_requested_at r \<noteq> None then r' = r
       else r' = cancellation_values (clk 0) (repository s) (r_status r) r"
      by (auto split: if_splits)
    have frame: "agent_runs db' = agent_runs db1" "schema_ok db'" "rec = run_of_row r'"
      if "db' = db1 \<or> only_checkpoint (ctx_scope ctx) db1 db'" "rec = rec'"
      using that r'(1,3) only_checkpoint_frame[of "ctx_scope ctx" db1 db'] only_checkpoint_schema_ok by auto
    show ?thesis
    proof (cases "r_status r' = R_CANCELLED \<and> r_finished_at r' \<noteq> None")
      case False
      then have "rec = rec' \<and> db' = db1" using rest r'(1) by (auto split: option.splits if_splits)
      with False r' found(1,2) frame show ?thesis by (intro that[of r r']) auto
    next
      case True
      then obtain fin where
        close: "close_cancelled_run env pg (shift 1 clk) s db1 ctx uuid before rec' fin = Inr ((rec, ev), db')"
        using rest r'(1) by auto
      have same: "rec = rec'" "db' = db1 \<or> only_checkpoint (ctx_scope ctx) db1 db'"
        using close close_cancelled_run_only[OF close]
        by (auto simp: close_cancelled_run_def rbind_Inr_iff split: if_splits)
      have "\<exists>c. get_latest_checkpoint db' ctx = Some c \<and> cr_phase c = checkpoint_phase_value C_RUN_TERMINAL"
        by (rule close_cancelled_run_latest[OF close])
      with True r' found(1,2) frame[OF same(2,1)] show ?thesis by (intro that[of r r']) auto
    qed
  qed
qed

section \<open>Requests stick\<close>

lemma run_evolves_cancel:
  "run_evolves\<^sup>*\<^sup>* r r' \<Longrightarrow> r_cancel_requested_at r \<noteq> None \<Longrightarrow> r_cancel_requested_at r' = r_cancel_requested_at r"
  by (induction rule: rtranclp_induct) (auto simp: run_evolves_def)

text \<open>
  C18. A cancellation request cannot be lost: once \<open>request_cancellation\<close> has returned, the check
  \<open>raise_if_cancel_requested\<close> of the run raises after any further sequence of operations, unless the
  run had already ended with another outcome before the request.
\<close>

theorem cancellation_request_sticks:
  assumes "schema_ok db" "request_cancellation env pg clk s db ctx uuid = Inr ((rec, ev), db1)"
    and "(any_step s)\<^sup>*\<^sup>* db1 db2"
  shows "raise_if_cancel_requested db2 ctx = Inl PlanCancellationRequested \<or>
    run_terminal (rr_status rec) \<and> rr_status rec \<noteq> R_CANCELLED"
proof (rule request_cancellation_Inr[OF assms(1,2)])
  fix r r' assume r: "r' \<in> set (agent_runs db1)" "ctx_scope ctx = Some (run_scope r')" "rec = run_of_row r'"
    "schema_ok db1"
    and cases: "if run_terminal (r_status r) \<or> r_cancel_requested_at r \<noteq> None then r' = r
      else r' = cancellation_values (clk 0) (repository s) (r_status r) r"
  obtain q where q: "q \<in> set (agent_runs db2)" "run_evolves\<^sup>*\<^sup>* r' q"
    using run_rows.later_row[OF conjunct1[OF wf_steps_tables[OF assms(3) r(4)]] r(4,1)] by blast
  have db2: "schema_ok db2" using wf_steps_tables[OF assms(3) r(4)] by blast
  have run: "get_run db2 ctx = Inr (Some (run_of_row q))"
    using get_run_row[OF db2 q(1)] run_rows.history[OF q(2)] r(2) by simp
  have "r_cancel_requested_at r' \<noteq> None \<or> run_terminal (r_status r')"
    using cases cancellation_values_fields(2)[of "clk 0" "repository s" "r_status r" r]
    by (auto split: if_splits)
  then have "r_cancel_requested_at q \<noteq> None \<or> run_terminal (r_status r') \<and> r_status q = r_status r'"
    using run_evolves_cancel[OF q(2)] run_evolves_terminal[OF q(2)] by auto
  then show ?thesis
    using run r(3) by (auto simp: raise_if_cancel_requested_def need_def ensure_def)
qed

definition sample_env :: coordinator_env where
  "sample_env = \<lparr>ce_connection = False, ce_event_router = False, ce_post_commit_events = False\<rparr>"

theorem cancellation_request_sticks_witness:
  "raise_if_cancel_requested
     (sample_db [(sample_run R_RUNNING 2)\<lparr>r_cancel_requested_at := Some 60, r_updated_at := 60\<rparr>]) sample_ctx =
   Inl PlanCancellationRequested"
proof -
  let ?r = "(sample_run R_RUNNING 2)\<lparr>r_cancel_requested_at := Some 60, r_updated_at := 60\<rparr>"
  have "request_cancellation sample_env (\<lambda>_. Inr None) (\<lambda>_. 60) sample_settings
      (sample_db [sample_run R_RUNNING 1]) sample_ctx ''cp'' = Inr ((run_of_row ?r, No_event), sample_db [?r])"
    by code_simp
  from cancellation_request_sticks[OF sample_schema_ok this rtranclp.rtrancl_refl]
  show ?thesis by (simp add: sample_run_def TERMINAL_RUN_STATUSES_def)
qed


text \<open>A waiting run with a UUID as identifier, and a bound its closing payload just meets.\<close>

definition sample_wait_run :: run_row where
  "sample_wait_run = (sample_run R_AWAITING_USER 1)\<lparr>r_run_id := sample_uuid\<rparr>"

definition sample_wait_settings :: settings where
  "sample_wait_settings = sample_settings\<lparr>s_max_checkpoint_payload_bytes :=
     int (length (canonical_json (model_dump (terminal_of sample_uuid R_CANCELLED 60))))\<rparr>"


end
