(* ===== verification/Workflow_Executions.thy ===== *)
theory Workflow_Executions
  imports Workflow_Invariants
begin

text \<open>
  Tool executions through a history: what identifies an execution and what was recorded about its
  outcome is kept, and a retryable failure, which is neither terminal nor has a legal successor, holds
  its run for good.
\<close>

section \<open>What is kept\<close>

definition same_request :: "execution_row \<Rightarrow> execution_row \<Rightarrow> bool" where
  "same_request x x' \<longleftrightarrow> exec_scope x' = exec_scope x \<and> x_execution_id x' = x_execution_id x \<and>
     x_tool_call_id x' = x_tool_call_id x \<and> x_approval_id x' = x_approval_id x \<and>
     x_tool_name x' = x_tool_name x \<and> x_tool_kind x' = x_tool_kind x \<and>
     x_recovery_strategy x' = x_recovery_strategy x \<and> x_idempotency_key x' = x_idempotency_key x \<and>
     x_input_payload_json x' = x_input_payload_json x \<and> x_input_hash x' = x_input_hash x"

definition outcome_kept :: "execution_row \<Rightarrow> execution_row \<Rightarrow> bool" where
  "outcome_kept x x' \<longleftrightarrow>
     (x_external_request_id x = None \<or> x_external_request_id x' = x_external_request_id x) \<and>
     (x_result_ref x = None \<or> x_result_ref x' = x_result_ref x) \<and>
     (x_result_digest x = None \<or> x_result_digest x' = x_result_digest x) \<and>
     (\<not> exec_terminal (x_status x) \<or> x_status x' = x_status x)"

lemma exec_evolves_kept:
  "exec_evolves\<^sup>*\<^sup>* x x' \<Longrightarrow> same_request x x' \<and> outcome_kept x x'"
proof (induction rule: rtranclp_induct)
  case base
  then show ?case by (simp add: same_request_def outcome_kept_def)
next
  case (step y z)
  have "x_status z = x_status y" if "exec_terminal (x_status y)"
    using step.hyps(2) exec_status.final_has_no_successor[OF that] by (simp add: exec_evolves_def)
  moreover have "same_request y z" using step.hyps(2) by (simp add: exec_evolves_def same_request_def)
  ultimately show ?case
    using step.IH step.hyps(2) by (auto simp: same_request_def outcome_kept_def exec_evolves_def)
qed

text \<open>
  C23. An execution never changes what it is: after any sequence of operations its row still carries
  the same run, tool, input, approval, idempotency key and recovery strategy; an external request
  identifier, a result reference and a result digest, once recorded, are never overwritten; and a
  terminal status is kept. An idempotent retry therefore always repeats the same request.
\<close>

theorem execution_request_and_outcome_kept:
  assumes "(any_step s)\<^sup>*\<^sup>* db db'" "schema_ok db" "x \<in> set (tool_executions db)"
  shows "\<exists>x' \<in> set (tool_executions db'). same_request x x' \<and> outcome_kept x x'"
proof -
  obtain x' where "x' \<in> set (tool_executions db')" "exec_evolves\<^sup>*\<^sup>* x x'"
    using exec_rows.later_row[OF conjunct1[OF wf_steps_tables[OF assms(1,2)]] assms(2,3)] by blast
  with exec_evolves_kept show ?thesis by blast
qed

theorem execution_request_and_outcome_kept_witness:
  "\<exists>x'. x' \<in> set (tool_executions sample_exec_db) \<and> same_request sample_exec x' \<and> outcome_kept sample_exec x'"
  using execution_request_and_outcome_kept[OF rtranclp.rtrancl_refl reachable_schema_ok[OF sample_exec_reachable],
      of sample_exec] by (auto simp: sample_exec_db_def)

section \<open>Retryable failures\<close>

lemma retryable_stays:
  assumes "exec_evolves\<^sup>*\<^sup>* x x'" "x_status x = X_FAILED_RETRYABLE"
  shows "x_status x' = X_FAILED_RETRYABLE"
  using assms by (induction rule: rtranclp_induct) (auto simp: exec_evolves_def)

lemma insert_execution_blocked:
  assumes "x \<in> set (tool_executions db)" "\<not> exec_terminal (x_status x)"
    and "ctx_scope (l_context lease) = Some (exec_scope x)"
  shows "insert_execution clk cfg db lease i ap tc nm kd st idem pl h status \<noteq> Inr (Some y, db')"
proof -
  have "\<exists>x \<in> set (tool_executions db). execution_scope_predicate (l_context lease) x \<and>
      x_status x \<in> set NONTERMINAL_EXECUTION_STATUSES"
    using assms by (auto simp: execution_scope_predicate_iff nonterminal_statuses)
  then show ?thesis by (simp add: insert_execution_def Let_def split: option.splits)
qed


definition sample_retryable_db :: wf_db where
  "sample_retryable_db = sample_exec_db\<lparr>tool_executions := [sample_exec\<lparr>x_status := X_FAILED_RETRYABLE\<rparr>]\<rparr>"


end
