(* ===== verification/Plan_Validation.thy ===== *)
theory Plan_Validation
  imports Py_Json_Facts Sha256 Checkpoint_Payloads "HOL-Library.Multiset"
begin

text \<open>
  \<open>planner/validation.py\<close>: a plan drafted by the model is accepted only if its steps form an acyclic
  dependency graph of bounded size and depth; its steps are then put into a canonical order (Kahn's
  algorithm, always taking the available step that comes first in the draft) and numbered. The
  regular expressions for credential-shaped text are parameters: \<open>secret_key\<close> and \<open>secret_value\<close> say
  whether the compiled patterns \<open>_SECRET_KEY\<close> and \<open>_SECRET_VALUE\<close> are found in a text.
\<close>

section \<open>Drafts\<close>

record plan_draft_step =
  d_key :: string
  d_title :: string
  d_description :: string
  d_expected_outcome :: string
  d_depends_on :: "string list"
  d_max_attempts :: int

record plan_draft =
  pd_objective :: string
  pd_constraints :: "string list"
  pd_generation_reason :: string
  pd_steps :: "plan_draft_step list"

record validated_plan_step = plan_draft_step +
  d_ordinal :: int

record validated_plan =
  vp_objective :: string
  vp_constraints :: "string list"
  vp_generation_reason :: string
  vp_steps :: "validated_plan_step list"

text \<open>The field constraints of the pydantic classes.\<close>

definition logical_step_key_ok :: "string \<Rightarrow> bool" where
  "logical_step_key_ok s \<longleftrightarrow> 1 \<le> length s \<and> length s \<le> 64 \<and>
     list_all (\<lambda>c. c \<in> set ''abcdefghijklmnopqrstuvwxyz0123456789_-'') s"

definition step_fields_ok :: "'a plan_draft_step_scheme \<Rightarrow> bool" where
  "step_fields_ok st \<longleftrightarrow> logical_step_key_ok (d_key st) \<and> len_between 1 200 (d_title st) \<and>
     len_between 1 4000 (d_description st) \<and> len_between 1 2000 (d_expected_outcome st) \<and>
     length (d_depends_on st) \<le> 20 \<and> 1 \<le> d_max_attempts st \<and> d_max_attempts st \<le> 20"

definition plan_draft_ok :: "plan_draft \<Rightarrow> bool" where
  "plan_draft_ok p \<longleftrightarrow> len_between 1 16000 (pd_objective p) \<and> length (pd_constraints p) \<le> 20 \<and>
     list_all (len_between 1 1000) (pd_constraints p) \<and> len_between 1 1000 (pd_generation_reason p) \<and>
     1 \<le> length (pd_steps p) \<and> length (pd_steps p) \<le> 20 \<and> list_all step_fields_ok (pd_steps p)"

definition validated_plan_ok :: "validated_plan \<Rightarrow> bool" where
  "validated_plan_ok v \<longleftrightarrow> len_between 1 16000 (vp_objective v) \<and> length (vp_constraints v) \<le> 20 \<and>
     list_all (len_between 1 1000) (vp_constraints v) \<and> len_between 1 1000 (vp_generation_reason v) \<and>
     1 \<le> length (vp_steps v) \<and> length (vp_steps v) \<le> 20 \<and>
     list_all (\<lambda>st. step_fields_ok st \<and> 1 \<le> d_ordinal st \<and> d_ordinal st \<le> 20) (vp_steps v)"


section \<open>The dependency graph\<close>

definition index_of :: "'a list \<Rightarrow> 'a \<Rightarrow> nat" where
  "index_of xs x = length (takeWhile (\<lambda>y. y \<noteq> x) xs)"

record plan_graph =
  g_outgoing :: "(string \<times> string list) list"
  g_indegree :: "(string \<times> int) list"

text \<open>\<open>outgoing\<close> is a \<open>defaultdict(list)\<close>.\<close>

definition outgoing_of :: "(string \<times> string list) list \<Rightarrow> string \<Rightarrow> string list" where
  "outgoing_of out k = (case map_of out k of None \<Rightarrow> [] | Some cs \<Rightarrow> cs)"

text \<open>The loop over \<open>step.depends_on\<close>, then the loop over the steps.\<close>

fun add_dependencies :: "string list \<Rightarrow> string \<Rightarrow> string list \<Rightarrow> plan_graph \<Rightarrow> exc + plan_graph" where
  "add_dependencies keys k [] g = Inr g"
| "add_dependencies keys k (d # ds) g =
     rbind (ensure (d \<noteq> k) (PlanValidationError ''self dependency'')) (\<lambda>_.
     rbind (ensure (d \<in> set keys) (PlanValidationError (''missing dependency '' @ d))) (\<lambda>_.
     rbind (need (map_of (g_indegree g) k) KeyError) (\<lambda>n.
       add_dependencies keys k ds
         \<lparr>g_outgoing = dict_set (g_outgoing g) d (outgoing_of (g_outgoing g) d @ [k]),
          g_indegree = dict_set (g_indegree g) k (n + 1)\<rparr>)))"

fun build_graph :: "string list \<Rightarrow> int \<Rightarrow> plan_draft_step list \<Rightarrow> plan_graph \<Rightarrow> exc + plan_graph" where
  "build_graph keys max_attempts [] g = Inr g"
| "build_graph keys max_attempts (st # sts) g =
     rbind (ensure (\<not> d_max_attempts st > max_attempts)
       (PlanValidationError ''step max_attempts exceeds configured limit'')) (\<lambda>_.
     rbind (ensure (distinct (d_depends_on st)) (PlanValidationError ''duplicate dependency'')) (\<lambda>_.
     rbind (add_dependencies keys (d_key st) (d_depends_on st) g) (\<lambda>g'.
       build_graph keys max_attempts sts g')))"

section \<open>The canonical order\<close>

text \<open>The counters of the loop: indegrees, depths and the list of ready steps.\<close>

type_synonym kahn_state = "(string \<times> int) list \<times> (string \<times> int) list \<times> string list"

fun visit_children ::
    "(string \<Rightarrow> nat) \<Rightarrow> int \<Rightarrow> string \<Rightarrow> string list \<Rightarrow> kahn_state \<Rightarrow> exc + kahn_state" where
  "visit_children orig limit key [] st = Inr st"
| "visit_children orig limit key (c # cs) (indegree, depth, ready) =
     rbind (need (map_of depth c) KeyError) (\<lambda>dc.
     rbind (need (map_of depth key) KeyError) (\<lambda>dk.
     rbind (ensure (\<not> max dc (dk + 1) > limit)
       (PlanValidationError ''dependency depth exceeds configured limit'')) (\<lambda>_.
     rbind (need (map_of indegree c) KeyError) (\<lambda>n.
       visit_children orig limit key cs
         (dict_set indegree c (n - 1), dict_set depth c (max dc (dk + 1)),
          if n - 1 = 0 then sort_key orig (ready @ [c]) else ready)))))"

definition work :: "(string \<times> int) list \<Rightarrow> nat" where
  "work indegree = sum_list (map (\<lambda>kv. nat (snd kv)) indegree)"

lemma work_dict_set:
  "map_of d k = Some n \<Longrightarrow> work (dict_set d k m) + nat n = work d + nat m"
  by (induction d k m rule: dict_set.induct) (auto simp: work_def split: if_splits)

text \<open>Visiting children never adds work: a step becomes ready at the price of its last open dependency.\<close>

lemma visit_children_work:
  assumes "visit_children orig limit key cs (indegree, depth, ready) = Inr (indegree', depth', ready')"
  shows "work indegree' + length ready' \<le> work indegree + length ready"
  using assms
proof (induction cs arbitrary: indegree depth ready)
  case (Cons c cs)
  then obtain dc dk n where n: "map_of indegree c = Some n"
    and rest: "visit_children orig limit key cs
      (dict_set indegree c (n - 1), dict_set depth c (max dc (dk + 1)),
       if n - 1 = 0 then sort_key orig (ready @ [c]) else ready) = Inr (indegree', depth', ready')"
    by (auto simp: res_simps)
  have "work (dict_set indegree c (n - 1)) + nat n = work indegree + nat (n - 1)"
    by (rule work_dict_set[OF n])
  with Cons.IH[OF rest] show ?case by (auto split: if_splits)
qed simp

function kahn ::
    "(string \<Rightarrow> nat) \<Rightarrow> int \<Rightarrow> (string \<times> string list) list \<Rightarrow> kahn_state \<Rightarrow> string list \<Rightarrow> exc + string list" where
  "kahn orig limit out (indegree, depth, []) ordered = Inr ordered"
| "kahn orig limit out (indegree, depth, key # ready) ordered =
     rbind (visit_children orig limit key (sort_key orig (outgoing_of out key)) (indegree, depth, ready))
       (\<lambda>st. kahn orig limit out st (ordered @ [key]))"
  by pat_completeness auto
termination
proof (relation "measure (\<lambda>(orig, limit, out, (indegree, depth, ready), ordered). work indegree + length ready)")
  fix orig limit out indegree depth key ready ordered st
  assume "visit_children orig limit key (sort_key orig (outgoing_of out key)) (indegree, depth, ready) = Inr st"
  then show "((orig, limit, out, st, ordered @ [key]), orig, limit, out, (indegree, depth, key # ready), ordered)
    \<in> measure (\<lambda>(orig, limit, out, (indegree, depth, ready), ordered). work indegree + length ready)"
    using visit_children_work by (cases st) fastforce
qed simp

text \<open>Lines 105 to 149: the checks on the steps and the loop.\<close>

definition plan_order :: "plan_draft_step list \<Rightarrow> int \<Rightarrow> int \<Rightarrow> int \<Rightarrow> exc + string list" where
  "plan_order steps max_steps max_depth max_attempts =
     rbind (ensure (\<not> int (length steps) > min max_steps 20)
       (PlanValidationError ''Plan exceeds configured step limit'')) (\<lambda>_.
     let keys = map d_key steps in
     rbind (ensure (distinct keys) (PlanValidationError ''duplicate logical_step_key'')) (\<lambda>_.
     rbind (build_graph keys max_attempts steps
       \<lparr>g_outgoing = [], g_indegree = map (\<lambda>k. (k, 0)) keys\<rparr>) (\<lambda>g.
     let orig = index_of keys;
         ready = sort_key orig (map fst (filter (\<lambda>kv. snd kv = 0) (g_indegree g))) in
     rbind (kahn orig (min max_depth 10) (g_outgoing g) (g_indegree g, map (\<lambda>k. (k, 1)) keys, ready) [])
       (\<lambda>ordered.
     rbind (ensure (length ordered = length keys) (PlanValidationError ''Plan dependency cycle'')) (\<lambda>_.
       Inr ordered)))))"

section \<open>The validated plan\<close>

definition validated_step :: "plan_draft_step \<Rightarrow> string list \<Rightarrow> int \<Rightarrow> validated_plan_step" where
  "validated_step st ordered i =
     \<lparr>d_key = d_key st, d_title = d_title st, d_description = d_description st,
      d_expected_outcome = d_expected_outcome st,
      d_depends_on = sort_key (index_of ordered) (d_depends_on st),
      d_max_attempts = d_max_attempts st, d_ordinal = i\<rparr>"

text \<open>\<open>by_key[key]\<close> for a key that is there.\<close>

definition step_of :: "plan_draft_step list \<Rightarrow> string \<Rightarrow> plan_draft_step option" where
  "step_of steps k = map_of (map (\<lambda>st. (d_key st, st)) steps) k"

definition canonical_plan :: "plan_draft \<Rightarrow> string list \<Rightarrow> validated_plan" where
  "canonical_plan draft ordered =
     \<lparr>vp_objective = pd_objective draft, vp_constraints = pd_constraints draft,
      vp_generation_reason = pd_generation_reason draft,
      vp_steps = concat (map (\<lambda>(i, k). case step_of (pd_steps draft) k of None \<Rightarrow> []
        | Some st \<Rightarrow> [validated_step st ordered (int i)]) (enumerate 1 ordered))\<rparr>"

definition step_json :: "validated_plan_step \<Rightarrow> json" where
  "step_json st = JObj
     [(''logical_step_key'', JStr (d_key st)), (''title'', JStr (d_title st)),
      (''description'', JStr (d_description st)), (''expected_outcome'', JStr (d_expected_outcome st)),
      (''depends_on'', JArr (map JStr (d_depends_on st))), (''max_attempts'', JInt (d_max_attempts st)),
      (''ordinal'', JInt (d_ordinal st))]"

definition plan_json :: "validated_plan \<Rightarrow> json" where
  "plan_json v = JObj
     [(''objective'', JStr (vp_objective v)), (''constraints'', JArr (map JStr (vp_constraints v))),
      (''generation_reason'', JStr (vp_generation_reason v)), (''steps'', JArr (map step_json (vp_steps v)))]"

definition canonical_plan_bytes :: "validated_plan \<Rightarrow> string" where
  "canonical_plan_bytes v = dumps (plan_json v)"

definition plan_content_digest :: "validated_plan \<Rightarrow> string" where
  "plan_content_digest v = sha256_hex (canonical_plan_bytes v)"

definition step_definition_digest :: "validated_plan_step \<Rightarrow> string" where
  "step_definition_digest st = sha256_hex (dumps (JObj
     [(''logical_step_key'', JStr (d_key st)), (''title'', JStr (d_title st)),
      (''description'', JStr (d_description st)), (''expected_outcome'', JStr (d_expected_outcome st)),
      (''max_attempts'', JInt (d_max_attempts st))]))"

fun reject_credentials :: "(string \<Rightarrow> bool) \<Rightarrow> (string \<Rightarrow> bool) \<Rightarrow> json \<Rightarrow> exc + unit"
and reject_members :: "(string \<Rightarrow> bool) \<Rightarrow> (string \<Rightarrow> bool) \<Rightarrow> (string \<times> json) list \<Rightarrow> exc + unit"
and reject_items :: "(string \<Rightarrow> bool) \<Rightarrow> (string \<Rightarrow> bool) \<Rightarrow> json list \<Rightarrow> exc + unit" where
  "reject_credentials secret_key secret_value (JObj kvs) = reject_members secret_key secret_value kvs"
| "reject_credentials secret_key secret_value (JArr xs) = reject_items secret_key secret_value xs"
| "reject_credentials secret_key secret_value (JStr s) =
     ensure (\<not> secret_value s) (PlanValidationError ''Plan contains credential-shaped content'')"
| "reject_credentials secret_key secret_value _ = Inr ()"
| "reject_members secret_key secret_value [] = Inr ()"
| "reject_members secret_key secret_value ((k, v) # kvs) =
     rbind (ensure (\<not> secret_key k) (PlanValidationError ''Plan contains credential-shaped field'')) (\<lambda>_.
     rbind (reject_credentials secret_key secret_value v) (\<lambda>_.
       reject_members secret_key secret_value kvs))"
| "reject_items secret_key secret_value [] = Inr ()"
| "reject_items secret_key secret_value (x # xs) =
     rbind (reject_credentials secret_key secret_value x) (\<lambda>_. reject_items secret_key secret_value xs)"

definition MAX_PLAN_CONTENT_BYTES :: int where
  "MAX_PLAN_CONTENT_BYTES = 262144"

definition require_positive :: "string \<Rightarrow> int \<Rightarrow> exc + unit" where
  "require_positive name v = ensure (0 < v) (PlanValidationError (name @ '' must be a positive integer''))"

definition validate_plan_draft ::
    "(string \<Rightarrow> bool) \<Rightarrow> (string \<Rightarrow> bool) \<Rightarrow> plan_draft \<Rightarrow> int \<Rightarrow> int \<Rightarrow> int \<Rightarrow> int \<Rightarrow> exc + validated_plan" where
  "validate_plan_draft secret_key secret_value draft max_steps max_depth max_attempts max_content_bytes =
     rbind (require_positive ''max_steps'' max_steps) (\<lambda>_.
     rbind (require_positive ''max_depth'' max_depth) (\<lambda>_.
     rbind (require_positive ''max_attempts'' max_attempts) (\<lambda>_.
     rbind (require_positive ''max_content_bytes'' max_content_bytes) (\<lambda>_.
     rbind (plan_order (pd_steps draft) max_steps max_depth max_attempts) (\<lambda>ordered.
     let validated = canonical_plan draft ordered;
         limit = min max_content_bytes MAX_PLAN_CONTENT_BYTES in
     rbind (reject_credentials secret_key secret_value (plan_json validated)) (\<lambda>_.
     rbind (ensure (\<not> int (length (canonical_plan_bytes validated)) > limit)
       (PlanValidationError (''Plan content exceeds '' @ int_repr limit @ '' bytes''))) (\<lambda>_.
       Inr validated)))))))"

section \<open>Dictionaries\<close>

lemma map_of_dict_set: "map_of (dict_set d k v) = (map_of d)(k \<mapsto> v)"
  by (induction d k v rule: dict_set.induct) auto

lemma dict_set_keys: "k \<in> fst ` set d \<Longrightarrow> map fst (dict_set d k v) = map fst d"
  by (induction d k v rule: dict_set.induct) auto

lemma map_of_const: "map_of (map (\<lambda>k. (k, c)) ks) k = (if k \<in> set ks then Some c else None)"
  by (induction ks) auto

lemma index_of_less: "x \<in> set xs \<Longrightarrow> index_of xs x < length xs \<and> xs ! index_of xs x = x"
  unfolding index_of_def by (induction xs) auto

lemma index_of_nth: "distinct xs \<Longrightarrow> i < length xs \<Longrightarrow> index_of xs (xs ! i) = i"
  unfolding index_of_def
proof (induction xs arbitrary: i)
  case (Cons x xs)
  then show ?case by (cases i) auto
qed simp

lemma index_of_inj: "inj_on (index_of xs) (set xs)"
  by (rule inj_on_inverseI[of _ "\<lambda>i. xs ! i"]) (simp add: index_of_less)

section \<open>The graph that is built\<close>

definition deps_of :: "plan_draft_step list \<Rightarrow> string \<Rightarrow> string list" where
  "deps_of steps k = (case step_of steps k of None \<Rightarrow> [] | Some st \<Rightarrow> d_depends_on st)"

text \<open>What the loops over the steps require of a step.\<close>

definition step_accepted :: "string list \<Rightarrow> int \<Rightarrow> plan_draft_step \<Rightarrow> bool" where
  "step_accepted keys max_attempts st \<longleftrightarrow> d_max_attempts st \<le> max_attempts \<and> distinct (d_depends_on st) \<and>
     d_key st \<notin> set (d_depends_on st) \<and> set (d_depends_on st) \<subseteq> set keys"

lemma outgoing_of_dict_set:
  "outgoing_of (dict_set out d v) e = (if e = d then v else outgoing_of out e)"
  by (simp add: outgoing_of_def map_of_dict_set)

lemma add_dependencies_effect:
  assumes "add_dependencies keys k ds g = Inr g'" "map_of (g_indegree g) k = Some n" "distinct ds"
  shows "k \<notin> set ds \<and> set ds \<subseteq> set keys \<and>
    (\<forall>d. outgoing_of (g_outgoing g') d = outgoing_of (g_outgoing g) d @ (if d \<in> set ds then [k] else [])) \<and>
    map fst (g_indegree g') = map fst (g_indegree g) \<and>
    (\<forall>j. map_of (g_indegree g') j = (if j = k then Some (n + int (length ds)) else map_of (g_indegree g) j))"
  using assms
proof (induction ds arbitrary: g n)
  case Nil
  then show ?case by auto
next
  case (Cons d ds)
  let ?g = "\<lparr>g_outgoing = dict_set (g_outgoing g) d (outgoing_of (g_outgoing g) d @ [k]),
    g_indegree = dict_set (g_indegree g) k (n + 1)\<rparr>"
  have rec: "add_dependencies keys k ds ?g = Inr g'" and d: "d \<noteq> k" "d \<in> set keys"
    using Cons.prems(1,2) by (simp_all add: res_simps)
  have "k \<in> fst ` set (g_indegree g)" using Cons.prems(2) by (force dest: map_of_SomeD)
  then have keys: "map fst (g_indegree ?g) = map fst (g_indegree g)" by (simp add: dict_set_keys)
  have "map_of (g_indegree ?g) k = Some (n + 1)" by (simp add: map_of_dict_set)
  from Cons.IH[OF rec this] Cons.prems(3) d keys show ?case
    by (simp add: map_of_dict_set outgoing_of_dict_set algebra_simps)
qed

lemma add_dependencies_accepts:
  assumes "map_of (g_indegree g) k = Some n" "k \<notin> set ds" "set ds \<subseteq> set keys"
  shows "\<exists>g'. add_dependencies keys k ds g = Inr g'"
  using assms
proof (induction ds arbitrary: g n)
  case (Cons d ds)
  show ?case
    using Cons.prems Cons.IH[of "\<lparr>g_outgoing = dict_set (g_outgoing g) d (outgoing_of (g_outgoing g) d @ [k]),
      g_indegree = dict_set (g_indegree g) k (n + 1)\<rparr>" "n + 1"] by (auto simp: map_of_dict_set ensure_def)
qed simp

text \<open>The graph agrees with the steps processed so far.\<close>

definition graph_of :: "string list \<Rightarrow> plan_draft_step list \<Rightarrow> plan_graph \<Rightarrow> bool" where
  "graph_of keys sts g \<longleftrightarrow> map fst (g_indegree g) = keys \<and>
     (\<forall>d. outgoing_of (g_outgoing g) d = map d_key (filter (\<lambda>st. d \<in> set (d_depends_on st)) sts)) \<and>
     (\<forall>k \<in> set keys. map_of (g_indegree g) k =
        Some (int (sum_list (map (\<lambda>st. if d_key st = k then length (d_depends_on st) else 0) sts))))"

lemma graph_of_step:
  assumes "graph_of keys sts g" "add_dependencies keys (d_key st) (d_depends_on st) g = Inr g'"
    and "distinct (d_depends_on st)" "d_key st \<in> set keys"
  shows "graph_of keys (sts @ [st]) g' \<and> d_key st \<notin> set (d_depends_on st) \<and> set (d_depends_on st) \<subseteq> set keys"
proof -
  let ?n = "int (sum_list (map (\<lambda>s. if d_key s = d_key st then length (d_depends_on s) else 0) sts))"
  have "map_of (g_indegree g) (d_key st) = Some ?n" using assms(1,4) by (simp add: graph_of_def)
  from add_dependencies_effect[OF assms(2) this assms(3)] assms(1) show ?thesis
    by (auto simp: graph_of_def)
qed

lemma build_graph_Inr:
  assumes "build_graph keys ma sts g = Inr g'" "graph_of keys prev g" "d_key ` set sts \<subseteq> set keys"
  shows "graph_of keys (prev @ sts) g' \<and> (\<forall>st \<in> set sts. step_accepted keys ma st)"
  using assms
proof (induction sts arbitrary: g prev)
  case (Cons st sts)
  obtain g1 where st: "d_max_attempts st \<le> ma" "distinct (d_depends_on st)"
      "add_dependencies keys (d_key st) (d_depends_on st) g = Inr g1" "build_graph keys ma sts g1 = Inr g'"
    using Cons.prems(1) by (auto simp: res_simps)
  note g1 = graph_of_step[OF Cons.prems(2) st(3,2)]
  from Cons.IH[OF st(4), of "prev @ [st]"] g1 Cons.prems(3) st(1,2) show ?case
    by (auto simp: step_accepted_def)
qed simp

lemma build_graph_accepts:
  assumes "\<forall>st \<in> set sts. step_accepted keys ma st" "graph_of keys prev g" "d_key ` set sts \<subseteq> set keys"
  shows "\<exists>g'. build_graph keys ma sts g = Inr g'"
  using assms
proof (induction sts arbitrary: g prev)
  case (Cons st sts)
  have acc: "step_accepted keys ma st" using Cons.prems(1) by simp
  have "map_of (g_indegree g) (d_key st) \<noteq> None" using Cons.prems(2,3) by (auto simp: graph_of_def)
  then obtain g1 where g1: "add_dependencies keys (d_key st) (d_depends_on st) g = Inr g1"
    using add_dependencies_accepts[of g "d_key st" _ "d_depends_on st" keys] acc
    by (auto simp: step_accepted_def)
  have "graph_of keys (prev @ [st]) g1"
    using graph_of_step[OF Cons.prems(2) g1] acc Cons.prems(3) by (simp add: step_accepted_def)
  with Cons.IH[of "prev @ [st]" g1] Cons.prems(1,3) obtain g' where "build_graph keys ma sts g1 = Inr g'" by auto
  with g1 acc show ?case by (auto simp: step_accepted_def ensure_def)
qed simp

lemma step_of_member:
  "distinct (map d_key steps) \<Longrightarrow> st \<in> set steps \<Longrightarrow> step_of steps (d_key st) = Some st"
  unfolding step_of_def by (rule map_of_is_SomeI) (auto simp: comp_def)

lemma deps_of_member:
  "distinct (map d_key steps) \<Longrightarrow> st \<in> set steps \<Longrightarrow> deps_of steps (d_key st) = d_depends_on st"
  by (simp add: deps_of_def step_of_member)

lemma indegree_sum:
  assumes "distinct (map d_key steps)" "st \<in> set steps"
  shows "sum_list (map (\<lambda>s. if d_key s = d_key st then length (d_depends_on s) else 0) steps) =
    length (d_depends_on st)"
  using assms
proof (induction steps)
  case (Cons s steps)
  have zero: "sum_list (map (\<lambda>s'. if d_key s' = d_key s then length (d_depends_on s') else 0) steps) = 0"
    using Cons.prems(1) by (auto simp: sum_list_eq_0_iff) (metis image_eqI)
  show ?case
  proof (cases "st = s")
    case True
    then show ?thesis using zero by simp
  next
    case False
    then have "st \<in> set steps" "d_key s \<noteq> d_key st" using Cons.prems by auto
    then show ?thesis using Cons by simp
  qed
qed simp

end
