(* ===== verification/Plan_Models.thy ===== *)
theory Plan_Models
  imports Plan_Validation
begin

text \<open>
  The data model of \<open>planner/models.py\<close> as far as stored plans need it: the enumerations, the records
  the plan repository returns, the result document of a step attempt with its digest, and the two
  predicates that say when a run may execute its plan and when a step may be dispatched.
\<close>

section \<open>Enumerations\<close>

datatype plan_status = P_AWAITING_APPROVAL | P_APPROVED | P_REJECTED | P_ARCHIVED

datatype plan_trigger_mode = T_AUTOMATIC | T_EXPLICIT

datatype plan_decision_action = D_APPROVE | D_REJECT | D_REVISE

datatype plan_step_run_status =
    SR_PENDING | SR_RUNNING | SR_SUCCEEDED | SR_FAILED_RETRYABLE | SR_FAILED_TERMINAL | SR_CANCELLED

section \<open>Records\<close>

record plan_decision_record =
  de_decision_id :: string
  de_plan_version :: int
  de_expected_plan_cas_version :: int
  de_action :: plan_decision_action
  de_feedback :: "string option"
  de_decided_by :: string
  de_resulting_plan_version :: "int option"
  de_created_at :: int

record plan_step_record =
  sp_step_id :: string
  sp_logical_step_key :: string
  sp_supersedes_step_id :: "string option"
  sp_ordinal :: int
  sp_title :: string
  sp_description :: string
  sp_expected_outcome :: string
  sp_assigned_agent_profile_id :: "string option"
  sp_max_attempts :: int
  sp_definition_digest :: string

record plan_step_run_record =
  at_step_run_id :: string
  at_run_id :: string
  at_plan_id :: string
  at_plan_version :: int
  at_step_id :: string
  at_attempt :: int
  at_status :: plan_step_run_status
  at_result_summary :: "string option"
  at_result_ref :: "string option"
  at_result_digest :: "string option"
  at_error_code :: "string option"
  at_error_detail_redacted :: "string option"
  at_reused_from_step_run_id :: "string option"
  at_version :: int
  at_started_at :: int
  at_finished_at :: "int option"

record plan_version_record =
  ve_plan_id :: string
  ve_plan_version :: int
  ve_objective :: string
  ve_constraints :: "string list"
  ve_generation_reason :: string
  ve_parent_version :: "int option"
  ve_revision_feedback :: "string option"
  ve_schema_version :: int
  ve_content_digest :: string
  ve_created_at :: int
  ve_steps :: "plan_step_record list"
  ve_dependencies :: "(string \<times> string list) list"

record plan_snapshot =
  sn_context :: tenant_context
  sn_plan_id :: string
  sn_source_message_id :: string
  sn_trigger_mode :: plan_trigger_mode
  sn_status :: plan_status
  sn_current_version :: int
  sn_approved_version :: "int option"
  sn_aggregate_version :: int
  sn_created_at :: int
  sn_updated_at :: int
  sn_current :: plan_version_record
  sn_versions :: "plan_version_record list"
  sn_decisions :: "plan_decision_record list"

record plan_decision_request =
  rq_decision_id :: string
  rq_plan_id :: string
  rq_plan_version :: int
  rq_expected_version :: int
  rq_action :: plan_decision_action
  rq_feedback :: "string option"

record plan_decision_mutation_result =
  mr_snapshot :: plan_snapshot
  mr_decision :: plan_decision_record
  mr_idempotent_replay :: bool

text \<open>
  The result document of an attempt. Its digest is taken over the canonical JSON of all fields.
\<close>

record plan_step_result_document =
  rd_plan_id :: string
  rd_plan_version :: int
  rd_run_id :: string
  rd_step_id :: string
  rd_step_run_id :: string
  rd_attempt :: int
  rd_status :: string
  rd_summary :: string
  rd_evidence :: "string list"
  rd_definition_digest :: string
  rd_dependency_result_digests :: "(string \<times> string) list"
  rd_tool_catalog_digest :: string
  rd_policy_digest :: string
  rd_skill_set_digest :: string

definition result_canonical_json :: "plan_step_result_document \<Rightarrow> string" where
  "result_canonical_json d = dumps (JObj
     [(''schema_version'', JInt 1), (''plan_id'', JStr (rd_plan_id d)),
      (''plan_version'', JInt (rd_plan_version d)), (''run_id'', JStr (rd_run_id d)),
      (''step_id'', JStr (rd_step_id d)), (''step_run_id'', JStr (rd_step_run_id d)),
      (''attempt'', JInt (rd_attempt d)), (''status'', JStr (rd_status d)),
      (''summary'', JStr (rd_summary d)), (''evidence'', JArr (map JStr (rd_evidence d))),
      (''definition_digest'', JStr (rd_definition_digest d)),
      (''dependency_result_digests'',
         JObj (map (\<lambda>(k, v). (k, JStr v)) (rd_dependency_result_digests d))),
      (''tool_catalog_digest'', JStr (rd_tool_catalog_digest d)),
      (''policy_digest'', JStr (rd_policy_digest d)),
      (''skill_set_digest'', JStr (rd_skill_set_digest d))])"

definition result_digest :: "plan_step_result_document \<Rightarrow> string" where
  "result_digest d = sha256_hex (result_canonical_json d)"

section \<open>When a step may run\<close>

definition TERMINAL_PLAN_STEP_STATUSES :: "plan_step_run_status list" where
  "TERMINAL_PLAN_STEP_STATUSES = [SR_FAILED_TERMINAL, SR_CANCELLED]"

definition EXECUTABLE_PLAN_RUN_STATUSES :: "run_status list" where
  "EXECUTABLE_PLAN_RUN_STATUSES = [R_RESUMING, R_RUNNING]"

definition NON_DISPATCHABLE_PLAN_STEP_STATUSES :: "plan_step_run_status list" where
  "NON_DISPATCHABLE_PLAN_STEP_STATUSES = [SR_RUNNING, SR_SUCCEEDED] @ TERMINAL_PLAN_STEP_STATUSES"

definition is_plan_run_executable :: "run_status \<Rightarrow> int option \<Rightarrow> bool" where
  "is_plan_run_executable status cancel_requested_at \<longleftrightarrow>
     status \<in> set EXECUTABLE_PLAN_RUN_STATUSES \<and> cancel_requested_at = None"

text \<open>\<open>latest\<close> maps a step identifier to its latest attempt.\<close>

definition is_plan_step_ready ::
    "string \<Rightarrow> string list \<Rightarrow> (string \<times> plan_step_run_record) list \<Rightarrow> bool" where
  "is_plan_step_ready step_id dependency_ids latest \<longleftrightarrow>
     (case map_of latest step_id of
        Some current \<Rightarrow> at_status current \<notin> set NON_DISPATCHABLE_PLAN_STEP_STATUSES
      | None \<Rightarrow> True) \<and>
     list_all (\<lambda>d. case map_of latest d of
        Some dependency \<Rightarrow> at_status dependency = SR_SUCCEEDED
      | None \<Rightarrow> False) dependency_ids"

end
