(* ===== verification/Plan_Store.thy ===== *)
theory Plan_Store
  imports Plan_Models Workflow_Repository
begin

text \<open>
  The plan tables of \<open>storage/schema.py\<close> and the constraints the database enforces on an insert. The
  tables the workflow statements use as well (\<open>agent_plan_versions\<close>, \<open>agent_runs\<close>, \<open>memory_entries\<close>,
  \<open>chat_sessions\<close>) are those of \<^typ>\<open>wf_db\<close>, so that a lease checked by the plan repository is the
  lease the coordinator hands out.
\<close>

section \<open>Rows\<close>

record plan_row =
  pl_id :: string
  pl_tenant_id :: string
  pl_workspace_id :: string
  pl_session_id :: string
  pl_source_message_id :: string
  pl_trigger_mode :: plan_trigger_mode
  pl_status :: plan_status
  pl_current_version :: int
  pl_approved_version :: "int option"
  pl_version :: int
  pl_created_at :: int
  pl_updated_at :: int

record plan_step_row =
  pst_tenant_id :: string
  pst_workspace_id :: string
  pst_session_id :: string
  pst_plan_id :: string
  pst_plan_version :: int
  pst_step_id :: string
  pst_logical_step_key :: string
  pst_supersedes_step_id :: "string option"
  pst_ordinal :: int
  pst_title :: string
  pst_description :: string
  pst_expected_outcome :: string
  pst_assigned_agent_profile_id :: "string option"
  pst_max_attempts :: int
  pst_definition_digest :: string

record plan_dependency_row =
  dp_tenant_id :: string
  dp_workspace_id :: string
  dp_session_id :: string
  dp_plan_id :: string
  dp_plan_version :: int
  dp_step_id :: string
  dp_depends_on_step_id :: string

record plan_decision_row =
  dc_tenant_id :: string
  dc_workspace_id :: string
  dc_session_id :: string
  dc_plan_id :: string
  dc_decision_id :: string
  dc_plan_version :: int
  dc_expected_plan_cas_version :: int
  dc_action :: plan_decision_action
  dc_feedback :: "string option"
  dc_decided_by :: string
  dc_resulting_plan_version :: "int option"
  dc_created_at :: int

record plan_step_run_row =
  sr_tenant_id :: string
  sr_workspace_id :: string
  sr_session_id :: string
  sr_plan_id :: string
  sr_plan_version :: int
  sr_step_id :: string
  sr_step_run_id :: string
  sr_run_id :: string
  sr_attempt :: int
  sr_status :: plan_step_run_status
  sr_result_summary :: "string option"
  sr_result_ref :: "string option"
  sr_result_digest :: "string option"
  sr_error_code :: "string option"
  sr_error_detail_redacted :: "string option"
  sr_reused_from_step_run_id :: "string option"
  sr_version :: int
  sr_started_at :: int
  sr_finished_at :: "int option"

record plan_db =
  wf :: wf_db
  agent_plans :: "plan_row list"
  agent_plan_steps :: "plan_step_row list"
  agent_plan_step_dependencies :: "plan_dependency_row list"
  agent_plan_decisions :: "plan_decision_row list"
  agent_plan_step_runs :: "plan_step_run_row list"

section \<open>Keys\<close>

text \<open>The scope columns shared by all plan tables: tenant, workspace, session and plan.\<close>

definition plan_key :: "plan_row \<Rightarrow> scope" where
  "plan_key p = (pl_tenant_id p, pl_workspace_id p, pl_session_id p, pl_id p)"

definition version_key :: "plan_version_row \<Rightarrow> scope \<times> int" where
  "version_key v = ((pv_tenant_id v, pv_workspace_id v, pv_session_id v, pv_plan_id v), pv_plan_version v)"

definition step_plan :: "plan_step_row \<Rightarrow> scope" where
  "step_plan s = (pst_tenant_id s, pst_workspace_id s, pst_session_id s, pst_plan_id s)"

definition step_key :: "plan_step_row \<Rightarrow> scope \<times> int \<times> string" where
  "step_key s = (step_plan s, pst_plan_version s, pst_step_id s)"

definition dependency_plan :: "plan_dependency_row \<Rightarrow> scope" where
  "dependency_plan d = (dp_tenant_id d, dp_workspace_id d, dp_session_id d, dp_plan_id d)"

definition decision_plan :: "plan_decision_row \<Rightarrow> scope" where
  "decision_plan d = (dc_tenant_id d, dc_workspace_id d, dc_session_id d, dc_plan_id d)"

definition attempt_plan :: "plan_step_run_row \<Rightarrow> scope" where
  "attempt_plan a = (sr_tenant_id a, sr_workspace_id a, sr_session_id a, sr_plan_id a)"

definition attempt_run :: "plan_step_run_row \<Rightarrow> scope" where
  "attempt_run a = (sr_tenant_id a, sr_workspace_id a, sr_session_id a, sr_run_id a)"

lemmas plan_key_defs = plan_key_def version_key_def step_plan_def step_key_def dependency_plan_def
  decision_plan_def attempt_plan_def attempt_run_def

section \<open>Inserts\<close>

text \<open>A foreign key with a null column is not checked.\<close>

definition version_fk :: "plan_db \<Rightarrow> scope \<Rightarrow> int option \<Rightarrow> bool" where
  "version_fk db k v \<longleftrightarrow> (case v of None \<Rightarrow> True
     | Some n \<Rightarrow> (k, n) \<in> set (map version_key (agent_plan_versions (wf db))))"

definition insert_agent_plan :: "plan_db \<Rightarrow> plan_row \<Rightarrow> exc + plan_db" where
  "insert_agent_plan db p =
     (if pl_id p \<notin> set (map pl_id (agent_plans db)) \<and>
         1 \<le> pl_current_version p \<and>
         (case pl_approved_version p of None \<Rightarrow> True | Some a \<Rightarrow> a \<le> pl_current_version p) \<and>
         (pl_tenant_id p, pl_workspace_id p, pl_session_id p) \<in> set (chat_sessions (wf db)) \<and>
         (\<exists>m \<in> set (memory_entries (wf db)). m_tenant_id m = pl_tenant_id p \<and>
            m_workspace_id m = pl_workspace_id p \<and> m_session_id m = Some (pl_session_id p) \<and>
            m_id m = pl_source_message_id p)
      then Inr (db\<lparr>agent_plans := agent_plans db @ [p]\<rparr>)
      else Inl IntegrityError)"

definition insert_agent_plan_version :: "plan_db \<Rightarrow> plan_version_row \<Rightarrow> exc + plan_db" where
  "insert_agent_plan_version db v =
     (if version_key v \<notin> set (map version_key (agent_plan_versions (wf db))) \<and>
         1 \<le> pv_plan_version v \<and> 1 \<le> pv_schema_version v \<and> length (pv_content_digest v) = 64 \<and>
         (case pv_parent_version v of None \<Rightarrow> True | Some n \<Rightarrow> n < pv_plan_version v) \<and>
         fst (version_key v) \<in> set (map plan_key (agent_plans db)) \<and>
         version_fk db (fst (version_key v)) (pv_parent_version v)
      then Inr (db\<lparr>wf := (wf db)\<lparr>agent_plan_versions := agent_plan_versions (wf db) @ [v]\<rparr>\<rparr>)
      else Inl IntegrityError)"

definition insert_agent_plan_step :: "plan_db \<Rightarrow> plan_step_row \<Rightarrow> exc + plan_db" where
  "insert_agent_plan_step db s =
     (if pst_step_id s \<notin> set (map pst_step_id (agent_plan_steps db)) \<and>
         (step_plan s, pst_plan_version s, pst_logical_step_key s) \<notin>
           set (map (\<lambda>s. (step_plan s, pst_plan_version s, pst_logical_step_key s)) (agent_plan_steps db)) \<and>
         1 \<le> pst_ordinal s \<and> pst_ordinal s \<le> 20 \<and> 1 \<le> pst_max_attempts s \<and> pst_max_attempts s \<le> 20 \<and>
         length (pst_definition_digest s) = 64 \<and>
         version_fk db (step_plan s) (Some (pst_plan_version s)) \<and>
         (case pst_supersedes_step_id s of None \<Rightarrow> True
          | Some i \<Rightarrow> (step_plan s, i) \<in> set (map (\<lambda>s. (step_plan s, pst_step_id s)) (agent_plan_steps db)))
      then Inr (db\<lparr>agent_plan_steps := agent_plan_steps db @ [s]\<rparr>)
      else Inl IntegrityError)"

definition insert_agent_plan_dependency :: "plan_db \<Rightarrow> plan_dependency_row \<Rightarrow> exc + plan_db" where
  "insert_agent_plan_dependency db d =
     (if d \<notin> set (agent_plan_step_dependencies db) \<and>
         dp_step_id d \<noteq> dp_depends_on_step_id d \<and>
         (dependency_plan d, dp_plan_version d, dp_step_id d) \<in> set (map step_key (agent_plan_steps db)) \<and>
         (dependency_plan d, dp_plan_version d, dp_depends_on_step_id d) \<in> set (map step_key (agent_plan_steps db))
      then Inr (db\<lparr>agent_plan_step_dependencies := agent_plan_step_dependencies db @ [d]\<rparr>)
      else Inl IntegrityError)"

definition insert_agent_plan_decision :: "plan_db \<Rightarrow> plan_decision_row \<Rightarrow> exc + plan_db" where
  "insert_agent_plan_decision db d =
     (if (decision_plan d, dc_decision_id d) \<notin>
           set (map (\<lambda>d. (decision_plan d, dc_decision_id d)) (agent_plan_decisions db)) \<and>
         1 \<le> dc_plan_version d \<and> 1 \<le> dc_expected_plan_cas_version d \<and> len_between 1 128 (dc_decision_id d) \<and>
         version_fk db (decision_plan d) (Some (dc_plan_version d)) \<and>
         version_fk db (decision_plan d) (dc_resulting_plan_version d)
      then Inr (db\<lparr>agent_plan_decisions := agent_plan_decisions db @ [d]\<rparr>)
      else Inl IntegrityError)"

text \<open>The check constraints of \<open>agent_plan_step_runs\<close>, enforced on updates as well.\<close>

definition attempt_checks :: "plan_step_run_row \<Rightarrow> bool" where
  "attempt_checks a \<longleftrightarrow> 1 \<le> sr_attempt a \<and> 1 \<le> sr_version a \<and>
     (case sr_result_digest a of None \<Rightarrow> True | Some d \<Rightarrow> length d = 64) \<and>
     (case sr_finished_at a of None \<Rightarrow> True | Some t \<Rightarrow> sr_started_at a \<le> t)"

definition update_step_runs ::
    "(plan_step_run_row \<Rightarrow> bool) \<Rightarrow> (plan_step_run_row \<Rightarrow> plan_step_run_row) \<Rightarrow> plan_db \<Rightarrow> exc + nat \<times> plan_db" where
  "update_step_runs p f db =
     (if \<forall>a \<in> set (agent_plan_step_runs db). p a \<longrightarrow> attempt_checks (f a)
      then Inr (rowcount p (agent_plan_step_runs db),
                db\<lparr>agent_plan_step_runs := upd_where p f (agent_plan_step_runs db)\<rparr>)
      else Inl IntegrityError)"

definition insert_agent_plan_step_run :: "plan_db \<Rightarrow> plan_step_run_row \<Rightarrow> exc + plan_db" where
  "insert_agent_plan_step_run db a =
     (if (attempt_plan a, sr_plan_version a, sr_step_id a, sr_step_run_id a) \<notin>
           set (map (\<lambda>a. (attempt_plan a, sr_plan_version a, sr_step_id a, sr_step_run_id a)) (agent_plan_step_runs db)) \<and>
         (attempt_run a, sr_step_id a, sr_attempt a) \<notin>
           set (map (\<lambda>a. (attempt_run a, sr_step_id a, sr_attempt a)) (agent_plan_step_runs db)) \<and>
         (attempt_plan a, sr_run_id a, sr_step_run_id a) \<notin>
           set (map (\<lambda>a. (attempt_plan a, sr_run_id a, sr_step_run_id a)) (agent_plan_step_runs db)) \<and>
         attempt_checks a \<and>
         (attempt_plan a, sr_plan_version a, sr_step_id a) \<in> set (map step_key (agent_plan_steps db)) \<and>
         (\<exists>r \<in> set (agent_runs (wf db)). run_scope r = attempt_run a \<and> r_plan_id r = Some (sr_plan_id a)) \<and>
         (case sr_reused_from_step_run_id a of None \<Rightarrow> True
          | Some i \<Rightarrow> (attempt_plan a, sr_run_id a, i) \<in>
              set (map (\<lambda>a. (attempt_plan a, sr_run_id a, sr_step_run_id a)) (agent_plan_step_runs db)))
      then Inr (db\<lparr>agent_plan_step_runs := agent_plan_step_runs db @ [a]\<rparr>)
      else Inl IntegrityError)"

text \<open>A statement that inserts several rows (\<open>executemany\<close>).\<close>

fun insert_rows :: "('d \<Rightarrow> 'r \<Rightarrow> exc + 'd) \<Rightarrow> 'd \<Rightarrow> 'r list \<Rightarrow> exc + 'd" where
  "insert_rows ins db [] = Inr db"
| "insert_rows ins db (r # rs) = rbind (ins db r) (\<lambda>db'. insert_rows ins db' rs)"

end
