(* ===== verification/Plan_Attempts.thy ===== *)
theory Plan_Attempts
  imports Plan_Store
begin

text \<open>
  Step attempts in \<open>storage/repositories/plans.py\<close>: reading them, starting one, recording a reused
  result, finishing and cancelling. Every write is made under a run lease. A method takes the readings
  of the database clock as \<open>clk\<close>, in statement order, and a fresh \<open>uuid4()\<close> as \<open>uuid\<close>; row locks and the
  serialised write transaction change no row. A savepoint that is rolled back leaves the tables as they
  were when it was opened.
\<close>

section \<open>Scope\<close>

record planning_settings =
  pset_max_steps :: int
  pset_max_dependency_depth :: int
  pset_max_revisions :: int
  pset_max_step_attempts :: int

definition require_session :: "tenant_context \<Rightarrow> exc + string" where
  "require_session ctx = need (session_id ctx) (ValueError ''PlanRepository requires session scope'')"

definition lease_matches_context :: "tenant_context \<Rightarrow> run_lease \<Rightarrow> exc + bool" where
  "lease_matches_context ctx lease =
     (if tenant_id (l_context lease) = tenant_id ctx \<and> workspace_id (l_context lease) = workspace_id ctx
      then rbind (require_session ctx) (\<lambda>s.
        Inr (session_id (l_context lease) = Some s \<and> run_id (l_context lease) \<noteq> None \<and>
             run_id ctx \<in> {None, run_id (l_context lease)}))
      else Inr False)"

text \<open>The scope columns of a row against a context, as the scope predicates write them.\<close>

definition in_session :: "tenant_context \<Rightarrow> string \<Rightarrow> string \<Rightarrow> string \<Rightarrow> bool" where
  "in_session ctx t w s \<longleftrightarrow> t = tenant_id ctx \<and> w = workspace_id ctx \<and> Some s = session_id ctx"

definition step_run_scope_predicate :: "tenant_context \<Rightarrow> string \<Rightarrow> plan_step_run_row \<Rightarrow> bool" where
  "step_run_scope_predicate ctx run a \<longleftrightarrow>
     in_session ctx (sr_tenant_id a) (sr_workspace_id a) (sr_session_id a) \<and> sr_run_id a = run"

definition plan_predicate :: "tenant_context \<Rightarrow> string \<Rightarrow> plan_row \<Rightarrow> bool" where
  "plan_predicate ctx pid p \<longleftrightarrow>
     in_session ctx (pl_tenant_id p) (pl_workspace_id p) (pl_session_id p) \<and> pl_id p = pid"

definition version_scope_predicate :: "tenant_context \<Rightarrow> string \<Rightarrow> plan_version_row \<Rightarrow> bool" where
  "version_scope_predicate ctx pid v \<longleftrightarrow>
     in_session ctx (pv_tenant_id v) (pv_workspace_id v) (pv_session_id v) \<and> pv_plan_id v = pid"

definition step_scope_predicate :: "tenant_context \<Rightarrow> string \<Rightarrow> plan_step_row \<Rightarrow> bool" where
  "step_scope_predicate ctx pid s \<longleftrightarrow>
     in_session ctx (pst_tenant_id s) (pst_workspace_id s) (pst_session_id s) \<and> pst_plan_id s = pid"

definition dependency_scope_predicate :: "tenant_context \<Rightarrow> string \<Rightarrow> plan_dependency_row \<Rightarrow> bool" where
  "dependency_scope_predicate ctx pid d \<longleftrightarrow>
     in_session ctx (dp_tenant_id d) (dp_workspace_id d) (dp_session_id d) \<and> dp_plan_id d = pid"

definition decision_scope_predicate :: "tenant_context \<Rightarrow> string \<Rightarrow> plan_decision_row \<Rightarrow> bool" where
  "decision_scope_predicate ctx pid d \<longleftrightarrow>
     in_session ctx (dc_tenant_id d) (dc_workspace_id d) (dc_session_id d) \<and> dc_plan_id d = pid"

section \<open>Reads\<close>

definition hydrate_step_run :: "plan_step_run_row \<Rightarrow> plan_step_run_record" where
  "hydrate_step_run a = \<lparr>at_step_run_id = sr_step_run_id a, at_run_id = sr_run_id a,
     at_plan_id = sr_plan_id a, at_plan_version = sr_plan_version a, at_step_id = sr_step_id a,
     at_attempt = sr_attempt a, at_status = sr_status a, at_result_summary = sr_result_summary a,
     at_result_ref = sr_result_ref a, at_result_digest = sr_result_digest a,
     at_error_code = sr_error_code a, at_error_detail_redacted = sr_error_detail_redacted a,
     at_reused_from_step_run_id = sr_reused_from_step_run_id a, at_version = sr_version a,
     at_started_at = sr_started_at a, at_finished_at = sr_finished_at a\<rparr>"

text \<open>\<open>latest.setdefault(step_id, record)\<close> over the rows ordered by step and descending attempt.\<close>

definition dict_setdefault :: "(string \<times> 'v) list \<Rightarrow> string \<Rightarrow> 'v \<Rightarrow> (string \<times> 'v) list" where
  "dict_setdefault d k v = (case map_of d k of None \<Rightarrow> d @ [(k, v)] | Some _ \<Rightarrow> d)"

definition version_attempts :: "plan_db \<Rightarrow> tenant_context \<Rightarrow> string \<Rightarrow> int \<Rightarrow> string \<Rightarrow> plan_step_run_row list" where
  "version_attempts db ctx pid ver run =
     filter (\<lambda>a. step_run_scope_predicate ctx run a \<and> sr_plan_id a = pid \<and> sr_plan_version a = ver)
       (agent_plan_step_runs db)"

definition latest_step_attempts ::
    "plan_db \<Rightarrow> tenant_context \<Rightarrow> string \<Rightarrow> int \<Rightarrow> string \<Rightarrow> exc + (string \<times> plan_step_run_record) list" where
  "latest_step_attempts db ctx pid ver run =
     rbind (require_session ctx) (\<lambda>_.
       Inr (foldl (\<lambda>latest a. dict_setdefault latest (sr_step_id a) (hydrate_step_run a)) []
         (sort_key (\<lambda>a. (sr_step_id a, - sr_attempt a)) (version_attempts db ctx pid ver run))))"

definition step_attempts ::
    "plan_db \<Rightarrow> tenant_context \<Rightarrow> string \<Rightarrow> int \<Rightarrow> string \<Rightarrow> string \<Rightarrow> exc + plan_step_run_record list" where
  "step_attempts db ctx pid ver run sid =
     rbind (require_session ctx) (\<lambda>_.
       Inr (map hydrate_step_run (sort_key sr_attempt
         (filter (\<lambda>a. sr_step_id a = sid) (version_attempts db ctx pid ver run)))))"

definition running_step_attempts ::
    "plan_db \<Rightarrow> tenant_context \<Rightarrow> string \<Rightarrow> exc + plan_step_run_record list" where
  "running_step_attempts db ctx run =
     rbind (require_session ctx) (\<lambda>_.
       Inr (map hydrate_step_run
         (sort_key (\<lambda>a. (sr_plan_version a, sr_step_id a, sr_attempt a, sr_step_run_id a))
           (filter (\<lambda>a. step_run_scope_predicate ctx run a \<and> sr_status a = SR_RUNNING)
             (agent_plan_step_runs db)))))"

text \<open>\<open>step_run_by_id\<close> and \<open>_get_step_run\<close> issue the same query.\<close>

definition step_run_by_id :: "plan_db \<Rightarrow> tenant_context \<Rightarrow> string \<Rightarrow> string \<Rightarrow> plan_step_run_record option" where
  "step_run_by_id db ctx run i =
     map_option hydrate_step_run
       (List.find (\<lambda>a. step_run_scope_predicate ctx run a \<and> sr_step_run_id a = i) (agent_plan_step_runs db))"

definition has_running_attempt :: "plan_db \<Rightarrow> tenant_context \<Rightarrow> string \<Rightarrow> bool" where
  "has_running_attempt db ctx run \<longleftrightarrow>
     List.find (\<lambda>a. step_run_scope_predicate ctx run a \<and> sr_status a = SR_RUNNING)
       (agent_plan_step_runs db) \<noteq> None"

definition require_no_running_attempt :: "plan_db \<Rightarrow> tenant_context \<Rightarrow> string \<Rightarrow> exc + unit" where
  "require_no_running_attempt db ctx run =
     ensure (\<not> has_running_attempt db ctx run)
       (PlanStepAlreadyRunningError ''Plan run already has a running step attempt'')"

definition latest_attempt_number :: "plan_db \<Rightarrow> tenant_context \<Rightarrow> string \<Rightarrow> string \<Rightarrow> int" where
  "latest_attempt_number db ctx run sid =
     (case map sr_attempt (filter (\<lambda>a. step_run_scope_predicate ctx run a \<and> sr_step_id a = sid)
         (agent_plan_step_runs db)) of
        [] \<Rightarrow> 0 | n # ns \<Rightarrow> foldl max n ns)"

section \<open>Guards\<close>

definition pr_has_current_lease :: "int \<Rightarrow> plan_db \<Rightarrow> tenant_context \<Rightarrow> run_lease \<Rightarrow> exc + bool" where
  "pr_has_current_lease now db ctx lease =
     rbind (lease_matches_context ctx lease) (\<lambda>ok.
       Inr (ok \<and> has_current_lease now (wf db) lease))"

definition require_current_executable_lease ::
    "int \<Rightarrow> plan_db \<Rightarrow> tenant_context \<Rightarrow> run_lease \<Rightarrow> exc + run_row" where
  "require_current_executable_lease now db ctx lease =
     rbind (lease_matches_context ctx lease) (\<lambda>ok.
     rbind (ensure ok (StaleFenceError ''run lease scope is stale'')) (\<lambda>_.
     rbind (pr_has_current_lease now db ctx lease) (\<lambda>current.
     rbind (ensure current (StaleFenceError ''run lease is stale'')) (\<lambda>_.
     rbind (need (List.find (\<lambda>r. in_session ctx (r_tenant_id r) (r_workspace_id r) (r_session_id r) \<and>
         Some (r_run_id r) = run_id (l_context lease)) (agent_runs (wf db)))
       (StaleFenceError ''run lease is stale'')) (\<lambda>run.
     rbind (ensure (is_plan_run_executable (r_status run) (r_cancel_requested_at run))
       (PlanExecutionBlocked ''Plan execution run is not executable'')) (\<lambda>_.
       Inr run))))))"

definition lock_run_for_execution ::
    "int \<Rightarrow> plan_db \<Rightarrow> tenant_context \<Rightarrow> run_lease \<Rightarrow> exc + run_row" where
  "lock_run_for_execution now db ctx lease =
     rbind (require_session ctx) (\<lambda>_.
     rbind (lease_matches_context ctx lease) (\<lambda>ok.
     rbind (ensure ok (StaleFenceError ''run lease scope is stale'')) (\<lambda>_.
       require_current_executable_lease now db ctx lease)))"

definition require_active_plan_version ::
    "plan_db \<Rightarrow> tenant_context \<Rightarrow> run_row \<Rightarrow> string \<Rightarrow> int \<Rightarrow> exc + unit" where
  "require_active_plan_version db ctx run pid ver =
     ensure (case List.find (plan_predicate ctx pid) (agent_plans db) of
         None \<Rightarrow> False
       | Some p \<Rightarrow> r_plan_id run = Some pid \<and> pl_status p = P_APPROVED \<and> pl_current_version p = ver \<and>
           pl_approved_version p = Some ver \<and> r_active_plan_version run = Some ver)
       (PlanExecutionBlocked ''Plan execution requires an approved current active version'')"

definition positive_attempt_limit :: "int \<Rightarrow> string \<Rightarrow> exc + int" where
  "positive_attempt_limit v label =
     (if v < 1 then Inl (ValueError (label @ '' must be a positive integer'')) else Inr v)"

definition step_dependency_ids :: "plan_db \<Rightarrow> tenant_context \<Rightarrow> string \<Rightarrow> int \<Rightarrow> string \<Rightarrow> string list" where
  "step_dependency_ids db ctx pid ver sid =
     sort (map dp_depends_on_step_id (filter (\<lambda>d. dependency_scope_predicate ctx pid d \<and>
       dp_plan_version d = ver \<and> dp_step_id d = sid) (agent_plan_step_dependencies db)))"

definition require_step_ready ::
    "planning_settings \<Rightarrow> plan_db \<Rightarrow> tenant_context \<Rightarrow> string \<Rightarrow> string \<Rightarrow> int \<Rightarrow> string \<Rightarrow> exc + int \<times> int" where
  "require_step_ready st db ctx run pid ver sid =
     rbind (need (map_option pst_max_attempts (List.find (\<lambda>s. step_scope_predicate ctx pid s \<and>
         pst_plan_version s = ver \<and> pst_step_id s = sid) (agent_plan_steps db)))
       (PlanExecutionBlocked ''Plan step does not belong to the active version'')) (\<lambda>raw_step_limit.
     rbind (latest_step_attempts db ctx pid ver run) (\<lambda>latest.
     rbind (ensure (\<not> (\<exists>a \<in> set (map snd latest). at_status a = SR_RUNNING))
       (PlanStepAlreadyRunningError ''Plan run already has a running step attempt'')) (\<lambda>_.
     rbind (ensure (\<not> (\<exists>a \<in> set (map snd latest). at_status a \<in> set TERMINAL_PLAN_STEP_STATUSES))
       (PlanExecutionBlocked ''Plan execution is blocked by a failed dependency or terminal step'')) (\<lambda>_.
     rbind (ensure (is_plan_step_ready sid (step_dependency_ids db ctx pid ver sid) latest)
       (PlanExecutionBlocked ''Plan step is no longer ready'')) (\<lambda>_.
     let attempt = (case map_of latest sid of None \<Rightarrow> 0 | Some current \<Rightarrow> at_attempt current) + 1 in
     rbind (positive_attempt_limit raw_step_limit ''Plan step max_attempts'') (\<lambda>step_limit.
     rbind (positive_attempt_limit (pset_max_step_attempts st) ''planning.max_step_attempts'') (\<lambda>tenant_limit.
     let attempt_limit = min step_limit tenant_limit in
     rbind (ensure (\<not> attempt > attempt_limit) (PlanAttemptLimitError ''Plan step attempt limit exceeded'')) (\<lambda>_.
       Inr (attempt, attempt_limit)))))))))"

section \<open>Starting an attempt\<close>

text \<open>The scope columns and the run of a new row; both are present once the lease matched.\<close>

definition lease_row_scope :: "tenant_context \<Rightarrow> run_lease \<Rightarrow> exc + string \<times> string" where
  "lease_row_scope ctx lease =
     rbind (require_session ctx) (\<lambda>s. rbind (need (run_id (l_context lease)) IntegrityError) (\<lambda>r. Inr (s, r)))"

definition new_step_run ::
    "tenant_context \<Rightarrow> string \<Rightarrow> string \<Rightarrow> string \<Rightarrow> int \<Rightarrow> string \<Rightarrow> string \<Rightarrow> int \<Rightarrow> int \<Rightarrow> plan_step_run_row" where
  "new_step_run ctx s run pid ver sid uuid attempt started_at =
     \<lparr>sr_tenant_id = tenant_id ctx, sr_workspace_id = workspace_id ctx, sr_session_id = s, sr_plan_id = pid,
      sr_plan_version = ver, sr_step_id = sid, sr_step_run_id = uuid, sr_run_id = run, sr_attempt = attempt,
      sr_status = SR_RUNNING, sr_result_summary = None, sr_result_ref = None, sr_result_digest = None,
      sr_error_code = None, sr_error_detail_redacted = None, sr_reused_from_step_run_id = None,
      sr_version = 1, sr_started_at = started_at, sr_finished_at = None\<rparr>"

text \<open>The insert and what the handler of \<open>IntegrityError\<close> makes of its failure.\<close>

definition insert_attempt ::
    "plan_db \<Rightarrow> tenant_context \<Rightarrow> plan_step_run_row \<Rightarrow> int \<Rightarrow> exc + plan_step_run_record \<times> plan_db" where
  "insert_attempt db ctx row attempt_limit =
     (case insert_agent_plan_step_run db row of
        Inr db' \<Rightarrow>
          rbind (need (step_run_by_id db' ctx (sr_run_id row) (sr_step_run_id row))
            (RuntimeError ''Plan step attempt missing after insert'')) (\<lambda>inserted. Inr (inserted, db'))
      | Inl e \<Rightarrow>
          if has_running_attempt db ctx (sr_run_id row)
          then Inl (PlanStepAlreadyRunningError ''Plan run already has a running step attempt'')
          else if latest_attempt_number db ctx (sr_run_id row) (sr_step_id row) \<ge> attempt_limit
          then Inl (PlanAttemptLimitError ''Plan step attempt limit exceeded'')
          else Inl e)"

definition create_step_attempt ::
    "clock \<Rightarrow> planning_settings \<Rightarrow> plan_db \<Rightarrow> tenant_context \<Rightarrow> string \<Rightarrow> run_lease \<Rightarrow> string \<Rightarrow> int \<Rightarrow> string \<Rightarrow>
     exc + plan_step_run_record \<times> plan_db" where
  "create_step_attempt clk st db ctx uuid lease pid ver sid =
     rbind (require_session ctx) (\<lambda>_.
     rbind (lease_matches_context ctx lease) (\<lambda>ok.
     rbind (ensure ok (StaleFenceError ''run lease scope is stale'')) (\<lambda>_.
     rbind (lease_row_scope ctx lease) (\<lambda>(s, run).
     rbind (lock_run_for_execution (clk 0) db ctx lease) (\<lambda>row.
     rbind (require_no_running_attempt db ctx run) (\<lambda>_.
     rbind (require_active_plan_version db ctx row pid ver) (\<lambda>_.
     rbind (require_step_ready st db ctx run pid ver sid) (\<lambda>_.
     rbind (require_step_ready st db ctx run pid ver sid) (\<lambda>(attempt, attempt_limit).
     rbind (require_current_executable_lease (clk 2) db ctx lease) (\<lambda>row'.
     rbind (require_active_plan_version db ctx row' pid ver) (\<lambda>_.
     rbind (require_no_running_attempt db ctx run) (\<lambda>_.
       insert_attempt db ctx (new_step_run ctx s run pid ver sid uuid attempt (clk 1)) attempt_limit))))))))))))"

section \<open>Recording a reused result\<close>

definition reuse_source_complete :: "plan_step_run_record \<Rightarrow> bool" where
  "reuse_source_complete source \<longleftrightarrow> at_status source = SR_SUCCEEDED \<and>
     at_reused_from_step_run_id source = None \<and> at_result_ref source \<noteq> None \<and>
     at_result_digest source \<noteq> None \<and> at_result_summary source \<noteq> None"

definition reused_step_run ::
    "tenant_context \<Rightarrow> string \<Rightarrow> string \<Rightarrow> string \<Rightarrow> int \<Rightarrow> string \<Rightarrow> string \<Rightarrow> int \<Rightarrow> int \<Rightarrow>
     plan_step_run_record \<Rightarrow> plan_step_run_row" where
  "reused_step_run ctx s run pid ver sid uuid attempt now source =
     \<lparr>sr_tenant_id = tenant_id ctx, sr_workspace_id = workspace_id ctx, sr_session_id = s, sr_plan_id = pid,
      sr_plan_version = ver, sr_step_id = sid, sr_step_run_id = uuid, sr_run_id = run, sr_attempt = attempt,
      sr_status = SR_SUCCEEDED, sr_result_summary = at_result_summary source,
      sr_result_ref = at_result_ref source, sr_result_digest = at_result_digest source,
      sr_error_code = None, sr_error_detail_redacted = None,
      sr_reused_from_step_run_id = Some (at_step_run_id source),
      sr_version = 2, sr_started_at = now, sr_finished_at = Some now\<rparr>"

text \<open>
  \<open>attempt_duplicate\<close> is what \<open>_is_step_attempt_duplicate\<close> recognises in the error of the database: the
  violated constraint is the uniqueness of the attempt number.
\<close>

definition attempt_duplicate :: "plan_db \<Rightarrow> plan_step_run_row \<Rightarrow> bool" where
  "attempt_duplicate db a \<longleftrightarrow>
     (attempt_run a, sr_step_id a, sr_attempt a) \<in>
       set (map (\<lambda>a. (attempt_run a, sr_step_id a, sr_attempt a)) (agent_plan_step_runs db))"

definition insert_reused_attempt ::
    "plan_db \<Rightarrow> tenant_context \<Rightarrow> plan_step_run_row \<Rightarrow> string \<Rightarrow> exc + plan_step_run_record \<times> plan_db" where
  "insert_reused_attempt db ctx row source_id =
     (case insert_agent_plan_step_run db row of
        Inr db' \<Rightarrow>
          rbind (need (step_run_by_id db' ctx (sr_run_id row) (sr_step_run_id row))
            (RuntimeError ''Reused Plan step attempt missing after insert'')) (\<lambda>inserted. Inr (inserted, db'))
      | Inl e \<Rightarrow>
          if \<not> attempt_duplicate db row then Inl e
          else rbind (latest_step_attempts db ctx (sr_plan_id row) (sr_plan_version row) (sr_run_id row)) (\<lambda>existing.
            case map_of existing (sr_step_id row) of
              Some current \<Rightarrow>
                if at_status current = SR_SUCCEEDED \<and> at_reused_from_step_run_id current = Some source_id
                then Inr (current, db) else Inl e
            | None \<Rightarrow> Inl e))"

definition create_reused_step_attempt ::
    "clock \<Rightarrow> planning_settings \<Rightarrow> plan_db \<Rightarrow> tenant_context \<Rightarrow> string \<Rightarrow> run_lease \<Rightarrow> string \<Rightarrow> int \<Rightarrow> string \<Rightarrow>
     string \<Rightarrow> exc + plan_step_run_record \<times> plan_db" where
  "create_reused_step_attempt clk st db ctx uuid lease pid ver sid source_id =
     rbind (require_session ctx) (\<lambda>_.
     rbind (lease_matches_context ctx lease) (\<lambda>ok.
     rbind (ensure ok (StaleFenceError ''run lease scope is stale'')) (\<lambda>_.
     rbind (lease_row_scope ctx lease) (\<lambda>(s, run).
     rbind (lock_run_for_execution (clk 0) db ctx lease) (\<lambda>row.
     rbind (require_no_running_attempt db ctx run) (\<lambda>_.
     rbind (require_active_plan_version db ctx row pid ver) (\<lambda>_.
     rbind (need (step_run_by_id db ctx run source_id)
       (PlanExecutionBlocked ''Plan reuse source is not a complete succeeded attempt'')) (\<lambda>source.
     rbind (ensure (at_plan_id source = pid \<and> at_run_id source = run \<and> reuse_source_complete source)
       (PlanExecutionBlocked ''Plan reuse source is not a complete succeeded attempt'')) (\<lambda>_.
     rbind (require_step_ready st db ctx run pid ver sid) (\<lambda>_.
     rbind (require_current_executable_lease (clk 2) db ctx lease) (\<lambda>row'.
     rbind (require_active_plan_version db ctx row' pid ver) (\<lambda>_.
     rbind (require_no_running_attempt db ctx run) (\<lambda>_.
     rbind (need (step_run_by_id db ctx run source_id)
       (PlanExecutionBlocked ''Plan reuse source changed while locked'')) (\<lambda>source'.
     rbind (ensure (reuse_source_complete source')
       (PlanExecutionBlocked ''Plan reuse source changed while locked'')) (\<lambda>_.
     rbind (require_step_ready st db ctx run pid ver sid) (\<lambda>(attempt, _).
       insert_reused_attempt db ctx
         (reused_step_run ctx s run pid ver sid uuid attempt (clk 1) source') source_id))))))))))))))))"

section \<open>Finishing and cancelling an attempt\<close>

definition finish_target_ok ::
    "plan_step_run_status \<Rightarrow> plan_step_result_document \<Rightarrow> string \<Rightarrow> string option \<Rightarrow> string option \<Rightarrow> exc + unit" where
  "finish_target_ok status result result_ref error_code error_detail =
     rbind (ensure (status \<in> {SR_SUCCEEDED, SR_FAILED_RETRYABLE, SR_FAILED_TERMINAL})
       (ValueError ''Plan step attempt target status is not terminal'')) (\<lambda>_.
     rbind (ensure (take 7 result_ref = ''memory:'' \<and> drop 7 result_ref \<noteq> [])
       (ValueError ''Plan step result reference is invalid'')) (\<lambda>_.
     rbind (ensure (rd_status result = (if status = SR_SUCCEEDED then ''succeeded'' else ''failed''))
       (ValueError ''Plan step result status does not match attempt status'')) (\<lambda>_.
       if status = SR_SUCCEEDED
       then ensure (error_code = None \<and> error_detail = None)
         (ValueError ''Succeeded Plan step attempts cannot carry errors'')
       else ensure (truthy error_code \<and> truthy error_detail)
         (ValueError ''Failed Plan step attempts require redacted error detail''))))"

definition result_identifies :: "plan_step_result_document \<Rightarrow> plan_step_run_record \<Rightarrow> bool" where
  "result_identifies result current \<longleftrightarrow> rd_plan_id result = at_plan_id current \<and>
     rd_plan_version result = at_plan_version current \<and> rd_run_id result = at_run_id current \<and>
     rd_step_id result = at_step_id current \<and> rd_step_run_id result = at_step_run_id current \<and>
     rd_attempt result = at_attempt current"

definition finished_values ::
    "plan_step_run_status \<Rightarrow> plan_step_result_document \<Rightarrow> string \<Rightarrow> string option \<Rightarrow> string option \<Rightarrow> int \<Rightarrow> int \<Rightarrow>
     plan_step_run_row \<Rightarrow> plan_step_run_row" where
  "finished_values status result result_ref error_code error_detail expected now a =
     a\<lparr>sr_status := status, sr_result_summary := Some (rd_summary result), sr_result_ref := Some result_ref,
       sr_result_digest := Some (result_digest result), sr_error_code := error_code,
       sr_error_detail_redacted := error_detail, sr_version := expected + 1, sr_finished_at := Some now\<rparr>"

text \<open>The compare-and-swap update shared by finishing and cancelling, and the row read back.\<close>

definition swap_running_attempt ::
    "plan_db \<Rightarrow> tenant_context \<Rightarrow> string \<Rightarrow> string \<Rightarrow> int \<Rightarrow> (plan_step_run_row \<Rightarrow> plan_step_run_row) \<Rightarrow>
     exc + plan_step_run_record option \<times> plan_db" where
  "swap_running_attempt db ctx run i expected f =
     rbind (update_step_runs (\<lambda>a. step_run_scope_predicate ctx run a \<and> sr_step_run_id a = i \<and>
         sr_status a = SR_RUNNING \<and> sr_version a = expected) f db) (\<lambda>(n, db').
     rbind (ensure (n = 1) (VersionConflictError ''Plan step attempt version conflict'')) (\<lambda>_.
       Inr (step_run_by_id db' ctx run i, db')))"

definition finish_step_attempt ::
    "clock \<Rightarrow> plan_db \<Rightarrow> tenant_context \<Rightarrow> run_lease \<Rightarrow> string \<Rightarrow> int \<Rightarrow> plan_step_run_status \<Rightarrow>
     plan_step_result_document \<Rightarrow> string \<Rightarrow> string option \<Rightarrow> string option \<Rightarrow>
     exc + plan_step_run_record \<times> plan_db" where
  "finish_step_attempt clk db ctx lease i expected status result result_ref error_code error_detail =
     rbind (lease_matches_context ctx lease) (\<lambda>ok.
     rbind (ensure ok (StaleFenceError ''run lease scope is stale'')) (\<lambda>_.
     rbind (finish_target_ok status result result_ref error_code error_detail) (\<lambda>_.
     rbind (require_current_executable_lease (clk 0) db ctx lease) (\<lambda>_.
     rbind (lease_row_scope ctx lease) (\<lambda>(_, run).
     rbind (need (step_run_by_id db ctx run i) (PlanExecutionBlocked ''Plan step attempt does not exist'')) (\<lambda>current.
     rbind (ensure (at_status current = SR_RUNNING)
       (PlanExecutionBlocked ''Plan step attempt is no longer running'')) (\<lambda>_.
     rbind (ensure (at_version current = expected)
       (VersionConflictError ''Plan step attempt version conflict'')) (\<lambda>_.
     rbind (ensure (result_identifies result current)
       (ValueError ''Plan step result identity does not match attempt'')) (\<lambda>_.
     rbind (ensure (map_option pst_definition_digest (List.find (\<lambda>s. step_scope_predicate ctx (at_plan_id current) s \<and>
         pst_plan_version s = at_plan_version current \<and> pst_step_id s = at_step_id current) (agent_plan_steps db))
         = Some (rd_definition_digest result))
       (ValueError ''Plan step result definition proof is invalid'')) (\<lambda>_.
     rbind (swap_running_attempt db ctx run i expected
       (finished_values status result result_ref error_code error_detail expected (clk 1))) (\<lambda>(finished, db').
     rbind (need finished (RuntimeError ''Plan step attempt missing after finish'')) (\<lambda>f.
       Inr (f, db')))))))))))))"

definition cancel_step_attempt ::
    "clock \<Rightarrow> plan_db \<Rightarrow> tenant_context \<Rightarrow> run_lease \<Rightarrow> string \<Rightarrow> int \<Rightarrow>
     exc + plan_step_run_record option \<times> plan_db" where
  "cancel_step_attempt clk db ctx lease i expected =
     rbind (lease_matches_context ctx lease) (\<lambda>ok.
     rbind (ensure ok (StaleFenceError ''run lease scope is stale'')) (\<lambda>_.
     rbind (pr_has_current_lease (clk 0) db ctx lease) (\<lambda>current.
     rbind (ensure current (StaleFenceError ''run lease is stale'')) (\<lambda>_.
     rbind (lease_row_scope ctx lease) (\<lambda>(_, run).
       case step_run_by_id db ctx run i of
         None \<Rightarrow> Inr (None, db)
       | Some current \<Rightarrow>
           if at_status current = SR_CANCELLED then Inr (Some current, db)
           else rbind (ensure (at_status current = SR_RUNNING \<and> at_version current = expected)
             (PlanExecutionBlocked ''Plan step attempt is no longer running'')) (\<lambda>_.
             swap_running_attempt db ctx run i expected
               (\<lambda>a. a\<lparr>sr_status := SR_CANCELLED, sr_version := expected + 1, sr_finished_at := Some (clk 1)\<rparr>)))))))"

end
