(* ===== verification/Plan_Repository.thy ===== *)
theory Plan_Repository
  imports Plan_Attempts Workflow_Mutations "HOL-Library.AList"
begin

text \<open>
  Plans and their versions in \<open>storage/repositories/plans.py\<close>: writing a version, reading a plan back with
  the integrity check over what was stored, creating a plan and appending a version. A fresh \<open>uuid4()\<close> per
  step is taken from \<open>uuids\<close>. The parameters \<open>secret_key\<close> and \<open>secret_value\<close> are the credential patterns of
  the validation.
\<close>

section \<open>Reading a plan\<close>

definition hydrate_step :: "plan_step_row \<Rightarrow> plan_step_record" where
  "hydrate_step s = \<lparr>sp_step_id = pst_step_id s, sp_logical_step_key = pst_logical_step_key s,
     sp_supersedes_step_id = pst_supersedes_step_id s, sp_ordinal = pst_ordinal s, sp_title = pst_title s,
     sp_description = pst_description s, sp_expected_outcome = pst_expected_outcome s,
     sp_assigned_agent_profile_id = pst_assigned_agent_profile_id s, sp_max_attempts = pst_max_attempts s,
     sp_definition_digest = pst_definition_digest s\<rparr>"

definition hydrate_decision :: "plan_decision_row \<Rightarrow> plan_decision_record" where
  "hydrate_decision d = \<lparr>de_decision_id = dc_decision_id d, de_plan_version = dc_plan_version d,
     de_expected_plan_cas_version = dc_expected_plan_cas_version d, de_action = dc_action d,
     de_feedback = dc_feedback d, de_decided_by = dc_decided_by d,
     de_resulting_plan_version = dc_resulting_plan_version d, de_created_at = dc_created_at d\<rparr>"

text \<open>\<open>constraints_json\<close> must hold a list of strings.\<close>

fun string_items :: "json list \<Rightarrow> string list option" where
  "string_items [] = Some []"
| "string_items (JStr s # xs) = map_option ((#) s) (string_items xs)"
| "string_items (_ # xs) = None"

definition read_constraints :: "string \<Rightarrow> exc + string list" where
  "read_constraints raw =
     (case loads raw of
        None \<Rightarrow> Inl (ValueError ''Plan constraints_json is corrupt'')
      | Some (JArr xs) \<Rightarrow> need (string_items xs) (ValueError ''Plan constraints_json must contain a list of strings'')
      | Some _ \<Rightarrow> Inl (ValueError ''Plan constraints_json must contain a list of strings''))"

definition steps_by_id :: "plan_step_record list \<Rightarrow> string \<Rightarrow> plan_step_record option" where
  "steps_by_id steps = map_of (rev (map (\<lambda>s. (sp_step_id s, s)) steps))"

text \<open>\<open>version.dependencies.get(step_id, ())\<close>.\<close>

definition dependencies_of :: "(string \<times> string list) list \<Rightarrow> string \<Rightarrow> string list" where
  "dependencies_of deps i = (case map_of deps i of None \<Rightarrow> [] | Some ds \<Rightarrow> ds)"

text \<open>The draft that the integrity check rebuilds; a dangling identifier is a \<open>KeyError\<close>.\<close>

definition step_keys_of :: "plan_step_record list \<Rightarrow> string list \<Rightarrow> exc + string list" where
  "step_keys_of steps ids = map_rows (\<lambda>i. rbind (need (steps_by_id steps i) KeyError) (\<lambda>s.
     Inr (sp_logical_step_key s))) ids"

definition rebuilt_step :: "plan_version_record \<Rightarrow> plan_step_record \<Rightarrow> exc + plan_draft_step" where
  "rebuilt_step version s =
     rbind (step_keys_of (ve_steps version) (dependencies_of (ve_dependencies version) (sp_step_id s))) (\<lambda>keys.
       Inr \<lparr>d_key = sp_logical_step_key s, d_title = sp_title s, d_description = sp_description s,
         d_expected_outcome = sp_expected_outcome s, d_depends_on = keys, d_max_attempts = sp_max_attempts s\<rparr>)"

definition rebuilt_draft :: "plan_version_record \<Rightarrow> exc + plan_draft" where
  "rebuilt_draft version =
     rbind (map_rows (rebuilt_step version) (ve_steps version)) (\<lambda>steps.
     let draft = \<lparr>pd_objective = ve_objective version, pd_constraints = ve_constraints version,
         pd_generation_reason = ve_generation_reason version, pd_steps = steps\<rparr> in
     rbind (ensure (plan_draft_ok draft) (ValueError ''validation error'')) (\<lambda>_. Inr draft))"

definition step_digests_ok :: "validated_plan \<Rightarrow> plan_step_record list \<Rightarrow> bool" where
  "step_digests_ok validated steps \<longleftrightarrow> list_all (\<lambda>s.
     case map_of (rev (map (\<lambda>d. (d_key d, d)) (vp_steps validated))) (sp_logical_step_key s) of
       None \<Rightarrow> False | Some d \<Rightarrow> step_definition_digest d = sp_definition_digest s) steps"

definition validate_version_integrity ::
    "(string \<Rightarrow> bool) \<Rightarrow> (string \<Rightarrow> bool) \<Rightarrow> plan_version_record \<Rightarrow> exc + unit" where
  "validate_version_integrity secret_key secret_value version =
     rbind (ensure (ve_schema_version version = 1) (ValueError ''Plan version schema is corrupt'')) (\<lambda>_.
     rbind (ensure (map sp_ordinal (ve_steps version) = map int [1..<Suc (length (ve_steps version))])
       (ValueError ''Plan step ordinals are corrupt'')) (\<lambda>_.
     rbind (ensure (distinct (map sp_step_id (ve_steps version)))
       (ValueError ''Plan step identifiers are corrupt'')) (\<lambda>_.
     rbind (ensure (list_all (\<lambda>(i, _). steps_by_id (ve_steps version) i \<noteq> None) (ve_dependencies version))
       (ValueError ''Plan dependency targets are corrupt'')) (\<lambda>_.
     rbind (ensure (list_all (\<lambda>(_, ds). list_all (\<lambda>i. steps_by_id (ve_steps version) i \<noteq> None) ds) (ve_dependencies version))
       (ValueError ''Plan dependency sources are corrupt'')) (\<lambda>_.
       case rbind (rebuilt_draft version) (\<lambda>draft.
              validate_plan_draft secret_key secret_value draft 20 10 20 MAX_PLAN_CONTENT_BYTES) of
         Inl _ \<Rightarrow> Inl (ValueError ''Plan version content is corrupt'')
       | Inr validated \<Rightarrow>
           rbind (ensure (map (\<lambda>s. (d_key s, d_ordinal s)) (vp_steps validated) =
               map (\<lambda>s. (sp_logical_step_key s, sp_ordinal s)) (ve_steps version))
             (ValueError ''Plan step ordering is corrupt'')) (\<lambda>_.
           rbind (ensure (step_digests_ok validated (ve_steps version))
             (ValueError ''Plan step definition_digest is corrupt'')) (\<lambda>_.
             ensure (plan_content_digest validated = ve_content_digest version)
               (ValueError ''Plan version content_digest is corrupt''))))))))"

definition hydrate_version ::
    "(string \<Rightarrow> bool) \<Rightarrow> (string \<Rightarrow> bool) \<Rightarrow> plan_version_row \<Rightarrow> plan_step_record list \<Rightarrow>
     (string \<times> string list) list \<Rightarrow> exc + plan_version_record" where
  "hydrate_version secret_key secret_value row steps dependencies =
     rbind (read_constraints (pv_constraints_json row)) (\<lambda>constraints.
     let version = \<lparr>ve_plan_id = pv_plan_id row, ve_plan_version = pv_plan_version row,
         ve_objective = pv_objective row, ve_constraints = constraints,
         ve_generation_reason = pv_generation_reason row, ve_parent_version = pv_parent_version row,
         ve_revision_feedback = pv_revision_feedback row, ve_schema_version = pv_schema_version row,
         ve_content_digest = pv_content_digest row, ve_created_at = pv_created_at row,
         ve_steps = steps, ve_dependencies = dependencies\<rparr> in
     rbind (validate_version_integrity secret_key secret_value version) (\<lambda>_. Inr version))"

text \<open>
  The tables of the plan in the session. \<open>dict_append\<close> is \<open>d.setdefault(k, []).append(v)\<close>.
\<close>

fun dict_append :: "('k \<times> 'v list) list \<Rightarrow> 'k \<Rightarrow> 'v \<Rightarrow> ('k \<times> 'v list) list" where
  "dict_append [] k v = [(k, [v])]"
| "dict_append ((k', vs) # d) k v = (if k' = k then (k, vs @ [v]) # d else (k', vs) # dict_append d k v)"

definition plan_version_rows :: "plan_db \<Rightarrow> tenant_context \<Rightarrow> string \<Rightarrow> plan_version_row list" where
  "plan_version_rows db ctx pid =
     sort_key pv_plan_version (filter (version_scope_predicate ctx pid) (agent_plan_versions (wf db)))"

definition plan_step_rows :: "plan_db \<Rightarrow> tenant_context \<Rightarrow> string \<Rightarrow> plan_step_row list" where
  "plan_step_rows db ctx pid =
     sort_key (\<lambda>s. (pst_plan_version s, pst_ordinal s)) (filter (step_scope_predicate ctx pid) (agent_plan_steps db))"

definition plan_decision_rows :: "plan_db \<Rightarrow> tenant_context \<Rightarrow> string \<Rightarrow> plan_decision_row list" where
  "plan_decision_rows db ctx pid =
     sort_key (\<lambda>d. (dc_created_at d, dc_decision_id d))
       (filter (decision_scope_predicate ctx pid) (agent_plan_decisions db))"

definition dependency_lists :: "plan_dependency_row list \<Rightarrow> ((int \<times> string) \<times> string list) list" where
  "dependency_lists rows =
     foldl (\<lambda>d r. dict_append d (dp_plan_version r, dp_step_id r) (dp_depends_on_step_id r)) [] rows"

definition step_ordinals :: "plan_step_row list \<Rightarrow> int \<times> string \<Rightarrow> int option" where
  "step_ordinals rows = map_of (rev (map (\<lambda>s. ((pst_plan_version s, pst_step_id s), pst_ordinal s)) rows))"

definition sort_dependencies ::
    "plan_step_row list \<Rightarrow> (int \<times> string) \<times> string list \<Rightarrow> exc + (int \<times> string) \<times> string list" where
  "sort_dependencies rows entry = (case entry of ((ver, sid), ds) \<Rightarrow>
     rbind (ensure (list_all (\<lambda>d. step_ordinals rows (ver, d) \<noteq> None) ds) KeyError) (\<lambda>_.
       Inr ((ver, sid), sort_key (\<lambda>d. case step_ordinals rows (ver, d) of None \<Rightarrow> 0 | Some n \<Rightarrow> n) ds)))"

definition version_dependencies :: "((int \<times> string) \<times> string list) list \<Rightarrow> int \<Rightarrow> (string \<times> string list) list" where
  "version_dependencies deps ver = map (\<lambda>((_, sid), ds). (sid, ds)) (filter (\<lambda>((v, _), _). v = ver) deps)"

definition get_plan ::
    "(string \<Rightarrow> bool) \<Rightarrow> (string \<Rightarrow> bool) \<Rightarrow> plan_db \<Rightarrow> tenant_context \<Rightarrow> string \<Rightarrow> exc + plan_snapshot option" where
  "get_plan secret_key secret_value db ctx pid =
     rbind (require_session ctx) (\<lambda>_.
     case List.find (plan_predicate ctx pid) (agent_plans db) of
       None \<Rightarrow> Inr None
     | Some plan \<Rightarrow>
         let step_rows = plan_step_rows db ctx pid in
         rbind (map_rows (sort_dependencies step_rows)
           (dependency_lists (filter (dependency_scope_predicate ctx pid) (agent_plan_step_dependencies db)))) (\<lambda>deps.
         rbind (map_rows (\<lambda>row. hydrate_version secret_key secret_value row
             (map hydrate_step (filter (\<lambda>s. pst_plan_version s = pv_plan_version row) step_rows))
             (version_dependencies deps (pv_plan_version row)))
           (plan_version_rows db ctx pid)) (\<lambda>versions.
         rbind (need (List.find (\<lambda>v. ve_plan_version v = pl_current_version plan) versions)
           (ValueError ''Plan current_version references missing version data'')) (\<lambda>current.
           Inr (Some \<lparr>sn_context = ctx, sn_plan_id = pl_id plan, sn_source_message_id = pl_source_message_id plan,
             sn_trigger_mode = pl_trigger_mode plan, sn_status = pl_status plan,
             sn_current_version = pl_current_version plan, sn_approved_version = pl_approved_version plan,
             sn_aggregate_version = pl_version plan, sn_created_at = pl_created_at plan,
             sn_updated_at = pl_updated_at plan, sn_current = current, sn_versions = versions,
             sn_decisions = map hydrate_decision (plan_decision_rows db ctx pid)\<rparr>)))))"

section \<open>Writing a version\<close>

definition version_row ::
    "tenant_context \<Rightarrow> string \<Rightarrow> string \<Rightarrow> int \<Rightarrow> validated_plan \<Rightarrow> int option \<Rightarrow> string option \<Rightarrow> int \<Rightarrow> plan_version_row" where
  "version_row ctx s pid ver v parent feedback now =
     \<lparr>pv_tenant_id = tenant_id ctx, pv_workspace_id = workspace_id ctx, pv_session_id = s, pv_plan_id = pid,
      pv_plan_version = ver, pv_objective = vp_objective v,
      pv_constraints_json = print_json (JArr (map JStr (vp_constraints v))),
      pv_generation_reason = vp_generation_reason v, pv_parent_version = parent,
      pv_revision_feedback = feedback, pv_schema_version = 1, pv_content_digest = plan_content_digest v,
      pv_created_at = now\<rparr>"

text \<open>\<open>step_ids\<close>: one identifier per step, by logical key.\<close>

definition step_id_of :: "(nat \<Rightarrow> string) \<Rightarrow> validated_plan \<Rightarrow> string \<Rightarrow> string" where
  "step_id_of uuids v k = uuids (index_of (map d_key (vp_steps v)) k)"

definition step_row ::
    "tenant_context \<Rightarrow> string \<Rightarrow> string \<Rightarrow> int \<Rightarrow> (string \<Rightarrow> string) \<Rightarrow> (string \<times> string) list \<Rightarrow>
     validated_plan_step \<Rightarrow> plan_step_row" where
  "step_row ctx s pid ver ids supersedes st =
     \<lparr>pst_tenant_id = tenant_id ctx, pst_workspace_id = workspace_id ctx, pst_session_id = s, pst_plan_id = pid,
      pst_plan_version = ver, pst_step_id = ids (d_key st), pst_logical_step_key = d_key st,
      pst_supersedes_step_id = map_of supersedes (d_key st), pst_ordinal = d_ordinal st, pst_title = d_title st,
      pst_description = d_description st, pst_expected_outcome = d_expected_outcome st,
      pst_assigned_agent_profile_id = None, pst_max_attempts = d_max_attempts st,
      pst_definition_digest = step_definition_digest st\<rparr>"

definition dependency_row ::
    "tenant_context \<Rightarrow> string \<Rightarrow> string \<Rightarrow> int \<Rightarrow> string \<Rightarrow> string \<Rightarrow> plan_dependency_row" where
  "dependency_row ctx s pid ver i j =
     \<lparr>dp_tenant_id = tenant_id ctx, dp_workspace_id = workspace_id ctx, dp_session_id = s, dp_plan_id = pid,
      dp_plan_version = ver, dp_step_id = i, dp_depends_on_step_id = j\<rparr>"

definition dependency_rows ::
    "tenant_context \<Rightarrow> string \<Rightarrow> string \<Rightarrow> int \<Rightarrow> (string \<Rightarrow> string) \<Rightarrow> validated_plan_step list \<Rightarrow> plan_dependency_row list" where
  "dependency_rows ctx s pid ver ids steps =
     concat (map (\<lambda>st. map (\<lambda>k. dependency_row ctx s pid ver (ids (d_key st)) (ids k)) (d_depends_on st)) steps)"

definition insert_version ::
    "(nat \<Rightarrow> string) \<Rightarrow> plan_db \<Rightarrow> tenant_context \<Rightarrow> string \<Rightarrow> int \<Rightarrow> validated_plan \<Rightarrow> int option \<Rightarrow> string option \<Rightarrow>
     (string \<times> string) list \<Rightarrow> int \<Rightarrow> exc + plan_db" where
  "insert_version uuids db ctx pid ver v parent feedback supersedes now =
     rbind (require_session ctx) (\<lambda>s.
     rbind (insert_agent_plan_version db (version_row ctx s pid ver v parent feedback now)) (\<lambda>db1.
     let ids = step_id_of uuids v in
     rbind (insert_rows insert_agent_plan_step db1 (map (step_row ctx s pid ver ids supersedes) (vp_steps v))) (\<lambda>db2.
       insert_rows insert_agent_plan_dependency db2 (dependency_rows ctx s pid ver ids (vp_steps v)))))"

section \<open>Creating a plan and appending a version\<close>

definition create_plan ::
    "(string \<Rightarrow> bool) \<Rightarrow> (string \<Rightarrow> bool) \<Rightarrow> clock \<Rightarrow> (nat \<Rightarrow> string) \<Rightarrow> planning_settings \<Rightarrow> plan_db \<Rightarrow> tenant_context \<Rightarrow>
     string \<Rightarrow> string \<Rightarrow> plan_trigger_mode \<Rightarrow> plan_draft \<Rightarrow> exc + plan_snapshot \<times> plan_db" where
  "create_plan sk sv clk uuids st db ctx pid source mode draft =
     rbind (require_session ctx) (\<lambda>s.
     rbind (validate_plan_draft sk sv draft (pset_max_steps st) (pset_max_dependency_depth st)
       (pset_max_step_attempts st) MAX_PLAN_CONTENT_BYTES) (\<lambda>validated.
     let now = clk 0 in
     rbind (insert_agent_plan db \<lparr>pl_id = pid, pl_tenant_id = tenant_id ctx, pl_workspace_id = workspace_id ctx,
         pl_session_id = s, pl_source_message_id = source, pl_trigger_mode = mode, pl_status = P_AWAITING_APPROVAL,
         pl_current_version = 1, pl_approved_version = None, pl_version = 1, pl_created_at = now,
         pl_updated_at = now\<rparr>) (\<lambda>db1.
     rbind (insert_version uuids db1 ctx pid 1 validated None None [] now) (\<lambda>db2.
     rbind (get_plan sk sv db2 ctx pid) (\<lambda>snap.
     rbind (need snap (RuntimeError ''Plan missing after materialization'')) (\<lambda>created.
       Inr (created, db2)))))))"

definition validate_supersedes ::
    "plan_db \<Rightarrow> tenant_context \<Rightarrow> string \<Rightarrow> int \<Rightarrow> validated_plan \<Rightarrow> (string \<times> string) list \<Rightarrow> exc + unit" where
  "validate_supersedes db ctx pid ver v supersedes =
     rbind (ensure (fst ` set supersedes \<subseteq> d_key ` set (vp_steps v))
       (ValueError ''supersedes contains an unknown logical_step_key'')) (\<lambda>_.
     let referenced = snd ` set supersedes in
     if referenced = {} then Inr ()
     else ensure (pst_step_id ` set (filter (\<lambda>s. step_scope_predicate ctx pid s \<and> pst_plan_version s < ver \<and>
           pst_step_id s \<in> referenced) (agent_plan_steps db)) = referenced)
         (ValueError ''Every supersedes_step_id must belong to an earlier version of the scoped Plan''))"

definition update_plans ::
    "(plan_row \<Rightarrow> bool) \<Rightarrow> (plan_row \<Rightarrow> plan_row) \<Rightarrow> plan_db \<Rightarrow> nat \<times> plan_db" where
  "update_plans p f db = (rowcount p (agent_plans db), db\<lparr>agent_plans := upd_where p f (agent_plans db)\<rparr>)"

definition append_version ::
    "(string \<Rightarrow> bool) \<Rightarrow> (string \<Rightarrow> bool) \<Rightarrow> clock \<Rightarrow> (nat \<Rightarrow> string) \<Rightarrow> planning_settings \<Rightarrow> plan_db \<Rightarrow> tenant_context \<Rightarrow>
     string \<Rightarrow> int \<Rightarrow> plan_draft \<Rightarrow> int \<Rightarrow> string option \<Rightarrow> (string \<times> string) list \<Rightarrow>
     exc + plan_snapshot \<times> plan_db" where
  "append_version sk sv clk uuids st db ctx pid expected draft parent feedback supersedes =
     rbind (require_session ctx) (\<lambda>_.
     rbind (validate_plan_draft sk sv draft (pset_max_steps st) (pset_max_dependency_depth st)
       (pset_max_step_attempts st) MAX_PLAN_CONTENT_BYTES) (\<lambda>validated.
     rbind (need (List.find (plan_predicate ctx pid) (agent_plans db)) (ValueError ''Plan not found'')) (\<lambda>plan.
     rbind (ensure (pl_version plan = expected) (ValueError ''Plan version conflict'')) (\<lambda>_.
     rbind (ensure (parent = pl_current_version plan) (ValueError ''parent_version must equal current_version'')) (\<lambda>_.
     let next = pl_current_version plan + 1; now = clk 0 in
     rbind (validate_supersedes db ctx pid next validated supersedes) (\<lambda>_.
     rbind (insert_version uuids db ctx pid next validated (Some parent) feedback supersedes now) (\<lambda>db1.
     let (n, db2) = update_plans (\<lambda>p. plan_predicate ctx pid p \<and> pl_current_version p = pl_current_version plan \<and>
           pl_version p = expected)
         (\<lambda>p. p\<lparr>pl_status := P_AWAITING_APPROVAL, pl_current_version := next, pl_version := expected + 1,
            pl_updated_at := now\<rparr>) db1 in
     rbind (ensure (n = 1) (ValueError ''Plan version conflict'')) (\<lambda>_.
     rbind (get_plan sk sv db2 ctx pid) (\<lambda>snap.
     rbind (need snap (RuntimeError ''Plan missing after revision'')) (\<lambda>revised.
       Inr (revised, db2)))))))))))"

section \<open>Decisions\<close>

text \<open>
  The unfinished revisions a transaction has claimed, by session and plan. The transaction state is shared
  by the repositories of one unit of work.
\<close>

type_synonym claims = "((string \<times> string) \<times> plan_decision_record) list"

definition pending_revision_claim :: "tenant_context \<Rightarrow> claims \<Rightarrow> string \<Rightarrow> exc + plan_decision_record option" where
  "pending_revision_claim ctx claims pid = rbind (require_session ctx) (\<lambda>s. Inr (map_of claims (s, pid)))"

definition register_revision_claim ::
    "tenant_context \<Rightarrow> claims \<Rightarrow> string \<Rightarrow> plan_decision_record \<Rightarrow> exc + claims" where
  "register_revision_claim ctx claims pid d =
     rbind (require_session ctx) (\<lambda>s.
     rbind (ensure (map_of claims (s, pid) \<in> {None, Some d})
       (PlanDecisionIdempotencyError ''Plan already has a different revision decision claim'')) (\<lambda>_.
       Inr (AList.update (s, pid) d claims)))"

definition clear_revision_claim :: "tenant_context \<Rightarrow> claims \<Rightarrow> string \<Rightarrow> string \<Rightarrow> exc + claims" where
  "clear_revision_claim ctx claims pid did =
     rbind (require_session ctx) (\<lambda>s.
       Inr (case map_of claims (s, pid) of
              Some d \<Rightarrow> if de_decision_id d = did then AList.delete (s, pid) claims else claims
            | None \<Rightarrow> claims))"

definition get_decision :: "plan_db \<Rightarrow> tenant_context \<Rightarrow> string \<Rightarrow> string \<Rightarrow> plan_decision_record option" where
  "get_decision db ctx pid did =
     map_option hydrate_decision (List.find (\<lambda>d. decision_scope_predicate ctx pid d \<and> dc_decision_id d = did)
       (agent_plan_decisions db))"

definition lock_plan ::
    "(string \<Rightarrow> bool) \<Rightarrow> (string \<Rightarrow> bool) \<Rightarrow> plan_db \<Rightarrow> tenant_context \<Rightarrow> string \<Rightarrow> exc + plan_snapshot" where
  "lock_plan sk sv db ctx pid =
     rbind (ensure (List.find (plan_predicate ctx pid) (agent_plans db) \<noteq> None) (PlanNotFoundError ''Plan not found'')) (\<lambda>_.
     rbind (get_plan sk sv db ctx pid) (\<lambda>snap.
       need snap (PlanNotFoundError ''Plan not found'')))"

definition require_current_decision_target :: "plan_decision_request \<Rightarrow> plan_snapshot \<Rightarrow> exc + unit" where
  "require_current_decision_target rq latest =
     ensure (\<not> (sn_status latest \<noteq> P_AWAITING_APPROVAL \<or> sn_current_version latest \<noteq> rq_plan_version rq \<or>
         sn_aggregate_version latest \<noteq> rq_expected_version rq)) PlanVersionConflictError"

definition insert_decision ::
    "plan_db \<Rightarrow> tenant_context \<Rightarrow> plan_decision_request \<Rightarrow> string \<Rightarrow> int option \<Rightarrow> int \<Rightarrow> exc + plan_db" where
  "insert_decision db ctx rq decided_by resulting now =
     rbind (require_session ctx) (\<lambda>s.
       insert_agent_plan_decision db \<lparr>dc_tenant_id = tenant_id ctx, dc_workspace_id = workspace_id ctx,
         dc_session_id = s, dc_plan_id = rq_plan_id rq, dc_decision_id = rq_decision_id rq,
         dc_plan_version = rq_plan_version rq, dc_expected_plan_cas_version = rq_expected_version rq,
         dc_action = rq_action rq, dc_feedback = rq_feedback rq, dc_decided_by = decided_by,
         dc_resulting_plan_version = resulting, dc_created_at = now\<rparr>)"

definition require_unambiguous_decision_history ::
    "plan_db \<Rightarrow> tenant_context \<Rightarrow> string \<Rightarrow> int \<Rightarrow> exc + plan_decision_record list" where
  "require_unambiguous_decision_history db ctx pid through =
     (let decisions = map hydrate_decision (filter (\<lambda>d. decision_scope_predicate ctx pid d \<and>
          dc_expected_plan_cas_version d \<le> through) (agent_plan_decisions db)) in
      rbind (ensure (distinct (map de_expected_plan_cas_version decisions))
        (PlanDecisionIdempotencyError ''Plan decision history has an ambiguous aggregate boundary'')) (\<lambda>_.
        Inr decisions))"

definition require_identical_decision ::
    "plan_decision_request \<Rightarrow> string \<Rightarrow> plan_decision_record \<Rightarrow> exc + unit" where
  "require_identical_decision rq decided_by d =
     ensure (\<not> (de_plan_version d \<noteq> rq_plan_version rq \<or> de_expected_plan_cas_version d \<noteq> rq_expected_version rq \<or>
         de_action d \<noteq> rq_action rq \<or> de_feedback d \<noteq> rq_feedback rq \<or> de_decided_by d \<noteq> decided_by))
       (PlanDecisionIdempotencyError ''decision_id was already used with different input'')"

text \<open>\<open>max(approvals, key=...)\<close> returns the first of the greatest elements.\<close>

fun max_by_boundary :: "plan_decision_record \<Rightarrow> plan_decision_record list \<Rightarrow> plan_decision_record" where
  "max_by_boundary m [] = m"
| "max_by_boundary m (d # ds) =
     max_by_boundary (if de_expected_plan_cas_version d > de_expected_plan_cas_version m then d else m) ds"

definition approved_version_at :: "plan_decision_record list \<Rightarrow> int option" where
  "approved_version_at decisions =
     (case filter (\<lambda>d. de_action d = D_APPROVE) decisions of
        [] \<Rightarrow> None | d # ds \<Rightarrow> Some (de_plan_version (max_by_boundary d ds)))"

definition snapshot_at_decision :: "plan_snapshot \<Rightarrow> plan_decision_record \<Rightarrow> exc + plan_snapshot" where
  "snapshot_at_decision snap d =
     (let decisions = filter (\<lambda>c. de_expected_plan_cas_version c \<le> de_expected_plan_cas_version d) (sn_decisions snap) in
      rbind (ensure (distinct (map de_expected_plan_cas_version decisions) \<and> d \<in> set decisions)
        (PlanDecisionIdempotencyError ''Plan decision history has an ambiguous aggregate boundary'')) (\<lambda>_.
      rbind (if de_action d = D_REVISE
             then rbind (need (de_resulting_plan_version d)
               (ValueError ''revision decisions require begin_revision_decision'')) (\<lambda>n. Inr (n, P_AWAITING_APPROVAL))
             else Inr (de_plan_version d, if de_action d = D_APPROVE then P_APPROVED else P_REJECTED)) (\<lambda>(current_version, status).
      let versions = filter (\<lambda>v. ve_plan_version v \<le> current_version) (sn_versions snap) in
      rbind (need (List.find (\<lambda>v. ve_plan_version v = current_version) versions)
        (ValueError ''Plan decision references missing version data'')) (\<lambda>current.
        Inr (snap\<lparr>sn_status := status, sn_current_version := current_version,
          sn_approved_version := approved_version_at decisions,
          sn_aggregate_version := de_expected_plan_cas_version d + 1,
          sn_updated_at := (if de_action d = D_REVISE then ve_created_at current else de_created_at d),
          sn_current := current, sn_versions := versions, sn_decisions := decisions\<rparr>)))))"

definition decision_result ::
    "(string \<Rightarrow> bool) \<Rightarrow> (string \<Rightarrow> bool) \<Rightarrow> plan_db \<Rightarrow> tenant_context \<Rightarrow> string \<Rightarrow> string \<Rightarrow> bool \<Rightarrow>
     exc + plan_decision_mutation_result" where
  "decision_result sk sv db ctx pid did replay =
     rbind (get_plan sk sv db ctx pid) (\<lambda>found.
     rbind (need found (PlanNotFoundError ''Plan not found'')) (\<lambda>snap.
     rbind (need (List.find (\<lambda>d. de_decision_id d = did) (sn_decisions snap))
       (RuntimeError ''Plan decision missing from snapshot'')) (\<lambda>d.
     rbind (snapshot_at_decision snap d) (\<lambda>snap'.
       Inr \<lparr>mr_snapshot = snap', mr_decision = d, mr_idempotent_replay = replay\<rparr>))))"

definition decision_replay ::
    "(string \<Rightarrow> bool) \<Rightarrow> (string \<Rightarrow> bool) \<Rightarrow> plan_db \<Rightarrow> tenant_context \<Rightarrow> plan_decision_request \<Rightarrow> string \<Rightarrow>
     plan_decision_record \<Rightarrow> exc + plan_decision_mutation_result" where
  "decision_replay sk sv db ctx rq decided_by existing =
     rbind (require_identical_decision rq decided_by existing) (\<lambda>_.
       decision_result sk sv db ctx (rq_plan_id rq) (rq_decision_id rq) True)"

definition replay_decision ::
    "(string \<Rightarrow> bool) \<Rightarrow> (string \<Rightarrow> bool) \<Rightarrow> plan_db \<Rightarrow> tenant_context \<Rightarrow> plan_decision_request \<Rightarrow> string \<Rightarrow>
     exc + plan_decision_mutation_result option" where
  "replay_decision sk sv db ctx rq decided_by =
     rbind (require_session ctx) (\<lambda>_.
     case get_decision db ctx (rq_plan_id rq) (rq_decision_id rq) of
       None \<Rightarrow> Inr None
     | Some existing \<Rightarrow> rbind (decision_replay sk sv db ctx rq decided_by existing) (\<lambda>r. Inr (Some r)))"

text \<open>The guards that both kinds of decision pass before the insert.\<close>

definition require_decidable ::
    "plan_db \<Rightarrow> tenant_context \<Rightarrow> plan_decision_request \<Rightarrow> plan_snapshot \<Rightarrow> exc + unit" where
  "require_decidable db ctx rq latest =
     rbind (require_current_decision_target rq latest) (\<lambda>_.
     rbind (require_unambiguous_decision_history db ctx (rq_plan_id rq) (rq_expected_version rq)) (\<lambda>history.
       ensure (\<not> (\<exists>d \<in> set history. de_expected_plan_cas_version d = rq_expected_version rq))
         (PlanDecisionIdempotencyError ''Plan aggregate version already has a different decision claim'')))"

text \<open>
  The writes of \<open>record_decision\<close> inside its savepoint. With the row lock held and the identifier unused the
  insert cannot meet a duplicate, so an \<open>IntegrityError\<close> is raised again.
\<close>

definition write_decision ::
    "(string \<Rightarrow> bool) \<Rightarrow> (string \<Rightarrow> bool) \<Rightarrow> int \<Rightarrow> plan_db \<Rightarrow> tenant_context \<Rightarrow> plan_decision_request \<Rightarrow> string \<Rightarrow>
     exc + plan_decision_mutation_result \<times> plan_db" where
  "write_decision sk sv now db ctx rq decided_by =
     rbind (insert_decision db ctx rq decided_by None now) (\<lambda>db1.
     let (n, db2) = update_plans (\<lambda>p. plan_predicate ctx (rq_plan_id rq) p \<and> pl_status p = P_AWAITING_APPROVAL \<and>
           pl_current_version p = rq_plan_version rq \<and> pl_version p = rq_expected_version rq)
         (\<lambda>p. p\<lparr>pl_status := (if rq_action rq = D_APPROVE then P_APPROVED else P_REJECTED),
            pl_approved_version := (if rq_action rq = D_APPROVE then Some (rq_plan_version rq) else pl_approved_version p),
            pl_version := pl_version p + 1, pl_updated_at := now\<rparr>) db1 in
     if n = 1
     then rbind (decision_result sk sv db2 ctx (rq_plan_id rq) (rq_decision_id rq) False) (\<lambda>r. Inr (r, db2))
     else rbind (get_plan sk sv db ctx (rq_plan_id rq)) (\<lambda>found.
       rbind (need found (PlanNotFoundError ''Plan not found'')) (\<lambda>_. Inl PlanVersionConflictError)))"

definition record_decision ::
    "(string \<Rightarrow> bool) \<Rightarrow> (string \<Rightarrow> bool) \<Rightarrow> clock \<Rightarrow> plan_db \<Rightarrow> tenant_context \<Rightarrow> claims \<Rightarrow> plan_decision_request \<Rightarrow> string \<Rightarrow>
     exc + plan_decision_mutation_result \<times> plan_db" where
  "record_decision sk sv clk db ctx claims rq decided_by =
     rbind (require_session ctx) (\<lambda>_.
     rbind (pending_revision_claim ctx claims (rq_plan_id rq)) (\<lambda>pending.
     rbind (ensure (\<not> (case pending of None \<Rightarrow> False | Some p \<Rightarrow> de_decision_id p \<noteq> rq_decision_id rq))
       (PlanDecisionIdempotencyError ''Plan already has an unfinished revision decision claim'')) (\<lambda>_.
     case get_decision db ctx (rq_plan_id rq) (rq_decision_id rq) of
       Some existing \<Rightarrow> rbind (decision_replay sk sv db ctx rq decided_by existing) (\<lambda>r. Inr (r, db))
     | None \<Rightarrow>
         rbind (ensure (rq_action rq \<noteq> D_REVISE) (ValueError ''revision decisions require begin_revision_decision'')) (\<lambda>_.
         rbind (lock_plan sk sv db ctx (rq_plan_id rq)) (\<lambda>latest.
         rbind (require_decidable db ctx rq latest) (\<lambda>_.
           write_decision sk sv (clk 0) db ctx rq decided_by))))))"

section \<open>Revision decisions\<close>

text \<open>
  A revision is decided in two calls around \<open>append_version\<close>: \<open>begin_revision_decision\<close> claims the current
  version, \<open>finish_revision_decision\<close> writes the version that answers it.
\<close>

definition begin_revision_decision ::
    "(string \<Rightarrow> bool) \<Rightarrow> (string \<Rightarrow> bool) \<Rightarrow> clock \<Rightarrow> plan_db \<Rightarrow> tenant_context \<Rightarrow> claims \<Rightarrow> plan_decision_request \<Rightarrow> string \<Rightarrow>
     exc + plan_decision_record \<times> claims \<times> plan_db" where
  "begin_revision_decision sk sv clk db ctx claims rq decided_by =
     rbind (require_session ctx) (\<lambda>_.
     rbind (ensure (rq_action rq = D_REVISE) (ValueError ''begin_revision_decision requires a revise action'')) (\<lambda>_.
     rbind (pending_revision_claim ctx claims (rq_plan_id rq)) (\<lambda>pending.
     case pending of
       Some p \<Rightarrow>
         rbind (ensure (de_decision_id p = rq_decision_id rq)
           (PlanDecisionIdempotencyError ''Plan already has a different revision decision claim'')) (\<lambda>_.
         rbind (require_identical_decision rq decided_by p) (\<lambda>_. Inr (p, claims, db)))
     | None \<Rightarrow>
         (case get_decision db ctx (rq_plan_id rq) (rq_decision_id rq) of
            Some existing \<Rightarrow>
              rbind (require_identical_decision rq decided_by existing) (\<lambda>_.
              if de_resulting_plan_version existing \<noteq> None then Inr (existing, claims, db)
              else rbind (lock_plan sk sv db ctx (rq_plan_id rq)) (\<lambda>latest.
                rbind (require_current_decision_target rq latest) (\<lambda>_.
                rbind (require_unambiguous_decision_history db ctx (rq_plan_id rq) (rq_expected_version rq)) (\<lambda>_.
                rbind (register_revision_claim ctx claims (rq_plan_id rq) existing) (\<lambda>claims'.
                  Inr (existing, claims', db))))))
          | None \<Rightarrow>
              rbind (lock_plan sk sv db ctx (rq_plan_id rq)) (\<lambda>latest.
              rbind (require_decidable db ctx rq latest) (\<lambda>_.
              rbind (insert_decision db ctx rq decided_by None (clk 0)) (\<lambda>db1.
              rbind (need (get_decision db1 ctx (rq_plan_id rq) (rq_decision_id rq))
                (RuntimeError ''Plan decision missing after insert'')) (\<lambda>d.
              rbind (register_revision_claim ctx claims (rq_plan_id rq) d) (\<lambda>claims'.
                Inr (d, claims', db1))))))))))"

definition update_decisions ::
    "(plan_decision_row \<Rightarrow> bool) \<Rightarrow> (plan_decision_row \<Rightarrow> plan_decision_row) \<Rightarrow> plan_db \<Rightarrow> nat \<times> plan_db" where
  "update_decisions p f db =
     (rowcount p (agent_plan_decisions db), db\<lparr>agent_plan_decisions := upd_where p f (agent_plan_decisions db)\<rparr>)"

text \<open>The rows that must be there for the revision to be finished.\<close>

definition revision_in_place ::
    "plan_db \<Rightarrow> tenant_context \<Rightarrow> string \<Rightarrow> plan_decision_record \<Rightarrow> int \<Rightarrow> bool" where
  "revision_in_place db ctx pid d resulting \<longleftrightarrow>
     resulting = de_plan_version d + 1 \<and>
     List.find (\<lambda>p. plan_predicate ctx pid p \<and> pl_status p = P_AWAITING_APPROVAL \<and>
       pl_current_version p = de_plan_version d + 1 \<and> pl_version p = de_expected_plan_cas_version d + 1)
       (agent_plans db) \<noteq> None \<and>
     (case List.find (\<lambda>v. version_scope_predicate ctx pid v \<and> pv_plan_version v = de_plan_version d + 1)
         (agent_plan_versions (wf db)) of
        None \<Rightarrow> False
      | Some v \<Rightarrow> pv_parent_version v = Some (de_plan_version d) \<and> pv_revision_feedback v = de_feedback d)"

definition finish_revision_decision ::
    "(string \<Rightarrow> bool) \<Rightarrow> (string \<Rightarrow> bool) \<Rightarrow> plan_db \<Rightarrow> tenant_context \<Rightarrow> claims \<Rightarrow> string \<Rightarrow> string \<Rightarrow> int \<Rightarrow>
     exc + plan_decision_record \<times> claims \<times> plan_db" where
  "finish_revision_decision sk sv db ctx claims pid did resulting =
     rbind (require_session ctx) (\<lambda>_.
     rbind (ensure (\<not> resulting < 1) (ValueError ''resulting_plan_version must be positive'')) (\<lambda>_.
     rbind (need (get_decision db ctx pid did) (PlanNotFoundError ''Plan decision not found'')) (\<lambda>existing.
     rbind (ensure (de_action existing = D_REVISE)
       (PlanDecisionIdempotencyError ''Plan decision is not a revision decision'')) (\<lambda>_.
     rbind (pending_revision_claim ctx claims pid) (\<lambda>pending.
     case de_resulting_plan_version existing of
       Some n \<Rightarrow>
         rbind (ensure (n = resulting)
           (PlanDecisionIdempotencyError ''Plan decision already has a different resulting version'')) (\<lambda>_.
         rbind (ensure (pending = None)
           (PlanDecisionIdempotencyError ''Revision decision changed after this transaction claimed it'')) (\<lambda>_.
           Inr (existing, claims, db)))
     | None \<Rightarrow>
         rbind (ensure (pending = Some existing)
           (PlanDecisionIdempotencyError ''Revision decision is not claimed by this transaction'')) (\<lambda>_.
         rbind (require_unambiguous_decision_history db ctx pid (de_expected_plan_cas_version existing)) (\<lambda>_.
         if \<not> revision_in_place db ctx pid existing resulting
         then rbind (get_plan sk sv db ctx pid) (\<lambda>found.
           rbind (need found (PlanNotFoundError ''Plan not found'')) (\<lambda>_. Inl PlanVersionConflictError))
         else
           let (n, db1) = update_decisions (\<lambda>d. decision_scope_predicate ctx pid d \<and> dc_decision_id d = did \<and>
                 dc_action d = D_REVISE \<and> dc_plan_version d = de_plan_version existing \<and>
                 dc_expected_plan_cas_version d = de_expected_plan_cas_version existing \<and>
                 dc_decided_by d = de_decided_by existing \<and> dc_created_at d = de_created_at existing \<and>
                 dc_resulting_plan_version d = None)
               (\<lambda>d. d\<lparr>dc_resulting_plan_version := Some resulting\<rparr>) db in
           rbind (if n \<noteq> 1
                  then rbind (need (get_decision db1 ctx pid did) (PlanNotFoundError ''Plan decision not found'')) (\<lambda>e.
                    rbind (ensure (de_resulting_plan_version e = Some resulting)
                      (PlanDecisionIdempotencyError ''Plan decision already has a different resulting version'')) (\<lambda>_. Inr e))
                  else need (get_decision db1 ctx pid did) (RuntimeError ''Plan decision missing after finalization'')) (\<lambda>d.
           rbind (clear_revision_claim ctx claims pid did) (\<lambda>claims'.
             Inr (d, claims', db1))))))))))"

section \<open>Contexts and summaries\<close>

definition locate_context :: "plan_db \<Rightarrow> string \<Rightarrow> string \<Rightarrow> exc + tenant_context" where
  "locate_context db tenant pid =
     (case filter (\<lambda>p. pl_tenant_id p = tenant \<and> pl_id p = pid) (agent_plans db) of
        [p] \<Rightarrow> mk_context tenant (pl_workspace_id p) (Some (pl_session_id p)) None
      | _ \<Rightarrow> Inl (PlanNotFoundError ''Plan not found''))"

text \<open>\<open>for_context\<close> returns a repository over the same connection and claims, in another session of the workspace.\<close>

definition for_context :: "tenant_context \<Rightarrow> tenant_context \<Rightarrow> exc + tenant_context" where
  "for_context ctx ctx' =
     rbind (ensure (session_id ctx' \<noteq> None) (ValueError ''PlanRepository requires session scope'')) (\<lambda>_.
     rbind (ensure (tenant_id ctx' = tenant_id ctx \<and> workspace_id ctx' = workspace_id ctx)
       (ValueError ''PlanRepository context must remain within the UoW scope'')) (\<lambda>_.
       Inr ctx'))"

definition require_no_unfinished_revisions :: "claims \<Rightarrow> exc + unit" where
  "require_no_unfinished_revisions claims =
     ensure (claims = []) (RuntimeError ''Cannot commit with an unfinished plan revision'')"

record plan_summary =
  su_plan_id :: string
  su_session_id :: string
  su_status :: plan_status
  su_current_version :: int
  su_approved_version :: "int option"
  su_aggregate_version :: int
  su_latest_run_id :: "string option"
  su_latest_run_status :: "run_status option"

text \<open>The row of rank 1 of the window over the runs of a plan: newest first, ties by run identifier.\<close>

definition latest_run :: "plan_db \<Rightarrow> plan_row \<Rightarrow> run_row option" where
  "latest_run db p =
     (case rev (sort_key (\<lambda>r. (r_created_at r, r_run_id r)) (filter (\<lambda>r. r_tenant_id r = pl_tenant_id p \<and>
         r_workspace_id r = pl_workspace_id p \<and> r_session_id r = pl_session_id p \<and> r_plan_id r = Some (pl_id p))
         (agent_runs (wf db)))) of
        [] \<Rightarrow> None | r # _ \<Rightarrow> Some r)"

definition list_for_session :: "plan_db \<Rightarrow> tenant_context \<Rightarrow> exc + plan_summary list" where
  "list_for_session db ctx =
     rbind (require_session ctx) (\<lambda>_.
       Inr (map (\<lambda>p. \<lparr>su_plan_id = pl_id p, su_session_id = pl_session_id p, su_status = pl_status p,
           su_current_version = pl_current_version p, su_approved_version = pl_approved_version p,
           su_aggregate_version = pl_version p, su_latest_run_id = map_option r_run_id (latest_run db p),
           su_latest_run_status = map_option r_status (latest_run db p)\<rparr>)
         (rev (sort_key (\<lambda>p. (pl_created_at p, pl_id p))
           (filter (\<lambda>p. in_session ctx (pl_tenant_id p) (pl_workspace_id p) (pl_session_id p)) (agent_plans db))))))"

section \<open>Round accounting\<close>

text \<open>The ledger row's metadata holds identifiers and a round kind, all ASCII, so the escaping of \<open>ensure_ascii\<close> never applies.\<close>

definition PLAN_ROUND_KINDS :: "string list" where
  "PLAN_ROUND_KINDS = [''revision_generation'', ''step_model'', ''reflection'', ''final_summary'']"

definition round_row :: "tenant_context \<Rightarrow> string \<Rightarrow> string \<Rightarrow> memory_row \<Rightarrow> bool" where
  "round_row ctx run pid m \<longleftrightarrow> m_tenant_id m = tenant_id ctx \<and> m_workspace_id m = workspace_id ctx \<and>
     m_session_id m = session_id ctx \<and> m_type m = ''plan_round_counter'' \<and>
     sql_like (''%\"run_id\":\"'' @ run @ ''\"%'') (m_metadata_json m) \<and>
     sql_like (''%\"plan_id\":\"'' @ pid @ ''\"%'') (m_metadata_json m)"

definition count_round_units :: "plan_db \<Rightarrow> tenant_context \<Rightarrow> string \<Rightarrow> string \<Rightarrow> exc + int" where
  "count_round_units db ctx run pid =
     rbind (need (session_id ctx) (ValueError ''session_id is required for Plan round accounting'')) (\<lambda>s.
       Inr (int (rowcount (round_row ctx run pid) (memory_entries (wf db))) +
            int (rowcount (\<lambda>x. x_tenant_id x = tenant_id ctx \<and> x_workspace_id x = workspace_id ctx \<and>
              x_session_id x = s \<and> x_run_id x = run) (tool_executions (wf db)))))"

definition insert_memory_entry :: "plan_db \<Rightarrow> memory_row \<Rightarrow> exc + plan_db" where
  "insert_memory_entry db m =
     (if m_id m \<notin> set (map m_id (memory_entries (wf db))) \<and>
         (m_tenant_id m, m_workspace_id m) \<in> set (workspaces (wf db)) \<and>
         (case m_session_id m of None \<Rightarrow> True
          | Some s \<Rightarrow> (m_tenant_id m, m_workspace_id m, s) \<in> set (chat_sessions (wf db)))
      then Inr (db\<lparr>wf := (wf db)\<lparr>memory_entries := memory_entries (wf db) @ [m]\<rparr>\<rparr>)
      else Inl IntegrityError)"

definition round_metadata :: "string \<Rightarrow> string \<Rightarrow> string option \<Rightarrow> string \<Rightarrow> json" where
  "round_metadata run pid step_run kind = JObj
     [(''schema_version'', JInt 1), (''plan_id'', JStr pid), (''run_id'', JStr run),
      (''step_run_id'', case step_run of None \<Rightarrow> JNull | Some i \<Rightarrow> JStr i), (''round_kind'', JStr kind)]"

definition reserve_round_unit ::
    "clock \<Rightarrow> string \<Rightarrow> plan_db \<Rightarrow> tenant_context \<Rightarrow> string \<Rightarrow> string \<Rightarrow> string \<Rightarrow> int \<Rightarrow> string option \<Rightarrow> exc + int \<times> plan_db" where
  "reserve_round_unit clk uuid db ctx run pid kind total_budget step_run =
     rbind (ensure (kind \<in> set PLAN_ROUND_KINDS) (ValueError ''unsupported Plan round kind'')) (\<lambda>_.
     rbind (ensure (\<not> total_budget < 1) (ValueError ''Plan round budget must be positive'')) (\<lambda>_.
     rbind (count_round_units db ctx run pid) (\<lambda>consumed.
     rbind (ensure (\<not> consumed \<ge> total_budget) (PlanRoundBudgetExceeded ''Plan round budget exceeded'')) (\<lambda>_.
     rbind (insert_memory_entry db \<lparr>m_id = uuid, m_tenant_id = tenant_id ctx, m_workspace_id = workspace_id ctx,
         m_session_id = session_id ctx, m_content = ''model'', m_type = ''plan_round_counter'', m_role = ''system'',
         m_turn_index = 0, m_created_at = clk 0,
         m_metadata_json = dumps (round_metadata run pid step_run kind)\<rparr>) (\<lambda>db'.
       Inr (consumed + 1, db'))))))"

end
