(* ===== verification/Plan_Order.thy ===== *)
theory Plan_Order
  imports Plan_Validation
begin

text \<open>
  The canonical order of a plan: the loop of \<open>validate_plan_draft\<close> is Kahn's algorithm with the ready
  list kept sorted by draft position. It accepts exactly the drafts whose dependency graph is acyclic
  and no deeper than the limit, and the order it returns respects every dependency.
\<close>

section \<open>One round of the loop\<close>

fun dep_chain :: "(string \<Rightarrow> string list) \<Rightarrow> string list \<Rightarrow> bool" where
  "dep_chain deps (a # b # cs) \<longleftrightarrow> a \<in> set (deps b) \<and> dep_chain deps (b # cs)"
| "dep_chain deps _ \<longleftrightarrow> True"

lemma dep_chain_snoc: "dep_chain deps (cs @ [k]) \<Longrightarrow> k \<in> set (deps c) \<Longrightarrow> dep_chain deps (cs @ [k, c])"
  by (induction deps cs rule: dep_chain.induct) auto

lemma visit_children_effect:
  assumes "visit_children orig limit key cs (indeg, depth, ready) = Inr (indeg', depth', ready')"
    and "distinct cs" "key \<notin> set cs" "map_of depth key = Some dk"
  shows "(\<forall>k. map_of indeg' k = (if k \<in> set cs then map_option (\<lambda>n. n - 1) (map_of indeg k) else map_of indeg k)) \<and>
    (\<forall>k. map_of depth' k = (if k \<in> set cs then map_option (\<lambda>d. max d (dk + 1)) (map_of depth k) else map_of depth k)) \<and>
    mset ready' = mset ready + mset (filter (\<lambda>c. map_of indeg c = Some 1) cs) \<and>
    (\<forall>c \<in> set cs. \<forall>d. map_of depth c = Some d \<longrightarrow> max d (dk + 1) \<le> limit) \<and>
    (sorted (map orig ready) \<longrightarrow> sorted (map orig ready'))"
  using assms
proof (induction cs arbitrary: indeg depth ready)
  case (Cons c cs)
  obtain dc n where c: "map_of depth c = Some dc" "map_of indeg c = Some n" "max dc (dk + 1) \<le> limit"
    and rec: "visit_children orig limit key cs (dict_set indeg c (n - 1), dict_set depth c (max dc (dk + 1)),
      if n - 1 = 0 then sort_key orig (ready @ [c]) else ready) = Inr (indeg', depth', ready')"
    using Cons.prems(1,4) by (auto simp: res_simps not_less simp del: sort_key_simps)
  have key: "map_of (dict_set depth c (max dc (dk + 1))) key = Some dk"
    using Cons.prems(3,4) by (simp add: map_of_dict_set)
  have look: "map_of (dict_set d c v) k = (if k = c then Some v else map_of d k)" for d k and v :: int
    by (simp add: map_of_dict_set)
  have cs: "distinct cs" "key \<notin> set cs" "c \<notin> set cs" using Cons.prems(2,3) by auto
  note ih = Cons.IH[OF rec cs(1,2) key, unfolded look]
  have "filter (\<lambda>c'. (if c' = c then Some (n - 1) else map_of indeg c') = Some 1) cs =
      filter (\<lambda>c'. map_of indeg c' = Some 1) cs"
    using cs(3) by (intro filter_cong) auto
  with ih have mset': "mset ready' = mset (if n - 1 = 0 then sort_key orig (ready @ [c]) else ready) +
      mset (filter (\<lambda>c'. map_of indeg c' = Some 1) cs)" by simp
  show ?case
  proof (intro conjI)
    show "\<forall>k. map_of indeg' k = (if k \<in> set (c # cs) then map_option (\<lambda>n. n - 1) (map_of indeg k) else map_of indeg k)"
      using ih c(2) cs(3) by simp
    show "\<forall>k. map_of depth' k =
        (if k \<in> set (c # cs) then map_option (\<lambda>d. max d (dk + 1)) (map_of depth k) else map_of depth k)"
      using ih c(1) cs(3) by simp
    show "mset ready' = mset ready + mset (filter (\<lambda>c. map_of indeg c = Some 1) (c # cs))"
      using mset' c(2) by (simp del: sort_key_simps)
    show "\<forall>c' \<in> set (c # cs). \<forall>d. map_of depth c' = Some d \<longrightarrow> max d (dk + 1) \<le> limit"
    proof (intro ballI allI impI)
      fix c' d assume c': "c' \<in> set (c # cs)" "map_of depth c' = Some d"
      show "max d (dk + 1) \<le> limit"
      proof (cases "c' = c")
        case True
        then show ?thesis using c(1,3) c'(2) by simp
      next
        case False
        then show ?thesis using ih c' by simp
      qed
    qed
    show "sorted (map orig ready) \<longrightarrow> sorted (map orig ready')"
      using ih by (simp del: sort_key_simps split: if_splits)
  qed
qed simp

lemma visit_children_accepts:
  assumes "map_of depth key = Some dk" "distinct cs" "key \<notin> set cs"
    and "\<forall>c \<in> set cs. \<exists>d n. map_of depth c = Some d \<and> map_of indeg c = Some n \<and> max d (dk + 1) \<le> limit"
  shows "\<exists>st. visit_children orig limit key cs (indeg, depth, ready) = Inr st"
  using assms
proof (induction cs arbitrary: indeg depth ready)
  case (Cons c cs)
  obtain dc n where c: "map_of depth c = Some dc" "map_of indeg c = Some n" "max dc (dk + 1) \<le> limit"
    using Cons.prems(4) by auto
  let ?indeg = "dict_set indeg c (n - 1)" and ?depth = "dict_set depth c (max dc (dk + 1))"
  have "\<forall>c' \<in> set cs. \<exists>d n. map_of ?depth c' = Some d \<and> map_of ?indeg c' = Some n \<and> max d (dk + 1) \<le> limit"
    using Cons.prems(2,4) by (auto simp: map_of_dict_set)
  moreover have "map_of ?depth key = Some dk" using Cons.prems(1,3) by (simp add: map_of_dict_set)
  ultimately have "\<exists>st. visit_children orig limit key cs (?indeg, ?depth, r) = Inr st" for r
    using Cons.IH[of ?depth ?indeg r] Cons.prems(2,3) by simp
  with c Cons.prems(1) show ?case by (simp add: ensure_def not_less del: sort_key_simps)
qed simp

section \<open>The invariant of the loop\<close>

text \<open>The graph the loop works on.\<close>

definition dep_graph :: "string list \<Rightarrow> (string \<Rightarrow> string list) \<Rightarrow> (string \<times> string list) list \<Rightarrow> bool" where
  "dep_graph keys deps out \<longleftrightarrow> distinct keys \<and>
     (\<forall>k \<in> set keys. distinct (deps k) \<and> set (deps k) \<subseteq> set keys \<and> k \<notin> set (deps k)) \<and>
     (\<forall>d. distinct (outgoing_of out d) \<and> set (outgoing_of out d) = {k \<in> set keys. d \<in> set (deps k)})"

definition depth_ok :: "string list \<Rightarrow> (string \<Rightarrow> string list) \<Rightarrow> int \<Rightarrow> (string \<times> int) list \<Rightarrow> string list \<Rightarrow> bool" where
  "depth_ok keys deps limit depth ordered \<longleftrightarrow>
     (\<forall>k \<in> set keys. \<exists>m cs. map_of depth k = Some m \<and> m \<le> limit \<and> m = int (length cs) + 1 \<and>
        set cs \<subseteq> set keys \<and> dep_chain deps (cs @ [k])) \<and>
     (\<forall>k \<in> set keys. \<forall>d \<in> set (deps k) \<inter> set ordered. \<forall>m n. map_of depth d = Some m \<longrightarrow>
        map_of depth k = Some n \<longrightarrow> m + 1 \<le> n)"

definition kahn_inv ::
    "string list \<Rightarrow> (string \<Rightarrow> string list) \<Rightarrow> (string \<Rightarrow> nat) \<Rightarrow> int \<Rightarrow> kahn_state \<Rightarrow> string list \<Rightarrow> bool" where
  "kahn_inv keys deps orig limit st ordered \<longleftrightarrow> (case st of (indeg, depth, ready) \<Rightarrow>
     distinct (ordered @ ready) \<and> set (ordered @ ready) \<subseteq> set keys \<and> sorted (map orig ready) \<and>
     (\<forall>k \<in> set keys. map_of indeg k = Some (int (card (set (deps k) - set ordered)))) \<and>
     (\<forall>k \<in> set keys. k \<in> set (ordered @ ready) \<longleftrightarrow> set (deps k) \<subseteq> set ordered) \<and>
     (\<forall>i < length ordered. set (deps (ordered ! i)) \<subseteq> set (take i ordered)) \<and>
     depth_ok keys deps limit depth ordered)"

lemma topo_snoc:
  assumes "\<forall>i < length xs. set (deps (xs ! i)) \<subseteq> set (take i xs)" "set (deps x) \<subseteq> set xs"
  shows "\<forall>i < length (xs @ [x]). set (deps ((xs @ [x]) ! i)) \<subseteq> set (take i (xs @ [x]))"
  using assms by (auto simp: nth_append less_Suc_eq)

lemma topo_closed:
  assumes "\<forall>i < length xs. set (deps (xs ! i)) \<subseteq> set (take i xs)" "x \<in> set xs"
  shows "set (deps x) \<subseteq> set xs"
  using assms by (metis in_set_conv_nth order_trans set_take_subset)

lemma card_minus_insert:
  assumes "finite A" "x \<notin> B"
  shows "int (card (A - insert x B)) = int (card (A - B)) - (if x \<in> A then 1 else 0)"
proof (cases "x \<in> A")
  case True
  then have "A - insert x B = (A - B) - {x}" "x \<in> A - B" using assms(2) by auto
  moreover from this have "0 < card (A - B)" using assms(1) card_gt_0_iff by blast
  ultimately show ?thesis using assms(1) True by simp
next
  case False
  then have "A - insert x B = A - B" by auto
  with False show ?thesis by simp
qed

lemma card_1_iff: "x \<in> A \<Longrightarrow> int (card A) = 1 \<longleftrightarrow> A = {x}"
  by (metis One_nat_def card_1_singletonE card.empty card_insert_disjoint empty_iff finite.emptyI
      of_nat_1 of_nat_eq_iff singletonD)

lemma depth_ok_step:
  assumes g: "dep_graph keys deps out" and key: "key \<in> set keys" "key \<notin> set ordered"
    and topo: "\<forall>i < length ordered. set (deps (ordered ! i)) \<subseteq> set (take i ordered)"
    and d: "depth_ok keys deps limit depth ordered" "map_of depth key = Some dk"
    and d': "\<forall>k. map_of depth' k = (if key \<in> set (deps k) \<and> k \<in> set keys
        then map_option (\<lambda>d. max d (dk + 1)) (map_of depth k) else map_of depth k)"
    and bound: "\<forall>c \<in> set keys. key \<in> set (deps c) \<longrightarrow> (\<forall>d. map_of depth c = Some d \<longrightarrow> max d (dk + 1) \<le> limit)"
  shows "depth_ok keys deps limit depth' (ordered @ [key])"
proof -
  have chain: "\<exists>m cs. map_of depth' k = Some m \<and> m \<le> limit \<and> m = int (length cs) + 1 \<and>
        set cs \<subseteq> set keys \<and> dep_chain deps (cs @ [k])" if k: "k \<in> set keys" for k
  proof -
    obtain m cs where m: "map_of depth k = Some m" "m \<le> limit" "m = int (length cs) + 1"
      "set cs \<subseteq> set keys" "dep_chain deps (cs @ [k])" using d(1) k unfolding depth_ok_def by blast
    obtain cs' where m': "dk = int (length cs') + 1" "set cs' \<subseteq> set keys" "dep_chain deps (cs' @ [key])"
      using d key(1) unfolding depth_ok_def by fastforce
    show ?thesis
    proof (cases "key \<in> set (deps k) \<and> m < dk + 1")
      case True
      then have "map_of depth' k = Some (dk + 1)" using d' m(1) k by simp
      moreover have "dk + 1 \<le> limit" using bound True k m(1) by auto
      moreover have "dep_chain deps ((cs' @ [key]) @ [k])" using dep_chain_snoc[OF m'(3)] True by simp
      ultimately show ?thesis
        using m' key(1) by (intro exI[of _ "dk + 1"] exI[of _ "cs' @ [key]"]) auto
    next
      case False
      then have "map_of depth' k = Some m" using d' m(1) by auto
      with m show ?thesis by blast
    qed
  qed
  moreover have "m + 1 \<le> n" if k: "k \<in> set keys" and e: "e \<in> set (deps k)" "e \<in> set (ordered @ [key])"
    and m: "map_of depth' e = Some m" "map_of depth' k = Some n" for k e m n
  proof -
    have "key \<notin> set (deps e)"
      using e(2) g key topo_closed[OF topo, of e] unfolding dep_graph_def by auto
    then have em: "map_of depth e = Some m" using d' m(1) by simp
    obtain n0 where n0: "map_of depth k = Some n0" "n0 \<le> n"
      using m(2) d' k by (auto split: if_splits)
    show ?thesis
    proof (cases "e = key")
      case True
      then show ?thesis using d' d(2) em e(1) k m(2) n0(1) by auto
    next
      case False
      then have "m + 1 \<le> n0" using d(1) k e em n0(1) unfolding depth_ok_def by auto
      with n0(2) show ?thesis by simp
    qed
  qed
  ultimately show ?thesis unfolding depth_ok_def by blast
qed

lemma kahn_inv_step:
  assumes g: "dep_graph keys deps out"
    and inv: "kahn_inv keys deps orig limit (indeg, depth, key # ready) ordered"
    and visit: "visit_children orig limit key (sort_key orig (outgoing_of out key)) (indeg, depth, ready) = Inr st"
  shows "kahn_inv keys deps orig limit st (ordered @ [key])"
proof -
  obtain indeg' depth' ready' where st: "st = (indeg', depth', ready')" by (cases st)
  let ?cs = "sort_key orig (outgoing_of out key)"
  have cs: "set ?cs = {k \<in> set keys. key \<in> set (deps k)}" "distinct ?cs"
    using g by (simp_all add: dep_graph_def)
  have key: "key \<in> set keys" "key \<notin> set ordered" "key \<notin> set ready" "set (deps key) \<subseteq> set ordered"
    using inv by (auto simp: kahn_inv_def)
  have notin: "key \<notin> set ?cs" using g key(1) cs(1) by (auto simp: dep_graph_def)
  obtain dk where dk: "map_of depth key = Some dk"
    using inv key(1) unfolding kahn_inv_def depth_ok_def by fastforce
  note eff = visit_children_effect[OF visit[unfolded st] cs(2) notin dk]
  have indeg: "map_of indeg k = Some (int (card (set (deps k) - set ordered)))" if "k \<in> set keys" for k
    using inv that by (simp add: kahn_inv_def)
  have one: "map_of indeg c = Some 1 \<longleftrightarrow> set (deps c) - set ordered = {key}" if "c \<in> set ?cs" for c
  proof -
    have "key \<in> set (deps c) - set ordered" "c \<in> set keys" using that cs(1) key(2) by auto
    then show ?thesis using indeg[of c] card_1_iff[of key "set (deps c) - set ordered"] by simp
  qed
  have mset': "mset ready' = mset (ready @ filter (\<lambda>c. map_of indeg c = Some 1) ?cs)" using eff by simp
  then have ready': "set ready' = set ready \<union> {c \<in> set ?cs. set (deps c) - set ordered = {key}}"
    using mset_eq_setD[OF mset'] one by auto
  have fresh: "c \<notin> set ordered \<and> c \<notin> set (key # ready)" if "c \<in> set ?cs" for c
    using inv that cs(1) key(2) by (auto simp: kahn_inv_def)
  have "distinct (ready @ filter (\<lambda>c. map_of indeg c = Some 1) ?cs)"
    using inv cs(2) fresh by (auto simp: kahn_inv_def)
  then have distinct': "distinct ready'" using mset' by (metis mset_eq_imp_distinct_iff)
  have 1: "distinct ((ordered @ [key]) @ ready')" "set ((ordered @ [key]) @ ready') \<subseteq> set keys"
    using inv distinct' ready' fresh cs(1) by (auto simp: kahn_inv_def)
  have 2: "map_of indeg' k = Some (int (card (set (deps k) - set (ordered @ [key]))))" if "k \<in> set keys" for k
    using eff indeg[OF that] card_minus_insert[OF _ key(2), of "set (deps k)"] cs(1) that by simp
  have 3: "k \<in> set ((ordered @ [key]) @ ready') \<longleftrightarrow> set (deps k) \<subseteq> set (ordered @ [key])" if "k \<in> set keys" for k
  proof -
    have "k \<in> set ordered \<or> k \<in> set (key # ready) \<longleftrightarrow> set (deps k) \<subseteq> set ordered"
      using inv that by (auto simp: kahn_inv_def)
    moreover have "k \<in> set ?cs \<longleftrightarrow> key \<in> set (deps k)" using cs(1) that by simp
    ultimately show ?thesis using ready' by auto
  qed
  have topo: "\<forall>i < length ordered. set (deps (ordered ! i)) \<subseteq> set (take i ordered)"
    using inv by (simp add: kahn_inv_def)
  have "depth_ok keys deps limit depth' (ordered @ [key])"
    using inv eff cs(1) by (intro depth_ok_step[OF g key(1,2) topo _ dk]) (auto simp: kahn_inv_def)
  moreover have "sorted (map orig ready')" using inv eff by (simp add: kahn_inv_def)
  ultimately show ?thesis
    using 1 2 3 topo_snoc[OF topo key(4)] unfolding kahn_inv_def st prod.case by blast
qed

section \<open>The result of the loop\<close>

lemma kahn_result:
  assumes g: "dep_graph keys deps out"
  shows "kahn_inv keys deps orig limit st ordered \<Longrightarrow> kahn orig limit out st ordered = Inr res \<Longrightarrow>
    \<exists>indeg depth. kahn_inv keys deps orig limit (indeg, depth, []) res"
  using g
proof (induction orig limit out st ordered rule: kahn.induct)
  case (2 orig limit out indegree depth key ready ordered)
  then obtain st where st: "visit_children orig limit key (sort_key orig (outgoing_of out key)) (indegree, depth, ready) = Inr st"
    "kahn orig limit out st (ordered @ [key]) = Inr res" by (auto simp: res_simps)
  show ?case
    using "2.IH"[OF st(1) kahn_inv_step[OF "2.prems"(3,1) st(1)] st(2) "2.prems"(3)] .
qed auto

definition chains_bounded :: "string list \<Rightarrow> (string \<Rightarrow> string list) \<Rightarrow> int \<Rightarrow> bool" where
  "chains_bounded keys deps limit \<longleftrightarrow>
     (\<forall>cs. set cs \<subseteq> set keys \<longrightarrow> dep_chain deps cs \<longrightarrow> int (length cs) \<le> limit)"

lemma visit_children_total:
  assumes g: "dep_graph keys deps out" and b: "chains_bounded keys deps limit"
    and inv: "kahn_inv keys deps orig limit (indeg, depth, key # ready) ordered"
  shows "\<exists>st. visit_children orig limit key (sort_key orig (outgoing_of out key)) (indeg, depth, ready) = Inr st"
proof -
  have key: "key \<in> set keys" using inv by (simp add: kahn_inv_def)
  have d: "depth_ok keys deps limit depth ordered" using inv by (simp add: kahn_inv_def)
  then obtain cs where cs: "map_of depth key = Some (int (length cs) + 1)" "set cs \<subseteq> set keys"
    "dep_chain deps (cs @ [key])" using key unfolding depth_ok_def by blast
  show ?thesis
  proof (rule visit_children_accepts[OF cs(1)])
    show "distinct (sort_key orig (outgoing_of out key))" using g by (simp add: dep_graph_def)
    show "key \<notin> set (sort_key orig (outgoing_of out key))" using g key by (auto simp: dep_graph_def)
    show "\<forall>c \<in> set (sort_key orig (outgoing_of out key)). \<exists>d n. map_of depth c = Some d \<and>
        map_of indeg c = Some n \<and> max d (int (length cs) + 1 + 1) \<le> limit"
    proof
      fix c assume "c \<in> set (sort_key orig (outgoing_of out key))"
      then have c: "c \<in> set keys" "key \<in> set (deps c)" using g by (auto simp: dep_graph_def)
      have "dep_chain deps (cs @ [key, c])" by (rule dep_chain_snoc[OF cs(3) c(2)])
      then have "int (length (cs @ [key, c])) \<le> limit"
        using b[unfolded chains_bounded_def, rule_format, of "cs @ [key, c]"] cs(2) key c(1) by simp
      moreover obtain m where "map_of depth c = Some m" "m \<le> limit" using d c(1) unfolding depth_ok_def by blast
      moreover have "\<exists>n. map_of indeg c = Some n" using inv c(1) by (simp add: kahn_inv_def)
      ultimately show "\<exists>d n. map_of depth c = Some d \<and> map_of indeg c = Some n \<and>
          max d (int (length cs) + 1 + 1) \<le> limit" by auto
    qed
  qed
qed

lemma kahn_accepts:
  assumes g: "dep_graph keys deps out" and b: "chains_bounded keys deps limit"
  shows "kahn_inv keys deps orig limit st ordered \<Longrightarrow> \<exists>res. kahn orig limit out st ordered = Inr res"
  using assms
proof (induction orig limit out st ordered rule: kahn.induct)
  case (2 orig limit out indegree depth key ready ordered)
  obtain st where st: "visit_children orig limit key (sort_key orig (outgoing_of out key)) (indegree, depth, ready) = Inr st"
    using visit_children_total[OF "2.prems"(2,3,1)] by blast
  show ?case
    using "2.IH"[OF st kahn_inv_step[OF "2.prems"(2,1) st] "2.prems"(2,3)] st by simp
qed simp

lemma unfinished_chain:
  assumes g: "dep_graph keys deps out" and inv: "kahn_inv keys deps orig limit (indeg, depth, []) res"
    and k: "k \<in> set keys - set res"
  shows "\<exists>cs. length cs = n \<and> set cs \<subseteq> set keys \<and> dep_chain deps cs \<and> (cs \<noteq> [] \<longrightarrow> hd cs \<notin> set res)"
proof (induction n)
  case (Suc n)
  then obtain cs where cs: "length cs = n" "set cs \<subseteq> set keys" "dep_chain deps cs" "cs \<noteq> [] \<longrightarrow> hd cs \<notin> set res"
    by blast
  show ?case
  proof (cases cs)
    case Nil
    with cs(1) k show ?thesis by (intro exI[of _ "[k]"]) auto
  next
    case (Cons c cs')
    then have "c \<in> set keys" "c \<notin> set res" using cs by auto
    then obtain d where d: "d \<in> set (deps c)" "d \<notin> set res" using inv by (auto simp: kahn_inv_def)
    then have "d \<in> set keys" using g \<open>c \<in> set keys\<close> by (auto simp: dep_graph_def)
    with d cs Cons show ?thesis by (intro exI[of _ "d # cs"]) auto
  qed
qed simp

lemma kahn_complete:
  assumes g: "dep_graph keys deps out" and b: "chains_bounded keys deps limit"
    and inv: "kahn_inv keys deps orig limit (indeg, depth, []) res"
  shows "set res = set keys"
proof (rule ccontr)
  assume "set res \<noteq> set keys"
  then obtain k where "k \<in> set keys - set res" using inv by (auto simp: kahn_inv_def)
  from unfinished_chain[OF g inv this, of "Suc (nat limit)"] obtain cs
    where "length cs = Suc (nat limit)" "set cs \<subseteq> set keys" "dep_chain deps cs" by blast
  with b[unfolded chains_bounded_def, rule_format, of cs] show False by (simp split: if_splits)
qed

lemma depth_range:
  "depth_ok keys deps limit depth ordered \<Longrightarrow> k \<in> set keys \<Longrightarrow>
    \<exists>m. map_of depth k = Some m \<and> 1 \<le> m \<and> m \<le> limit"
  unfolding depth_ok_def by fastforce

lemma chain_depth:
  assumes d: "depth_ok keys deps limit depth ordered" "set keys \<subseteq> set ordered"
  shows "set (c # cs) \<subseteq> set keys \<Longrightarrow> dep_chain deps (c # cs) \<Longrightarrow>
    \<exists>m n. map_of depth c = Some m \<and> map_of depth (last (c # cs)) = Some n \<and> m + int (length cs) \<le> n"
proof (induction cs arbitrary: c)
  case Nil
  then show ?case using d unfolding depth_ok_def by fastforce
next
  case (Cons e cs)
  then obtain m n where m: "map_of depth e = Some m" "map_of depth (last (e # cs)) = Some n" "m + int (length cs) \<le> n"
    by fastforce
  obtain m0 where m0: "map_of depth c = Some m0" using d(1) Cons.prems(1) unfolding depth_ok_def by fastforce
  have "m0 + 1 \<le> m" using d Cons.prems m0 m(1) unfolding depth_ok_def by auto
  then show ?case using m0 m by simp
qed

lemma kahn_bounded:
  assumes inv: "kahn_inv keys deps orig limit (indeg, depth, []) res" and all: "set res = set keys"
    and "0 \<le> limit"
  shows "chains_bounded keys deps limit"
  unfolding chains_bounded_def
proof (intro allI impI)
  fix cs assume cs: "set cs \<subseteq> set keys" "dep_chain deps cs"
  have d: "depth_ok keys deps limit depth res" using inv by (simp add: kahn_inv_def)
  show "int (length cs) \<le> limit"
  proof (cases cs)
    case (Cons c cs')
    obtain m n where m: "map_of depth c = Some m" "map_of depth (last cs) = Some n" "m + int (length cs') \<le> n"
      using chain_depth[OF d, of c cs'] all cs Cons by auto
    have "c \<in> set keys" "last cs \<in> set keys" using cs(1) Cons last_in_set[of cs] by auto
    then have "1 \<le> m" "n \<le> limit" using depth_range[OF d] m(1,2) by fastforce+
    with m(3) Cons show ?thesis by simp
  qed (simp add: assms(3))
qed

section \<open>The order of a draft\<close>

text \<open>The drafts whose graph is accepted, with the dependencies read off the steps.\<close>

definition steps_ok :: "plan_draft_step list \<Rightarrow> int \<Rightarrow> int \<Rightarrow> bool" where
  "steps_ok steps max_steps max_attempts \<longleftrightarrow> int (length steps) \<le> min max_steps 20 \<and>
     distinct (map d_key steps) \<and> (\<forall>st \<in> set steps. step_accepted (map d_key steps) max_attempts st)"

lemma graph_of_empty: "graph_of keys [] \<lparr>g_outgoing = [], g_indegree = map (\<lambda>k. (k, 0)) keys\<rparr>"
  by (simp add: graph_of_def outgoing_of_def map_of_const comp_def)

lemma graph_of_dep_graph:
  assumes ok: "steps_ok steps ms ma" and g: "graph_of (map d_key steps) steps g"
  shows "dep_graph (map d_key steps) (deps_of steps) (g_outgoing g)"
proof -
  have dist: "distinct (map d_key steps)" using ok by (simp add: steps_ok_def)
  have member: "deps_of steps (d_key st) = d_depends_on st" if "st \<in> set steps" for st
    by (rule deps_of_member[OF dist that])
  have "distinct (map d_key (filter P steps))" for P
    using dist by (simp add: distinct_map_filter)
  then show ?thesis
    using ok g member unfolding dep_graph_def graph_of_def steps_ok_def step_accepted_def by auto
qed

lemma indegree_of_graph:
  assumes ok: "steps_ok steps ms ma" and g: "graph_of (map d_key steps) steps g" and k: "k \<in> set (map d_key steps)"
  shows "map_of (g_indegree g) k = Some (int (card (set (deps_of steps k))))"
proof -
  obtain st where st: "st \<in> set steps" "k = d_key st" using k by auto
  have dist: "distinct (map d_key steps)" "distinct (d_depends_on st)"
    using ok st(1) by (auto simp: steps_ok_def step_accepted_def)
  show ?thesis
    using g k indegree_sum[OF dist(1) st(1)] st deps_of_member[OF dist(1) st(1)] dist(2)
    by (simp add: graph_of_def distinct_card)
qed

lemma kahn_inv_initial:
  assumes ok: "steps_ok steps ms ma" and g: "graph_of (map d_key steps) steps g" and "1 \<le> limit"
  defines "keys \<equiv> map d_key steps"
  shows "kahn_inv keys (deps_of steps) orig limit (g_indegree g, map (\<lambda>k. (k, 1)) keys,
    sort_key orig (map fst (filter (\<lambda>kv. snd kv = 0) (g_indegree g)))) []"
proof -
  let ?ready = "map fst (filter (\<lambda>kv. snd kv = 0) (g_indegree g))"
  have ks: "map fst (g_indegree g) = keys" using g by (simp add: graph_of_def keys_def)
  have dist: "distinct keys" using ok by (simp add: steps_ok_def keys_def)
  have "k \<in> set ?ready \<longleftrightarrow> map_of (g_indegree g) k = Some 0" for k
    using map_of_eq_Some_iff[of "g_indegree g" k 0] dist ks by (force simp: image_iff)
  moreover have "map_of (g_indegree g) k = None" if "k \<notin> set keys" for k
    using that ks by (metis map_of_eq_None_iff set_map)
  moreover have ind: "map_of (g_indegree g) k = Some (int (card (set (deps_of steps k))))" if "k \<in> set keys" for k
    using indegree_of_graph[OF ok g] that by (simp add: keys_def)
  ultimately have ready: "k \<in> set ?ready \<longleftrightarrow> k \<in> set keys \<and> set (deps_of steps k) = {}" for k
    by (cases "k \<in> set keys") simp_all
  moreover have "distinct ?ready" using dist ks by (metis distinct_map_filter)
  moreover have "depth_ok keys (deps_of steps) limit (map (\<lambda>k. (k, 1)) keys) []"
    using assms(3) unfolding depth_ok_def by (auto simp: map_of_const intro: exI[of _ "[]"])
  ultimately show ?thesis using ind ready unfolding kahn_inv_def by simp blast
qed

lemma build_graph_steps:
  assumes "distinct (map d_key steps)" "int (length steps) \<le> min ms 20"
    and "build_graph (map d_key steps) ma steps \<lparr>g_outgoing = [], g_indegree = map (\<lambda>k. (k, 0)) (map d_key steps)\<rparr> = Inr g"
  shows "steps_ok steps ms ma \<and> graph_of (map d_key steps) steps g"
  using build_graph_Inr[OF assms(3) graph_of_empty] assms(1,2) by (simp add: steps_ok_def)

lemma plan_order_Inr:
  assumes "plan_order steps ms md ma = Inr ordered" "1 \<le> md"
  shows "steps_ok steps ms ma \<and> (\<exists>indeg depth out. dep_graph (map d_key steps) (deps_of steps) out \<and>
    set ordered = set (map d_key steps) \<and>
    kahn_inv (map d_key steps) (deps_of steps) (index_of (map d_key steps)) (min md 10) (indeg, depth, []) ordered)"
proof -
  let ?keys = "map d_key steps" and ?init = "\<lparr>g_outgoing = [], g_indegree = map (\<lambda>k. (k, 0)) (map d_key steps)\<rparr>"
  obtain g where s: "int (length steps) \<le> min ms 20" "distinct ?keys" and g: "build_graph ?keys ma steps ?init = Inr g"
    and k: "kahn (index_of ?keys) (min md 10) (g_outgoing g) (g_indegree g, map (\<lambda>k. (k, 1)) ?keys,
        sort_key (index_of ?keys) (map fst (filter (\<lambda>kv. snd kv = 0) (g_indegree g)))) [] = Inr ordered"
    and len: "length ordered = length ?keys"
    using assms(1) by (auto simp: plan_order_def Let_def res_simps not_less)
  note graph = build_graph_steps[OF s(2,1) g]
  then have ok: "steps_ok steps ms ma" and gr: "graph_of ?keys steps g" by auto
  note dg = graph_of_dep_graph[OF ok gr]
  obtain indeg depth where inv: "kahn_inv ?keys (deps_of steps) (index_of ?keys) (min md 10) (indeg, depth, []) ordered"
    using kahn_result[OF dg kahn_inv_initial[OF ok gr] k] assms(2) by auto
  have "set ordered = set ?keys"
    using card_subset_eq[of "set ?keys" "set ordered"] distinct_card[of ordered] distinct_card[OF s(2)] inv len
    by (simp add: kahn_inv_def)
  with ok dg inv show ?thesis by blast
qed

lemma plan_order_total:
  assumes ok: "steps_ok steps ms ma" and b: "chains_bounded (map d_key steps) (deps_of steps) (min md 10)"
    and "1 \<le> md"
  shows "\<exists>ordered. plan_order steps ms md ma = Inr ordered"
proof -
  let ?keys = "map d_key steps" and ?init = "\<lparr>g_outgoing = [], g_indegree = map (\<lambda>k. (k, 0)) (map d_key steps)\<rparr>"
  have s: "int (length steps) \<le> min ms 20" "distinct ?keys" using ok by (auto simp: steps_ok_def)
  obtain g where g: "build_graph ?keys ma steps ?init = Inr g"
    using build_graph_accepts[OF _ graph_of_empty, of steps ?keys ma] ok by (auto simp: steps_ok_def)
  then have gr: "graph_of ?keys steps g" using build_graph_steps[OF s(2,1)] by blast
  note dg = graph_of_dep_graph[OF ok gr] and init = kahn_inv_initial[OF ok gr, of "min md 10" "index_of ?keys"]
  obtain res where res: "kahn (index_of ?keys) (min md 10) (g_outgoing g) (g_indegree g, map (\<lambda>k. (k, 1)) ?keys,
        sort_key (index_of ?keys) (map fst (filter (\<lambda>kv. snd kv = 0) (g_indegree g)))) [] = Inr res"
    using kahn_accepts[OF dg b init] assms(3) by auto
  obtain indeg depth where inv: "kahn_inv ?keys (deps_of steps) (index_of ?keys) (min md 10) (indeg, depth, []) res"
    using kahn_result[OF dg init res] assms(3) by auto
  have "set res = set ?keys" by (rule kahn_complete[OF dg b inv])
  moreover have "distinct res" using inv by (simp add: kahn_inv_def)
  ultimately have "length res = length ?keys" using s(2) by (metis distinct_card)
  with s g res show ?thesis by (simp add: plan_order_def Let_def ensure_def not_less comp_def)
qed

section \<open>The reference order\<close>

text \<open>The first step of the draft that is still missing and has all its dependencies, as often as there is one.\<close>

primrec greedy_order :: "string list \<Rightarrow> (string \<Rightarrow> string list) \<Rightarrow> nat \<Rightarrow> string list \<Rightarrow> string list" where
  "greedy_order keys deps 0 ordered = ordered"
| "greedy_order keys deps (Suc n) ordered =
     (case find (\<lambda>k. k \<notin> set ordered \<and> set (deps k) \<subseteq> set ordered) keys of
       None \<Rightarrow> ordered
     | Some k \<Rightarrow> greedy_order keys deps n (ordered @ [k]))"

lemma find_first:
  assumes "k \<in> set keys" "P k" "\<forall>j \<in> set keys. P j \<longrightarrow> index_of keys k \<le> index_of keys j"
  shows "find P keys = Some k"
  using assms
proof (induction keys)
  case (Cons x keys)
  show ?case
  proof (cases "x = k")
    case True
    then show ?thesis using Cons.prems by simp
  next
    case False
    then have "\<not> P x" using Cons.prems(3) by (auto simp: index_of_def)
    moreover have "find P keys = Some k"
      using Cons False \<open>\<not> P x\<close> by (intro Cons.IH) (auto simp: index_of_def split: if_splits)
    ultimately show ?thesis by simp
  qed
qed simp

lemma kahn_inv_first:
  assumes inv: "kahn_inv keys deps (index_of keys) limit (indeg, depth, key # ready) ordered"
  shows "find (\<lambda>k. k \<notin> set ordered \<and> set (deps k) \<subseteq> set ordered) keys = Some key"
proof (rule find_first)
  show "key \<in> set keys" "key \<notin> set ordered \<and> set (deps key) \<subseteq> set ordered"
    using inv by (auto simp: kahn_inv_def)
  show "\<forall>j \<in> set keys. j \<notin> set ordered \<and> set (deps j) \<subseteq> set ordered \<longrightarrow> index_of keys key \<le> index_of keys j"
  proof (intro ballI impI)
    fix j assume "j \<in> set keys" "j \<notin> set ordered \<and> set (deps j) \<subseteq> set ordered"
    then have "j = key \<or> j \<in> set ready" using inv by (auto simp: kahn_inv_def)
    then show "index_of keys key \<le> index_of keys j" using inv by (auto simp: kahn_inv_def)
  qed
qed

lemma kahn_greedy:
  assumes g: "dep_graph keys deps out" and orig: "orig = index_of keys"
  shows "kahn_inv keys deps orig limit st ordered \<Longrightarrow> kahn orig limit out st ordered = Inr res \<Longrightarrow>
    res = greedy_order keys deps (length keys - length ordered) ordered"
  using assms
proof (induction orig limit out st ordered rule: kahn.induct)
  case (1 orig limit out indegree depth ordered)
  then have "find (\<lambda>k. k \<notin> set ordered \<and> set (deps k) \<subseteq> set ordered) keys = None"
    by (auto simp: find_None_iff kahn_inv_def)
  with 1 show ?case by (cases "length keys - length ordered") auto
next
  case (2 orig limit out indegree depth key ready ordered)
  obtain st where st: "visit_children orig limit key (sort_key orig (outgoing_of out key)) (indegree, depth, ready) = Inr st"
    "kahn orig limit out st (ordered @ [key]) = Inr res" using "2.prems"(2) by (auto simp: res_simps)
  have rec: "res = greedy_order keys deps (length keys - length (ordered @ [key])) (ordered @ [key])"
    using "2.IH"[OF st(1) kahn_inv_step[OF "2.prems"(3,1) st(1)] st(2) "2.prems"(3,4)] .
  have "length (ordered @ [key]) \<le> length keys"
    using "2.prems"(1) card_mono[of "set keys" "set (ordered @ [key])"] card_length[of keys]
      distinct_card[of "ordered @ [key]"] by (simp add: kahn_inv_def)
  then obtain n where "length keys - length ordered = Suc n" "n = length keys - length (ordered @ [key])"
    by (cases "length keys - length ordered") auto
  with rec kahn_inv_first[OF "2.prems"(1)[unfolded "2.prems"(4)]] show ?case by simp
qed

lemma plan_order_greedy:
  assumes "plan_order steps ms md ma = Inr ordered" "1 \<le> md"
  shows "ordered = greedy_order (map d_key steps) (deps_of steps) (length steps) []"
proof -
  let ?keys = "map d_key steps" and ?init = "\<lparr>g_outgoing = [], g_indegree = map (\<lambda>k. (k, 0)) (map d_key steps)\<rparr>"
  obtain g where s: "int (length steps) \<le> min ms 20" "distinct ?keys" and g: "build_graph ?keys ma steps ?init = Inr g"
    and k: "kahn (index_of ?keys) (min md 10) (g_outgoing g) (g_indegree g, map (\<lambda>k. (k, 1)) ?keys,
        sort_key (index_of ?keys) (map fst (filter (\<lambda>kv. snd kv = 0) (g_indegree g)))) [] = Inr ordered"
    using assms(1) by (auto simp: plan_order_def Let_def res_simps not_less)
  from build_graph_steps[OF s(2,1) g] have ok: "steps_ok steps ms ma" and gr: "graph_of ?keys steps g" by auto
  show ?thesis
    using kahn_greedy[OF graph_of_dep_graph[OF ok gr] refl kahn_inv_initial[OF ok gr] k] assms(2) by simp
qed

text \<open>A draft that already respects its dependencies keeps its order.\<close>

lemma greedy_order_sorted:
  assumes "distinct keys" "\<forall>i < length keys. set (deps (keys ! i)) \<subseteq> set (take i keys)"
  shows "i + n \<le> length keys \<Longrightarrow> greedy_order keys deps n (take i keys) = take (i + n) keys"
proof (induction n arbitrary: i)
  case (Suc n)
  then have i: "i < length keys" by simp
  have "find (\<lambda>k. k \<notin> set (take i keys) \<and> set (deps k) \<subseteq> set (take i keys)) keys = Some (keys ! i)"
  proof (rule find_first)
    have "keys ! i \<notin> set (take i keys)"
      using assms(1) i by (auto simp: in_set_conv_nth nth_eq_iff_index_eq)
    then show "keys ! i \<in> set keys" "keys ! i \<notin> set (take i keys) \<and> set (deps (keys ! i)) \<subseteq> set (take i keys)"
      using i assms(2) by auto
    show "\<forall>j \<in> set keys. j \<notin> set (take i keys) \<and> set (deps j) \<subseteq> set (take i keys) \<longrightarrow>
        index_of keys (keys ! i) \<le> index_of keys j"
    proof (intro ballI impI)
      fix j assume j: "j \<in> set keys" "j \<notin> set (take i keys) \<and> set (deps j) \<subseteq> set (take i keys)"
      then have "\<not> index_of keys j < i"
        using index_of_less[OF j(1)] by (metis in_set_conv_nth length_take min_less_iff_conj nth_take)
      then show "index_of keys (keys ! i) \<le> index_of keys j" using index_of_nth[OF assms(1) i] by simp
    qed
  qed
  then show ?case using Suc.IH[of "Suc i"] Suc.prems i by (simp add: take_Suc_conv_app_nth)
qed simp

end
