(* ===== verification/Plan_Drafts.thy ===== *)
theory Plan_Drafts
  imports Plan_Order
begin

text \<open>
  What validation gives: the exact condition for a draft to be accepted, and what the returned plan looks
  like. The steps come in the order of the reference procedure \<open>draft_order\<close>, numbered and executable
  front to back, and validating the result again changes nothing.
\<close>

section \<open>The validated plan\<close>

lemma concat_map_single: "(\<And>x. x \<in> set xs \<Longrightarrow> f x = [g x]) \<Longrightarrow> concat (map f xs) = map g xs"
  by (induction xs) auto

lemma step_of_SomeD: "step_of steps k = Some st \<Longrightarrow> st \<in> set steps \<and> d_key st = k"
  unfolding step_of_def by (auto dest!: map_of_SomeD)

lemma step_of_key: "k \<in> set (map d_key steps) \<Longrightarrow> \<exists>st. step_of steps k = Some st"
  using map_of_eq_None_iff[of "map (\<lambda>st. (d_key st, st)) steps" k]
  unfolding step_of_def by (cases "map_of (map (\<lambda>st. (d_key st, st)) steps) k") (auto simp: comp_def image_iff)

lemma canonical_steps:
  assumes "set ordered \<subseteq> set (map d_key (pd_steps draft))"
  shows "vp_steps (canonical_plan draft ordered) =
    map (\<lambda>(i, k). validated_step (the (step_of (pd_steps draft) k)) ordered (int i)) (enumerate 1 ordered)"
proof -
  have "(case step_of (pd_steps draft) k of None \<Rightarrow> [] | Some st \<Rightarrow> [validated_step st ordered (int i)]) =
      [validated_step (the (step_of (pd_steps draft) k)) ordered (int i)]" if "(i, k) \<in> set (enumerate 1 ordered)" for i k
  proof -
    have "k \<in> set ordered" using that by (auto simp: in_set_enumerate_eq)
    then obtain st where "step_of (pd_steps draft) k = Some st" using assms step_of_key by blast
    then show ?thesis by simp
  qed
  then show ?thesis unfolding canonical_plan_def by (auto intro!: concat_map_single)
qed

lemma canonical_step_nth:
  assumes "set ordered \<subseteq> set (map d_key (pd_steps draft))" "i < length ordered"
  shows "\<exists>st. step_of (pd_steps draft) (ordered ! i) = Some st \<and> st \<in> set (pd_steps draft) \<and> d_key st = ordered ! i \<and>
    vp_steps (canonical_plan draft ordered) ! i = validated_step st ordered (int i + 1)"
proof -
  have "ordered ! i \<in> set (map d_key (pd_steps draft))" using assms nth_mem by blast
  then obtain st where "step_of (pd_steps draft) (ordered ! i) = Some st" using step_of_key by blast
  then show ?thesis
    using assms(2) step_of_SomeD by (auto simp: canonical_steps[OF assms(1)] nth_enumerate_eq add.commute)
qed

lemma canonical_keys:
  assumes "set ordered \<subseteq> set (map d_key (pd_steps draft))"
  shows "map d_key (vp_steps (canonical_plan draft ordered)) = ordered"
proof (rule nth_equalityI)
  show len: "length (map d_key (vp_steps (canonical_plan draft ordered))) = length ordered"
    by (simp add: canonical_steps[OF assms])
  fix i assume "i < length (map d_key (vp_steps (canonical_plan draft ordered)))"
  with len canonical_step_nth[OF assms, of i] show "map d_key (vp_steps (canonical_plan draft ordered)) ! i = ordered ! i"
    by (auto simp: validated_step_def)
qed

lemma validate_plan_draft_Inr:
  assumes "validate_plan_draft sk sv draft ms md ma mb = Inr v"
  shows "0 < ms \<and> 0 < md \<and> 0 < ma \<and> 0 < mb \<and> (\<exists>ordered. plan_order (pd_steps draft) ms md ma = Inr ordered \<and>
    v = canonical_plan draft ordered \<and> reject_credentials sk sv (plan_json v) = Inr () \<and>
    int (length (canonical_plan_bytes v)) \<le> min mb MAX_PLAN_CONTENT_BYTES)"
  using assms by (auto simp: validate_plan_draft_def require_positive_def Let_def res_simps not_less)

text \<open>The conditions a draft has to meet, stated on its steps.\<close>

definition draft_keys :: "plan_draft \<Rightarrow> string list" where
  "draft_keys draft = map d_key (pd_steps draft)"

definition draft_order :: "plan_draft \<Rightarrow> string list" where
  "draft_order draft = greedy_order (draft_keys draft) (deps_of (pd_steps draft)) (length (draft_keys draft)) []"

definition content_ok :: "(string \<Rightarrow> bool) \<Rightarrow> (string \<Rightarrow> bool) \<Rightarrow> validated_plan \<Rightarrow> int \<Rightarrow> bool" where
  "content_ok secret_key secret_value v max_bytes \<longleftrightarrow>
     reject_credentials secret_key secret_value (plan_json v) = Inr () \<and>
     int (length (canonical_plan_bytes v)) \<le> min max_bytes 262144"

lemma validate_plan_draft_iff:
  assumes "0 < ms" "0 < md" "0 < ma" "0 < mb"
  shows "validate_plan_draft sk sv draft ms md ma mb = Inr v \<longleftrightarrow>
    steps_ok (pd_steps draft) ms ma \<and> chains_bounded (draft_keys draft) (deps_of (pd_steps draft)) (min md 10) \<and>
    v = canonical_plan draft (draft_order draft) \<and> content_ok sk sv v mb"
proof
  assume "validate_plan_draft sk sv draft ms md ma mb = Inr v"
  then obtain ordered where o: "plan_order (pd_steps draft) ms md ma = Inr ordered"
      "v = canonical_plan draft ordered" "content_ok sk sv v mb"
    using validate_plan_draft_Inr unfolding content_ok_def MAX_PLAN_CONTENT_BYTES_def by blast
  have md: "1 \<le> md" using assms(2) by simp
  obtain indeg depth where k: "steps_ok (pd_steps draft) ms ma" "set ordered = set (draft_keys draft)"
      "kahn_inv (draft_keys draft) (deps_of (pd_steps draft)) (index_of (draft_keys draft)) (min md 10) (indeg, depth, []) ordered"
    using plan_order_Inr[OF o(1) md] unfolding draft_keys_def by blast
  have "chains_bounded (draft_keys draft) (deps_of (pd_steps draft)) (min md 10)"
    using kahn_bounded[OF k(3,2)] assms(2) by simp
  with k(1) o plan_order_greedy[OF o(1) md]
  show "steps_ok (pd_steps draft) ms ma \<and> chains_bounded (draft_keys draft) (deps_of (pd_steps draft)) (min md 10) \<and>
    v = canonical_plan draft (draft_order draft) \<and> content_ok sk sv v mb"
    by (simp add: draft_order_def draft_keys_def)
next
  assume a: "steps_ok (pd_steps draft) ms ma \<and> chains_bounded (draft_keys draft) (deps_of (pd_steps draft)) (min md 10) \<and>
    v = canonical_plan draft (draft_order draft) \<and> content_ok sk sv v mb"
  have md: "1 \<le> md" using assms(2) by simp
  obtain ordered where o: "plan_order (pd_steps draft) ms md ma = Inr ordered"
    using plan_order_total[OF _ _ md] a unfolding draft_keys_def by blast
  then have "ordered = draft_order draft"
    using plan_order_greedy[OF o md] by (simp add: draft_order_def draft_keys_def)
  moreover have "v = canonical_plan draft (draft_order draft)" "content_ok sk sv v mb" using a by auto
  ultimately show "validate_plan_draft sk sv draft ms md ma mb = Inr v"
    using o assms by (simp add: validate_plan_draft_def require_positive_def content_ok_def Let_def
        MAX_PLAN_CONTENT_BYTES_def res_simps not_less)
qed

lemma draft_order_facts:
  assumes "steps_ok (pd_steps draft) ms ma" "0 < md"
    and "chains_bounded (draft_keys draft) (deps_of (pd_steps draft)) (min md 10)"
  shows "distinct (draft_order draft) \<and> set (draft_order draft) = set (draft_keys draft) \<and>
    (\<forall>i < length (draft_order draft). set (deps_of (pd_steps draft) (draft_order draft ! i)) \<subseteq> set (take i (draft_order draft)))"
proof -
  obtain ordered where o: "plan_order (pd_steps draft) ms md ma = Inr ordered"
    using plan_order_total[OF assms(1) assms(3)[unfolded draft_keys_def]] assms(2) by auto
  then have "ordered = draft_order draft"
    using plan_order_greedy[OF o] assms(2) by (simp add: draft_order_def draft_keys_def)
  with plan_order_Inr[OF o] assms(2) show ?thesis by (auto simp: kahn_inv_def draft_keys_def)
qed

lemma validated_step_facts:
  assumes ok: "steps_ok (pd_steps draft) ms ma" "0 < md"
    and b: "chains_bounded (draft_keys draft) (deps_of (pd_steps draft)) (min md 10)"
    and i: "i < length (draft_order draft)"
  defines "v \<equiv> canonical_plan draft (draft_order draft)"
  shows "\<exists>st \<in> set (pd_steps draft). vp_steps v ! i = validated_step st (draft_order draft) (int i + 1) \<and>
    d_key st = draft_order draft ! i \<and> set (d_depends_on st) \<subseteq> set (take i (draft_order draft))"
proof -
  note f = draft_order_facts[OF ok b]
  then have "set (draft_order draft) \<subseteq> set (map d_key (pd_steps draft))" by (simp add: draft_keys_def)
  from canonical_step_nth[OF this i] obtain st where st: "st \<in> set (pd_steps draft)"
    "d_key st = draft_order draft ! i" "vp_steps v ! i = validated_step st (draft_order draft) (int i + 1)"
    unfolding v_def by auto
  have "deps_of (pd_steps draft) (draft_order draft ! i) = d_depends_on st"
    using deps_of_member[OF _ st(1)] ok(1) st(2) by (simp add: steps_ok_def)
  then have "set (d_depends_on st) \<subseteq> set (take i (draft_order draft))" using f i by metis
  with st show ?thesis by blast
qed

text \<open>The plan as a draft again: the ordinals are dropped.\<close>

definition as_draft :: "validated_plan \<Rightarrow> plan_draft" where
  "as_draft v = \<lparr>pd_objective = vp_objective v, pd_constraints = vp_constraints v,
     pd_generation_reason = vp_generation_reason v, pd_steps = map plan_draft_step.truncate (vp_steps v)\<rparr>"

definition sample_plan_step :: "string \<Rightarrow> string list \<Rightarrow> plan_draft_step" where
  "sample_plan_step k ds = \<lparr>d_key = k, d_title = ''t'', d_description = ''d'', d_expected_outcome = ''o'',
     d_depends_on = ds, d_max_attempts = 2\<rparr>"

definition sample_draft :: plan_draft where
  "sample_draft = \<lparr>pd_objective = ''goal'', pd_constraints = [], pd_generation_reason = ''new'',
     pd_steps = [sample_plan_step ''c'' [''b'', ''a''], sample_plan_step ''b'' [''a''], sample_plan_step ''a'' []]\<rparr>"

definition sample_validated :: validated_plan where
  "sample_validated = canonical_plan sample_draft [''a'', ''b'', ''c'']"

lemma sample_order: "plan_order (pd_steps sample_draft) 20 10 3 = Inr [''a'', ''b'', ''c'']"
  by code_simp

lemma sample_size: "length (canonical_plan_bytes sample_validated) \<le> 4000"
  by code_simp

lemma sample_no_credentials: "reject_credentials (\<lambda>_. False) (\<lambda>_. False) (plan_json sample_validated) = Inr ()"
  by code_simp

lemma sample_validated_accepted:
  "validate_plan_draft (\<lambda>_. False) (\<lambda>_. False) sample_draft 20 10 3 4000 = Inr sample_validated"
  using sample_size sample_no_credentials
  by (simp add: validate_plan_draft_def require_positive_def sample_order Let_def
      sample_validated_def[symmetric] MAX_PLAN_CONTENT_BYTES_def res_simps)

lemma sample_draft_order: "draft_order sample_draft = [''a'', ''b'', ''c'']"
  by code_simp

lemma sample_validated_length: "length (vp_steps sample_validated) = 3"
  by code_simp

section \<open>Validating again\<close>

lemma dep_chain_cong:
  "(\<And>k. k \<in> set cs \<Longrightarrow> set (deps k) = set (deps' k)) \<Longrightarrow> dep_chain deps cs = dep_chain deps' cs"
  by (induction deps cs rule: dep_chain.induct) auto

lemma chains_bounded_cong:
  assumes "set keys = set keys'" "\<And>k. k \<in> set keys \<Longrightarrow> set (deps k) = set (deps' k)"
  shows "chains_bounded keys deps limit = chains_bounded keys' deps' limit"
  using assms(1) dep_chain_cong[of _ deps deps'] assms(2) unfolding chains_bounded_def
  by (metis subset_iff)

lemma sort_key_sort_key: "sort_key f (sort_key f xs) = sort_key f xs"
  by (rule properties_for_sort_key) simp_all

lemma validated_step_again:
  "validated_step (plan_draft_step.truncate (validated_step st ordered i)) ordered i = validated_step st ordered i"
  by (simp add: validated_step_def plan_draft_step.defs sort_key_sort_key)

text \<open>An accepted draft with the facts about its plan.\<close>

lemma accepted_plan:
  assumes "validate_plan_draft sk sv draft ms md ma mb = Inr v"
  shows "v = canonical_plan draft (draft_order draft)"
proof -
  have pos: "0 < ms" "0 < md" "0 < ma" "0 < mb" using validate_plan_draft_Inr[OF assms] by auto
  show ?thesis using validate_plan_draft_iff[OF pos, THEN iffD1, OF assms] by blast
qed

lemma accepted_facts:
  assumes "validate_plan_draft sk sv draft ms md ma mb = Inr v"
  shows "0 < ms \<and> 0 < md \<and> 0 < ma \<and> 0 < mb \<and> steps_ok (pd_steps draft) ms ma \<and>
    chains_bounded (draft_keys draft) (deps_of (pd_steps draft)) (min md 10) \<and> content_ok sk sv v mb \<and>
    map d_key (vp_steps v) = draft_order draft \<and> length (draft_order draft) = length (pd_steps draft) \<and>
    distinct (draft_order draft) \<and> set (draft_order draft) = set (draft_keys draft)"
proof -
  have pos: "0 < ms" "0 < md" "0 < ma" "0 < mb" using validate_plan_draft_Inr[OF assms] by auto
  have a: "steps_ok (pd_steps draft) ms ma" "content_ok sk sv v mb"
      "chains_bounded (draft_keys draft) (deps_of (pd_steps draft)) (min md 10)"
    using validate_plan_draft_iff[OF pos, THEN iffD1, OF assms] by blast+
  have f: "distinct (draft_order draft)" "set (draft_order draft) = set (draft_keys draft)"
    using draft_order_facts[OF a(1) pos(2) a(3)] by auto
  have "length (draft_order draft) = length (pd_steps draft)"
    using f a distinct_card[of "draft_order draft"] distinct_card[of "draft_keys draft"]
    by (simp add: steps_ok_def draft_keys_def)
  moreover have "map d_key (vp_steps v) = draft_order draft"
    using canonical_keys[of "draft_order draft" draft] f(2) accepted_plan[OF assms] by (simp add: draft_keys_def)
  ultimately show ?thesis using pos a f by blast
qed

lemma accepted_step:
  assumes "validate_plan_draft sk sv draft ms md ma mb = Inr v" "i < length (vp_steps v)"
  shows "\<exists>st \<in> set (pd_steps draft). vp_steps v ! i = validated_step st (draft_order draft) (int i + 1) \<and>
    d_key st = draft_order draft ! i \<and> set (d_depends_on st) \<subseteq> set (take i (draft_order draft)) \<and>
    d_depends_on st = deps_of (pd_steps draft) (draft_order draft ! i) \<and> step_accepted (draft_keys draft) ma st"
proof -
  note a = accepted_facts[OF assms(1)]
  have "length (vp_steps v) = length (draft_order draft)" using a by (metis length_map)
  with assms(2) a obtain st where st: "st \<in> set (pd_steps draft)"
    "vp_steps v ! i = validated_step st (draft_order draft) (int i + 1)"
    "d_key st = draft_order draft ! i" "set (d_depends_on st) \<subseteq> set (take i (draft_order draft))"
    using validated_step_facts[of draft ms ma md i] accepted_plan[OF assms(1)] by auto
  have "d_depends_on st = deps_of (pd_steps draft) (draft_order draft ! i)"
    using deps_of_member[OF _ st(1)] a st(3) by (simp add: steps_ok_def)
  moreover have "step_accepted (draft_keys draft) ma st" using a st(1) by (simp add: steps_ok_def draft_keys_def)
  ultimately show ?thesis using st by blast
qed

lemma as_draft_keys: "draft_keys (as_draft v) = map d_key (vp_steps v)"
  by (simp add: draft_keys_def as_draft_def comp_def plan_draft_step.defs)

lemma as_draft_deps:
  assumes v: "validate_plan_draft sk sv draft ms md ma mb = Inr v" and k: "k \<in> set (draft_order draft)"
  shows "deps_of (pd_steps (as_draft v)) k = sort_key (index_of (draft_order draft)) (deps_of (pd_steps draft) k)"
proof -
  note a = accepted_facts[OF v]
  then have keys: "map d_key (vp_steps v) = draft_order draft" by blast
  then obtain i where i: "i < length (vp_steps v)" "k = draft_order draft ! i"
    using k by (metis in_set_conv_nth length_map)
  obtain st where st: "vp_steps v ! i = validated_step st (draft_order draft) (int i + 1)"
      "d_key st = draft_order draft ! i" "d_depends_on st = deps_of (pd_steps draft) (draft_order draft ! i)"
    using accepted_step[OF v i(1)] by blast
  let ?st = "plan_draft_step.truncate (vp_steps v ! i)"
  have "?st \<in> set (pd_steps (as_draft v))" using i(1) by (simp add: as_draft_def)
  moreover have "distinct (map d_key (pd_steps (as_draft v)))"
    using as_draft_keys[of v] keys a by (simp add: draft_keys_def)
  ultimately have "deps_of (pd_steps (as_draft v)) (d_key ?st) = d_depends_on ?st" by (rule deps_of_member[rotated])
  with st i(2) show ?thesis by (simp add: validated_step_def plan_draft_step.defs)
qed

lemma as_draft_order:
  assumes v: "validate_plan_draft sk sv draft ms md ma mb = Inr v"
  shows "draft_order (as_draft v) = draft_order draft"
proof -
  note a = accepted_facts[OF v]
  then have keys: "draft_keys (as_draft v) = draft_order draft" using as_draft_keys by metis
  have "set (deps_of (pd_steps (as_draft v)) (draft_order draft ! i)) \<subseteq> set (take i (draft_order draft))"
    if i: "i < length (draft_order draft)" for i
    using as_draft_deps[OF v nth_mem[OF i]] accepted_step[OF v, of i] i a
    by (metis length_map set_sort)
  then show ?thesis
    using greedy_order_sorted[of "draft_order draft" "deps_of (pd_steps (as_draft v))" 0 "length (draft_order draft)"] a keys
    by (simp add: draft_order_def)
qed

lemma as_draft_steps_ok:
  assumes v: "validate_plan_draft sk sv draft ms md ma mb = Inr v"
  shows "steps_ok (pd_steps (as_draft v)) ms ma"
proof -
  note a = accepted_facts[OF v]
  then have keys: "map d_key (pd_steps (as_draft v)) = draft_order draft"
    using as_draft_keys[of v] by (simp add: draft_keys_def)
  then have "length (pd_steps (as_draft v)) = length (pd_steps draft)" using a by (metis length_map)
  moreover have "step_accepted (draft_order draft) ma (plan_draft_step.truncate (vp_steps v ! i))"
    if i: "i < length (vp_steps v)" for i
    using accepted_step[OF v i] a
    by (auto simp: step_accepted_def validated_step_def plan_draft_step.defs)
  ultimately show ?thesis
    using keys a by (auto simp: steps_ok_def as_draft_def in_set_conv_nth)
qed

lemma as_draft_step:
  assumes v: "validate_plan_draft sk sv draft ms md ma mb = Inr v" and i: "i < length (draft_order draft)"
  shows "vp_steps (canonical_plan (as_draft v) (draft_order draft)) ! i = vp_steps v ! i"
proof -
  note a = accepted_facts[OF v]
  then have keys: "map d_key (pd_steps (as_draft v)) = draft_order draft"
    using as_draft_keys[of v] by (simp add: draft_keys_def)
  have len: "length (vp_steps v) = length (draft_order draft)" using a by (metis length_map)
  obtain st where st: "vp_steps v ! i = validated_step st (draft_order draft) (int i + 1)"
      "d_key st = draft_order draft ! i" using accepted_step[OF v, of i] i len by auto
  let ?st = "plan_draft_step.truncate (vp_steps v ! i)"
  have mem: "?st \<in> set (pd_steps (as_draft v))" using i len by (simp add: as_draft_def)
  have "d_key ?st = draft_order draft ! i" using st by (simp add: validated_step_def plan_draft_step.defs)
  then have "step_of (pd_steps (as_draft v)) (draft_order draft ! i) = Some ?st"
    using step_of_member[OF _ mem] keys a by simp
  moreover have "set (draft_order draft) \<subseteq> set (map d_key (pd_steps (as_draft v)))" using keys by simp
  ultimately have "vp_steps (canonical_plan (as_draft v) (draft_order draft)) ! i =
      validated_step ?st (draft_order draft) (int i + 1)"
    using canonical_step_nth[OF _ i, of "as_draft v"] by auto
  with st(1) show ?thesis by (simp add: validated_step_again)
qed

lemma as_draft_canonical:
  assumes v: "validate_plan_draft sk sv draft ms md ma mb = Inr v"
  shows "v = canonical_plan (as_draft v) (draft_order draft)"
proof -
  note a = accepted_facts[OF v]
  then have keys: "map d_key (pd_steps (as_draft v)) = draft_order draft"
    using as_draft_keys[of v] by (simp add: draft_keys_def)
  have sub: "set (draft_order draft) \<subseteq> set (map d_key (pd_steps (as_draft v)))" using keys by simp
  have len: "length (vp_steps v) = length (draft_order draft)" using a by (metis length_map)
  have steps: "vp_steps (canonical_plan (as_draft v) (draft_order draft)) = vp_steps v"
  proof (rule nth_equalityI)
    show "length (vp_steps (canonical_plan (as_draft v) (draft_order draft))) = length (vp_steps v)"
      using canonical_keys[OF sub] len by (metis length_map)
    then show "vp_steps (canonical_plan (as_draft v) (draft_order draft)) ! i = vp_steps v ! i"
      if "i < length (vp_steps (canonical_plan (as_draft v) (draft_order draft)))" for i
      using that len as_draft_step[OF v, of i] by simp
  qed
  have "vp_objective v = pd_objective draft" "vp_constraints v = pd_constraints draft"
    "vp_generation_reason v = pd_generation_reason draft"
    using accepted_plan[OF v] by (simp_all add: canonical_plan_def)
  then show ?thesis
    using steps by (intro validated_plan.equality) (simp_all add: canonical_plan_def as_draft_def)
qed

text \<open>The plan passes under any limits that are not stricter.\<close>

lemma revalidates:
  assumes v: "validate_plan_draft sk sv draft ms md ma mb = Inr v"
    and ok: "steps_ok (pd_steps (as_draft v)) ms' ma'" and pos: "0 < ms'" "0 < ma'"
    and le: "min md 10 \<le> min md' 10" "mb \<le> mb'"
  shows "validate_plan_draft sk sv (as_draft v) ms' md' ma' mb' = Inr v"
proof -
  note a = accepted_facts[OF v]
  then have keys: "draft_keys (as_draft v) = draft_order draft" using as_draft_keys by metis
  let ?deps = "deps_of (pd_steps (as_draft v))"
  have deps: "set (?deps k) = set (deps_of (pd_steps draft) k)" if "k \<in> set (draft_order draft)" for k
    using as_draft_deps[OF v that] by simp
  have "chains_bounded (draft_keys (as_draft v)) ?deps (min md 10)"
    using a chains_bounded_cong[of "draft_order draft" "draft_keys draft" ?deps] deps keys by metis
  then have b: "chains_bounded (draft_keys (as_draft v)) ?deps (min md' 10)"
    using le(1) unfolding chains_bounded_def by (meson order_trans)
  have p: "0 < md'" "0 < mb'" using a le by auto
  have c: "content_ok sk sv v mb'" using a le(2) by (simp add: content_ok_def)
  have "v = canonical_plan (as_draft v) (draft_order (as_draft v))"
    using as_draft_canonical[OF v] as_draft_order[OF v] by simp
  with ok b c show ?thesis using validate_plan_draft_iff[OF pos(1) p(1) pos(2) p(2)] by blast
qed

lemma validated_typed:
  assumes "plan_draft_ok draft" and v: "validate_plan_draft sk sv draft ms md ma mb = Inr v"
  shows "validated_plan_ok v"
proof -
  note a = accepted_facts[OF assms(2)]
  then have len: "length (vp_steps v) = length (pd_steps draft)" by (metis length_map)
  have v: "v = canonical_plan draft (draft_order draft)" by (rule accepted_plan[OF assms(2)])
  have "step_fields_ok (vp_steps v ! i) \<and> 1 \<le> d_ordinal (vp_steps v ! i) \<and> d_ordinal (vp_steps v ! i) \<le> 20"
    if i: "i < length (vp_steps v)" for i
  proof -
    obtain st where st: "st \<in> set (pd_steps draft)" "vp_steps v ! i = validated_step st (draft_order draft) (int i + 1)"
      using accepted_step[OF assms(2) i] by blast
    have "step_fields_ok st" "length (pd_steps draft) \<le> 20"
      using assms(1) st(1) by (simp_all add: plan_draft_ok_def list_all_iff)
    then show ?thesis using st(2) i len by (simp add: validated_step_def step_fields_ok_def)
  qed
  then have "list_all (\<lambda>st. step_fields_ok st \<and> 1 \<le> d_ordinal st \<and> d_ordinal st \<le> 20) (vp_steps v)"
    by (simp add: list_all_length)
  moreover have "vp_objective v = pd_objective draft" "vp_constraints v = pd_constraints draft"
    "vp_generation_reason v = pd_generation_reason draft" unfolding v by (simp_all add: canonical_plan_def)
  ultimately show ?thesis using assms(1) len by (simp add: plan_draft_ok_def validated_plan_ok_def)
qed

lemma as_draft_ok: "validated_plan_ok v \<Longrightarrow> plan_draft_ok (as_draft v)"
  by (auto simp: validated_plan_ok_def plan_draft_ok_def as_draft_def list_all_iff step_fields_ok_def plan_draft_step.defs)

section \<open>Properties\<close>

text \<open>
  C28. Which drafts are accepted. With positive limits, a draft passes validation exactly when it has at
  most \<open>min max_steps 20\<close> steps with distinct keys, every step names existing, distinct, other steps as its
  dependencies and stays within the attempt limit, no chain of dependencies is longer than
  \<open>min max_depth 10\<close> (so there is no cycle either), no text of the plan looks like a credential and the
  canonical encoding fits the byte limit. The loop over the ready list always ends with that answer.
\<close>
theorem plan_draft_accepted_iff:
  assumes "0 < max_steps" "0 < max_depth" "0 < max_attempts" "0 < max_bytes"
  shows "(\<exists>v. validate_plan_draft secret_key secret_value draft max_steps max_depth max_attempts max_bytes = Inr v) \<longleftrightarrow>
    steps_ok (pd_steps draft) max_steps max_attempts \<and>
    chains_bounded (draft_keys draft) (deps_of (pd_steps draft)) (min max_depth 10) \<and>
    content_ok secret_key secret_value (canonical_plan draft (draft_order draft)) max_bytes"
  by (simp add: validate_plan_draft_iff[OF assms])

theorem plan_draft_accepted_iff_witness:
  "steps_ok (pd_steps sample_draft) 20 3 \<and>
   chains_bounded (draft_keys sample_draft) (deps_of (pd_steps sample_draft)) (min 10 10) \<and>
   content_ok (\<lambda>_. False) (\<lambda>_. False) (canonical_plan sample_draft (draft_order sample_draft)) 4000"
  using plan_draft_accepted_iff[of 20 10 3 4000 "\<lambda>_. False" "\<lambda>_. False" sample_draft] sample_validated_accepted
  by simp

text \<open>
  C29. The steps of a validated plan are those of the draft in the order a simple reference procedure
  gives: repeatedly the first step of the draft that is not yet taken and whose dependencies all are.
  The indegree counters, the depth table and the incrementally sorted ready list compute this order.
\<close>
theorem validated_order_is_greedy:
  assumes "validate_plan_draft secret_key secret_value draft max_steps max_depth max_attempts max_bytes = Inr v"
  shows "map d_key (vp_steps v) = draft_order draft"
  using accepted_facts[OF assms] by blast

theorem validated_order_is_greedy_witness:
  "map d_key (vp_steps sample_validated) = draft_order sample_draft \<and> draft_order sample_draft = [''a'', ''b'', ''c'']"
  using validated_order_is_greedy[OF sample_validated_accepted] sample_draft_order by simp

text \<open>
  C30. A validated plan can be executed front to back: its steps are numbered 1, 2, 3, ... in order, they
  are the steps of the draft, each exactly once and with unchanged contents, every dependency of a step
  is one of the steps before it, the dependencies are listed by ordinal, and no chain of dependencies
  has more than \<open>min max_depth 10\<close> steps.
\<close>
theorem validated_plan_executable:
  assumes "validate_plan_draft secret_key secret_value draft max_steps max_depth max_attempts max_bytes = Inr v"
  shows "mset (map d_key (vp_steps v)) = mset (map d_key (pd_steps draft)) \<and>
    chains_bounded (map d_key (vp_steps v)) (deps_of (pd_steps draft)) (min max_depth 10) \<and>
    (\<forall>i < length (vp_steps v).
       d_ordinal (vp_steps v ! i) = int i + 1 \<and>
       set (d_depends_on (vp_steps v ! i)) \<subseteq> set (map d_key (take i (vp_steps v))) \<and>
       sorted (map (index_of (map d_key (vp_steps v))) (d_depends_on (vp_steps v ! i))) \<and>
       (\<exists>st \<in> set (pd_steps draft). d_key st = d_key (vp_steps v ! i) \<and> d_title st = d_title (vp_steps v ! i) \<and>
          d_description st = d_description (vp_steps v ! i) \<and>
          d_expected_outcome st = d_expected_outcome (vp_steps v ! i) \<and>
          d_max_attempts st = d_max_attempts (vp_steps v ! i) \<and>
          mset (d_depends_on st) = mset (d_depends_on (vp_steps v ! i))))"
proof -
  note a = accepted_facts[OF assms]
  then have keys: "map d_key (vp_steps v) = draft_order draft" by blast
  have "distinct (draft_keys draft)" using a by (simp add: steps_ok_def draft_keys_def)
  then have perm: "mset (draft_order draft) = mset (draft_keys draft)" using a set_eq_iff_mset_eq_distinct by blast
  have "d_ordinal (vp_steps v ! i) = int i + 1 \<and>
       set (d_depends_on (vp_steps v ! i)) \<subseteq> set (take i (draft_order draft)) \<and>
       sorted (map (index_of (draft_order draft)) (d_depends_on (vp_steps v ! i))) \<and>
       (\<exists>st \<in> set (pd_steps draft). d_key st = d_key (vp_steps v ! i) \<and> d_title st = d_title (vp_steps v ! i) \<and>
          d_description st = d_description (vp_steps v ! i) \<and>
          d_expected_outcome st = d_expected_outcome (vp_steps v ! i) \<and>
          d_max_attempts st = d_max_attempts (vp_steps v ! i) \<and>
          mset (d_depends_on st) = mset (d_depends_on (vp_steps v ! i)))" if i: "i < length (vp_steps v)" for i
  proof -
    obtain st where st: "st \<in> set (pd_steps draft)" "vp_steps v ! i = validated_step st (draft_order draft) (int i + 1)"
      "set (d_depends_on st) \<subseteq> set (take i (draft_order draft))"
      using accepted_step[OF assms i] by blast
    then show ?thesis by (auto simp: validated_step_def intro!: bexI[OF _ st(1)])
  qed
  moreover have "chains_bounded (draft_order draft) (deps_of (pd_steps draft)) (min max_depth 10)"
    using a unfolding chains_bounded_def by metis
  ultimately show ?thesis using perm keys by (simp add: take_map[symmetric] draft_keys_def)
qed

theorem validated_plan_executable_witness:
  "mset (map d_key (vp_steps sample_validated)) = mset (map d_key (pd_steps sample_draft)) \<and>
   d_ordinal (vp_steps sample_validated ! 2) = 3 \<and>
   set (d_depends_on (vp_steps sample_validated ! 2)) \<subseteq> set (map d_key (take 2 (vp_steps sample_validated)))"
  using validated_plan_executable[OF sample_validated_accepted] sample_validated_length by simp

text \<open>
  C35. Field constraints survive validation. A draft that satisfies the length and range constraints of
  its class yields a plan that satisfies the constraints of \<open>ValidatedPlanDraft\<close>, ordinals included, so
  the constructor calls at the end of the validation cannot fail.
\<close>
theorem validated_plan_well_typed:
  assumes "plan_draft_ok draft"
    and "validate_plan_draft secret_key secret_value draft max_steps max_depth max_attempts max_bytes = Inr v"
  shows "validated_plan_ok v"
  by (rule validated_typed[OF assms])

theorem validated_plan_well_typed_witness: "plan_draft_ok sample_draft \<and> validated_plan_ok sample_validated"
proof
  show "plan_draft_ok sample_draft" by code_simp
  then show "validated_plan_ok sample_validated"
    by (rule validated_plan_well_typed[OF _ sample_validated_accepted])
qed

text \<open>
  C31. Validation is idempotent. The plan it returns, read as a draft again, passes the same validation
  and gives the same plan, hence the same canonical bytes and content digest: revalidating a stored
  plan never reorders it.
\<close>
theorem validation_idempotent:
  assumes "validate_plan_draft secret_key secret_value draft max_steps max_depth max_attempts max_bytes = Inr v"
  shows "validate_plan_draft secret_key secret_value (as_draft v) max_steps max_depth max_attempts max_bytes = Inr v"
  using revalidates[OF assms as_draft_steps_ok[OF assms]] accepted_facts[OF assms] by simp

theorem validation_idempotent_witness:
  "validate_plan_draft (\<lambda>_. False) (\<lambda>_. False) (as_draft sample_validated) 20 10 3 4000 = Inr sample_validated"
  by (rule validation_idempotent[OF sample_validated_accepted])

end
