(* ===== verification/Plan_Reading.thy ===== *)
theory Plan_Reading
  imports Plan_Repository Plan_Drafts
begin

text \<open>
  What \<open>PlanRepository.get\<close> reads from tables in which every version holds a validated plan: no integrity
  check fails, each version is rebuilt as it was stored, and it depends on the rows of that version only.
\<close>

section \<open>Dictionaries of lists\<close>

lemma map_of_dict_append:
  "map_of (dict_append d k v) i =
    (if i = k then Some ((case map_of d k of None \<Rightarrow> [] | Some vs \<Rightarrow> vs) @ [v]) else map_of d i)"
  by (induction d k v rule: dict_append.induct) auto

lemma map_of_dict_append_fold:
  "map_of (foldl (\<lambda>d r. dict_append d (k r) (w r)) d rows) i =
    (case map_of d i of
       None \<Rightarrow> (case filter (\<lambda>r. k r = i) rows of [] \<Rightarrow> None | r # rs \<Rightarrow> Some (map w (r # rs)))
     | Some vs \<Rightarrow> Some (vs @ map w (filter (\<lambda>r. k r = i) rows)))"
  by (induction rows arbitrary: d) (auto simp: map_of_dict_append split: option.splits list.splits)

lemma dict_append_keys: "distinct (map fst d) \<Longrightarrow> distinct (map fst (dict_append d k v)) \<and> fst ` set (dict_append d k v) = insert k (fst ` set d)"
  by (induction d k v rule: dict_append.induct) auto

lemma dict_append_fold_keys:
  "distinct (map fst d) \<Longrightarrow> distinct (map fst (foldl (\<lambda>d r. dict_append d (k r) (w r)) d rows)) \<and>
    fst ` set (foldl (\<lambda>d r. dict_append d (k r) (w r)) d rows) = fst ` set d \<union> k ` set rows"
proof (induction rows arbitrary: d)
  case (Cons r rows)
  then show ?case using Cons.IH[of "dict_append d (k r) (w r)"] dict_append_keys[of d "k r" "w r"] by auto
qed simp

lemma filter_dict_append:
  "filter (\<lambda>e. P (fst e)) (dict_append d k v) =
    (if P k then dict_append (filter (\<lambda>e. P (fst e)) d) k v else filter (\<lambda>e. P (fst e)) d)"
  by (induction d k v rule: dict_append.induct) auto

lemma filter_dict_append_fold:
  "filter (\<lambda>e. P (fst e)) (foldl (\<lambda>d r. dict_append d (k r) (w r)) d rows) =
    foldl (\<lambda>d r. dict_append d (k r) (w r)) (filter (\<lambda>e. P (fst e)) d) (filter (\<lambda>r. P (k r)) rows)"
  by (induction rows arbitrary: d) (simp_all add: filter_dict_append)

lemma dependency_lists_keys:
  "distinct (map fst (dependency_lists rows))"
  "fst ` set (dependency_lists rows) = (\<lambda>r. (dp_plan_version r, dp_step_id r)) ` set rows"
  using dict_append_fold_keys[of "[]" "\<lambda>r. (dp_plan_version r, dp_step_id r)" dp_depends_on_step_id rows]
  unfolding dependency_lists_def by simp_all

lemma dependency_lists_entry:
  assumes "(i, ds) \<in> set (dependency_lists rows)"
  shows "ds = map dp_depends_on_step_id (filter (\<lambda>r. (dp_plan_version r, dp_step_id r) = i) rows) \<and> ds \<noteq> []"
proof -
  have "map_of (dependency_lists rows) i = Some ds" using assms dependency_lists_keys(1) by simp
  then show ?thesis
    unfolding dependency_lists_def
    by (auto simp: map_of_dict_append_fold split: list.splits)
qed

text \<open>The dependencies of one version only come from its own rows.\<close>

lemma version_dependencies_own:
  "version_dependencies (dependency_lists rows) ver =
    version_dependencies (dependency_lists (filter (\<lambda>r. dp_plan_version r = ver) rows)) ver"
proof -
  have f: "(\<lambda>((v, _), _). v = ver) = (\<lambda>e :: (int \<times> string) \<times> string list. (\<lambda>i. fst i = ver) (fst e))" by auto
  have "filter (\<lambda>((v, _), _). v = ver) (dependency_lists rs) =
      dependency_lists (filter (\<lambda>r. dp_plan_version r = ver) rs)" for rs
    unfolding dependency_lists_def f using filter_dict_append_fold[of "\<lambda>i. fst i = ver" "\<lambda>r. (dp_plan_version r, dp_step_id r)" dp_depends_on_step_id "[]" rs]
    by simp
  then show ?thesis by (simp add: version_dependencies_def)
qed

lemma version_dependencies_entry:
  assumes "(i, ds) \<in> set (version_dependencies (dependency_lists rows) ver)"
  shows "ds = map dp_depends_on_step_id (filter (\<lambda>r. dp_plan_version r = ver \<and> dp_step_id r = i) rows) \<and> ds \<noteq> []"
  using assms dependency_lists_entry[of "(ver, i)" ds rows] by (auto simp: version_dependencies_def)

lemma version_dependencies_lookup:
  "dependencies_of (version_dependencies (dependency_lists rows) ver) i =
    map dp_depends_on_step_id (filter (\<lambda>r. dp_plan_version r = ver \<and> dp_step_id r = i) rows)"
proof (cases "\<exists>ds. (i, ds) \<in> set (version_dependencies (dependency_lists rows) ver)")
  case True
  then obtain ds where ds: "map_of (version_dependencies (dependency_lists rows) ver) i = Some ds"
    by (metis map_of_eq_None_iff image_eqI fst_conv option.exhaust)
  then show ?thesis
    using version_dependencies_entry[OF map_of_SomeD[OF ds]] by (simp add: dependencies_of_def)
next
  case False
  have "r \<notin> set rows \<or> dp_plan_version r \<noteq> ver \<or> dp_step_id r \<noteq> i" for r
  proof (rule ccontr)
    assume "\<not> ?thesis"
    then have "(ver, i) \<in> fst ` set (dependency_lists rows)"
      by (force simp: dependency_lists_keys(2))
    then show False using False by (force simp: version_dependencies_def image_iff)
  qed
  then have e: "filter (\<lambda>r. dp_plan_version r = ver \<and> dp_step_id r = i) rows = []" by (auto simp: filter_empty_conv)
  have "map_of (version_dependencies (dependency_lists rows) ver) i = None"
    using False by (force simp: map_of_eq_None_iff)
  then show ?thesis unfolding dependencies_of_def e by simp
qed

section \<open>Stored versions\<close>

text \<open>The rows of one version, and the view \<open>get\<close> gives of it.\<close>

definition version_steps :: "plan_db \<Rightarrow> scope \<times> int \<Rightarrow> plan_step_row list" where
  "version_steps db k = filter (\<lambda>s. (step_plan s, pst_plan_version s) = k) (agent_plan_steps db)"

definition version_deps :: "plan_db \<Rightarrow> scope \<times> int \<Rightarrow> plan_dependency_row list" where
  "version_deps db k = filter (\<lambda>d. (dependency_plan d, dp_plan_version d) = k) (agent_plan_step_dependencies db)"

definition version_view :: "plan_db \<Rightarrow> plan_version_row \<Rightarrow> plan_version_record" where
  "version_view db row =
     \<lparr>ve_plan_id = pv_plan_id row, ve_plan_version = pv_plan_version row, ve_objective = pv_objective row,
      ve_constraints = (case read_constraints (pv_constraints_json row) of Inl _ \<Rightarrow> [] | Inr cs \<Rightarrow> cs),
      ve_generation_reason = pv_generation_reason row, ve_parent_version = pv_parent_version row,
      ve_revision_feedback = pv_revision_feedback row, ve_schema_version = pv_schema_version row,
      ve_content_digest = pv_content_digest row, ve_created_at = pv_created_at row,
      ve_steps = map hydrate_step (version_steps db (version_key row)),
      ve_dependencies = version_dependencies (dependency_lists (version_deps db (version_key row))) (pv_plan_version row)\<rparr>"

text \<open>A plan that passes the revalidation on every read, and the rows that hold it.\<close>

definition revalidated :: "(string \<Rightarrow> bool) \<Rightarrow> (string \<Rightarrow> bool) \<Rightarrow> validated_plan \<Rightarrow> bool" where
  "revalidated sk sv v \<longleftrightarrow> plan_draft_ok (as_draft v) \<and>
     validate_plan_draft sk sv (as_draft v) 20 10 20 MAX_PLAN_CONTENT_BYTES = Inr v"

definition step_matches :: "(string \<Rightarrow> string) \<Rightarrow> plan_step_row \<Rightarrow> validated_plan_step \<Rightarrow> bool" where
  "step_matches ids s st \<longleftrightarrow> pst_step_id s = ids (d_key st) \<and> pst_logical_step_key s = d_key st \<and>
     pst_ordinal s = d_ordinal st \<and> pst_title s = d_title st \<and> pst_description s = d_description st \<and>
     pst_expected_outcome s = d_expected_outcome st \<and> pst_max_attempts s = d_max_attempts st \<and>
     pst_definition_digest s = step_definition_digest st"

definition dependency_pairs :: "(string \<Rightarrow> string) \<Rightarrow> validated_plan_step list \<Rightarrow> (string \<times> string) list" where
  "dependency_pairs ids steps = concat (map (\<lambda>st. map (\<lambda>k. (ids (d_key st), ids k)) (d_depends_on st)) steps)"

definition version_holds :: "plan_db \<Rightarrow> plan_version_row \<Rightarrow> validated_plan \<Rightarrow> (string \<Rightarrow> string) \<Rightarrow> bool" where
  "version_holds db row v ids \<longleftrightarrow> pv_objective row = vp_objective v \<and>
     pv_constraints_json row = print_json (JArr (map JStr (vp_constraints v))) \<and>
     pv_generation_reason row = vp_generation_reason v \<and> pv_schema_version row = 1 \<and>
     pv_content_digest row = plan_content_digest v \<and>
     inj_on ids (d_key ` set (vp_steps v)) \<and>
     list_all2 (step_matches ids) (version_steps db (version_key row)) (vp_steps v) \<and>
     map (\<lambda>d. (dp_step_id d, dp_depends_on_step_id d)) (version_deps db (version_key row)) =
       dependency_pairs ids (vp_steps v)"

lemma string_items_strings: "string_items (map JStr xs) = Some xs"
  by (induction xs) auto

lemma read_constraints_strings: "read_constraints (print_json (JArr (map JStr cs))) = Inr cs"
proof -
  have "loads (print_json (JArr (map JStr cs))) = Some (JArr (map JStr cs))" by (rule loads_print) simp
  then show ?thesis by (simp add: read_constraints_def string_items_strings need_def del: print_json.simps)
qed

lemma revalidated_steps:
  assumes "revalidated sk sv v"
  shows "distinct (map d_key (vp_steps v))"
    and "i < length (vp_steps v) \<Longrightarrow> d_ordinal (vp_steps v ! i) = int i + 1"
    and "i < length (vp_steps v) \<Longrightarrow> set (d_depends_on (vp_steps v ! i)) \<subseteq> set (map d_key (take i (vp_steps v)))"
    and "i < length (vp_steps v) \<Longrightarrow> sorted (map (index_of (map d_key (vp_steps v))) (d_depends_on (vp_steps v ! i)))"
    and "i < length (vp_steps v) \<Longrightarrow> distinct (d_depends_on (vp_steps v ! i))"
proof -
  have v: "validate_plan_draft sk sv (as_draft v) 20 10 20 MAX_PLAN_CONTENT_BYTES = Inr v"
    using assms by (simp add: revalidated_def)
  note a = accepted_facts[OF v]
  then have keys: "map d_key (vp_steps v) = draft_order (as_draft v)" by blast
  then show "distinct (map d_key (vp_steps v))" using a by simp
  assume i: "i < length (vp_steps v)"
  obtain st where st: "vp_steps v ! i = validated_step st (draft_order (as_draft v)) (int i + 1)"
      "set (d_depends_on st) \<subseteq> set (take i (draft_order (as_draft v)))" "step_accepted (draft_keys (as_draft v)) 20 st"
    using accepted_step[OF v i] by blast
  show "d_ordinal (vp_steps v ! i) = int i + 1" using st(1) by (simp add: validated_step_def)
  show "set (d_depends_on (vp_steps v ! i)) \<subseteq> set (map d_key (take i (vp_steps v)))"
    using st(1,2) keys by (simp add: validated_step_def take_map[symmetric])
  show "sorted (map (index_of (map d_key (vp_steps v))) (d_depends_on (vp_steps v ! i)))"
    using st(1) keys by (simp add: validated_step_def)
  show "distinct (d_depends_on (vp_steps v ! i))" using st(1,3) by (simp add: validated_step_def step_accepted_def)
qed

lemma revalidated_ordinal:
  assumes "revalidated sk sv v" "st \<in> set (vp_steps v)"
  shows "d_ordinal st = int (index_of (map d_key (vp_steps v)) (d_key st)) + 1"
proof -
  obtain i where i: "i < length (vp_steps v)" "st = vp_steps v ! i" using assms(2) by (metis in_set_conv_nth)
  then have "index_of (map d_key (vp_steps v)) (map d_key (vp_steps v) ! i) = i"
    using index_of_nth[OF revalidated_steps(1)[OF assms(1)]] by simp
  then show ?thesis using revalidated_steps(2)[OF assms(1) i(1)] i by simp
qed

lemma revalidated_dependency:
  assumes "revalidated sk sv v" "st \<in> set (vp_steps v)" "k \<in> set (d_depends_on st)"
  shows "\<exists>st' \<in> set (vp_steps v). d_key st' = k"
proof -
  obtain i where i: "i < length (vp_steps v)" "st = vp_steps v ! i" using assms(2) by (metis in_set_conv_nth)
  then have "k \<in> d_key ` set (take i (vp_steps v))" using revalidated_steps(3)[OF assms(1) i(1)] assms(3) by auto
  then show ?thesis using set_take_subset[of i "vp_steps v"] by blast
qed

section \<open>Rebuilding a stored version\<close>

lemma map_rows_Inr: "(\<And>x. x \<in> set xs \<Longrightarrow> f x = Inr (g x)) \<Longrightarrow> map_rows f xs = Inr (map g xs)"
  by (induction xs) auto

lemma map_rows_id: "(\<And>x. x \<in> set xs \<Longrightarrow> f x = Inr x) \<Longrightarrow> map_rows f xs = Inr xs"
  by (induction xs) auto

lemma filter_pairs_of_step:
  assumes "distinct (map d_key steps)" "inj_on ids (d_key ` set steps)" "st \<in> set steps"
  shows "filter (\<lambda>p. fst p = ids (d_key st)) (dependency_pairs ids steps) =
    map (\<lambda>k. (ids (d_key st), ids k)) (d_depends_on st)"
  using assms
proof (induction steps)
  case (Cons x steps)
  have none: "filter (\<lambda>p. fst p = ids (d_key st)) (dependency_pairs ids xs) = []" if "ids (d_key st) \<notin> (\<lambda>x. ids (d_key x)) ` set xs" for xs
    using that by (auto simp: dependency_pairs_def filter_empty_conv image_iff)
  show ?case
  proof (cases "st = x")
    case True
    have "ids (d_key st) \<notin> (\<lambda>x. ids (d_key x)) ` set steps"
      using Cons.prems True by (auto simp: inj_on_def)
    then show ?thesis using none[of steps] True by (simp add: dependency_pairs_def)
  next
    case False
    then have mem: "st \<in> set steps" using Cons.prems by simp
    then have "ids (d_key x) \<noteq> ids (d_key st)" using Cons.prems by (auto simp: inj_on_def image_iff)
    then show ?thesis using Cons mem by (simp add: dependency_pairs_def)
  qed
qed simp

lemma version_holds_dependencies:
  assumes h: "version_holds db row v ids" "distinct (map d_key (vp_steps v))" and st: "st \<in> set (vp_steps v)"
  shows "dependencies_of (ve_dependencies (version_view db row)) (ids (d_key st)) = map ids (d_depends_on st)"
proof -
  let ?rows = "version_deps db (version_key row)"
  have pairs: "map (\<lambda>d. (dp_step_id d, dp_depends_on_step_id d)) ?rows = dependency_pairs ids (vp_steps v)"
    using h by (simp add: version_holds_def)
  have "map (\<lambda>d. (dp_step_id d, dp_depends_on_step_id d)) (filter (\<lambda>d. dp_step_id d = ids (d_key st)) ?rows) =
      filter (\<lambda>p. fst p = ids (d_key st)) (dependency_pairs ids (vp_steps v))"
    by (simp add: filter_map comp_def pairs[symmetric])
  then have "map snd (map (\<lambda>d. (dp_step_id d, dp_depends_on_step_id d)) (filter (\<lambda>d. dp_step_id d = ids (d_key st)) ?rows)) =
      map ids (d_depends_on st)"
    using filter_pairs_of_step[OF h(2) _ st] h(1) by (simp add: version_holds_def comp_def)
  then have "map dp_depends_on_step_id (filter (\<lambda>d. dp_step_id d = ids (d_key st)) ?rows) = map ids (d_depends_on st)"
    by (simp add: comp_def)
  moreover have "filter (\<lambda>d. dp_plan_version d = pv_plan_version row \<and> dp_step_id d = i) ?rows =
      filter (\<lambda>d. dp_step_id d = i) ?rows" for i
    by (auto simp: version_deps_def version_key_def intro!: filter_cong)
  ultimately show ?thesis by (simp add: version_view_def version_dependencies_lookup)
qed

lemma version_holds_step:
  assumes "version_holds db row v ids" "s \<in> set (ve_steps (version_view db row))"
  shows "\<exists>st \<in> set (vp_steps v). sp_step_id s = ids (d_key st) \<and> sp_logical_step_key s = d_key st \<and>
    sp_ordinal s = d_ordinal st \<and> sp_definition_digest s = step_definition_digest st"
  using assms by (force simp: version_holds_def version_view_def list_all2_conv_all_nth step_matches_def
      hydrate_step_def in_set_conv_nth)

lemma version_holds_steps:
  assumes "version_holds db row v ids"
  shows "map (\<lambda>s. (sp_step_id s, sp_logical_step_key s, sp_ordinal s)) (ve_steps (version_view db row)) =
      map (\<lambda>st. (ids (d_key st), d_key st, d_ordinal st)) (vp_steps v)"
  using assms by (auto simp: version_holds_def version_view_def list_all2_conv_all_nth step_matches_def hydrate_step_def
      intro!: nth_equalityI)

lemma steps_by_id_member:
  assumes "distinct (map sp_step_id steps)" "s \<in> set steps"
  shows "steps_by_id steps (sp_step_id s) = Some s"
proof -
  have "distinct (map fst (rev (map (\<lambda>s. (sp_step_id s, s)) steps)))"
    using assms(1) by (simp add: rev_map[symmetric] comp_def)
  then show ?thesis unfolding steps_by_id_def using assms(2) by simp
qed

lemma version_holds_ids:
  assumes h: "version_holds db row v ids" "distinct (map d_key (vp_steps v))"
  shows "distinct (map sp_step_id (ve_steps (version_view db row)))"
proof -
  have "map sp_step_id (ve_steps (version_view db row)) = map (\<lambda>st. ids (d_key st)) (vp_steps v)"
    using arg_cong[OF version_holds_steps[OF h(1)], of "map fst"] by (simp add: comp_def)
  moreover have "distinct (map ids (map d_key (vp_steps v)))"
    unfolding distinct_map[of ids] using h by (simp add: version_holds_def)
  ultimately show ?thesis by (simp add: comp_def)
qed

lemma version_holds_key_of:
  assumes h: "version_holds db row v ids" "distinct (map d_key (vp_steps v))" and st: "st \<in> set (vp_steps v)"
  shows "\<exists>s \<in> set (ve_steps (version_view db row)).
    steps_by_id (ve_steps (version_view db row)) (ids (d_key st)) = Some s \<and> sp_logical_step_key s = d_key st"
proof -
  have "(ids (d_key st), d_key st, d_ordinal st) \<in>
      set (map (\<lambda>s. (sp_step_id s, sp_logical_step_key s, sp_ordinal s)) (ve_steps (version_view db row)))"
    unfolding version_holds_steps[OF h(1)] using st by simp
  then obtain s where "s \<in> set (ve_steps (version_view db row))" "sp_step_id s = ids (d_key st)"
    "sp_logical_step_key s = d_key st" by auto
  then show ?thesis using steps_by_id_member[OF version_holds_ids[OF h]] by metis
qed

lemma version_holds_keys_of:
  assumes h: "version_holds db row v ids" "distinct (map d_key (vp_steps v))" and ks: "set ks \<subseteq> d_key ` set (vp_steps v)"
  shows "step_keys_of (ve_steps (version_view db row)) (map ids ks) = Inr ks"
  using ks
proof (induction ks)
  case (Cons k ks)
  then obtain st where "st \<in> set (vp_steps v)" "d_key st = k" by auto
  then obtain s where "steps_by_id (ve_steps (version_view db row)) (ids k) = Some s" "sp_logical_step_key s = k"
    using version_holds_key_of[OF h] by metis
  then show ?case using Cons by (simp add: step_keys_of_def need_def)
qed (simp add: step_keys_of_def)

lemma version_holds_rebuilt_step:
  assumes h: "version_holds db row v ids" and v: "revalidated sk sv v" and i: "i < length (vp_steps v)"
  shows "rebuilt_step (version_view db row) (ve_steps (version_view db row) ! i) =
    Inr (plan_draft_step.truncate (vp_steps v ! i))"
proof -
  let ?steps = "ve_steps (version_view db row)" and ?st = "vp_steps v ! i"
  note d = revalidated_steps(1)[OF v]
  have s: "step_matches ids (version_steps db (version_key row) ! i) ?st" "i < length (version_steps db (version_key row))"
    using h(1) i by (simp_all add: version_holds_def list_all2_conv_all_nth)
  have n: "?steps ! i = hydrate_step (version_steps db (version_key row) ! i)" using s(2) by (simp add: version_view_def)
  have st: "?st \<in> set (vp_steps v)" using i by simp
  have "set (d_depends_on ?st) \<subseteq> d_key ` set (vp_steps v)" using revalidated_dependency[OF v st] by blast
  then have "step_keys_of ?steps (map ids (d_depends_on ?st)) = Inr (d_depends_on ?st)"
    by (rule version_holds_keys_of[OF h d])
  moreover have "dependencies_of (ve_dependencies (version_view db row)) (sp_step_id (?steps ! i)) = map ids (d_depends_on ?st)"
    using version_holds_dependencies[OF h d st] s(1) unfolding n by (simp add: hydrate_step_def step_matches_def)
  ultimately show ?thesis
    using s(1) unfolding rebuilt_step_def n by (simp add: hydrate_step_def step_matches_def plan_draft_step.defs)
qed

lemma version_holds_rebuilt:
  assumes h: "version_holds db row v ids" and v: "revalidated sk sv v"
  shows "rebuilt_draft (version_view db row) = Inr (as_draft v)"
proof -
  let ?steps = "ve_steps (version_view db row)"
  have len: "length ?steps = length (vp_steps v)"
    using arg_cong[OF version_holds_steps[OF h], of length] by simp
  have "rebuilt_step (version_view db row) s =
      Inr (plan_draft_step.truncate (vp_steps v ! index_of ?steps s))" if "s \<in> set ?steps" for s
    using version_holds_rebuilt_step[OF h v, of "index_of ?steps s"] index_of_less[OF that] len by simp
  then have "map_rows (rebuilt_step (version_view db row)) ?steps =
      Inr (map (\<lambda>s. plan_draft_step.truncate (vp_steps v ! index_of ?steps s)) ?steps)" by (rule map_rows_Inr)
  moreover have "distinct ?steps" using version_holds_ids[OF h revalidated_steps(1)[OF v]] by (simp add: distinct_map)
  then have "map (\<lambda>s. plan_draft_step.truncate (vp_steps v ! index_of ?steps s)) ?steps =
      map plan_draft_step.truncate (vp_steps v)"
    using len by (intro nth_equalityI) (simp_all add: index_of_nth)
  moreover have "ve_objective (version_view db row) = vp_objective v" "ve_constraints (version_view db row) = vp_constraints v"
    "ve_generation_reason (version_view db row) = vp_generation_reason v"
    using h read_constraints_strings by (simp_all add: version_holds_def version_view_def)
  ultimately show ?thesis
    using v by (simp add: rebuilt_draft_def Let_def as_draft_def revalidated_def ensure_def)
qed

lemma version_holds_integrity:
  assumes h: "version_holds db row v ids" and v: "revalidated sk sv v"
  shows "validate_version_integrity sk sv (version_view db row) = Inr ()"
proof -
  let ?ver = "version_view db row" and ?steps = "ve_steps (version_view db row)"
  note d = revalidated_steps[OF v] and steps = version_holds_steps[OF h]
  have len: "length ?steps = length (vp_steps v)" using arg_cong[OF steps, of length] by simp
  have ord: "map sp_ordinal ?steps = map int [1..<Suc (length ?steps)]"
  proof -
    have "map sp_ordinal ?steps = map d_ordinal (vp_steps v)"
      using arg_cong[OF steps, of "map (\<lambda>x. snd (snd x))"] by (simp add: comp_def)
    then show ?thesis using d(2) len by (auto intro!: nth_equalityI simp del: upt_Suc)
  qed
  have known: "steps_by_id ?steps (ids (d_key st)) \<noteq> None" if "st \<in> set (vp_steps v)" for st
    using version_holds_key_of[OF h d(1) that] by auto
  have pairs: "map (\<lambda>d. (dp_step_id d, dp_depends_on_step_id d)) (version_deps db (version_key row)) =
      dependency_pairs ids (vp_steps v)" using h by (simp add: version_holds_def)
  have entry: "steps_by_id ?steps i \<noteq> None \<and> list_all (\<lambda>j. steps_by_id ?steps j \<noteq> None) ds"
    if "(i, ds) \<in> set (ve_dependencies ?ver)" for i ds
  proof -
    have ds: "ds = map dp_depends_on_step_id (filter (\<lambda>r. dp_plan_version r = pv_plan_version row \<and> dp_step_id r = i)
        (version_deps db (version_key row)))" "ds \<noteq> []"
      using version_dependencies_entry that by (auto simp: version_view_def)
    have "(i, j) \<in> set (dependency_pairs ids (vp_steps v))" if "j \<in> set ds" for j
      unfolding pairs[symmetric] using that ds(1) by auto
    then have "\<exists>st \<in> set (vp_steps v). i = ids (d_key st) \<and> (\<exists>st' \<in> set (vp_steps v). j = ids (d_key st'))" if "j \<in> set ds" for j
      using that revalidated_dependency[OF v] by (fastforce simp: dependency_pairs_def)
    moreover obtain j where "j \<in> set ds" using ds(2) by (cases ds) auto
    ultimately show ?thesis using known unfolding list_all_iff by metis
  qed
  have digests: "step_digests_ok v ?steps"
    unfolding step_digests_ok_def list_all_iff
  proof
    fix s assume "s \<in> set ?steps"
    then obtain st where "st \<in> set (vp_steps v)" "sp_logical_step_key s = d_key st"
      "sp_definition_digest s = step_definition_digest st" using version_holds_step[OF h] by blast
    moreover from this(1) have "map_of (rev (map (\<lambda>d. (d_key d, d)) (vp_steps v))) (d_key st) = Some st"
      using d(1) by (intro map_of_is_SomeI) (simp_all add: rev_map[symmetric] comp_def)
    ultimately show "case map_of (rev (map (\<lambda>d. (d_key d, d)) (vp_steps v))) (sp_logical_step_key s) of
        None \<Rightarrow> False | Some d \<Rightarrow> step_definition_digest d = sp_definition_digest s" by simp
  qed
  have order: "map (\<lambda>s. (d_key s, d_ordinal s)) (vp_steps v) = map (\<lambda>s. (sp_logical_step_key s, sp_ordinal s)) ?steps"
    using arg_cong[OF steps, of "map snd"] by (simp add: comp_def)
  have "rbind (rebuilt_draft ?ver) (\<lambda>draft. validate_plan_draft sk sv draft 20 10 20 MAX_PLAN_CONTENT_BYTES) = Inr v"
    using version_holds_rebuilt[OF h v] v by (simp add: revalidated_def)
  moreover have "ve_schema_version ?ver = 1" "ve_content_digest ?ver = plan_content_digest v"
    using h by (simp_all add: version_holds_def version_view_def)
  moreover have "list_all (\<lambda>(i, _). steps_by_id ?steps i \<noteq> None) (ve_dependencies ?ver)"
    "list_all (\<lambda>(_, ds). list_all (\<lambda>i. steps_by_id ?steps i \<noteq> None) ds) (ve_dependencies ?ver)"
    using entry by (auto simp: list_all_iff)
  ultimately show ?thesis
    using ord order digests version_holds_ids[OF h d(1)] unfolding validate_version_integrity_def
    by (simp add: ensure_def)
qed

section \<open>Readable tables\<close>

text \<open>
  Keys and foreign keys of the plan tables, and a validated plan in every version. \<open>plans_readable\<close> is what the
  operations of the repository maintain.
\<close>

definition plan_store_ok :: "plan_db \<Rightarrow> bool" where
  "plan_store_ok db \<longleftrightarrow> distinct (map pl_id (agent_plans db)) \<and>
     distinct (map version_key (agent_plan_versions (wf db))) \<and> distinct (map pst_step_id (agent_plan_steps db)) \<and>
     (\<forall>s \<in> set (agent_plan_steps db). (step_plan s, pst_plan_version s) \<in> version_key ` set (agent_plan_versions (wf db))) \<and>
     (\<forall>d \<in> set (agent_plan_step_dependencies db).
        (dependency_plan d, dp_plan_version d) \<in> version_key ` set (agent_plan_versions (wf db))) \<and>
     (\<forall>v \<in> set (agent_plan_versions (wf db)). fst (version_key v) \<in> plan_key ` set (agent_plans db))"

definition version_stored :: "(string \<Rightarrow> bool) \<Rightarrow> (string \<Rightarrow> bool) \<Rightarrow> plan_db \<Rightarrow> plan_version_row \<Rightarrow> bool" where
  "version_stored sk sv db row \<longleftrightarrow> (\<exists>v ids. revalidated sk sv v \<and> version_holds db row v ids)"

definition plans_readable :: "(string \<Rightarrow> bool) \<Rightarrow> (string \<Rightarrow> bool) \<Rightarrow> plan_db \<Rightarrow> bool" where
  "plans_readable sk sv db \<longleftrightarrow> plan_store_ok db \<and>
     (\<forall>row \<in> set (agent_plan_versions (wf db)). version_stored sk sv db row) \<and>
     (\<forall>p \<in> set (agent_plans db). (plan_key p, pl_current_version p) \<in> version_key ` set (agent_plan_versions (wf db)))"

abbreviation plan_scope :: "tenant_context \<Rightarrow> string \<Rightarrow> string \<Rightarrow> scope" where
  "plan_scope ctx s pid \<equiv> (tenant_id ctx, workspace_id ctx, s, pid)"

lemma scope_predicates:
  assumes "session_id ctx = Some s"
  shows "plan_predicate ctx pid p \<longleftrightarrow> plan_key p = plan_scope ctx s pid"
    and "version_scope_predicate ctx pid v \<longleftrightarrow> fst (version_key v) = plan_scope ctx s pid"
    and "step_scope_predicate ctx pid x \<longleftrightarrow> step_plan x = plan_scope ctx s pid"
    and "dependency_scope_predicate ctx pid e \<longleftrightarrow> dependency_plan e = plan_scope ctx s pid"
    and "decision_scope_predicate ctx pid c \<longleftrightarrow> decision_plan c = plan_scope ctx s pid"
  using assms by (auto simp: plan_predicate_def version_scope_predicate_def step_scope_predicate_def
      dependency_scope_predicate_def decision_scope_predicate_def in_session_def plan_key_defs)

text \<open>The order of the query is the order of the rows of a version.\<close>

lemma version_steps_sorted:
  assumes "version_holds db row v ids" "revalidated sk sv v"
  shows "sorted (map (\<lambda>s. (pst_plan_version s, pst_ordinal s)) (version_steps db (version_key row)))"
proof -
  let ?rows = "version_steps db (version_key row)"
  have len: "length ?rows = length (vp_steps v)" using assms(1) list_all2_lengthD unfolding version_holds_def by blast
  have o: "pst_ordinal (?rows ! i) = int i + 1" if "i < length ?rows" for i
    using assms(1) revalidated_steps(2)[OF assms(2)] that len
    by (simp add: version_holds_def list_all2_conv_all_nth step_matches_def)
  have "pst_plan_version (?rows ! i) = pv_plan_version row" if "i < length ?rows" for i
    using nth_mem[OF that] by (simp add: version_steps_def version_key_def)
  then show ?thesis using o by (simp add: sorted_iff_nth_mono less_eq_prod_def)
qed

lemma plan_step_rows_version:
  assumes "session_id ctx = Some s" "version_holds db row v ids" "revalidated sk sv v"
    and "version_key row = (plan_scope ctx s pid, pv_plan_version row)"
  shows "filter (\<lambda>x. pst_plan_version x = pv_plan_version row) (plan_step_rows db ctx pid) = version_steps db (version_key row)"
proof -
  have "filter (\<lambda>x. pst_plan_version x = pv_plan_version row) (plan_step_rows db ctx pid) =
      sort_key (\<lambda>s. (pst_plan_version s, pst_ordinal s)) (version_steps db (version_key row))"
    unfolding plan_step_rows_def filter_sort version_steps_def assms(4)
    using scope_predicates(3)[OF assms(1)] by (simp add: conj_commute)
  then show ?thesis using version_steps_sorted[OF assms(2,3)] by (simp add: sort_key_id_if_sorted)
qed

lemma step_ordinals_version:
  assumes "session_id ctx = Some s" "plan_store_ok db" "version_holds db row v ids"
    and "version_key row = (plan_scope ctx s pid, pv_plan_version row)" and st: "st \<in> set (vp_steps v)"
  shows "step_ordinals (plan_step_rows db ctx pid) (pv_plan_version row, ids (d_key st)) = Some (d_ordinal st)"
proof -
  obtain x where x: "x \<in> set (version_steps db (version_key row))" "step_matches ids x st"
    using assms(3) st unfolding version_holds_def list_all2_conv_all_nth in_set_conv_nth by metis
  let ?rows = "plan_step_rows db ctx pid"
  have "mset ?rows = mset (filter (step_scope_predicate ctx pid) (agent_plan_steps db))"
    by (simp add: plan_step_rows_def)
  moreover have "distinct (map pst_step_id (filter (step_scope_predicate ctx pid) (agent_plan_steps db)))"
    using assms(2) by (simp add: plan_store_ok_def distinct_map_filter)
  ultimately have "distinct (map pst_step_id ?rows)" by (metis mset_eq_imp_distinct_iff mset_map)
  then have "distinct (map fst (rev (map (\<lambda>s. ((pst_plan_version s, pst_step_id s), pst_ordinal s)) ?rows)))"
    by (simp add: rev_map[symmetric] comp_def distinct_map inj_on_def)
  moreover have "x \<in> set ?rows"
    using x(1) assms(4) scope_predicates(3)[OF assms(1)] by (simp add: plan_step_rows_def version_steps_def)
  moreover have "pst_plan_version x = pv_plan_version row" using x(1) assms(4) by (simp add: version_steps_def)
  ultimately show ?thesis
    using x(2) unfolding step_ordinals_def by (force simp: step_matches_def intro!: map_of_is_SomeI)
qed

lemma sort_dependencies_version:
  assumes c: "session_id ctx = Some s" "plan_store_ok db" and h: "version_holds db row v ids" and v: "revalidated sk sv v"
    and row: "version_key row = (plan_scope ctx s pid, pv_plan_version row)" and st: "st \<in> set (vp_steps v)"
  shows "sort_dependencies (plan_step_rows db ctx pid) ((pv_plan_version row, i), map ids (d_depends_on st)) =
    Inr ((pv_plan_version row, i), map ids (d_depends_on st))"
proof -
  let ?o = "\<lambda>d. case step_ordinals (plan_step_rows db ctx pid) (pv_plan_version row, d) of None \<Rightarrow> 0 | Some n \<Rightarrow> n"
  have dep: "step_ordinals (plan_step_rows db ctx pid) (pv_plan_version row, ids k) =
      Some (int (index_of (map d_key (vp_steps v)) k) + 1)" if "k \<in> set (d_depends_on st)" for k
    using revalidated_dependency[OF v st that] step_ordinals_version[OF c h row] revalidated_ordinal[OF v] by metis
  obtain n where n: "n < length (vp_steps v)" "st = vp_steps v ! n" using st by (metis in_set_conv_nth)
  have "map ?o (map ids (d_depends_on st)) = map (\<lambda>i. int i + 1) (map (index_of (map d_key (vp_steps v))) (d_depends_on st))"
    using dep by simp
  moreover have "sorted (map (\<lambda>i. int i + 1) (map (index_of (map d_key (vp_steps v))) (d_depends_on st)))"
    using revalidated_steps(4)[OF v n(1)] n(2) by (simp add: sorted_map sorted_wrt_map sorted_iff_nth_mono)
  ultimately have "sort_key ?o (map ids (d_depends_on st)) = map ids (d_depends_on st)"
    by (intro sort_key_id_if_sorted) (simp only:)
  moreover have "list_all (\<lambda>d. step_ordinals (plan_step_rows db ctx pid) (pv_plan_version row, d) \<noteq> None) (map ids (d_depends_on st))"
    using dep by (simp add: list_all_iff)
  ultimately show ?thesis by (simp add: sort_dependencies_def ensure_def)
qed

section \<open>Reading a plan\<close>

definition plan_view :: "plan_db \<Rightarrow> tenant_context \<Rightarrow> plan_row \<Rightarrow> plan_version_row \<Rightarrow> plan_snapshot" where
  "plan_view db ctx p row =
     \<lparr>sn_context = ctx, sn_plan_id = pl_id p, sn_source_message_id = pl_source_message_id p,
      sn_trigger_mode = pl_trigger_mode p, sn_status = pl_status p, sn_current_version = pl_current_version p,
      sn_approved_version = pl_approved_version p, sn_aggregate_version = pl_version p,
      sn_created_at = pl_created_at p, sn_updated_at = pl_updated_at p, sn_current = version_view db row,
      sn_versions = map (version_view db) (plan_version_rows db ctx (pl_id p)),
      sn_decisions = map hydrate_decision (plan_decision_rows db ctx (pl_id p))\<rparr>"

lemma plan_version_rows_key:
  assumes "session_id ctx = Some s" "row \<in> set (plan_version_rows db ctx pid)"
  shows "version_key row = (plan_scope ctx s pid, pv_plan_version row)" "row \<in> set (agent_plan_versions (wf db))"
  using assms(2) scope_predicates(2)[OF assms(1)] by (simp_all add: plan_version_rows_def version_key_def)

lemma dependency_entries_sorted:
  assumes c: "session_id ctx = Some s" and r: "plans_readable sk sv db"
    and e: "e \<in> set (dependency_lists (filter (dependency_scope_predicate ctx pid) (agent_plan_step_dependencies db)))"
  shows "sort_dependencies (plan_step_rows db ctx pid) e = Inr e"
proof -
  obtain ver i ds where eq: "e = ((ver, i), ds)" by (metis surj_pair)
  let ?k = "(plan_scope ctx s pid, ver)"
  let ?rows = "filter (\<lambda>d. dp_step_id d = i) (version_deps db ?k)"
  have "filter (\<lambda>d. (dp_plan_version d, dp_step_id d) = (ver, i))
      (filter (dependency_scope_predicate ctx pid) (agent_plan_step_dependencies db)) = ?rows"
    using scope_predicates(4)[OF c] by (auto simp: version_deps_def intro!: filter_cong)
  then have "ds = map dp_depends_on_step_id ?rows \<and> ds \<noteq> []"
    using dependency_lists_entry[OF e[unfolded eq]] by argo
  then have ds: "ds = map dp_depends_on_step_id ?rows" "?rows \<noteq> []" by auto
  then have "hd ?rows \<in> set ?rows" using hd_in_set by blast
  then obtain d where d: "d \<in> set (agent_plan_step_dependencies db)" "(dependency_plan d, dp_plan_version d) = ?k"
      "dp_step_id d = i" "d \<in> set (version_deps db ?k)"
    by (auto simp: version_deps_def)
  then obtain row where row: "row \<in> set (agent_plan_versions (wf db))" "version_key row = ?k"
    using r unfolding plans_readable_def plan_store_ok_def by (metis (no_types, lifting) imageE)
  then obtain v ids where v: "revalidated sk sv v" "version_holds db row v ids"
    using r unfolding plans_readable_def version_stored_def by blast
  have ver: "pv_plan_version row = ver" using row(2) by (simp add: version_key_def)
  have pairs: "map (\<lambda>d. (dp_step_id d, dp_depends_on_step_id d)) (version_deps db ?k) = dependency_pairs ids (vp_steps v)"
    using v(2) row(2) by (simp add: version_holds_def)
  have "(i, dp_depends_on_step_id d) \<in> set (dependency_pairs ids (vp_steps v))"
    unfolding pairs[symmetric] using d by force
  then obtain st where st: "st \<in> set (vp_steps v)" "i = ids (d_key st)" by (auto simp: dependency_pairs_def)
  have "map dp_depends_on_step_id ?rows = map ids (d_depends_on st)"
    using version_holds_dependencies[OF v(2) revalidated_steps(1)[OF v(1)] st(1)] st(2) row(2) ver
    by (simp add: version_view_def version_dependencies_lookup version_deps_def conj_commute cong: conj_cong)
  then show ?thesis
    using sort_dependencies_version[OF c _ v(2,1) _ st(1), of pid] r row(2) ver ds(1)
    unfolding eq plans_readable_def by simp
qed

lemma hydrate_version_readable:
  assumes c: "session_id ctx = Some s" and r: "plans_readable sk sv db" and row: "row \<in> set (plan_version_rows db ctx pid)"
  shows "hydrate_version sk sv row
      (map hydrate_step (filter (\<lambda>x. pst_plan_version x = pv_plan_version row) (plan_step_rows db ctx pid)))
      (version_dependencies (dependency_lists (filter (dependency_scope_predicate ctx pid) (agent_plan_step_dependencies db)))
        (pv_plan_version row)) = Inr (version_view db row)"
proof -
  note k = plan_version_rows_key[OF c row]
  obtain v ids where v: "revalidated sk sv v" "version_holds db row v ids"
    using r k(2) unfolding plans_readable_def version_stored_def by blast
  have "filter (\<lambda>d. dp_plan_version d = pv_plan_version row)
      (filter (dependency_scope_predicate ctx pid) (agent_plan_step_dependencies db)) = version_deps db (version_key row)"
    using scope_predicates(4)[OF c] k(1) by (auto simp: version_deps_def intro!: filter_cong)
  then have deps: "version_dependencies (dependency_lists (filter (dependency_scope_predicate ctx pid) (agent_plan_step_dependencies db)))
      (pv_plan_version row) = ve_dependencies (version_view db row)"
    by (subst version_dependencies_own) (simp add: version_view_def)
  have cons: "read_constraints (pv_constraints_json row) = Inr (vp_constraints v)"
    using v(2) read_constraints_strings by (simp add: version_holds_def)
  have "version_view db row = \<lparr>ve_plan_id = pv_plan_id row, ve_plan_version = pv_plan_version row,
      ve_objective = pv_objective row, ve_constraints = vp_constraints v,
      ve_generation_reason = pv_generation_reason row, ve_parent_version = pv_parent_version row,
      ve_revision_feedback = pv_revision_feedback row, ve_schema_version = pv_schema_version row,
      ve_content_digest = pv_content_digest row, ve_created_at = pv_created_at row,
      ve_steps = map hydrate_step (version_steps db (version_key row)),
      ve_dependencies = ve_dependencies (version_view db row)\<rparr>"
    by (simp add: version_view_def cons)
  then show ?thesis
    unfolding hydrate_version_def cons Let_def plan_step_rows_version[OF c v(2,1) k(1)] deps
    using version_holds_integrity[OF v(2,1)] by simp
qed

lemma plan_current_row:
  assumes c: "session_id ctx = Some s" and r: "plans_readable sk sv db"
    and p: "p \<in> set (agent_plans db)" "plan_key p = plan_scope ctx s pid"
  shows "\<exists>row \<in> set (plan_version_rows db ctx pid). version_key row = (plan_key p, pl_current_version p) \<and>
    List.find (\<lambda>v. ve_plan_version v = pl_current_version p) (map (version_view db) (plan_version_rows db ctx pid)) =
      Some (version_view db row)"
proof -
  obtain row where row: "row \<in> set (agent_plan_versions (wf db))" "version_key row = (plan_key p, pl_current_version p)"
    using r p(1) unfolding plans_readable_def by (metis (no_types, lifting) imageE)
  then have mem: "row \<in> set (plan_version_rows db ctx pid)"
    using scope_predicates(2)[OF c] p(2) by (simp add: plan_version_rows_def)
  have ver: "pv_plan_version row = pl_current_version p" using row(2) by (simp add: version_key_def)
  let ?vs = "map (version_view db) (plan_version_rows db ctx pid)"
  have "List.find (\<lambda>v. ve_plan_version v = pl_current_version p) ?vs \<noteq> None"
    using mem ver by (auto simp: find_None_iff version_view_def)
  then obtain w where w: "List.find (\<lambda>v. ve_plan_version v = pl_current_version p) ?vs = Some w" by blast
  then obtain row' where row': "row' \<in> set (plan_version_rows db ctx pid)" "w = version_view db row'"
      "pv_plan_version row' = pl_current_version p"
    using find_SomeD[OF w] by (auto simp: version_view_def)
  have "version_key row' = version_key row"
    using plan_version_rows_key(1)[OF c row'(1)] plan_version_rows_key(1)[OF c mem] row'(3) ver by simp
  moreover have "distinct (map version_key (agent_plan_versions (wf db)))"
    using r by (simp add: plans_readable_def plan_store_ok_def)
  ultimately have "row' = row"
    using plan_version_rows_key(2)[OF c row'(1)] row(1) by (simp add: distinct_map inj_on_def)
  then show ?thesis using mem row(2) w row'(2) by blast
qed

lemma get_plan_readable:
  assumes c: "session_id ctx = Some s" and r: "plans_readable sk sv db"
    and p: "List.find (plan_predicate ctx pid) (agent_plans db) = Some p"
  shows "\<exists>row \<in> set (agent_plan_versions (wf db)). version_key row = (plan_key p, pl_current_version p) \<and>
    get_plan sk sv db ctx pid = Inr (Some (plan_view db ctx p row))"
proof -
  have mem: "p \<in> set (agent_plans db)" and key: "plan_key p = plan_scope ctx s pid"
    using find_SomeD[OF p] scope_predicates(1)[OF c] by auto
  then have pid: "pl_id p = pid" by (simp add: plan_key_def)
  obtain row where row: "row \<in> set (plan_version_rows db ctx pid)" "version_key row = (plan_key p, pl_current_version p)"
    and f: "List.find (\<lambda>v. ve_plan_version v = pl_current_version p) (map (version_view db) (plan_version_rows db ctx pid)) =
      Some (version_view db row)" using plan_current_row[OF c r mem key] by blast
  have deps: "map_rows (sort_dependencies (plan_step_rows db ctx pid))
      (dependency_lists (filter (dependency_scope_predicate ctx pid) (agent_plan_step_dependencies db))) =
      Inr (dependency_lists (filter (dependency_scope_predicate ctx pid) (agent_plan_step_dependencies db)))"
    by (rule map_rows_id) (rule dependency_entries_sorted[OF c r])
  have versions: "map_rows (\<lambda>row. hydrate_version sk sv row
        (map hydrate_step (filter (\<lambda>x. pst_plan_version x = pv_plan_version row) (plan_step_rows db ctx pid)))
        (version_dependencies (dependency_lists (filter (dependency_scope_predicate ctx pid) (agent_plan_step_dependencies db)))
          (pv_plan_version row))) (plan_version_rows db ctx pid) =
      Inr (map (version_view db) (plan_version_rows db ctx pid))"
    by (rule map_rows_Inr) (rule hydrate_version_readable[OF c r])
  have "get_plan sk sv db ctx pid = Inr (Some (plan_view db ctx p row))"
    unfolding get_plan_def p
    using c by (simp add: require_session_def need_def Let_def deps versions f plan_view_def pid)
  then show ?thesis using row plan_version_rows_key(2)[OF c row(1)] by blast
qed

end
