(* ===== verification/Plan_Steps.thy ===== *)
theory Plan_Steps
  imports Plan_Attempts Workflow_Protocol
begin

text \<open>
  What holds of the attempts of a plan over every history: one attempt of a run is running at a time, a
  step is retried only after a retryable failure and never past its limit, it starts only after its
  dependencies succeeded, and an attempt that has ended never changes.
\<close>

section \<open>The latest attempt of a step\<close>

lemma map_of_setdefault_fold:
  "map_of (foldl (\<lambda>d a. dict_setdefault d (k a) (v a)) d xs) i =
    (case map_of d i of Some r \<Rightarrow> Some r | None \<Rightarrow> map_option v (List.find (\<lambda>a. k a = i) xs))"
proof (induction xs arbitrary: d)
  case (Cons x xs)
  have "map_of (dict_setdefault d (k x) (v x)) i =
      (case map_of d i of Some r \<Rightarrow> Some r | None \<Rightarrow> if k x = i then Some (v x) else None)"
    by (auto simp: dict_setdefault_def map_add_def split: option.splits)
  with Cons show ?case by (auto split: option.splits)
qed (simp split: option.splits)

lemma find_sorted:
  "sorted (map f xs) \<Longrightarrow> List.find P xs = Some a \<Longrightarrow> a \<in> set xs \<and> P a \<and> (\<forall>b \<in> set xs. P b \<longrightarrow> f a \<le> f b)"
  by (induction xs) (auto split: if_splits)

lemma find_sort_key:
  assumes "List.find P (sort_key f xs) = Some a"
  shows "a \<in> set xs \<and> P a \<and> (\<forall>b \<in> set xs. P b \<longrightarrow> f a \<le> f b)"
  using find_sorted[OF sorted_sort_key assms] by simp

lemma latest_step_attempts_lookup:
  assumes "latest_step_attempts db ctx pid ver run = Inr latest"
  shows "map_of latest sid = None \<longleftrightarrow> (\<forall>a \<in> set (version_attempts db ctx pid ver run). sr_step_id a \<noteq> sid)"
    and "map_of latest sid = Some r \<Longrightarrow> \<exists>a \<in> set (version_attempts db ctx pid ver run).
      sr_step_id a = sid \<and> r = hydrate_step_run a \<and>
      (\<forall>b \<in> set (version_attempts db ctx pid ver run). sr_step_id b = sid \<longrightarrow> sr_attempt b \<le> sr_attempt a)"
proof -
  let ?rows = "sort_key (\<lambda>a. (sr_step_id a, - sr_attempt a)) (version_attempts db ctx pid ver run)"
  have look: "map_of latest sid = map_option hydrate_step_run (List.find (\<lambda>a. sr_step_id a = sid) ?rows)"
    using assms by (auto simp: latest_step_attempts_def res_simps map_of_setdefault_fold)
  show "map_of latest sid = None \<longleftrightarrow> (\<forall>a \<in> set (version_attempts db ctx pid ver run). sr_step_id a \<noteq> sid)"
    unfolding look by (auto simp: find_None_iff)
  assume "map_of latest sid = Some r"
  then obtain a where "List.find (\<lambda>a. sr_step_id a = sid) ?rows = Some a" "r = hydrate_step_run a"
    unfolding look by auto
  from find_sort_key[OF this(1)] this(2) show "\<exists>a \<in> set (version_attempts db ctx pid ver run).
      sr_step_id a = sid \<and> r = hydrate_step_run a \<and>
      (\<forall>b \<in> set (version_attempts db ctx pid ver run). sr_step_id b = sid \<longrightarrow> sr_attempt b \<le> sr_attempt a)"
    by (auto simp: less_eq_prod_def)
qed

section \<open>What a successful operation did\<close>

lemma lease_row_scope_Inr:
  "lease_row_scope ctx lease = Inr (s, run) \<longleftrightarrow> session_id ctx = Some s \<and> run_id (l_context lease) = Some run"
  by (auto simp: lease_row_scope_def require_session_def res_simps)

lemma scope_predicate_iff:
  "session_id ctx = Some s \<Longrightarrow>
    step_run_scope_predicate ctx run a \<longleftrightarrow> attempt_run a = (tenant_id ctx, workspace_id ctx, s, run)"
  by (auto simp: step_run_scope_predicate_def in_session_def attempt_run_def)

lemma has_running_attempt_iff:
  "session_id ctx = Some s \<Longrightarrow> has_running_attempt db ctx run \<longleftrightarrow>
    (\<exists>a \<in> set (agent_plan_step_runs db). attempt_run a = (tenant_id ctx, workspace_id ctx, s, run) \<and> sr_status a = SR_RUNNING)"
  by (auto simp: has_running_attempt_def scope_predicate_iff find_None_iff)

text \<open>What the readiness check establishes for a new row, in terms of the rows that are there.\<close>

definition same_version :: "plan_step_run_row \<Rightarrow> plan_step_run_row \<Rightarrow> bool" where
  "same_version a b \<longleftrightarrow> attempt_run b = attempt_run a \<and> sr_plan_id b = sr_plan_id a \<and>
     sr_plan_version b = sr_plan_version a"

definition within_limit :: "planning_settings \<Rightarrow> plan_db \<Rightarrow> plan_step_run_row \<Rightarrow> bool" where
  "within_limit st db a \<longleftrightarrow> (\<exists>s \<in> set (agent_plan_steps db).
     step_key s = (attempt_plan a, sr_plan_version a, sr_step_id a) \<and>
     sr_attempt a \<le> min (pst_max_attempts s) (pset_max_step_attempts st))"

definition next_attempt :: "plan_step_run_row list \<Rightarrow> plan_step_run_row \<Rightarrow> bool" where
  "next_attempt rows a \<longleftrightarrow>
     (\<forall>b \<in> set rows. same_version a b \<longrightarrow> sr_step_id b = sr_step_id a \<longrightarrow> sr_attempt b < sr_attempt a) \<and>
     (sr_attempt a = 1 \<or> (\<exists>b \<in> set rows. same_version a b \<and> sr_step_id b = sr_step_id a \<and>
        sr_attempt b = sr_attempt a - 1 \<and> sr_status b \<notin> set NON_DISPATCHABLE_PLAN_STEP_STATUSES))"

definition dependencies_succeeded :: "plan_db \<Rightarrow> plan_step_run_row \<Rightarrow> bool" where
  "dependencies_succeeded db a \<longleftrightarrow> (\<forall>d \<in> set (agent_plan_step_dependencies db).
     dependency_plan d = attempt_plan a \<longrightarrow> dp_plan_version d = sr_plan_version a \<longrightarrow> dp_step_id d = sr_step_id a \<longrightarrow>
     (\<exists>b \<in> set (agent_plan_step_runs db). same_version a b \<and> sr_step_id b = dp_depends_on_step_id d \<and>
        sr_status b = SR_SUCCEEDED))"

definition none_running :: "plan_step_run_row list \<Rightarrow> scope \<Rightarrow> bool" where
  "none_running rows sc \<longleftrightarrow> (\<forall>a \<in> set rows. attempt_run a = sc \<longrightarrow> sr_status a \<noteq> SR_RUNNING)"

definition may_start :: "planning_settings \<Rightarrow> plan_db \<Rightarrow> plan_step_run_row \<Rightarrow> bool" where
  "may_start st db a \<longleftrightarrow> within_limit st db a \<and> next_attempt (agent_plan_step_runs db) a \<and>
     dependencies_succeeded db a \<and> none_running (agent_plan_step_runs db) (attempt_run a)"

lemma version_attempts_iff:
  assumes "session_id ctx = Some s" "attempt_run a = (tenant_id ctx, workspace_id ctx, s, run)"
    and "sr_plan_id a = pid" "sr_plan_version a = ver"
  shows "b \<in> set (version_attempts db ctx pid ver run) \<longleftrightarrow>
    b \<in> set (agent_plan_step_runs db) \<and> same_version a b"
  using assms by (auto simp: version_attempts_def scope_predicate_iff same_version_def)

lemma require_step_ready_Inr:
  assumes "require_step_ready st db ctx run pid ver sid = Inr (attempt, lim)"
    and s: "session_id ctx = Some s" "attempt_run a = (tenant_id ctx, workspace_id ctx, s, run)"
    and a: "sr_plan_id a = pid" "sr_plan_version a = ver" "sr_step_id a = sid" "sr_attempt a = attempt"
    and none: "\<not> has_running_attempt db ctx run"
  shows "may_start st db a"
proof -
  obtain row latest where row: "List.find (\<lambda>x. step_scope_predicate ctx pid x \<and>
        pst_plan_version x = ver \<and> pst_step_id x = sid) (agent_plan_steps db) = Some row"
    and latest: "latest_step_attempts db ctx pid ver run = Inr latest"
    and ready: "is_plan_step_ready sid (step_dependency_ids db ctx pid ver sid) latest"
    and attempt: "attempt = (case map_of latest sid of None \<Rightarrow> 0 | Some c \<Rightarrow> at_attempt c) + 1"
    and lim: "\<not> min (pst_max_attempts row) (pset_max_step_attempts st) < attempt"
    using assms(1) by (auto simp: require_step_ready_def res_simps Let_def positive_attempt_limit_def split: if_splits)
  note mem = version_attempts_iff[OF s a(1,2)]
  note look = latest_step_attempts_lookup[OF latest]
  have "within_limit st db a"
    using find_SomeD[OF row] lim[unfolded not_less] a s
    by (auto simp: within_limit_def step_key_def step_plan_def step_scope_predicate_def in_session_def
        attempt_plan_def attempt_run_def)
  moreover have "next_attempt (agent_plan_step_runs db) a"
  proof (cases "map_of latest sid")
    case None
    then show ?thesis using look(1)[of sid] mem attempt a by (auto simp: next_attempt_def)
  next
    case (Some c)
    obtain b where b: "b \<in> set (agent_plan_step_runs db)" "same_version a b" "sr_step_id b = sid"
      "c = hydrate_step_run b" "\<forall>b' \<in> set (version_attempts db ctx pid ver run). sr_step_id b' = sid \<longrightarrow> sr_attempt b' \<le> sr_attempt b"
      using look(2)[OF Some] mem by blast
    have "sr_attempt a = sr_attempt b + 1" using attempt Some b(4) a(4) by (simp add: hydrate_step_run_def)
    moreover have "sr_status b \<notin> set NON_DISPATCHABLE_PLAN_STEP_STATUSES"
      using ready Some b(4) by (simp add: is_plan_step_ready_def hydrate_step_run_def)
    ultimately show ?thesis using b mem a(3) unfolding next_attempt_def by fastforce
  qed
  moreover have "dependencies_succeeded db a"
    unfolding dependencies_succeeded_def
  proof (intro ballI impI)
    fix d assume d: "d \<in> set (agent_plan_step_dependencies db)" "dependency_plan d = attempt_plan a"
      "dp_plan_version d = sr_plan_version a" "dp_step_id d = sr_step_id a"
    then have "dp_depends_on_step_id d \<in> set (step_dependency_ids db ctx pid ver sid)"
      using a s by (auto simp: step_dependency_ids_def dependency_scope_predicate_def in_session_def
          dependency_plan_def attempt_plan_def attempt_run_def)
    then obtain r where r: "map_of latest (dp_depends_on_step_id d) = Some r" "at_status r = SR_SUCCEEDED"
      using ready by (auto simp: is_plan_step_ready_def list_all_iff split: option.splits)
    from look(2)[OF r(1)] r(2) mem show "\<exists>b \<in> set (agent_plan_step_runs db). same_version a b \<and>
        sr_step_id b = dp_depends_on_step_id d \<and> sr_status b = SR_SUCCEEDED"
      by (auto simp: hydrate_step_run_def)
  qed
  moreover have "none_running (agent_plan_step_runs db) (attempt_run a)"
    using none by (simp add: none_running_def has_running_attempt_iff[OF s(1)] s(2))
  ultimately show ?thesis by (simp add: may_start_def)
qed

lemma insert_step_run_Inr:
  assumes "insert_agent_plan_step_run db a = Inr db'"
  shows "db' = db\<lparr>agent_plan_step_runs := agent_plan_step_runs db @ [a]\<rparr> \<and> attempt_checks a \<and>
    (attempt_run a, sr_step_id a, sr_attempt a) \<notin>
      (\<lambda>a. (attempt_run a, sr_step_id a, sr_attempt a)) ` set (agent_plan_step_runs db) \<and>
    (attempt_plan a, sr_plan_version a, sr_step_id a) \<in> step_key ` set (agent_plan_steps db)"
  using assms by (auto simp: insert_agent_plan_step_run_def split: if_splits)

lemma create_step_attempt_effect:
  assumes "create_step_attempt clk st db ctx uuid lease pid ver sid = Inr (r, db')"
  shows "\<exists>a. insert_agent_plan_step_run db a = Inr db' \<and> may_start st db a \<and> sr_status a = SR_RUNNING \<and>
    sr_step_id a = sid \<and> sr_step_run_id a = uuid \<and> sr_plan_id a = pid \<and> sr_plan_version a = ver \<and>
    ctx_scope (l_context lease) = Some (attempt_run a)"
proof -
  obtain s run row attempt lim where sc: "session_id ctx = Some s" "run_id (l_context lease) = Some run"
    and ok: "lease_matches_context ctx lease = Inr True"
    and none: "\<not> has_running_attempt db ctx run"
    and ready: "require_step_ready st db ctx run pid ver sid = Inr (attempt, lim)"
    and ins: "insert_attempt db ctx (new_step_run ctx s run pid ver sid uuid attempt (clk 1)) lim = Inr (r, db')"
    using assms
    by (auto simp: create_step_attempt_def res_simps lease_row_scope_Inr require_no_running_attempt_def)
  let ?a = "new_step_run ctx s run pid ver sid uuid attempt (clk 1)"
  have "insert_agent_plan_step_run db ?a = Inr db'"
    using ins by (auto simp: insert_attempt_def res_simps split: sum.splits if_splits)
  moreover have "may_start st db ?a"
    by (rule require_step_ready_Inr[OF ready sc(1)]) (simp_all add: none new_step_run_def attempt_run_def)
  moreover have "ctx_scope (l_context lease) = Some (attempt_run ?a)"
    using ok sc by (auto simp: lease_matches_context_def require_session_def ctx_scope_def attempt_run_def
        new_step_run_def split: if_splits)
  ultimately show ?thesis by (auto simp: new_step_run_def)
qed

lemma create_reused_effect:
  assumes "create_reused_step_attempt clk st db ctx uuid lease pid ver sid source_id = Inr (r, db')"
  shows "db' = db \<or> (\<exists>a. insert_agent_plan_step_run db a = Inr db' \<and> may_start st db a \<and> sr_status a = SR_SUCCEEDED)"
proof -
  obtain s run attempt lim source where sc: "session_id ctx = Some s" "run_id (l_context lease) = Some run"
    and none: "\<not> has_running_attempt db ctx run"
    and ready: "require_step_ready st db ctx run pid ver sid = Inr (attempt, lim)"
    and ins: "insert_reused_attempt db ctx
        (reused_step_run ctx s run pid ver sid uuid attempt (clk 1) source) source_id = Inr (r, db')"
    using assms
    by (auto simp: create_reused_step_attempt_def res_simps lease_row_scope_Inr require_no_running_attempt_def)
  let ?a = "reused_step_run ctx s run pid ver sid uuid attempt (clk 1) source"
  have "may_start st db ?a"
    by (rule require_step_ready_Inr[OF ready sc(1)]) (simp_all add: none reused_step_run_def attempt_run_def)
  moreover have "db' = db \<or> insert_agent_plan_step_run db ?a = Inr db'"
    using ins by (auto simp: insert_reused_attempt_def res_simps split: sum.splits if_splits option.splits)
  ultimately show ?thesis by (auto simp: reused_step_run_def)
qed

text \<open>An ended attempt: its identity is that of the running row, its status one of the four final ones.\<close>

definition ends_as :: "plan_step_run_row \<Rightarrow> plan_step_run_row \<Rightarrow> bool" where
  "ends_as a b \<longleftrightarrow> sr_status a = SR_RUNNING \<and>
     sr_status b \<in> {SR_SUCCEEDED, SR_FAILED_RETRYABLE, SR_FAILED_TERMINAL, SR_CANCELLED} \<and>
     attempt_plan b = attempt_plan a \<and> attempt_run b = attempt_run a \<and> sr_plan_version b = sr_plan_version a \<and>
     sr_step_id b = sr_step_id a \<and> sr_step_run_id b = sr_step_run_id a \<and> sr_attempt b = sr_attempt a \<and>
     sr_version b = sr_version a + 1 \<and> sr_started_at b = sr_started_at a"

lemma swap_running_effect:
  assumes "swap_running_attempt db ctx run i expected f = Inr (r, db')"
    and "\<And>a. sr_status a = SR_RUNNING \<Longrightarrow> sr_version a = expected \<Longrightarrow> ends_as a (f a)"
  shows "\<exists>rows. db' = db\<lparr>agent_plan_step_runs := rows\<rparr> \<and>
    list_all2 (\<lambda>a b. b = a \<or> ends_as a b) (agent_plan_step_runs db) rows"
proof -
  let ?p = "\<lambda>a. step_run_scope_predicate ctx run a \<and> sr_step_run_id a = i \<and> sr_status a = SR_RUNNING \<and> sr_version a = expected"
  have "db' = db\<lparr>agent_plan_step_runs := upd_where ?p f (agent_plan_step_runs db)\<rparr>"
    using assms(1) by (auto simp: swap_running_attempt_def update_step_runs_def res_simps split: if_splits)
  moreover have "list_all2 (\<lambda>a b. b = a \<or> ends_as a b) (agent_plan_step_runs db) (upd_where ?p f (agent_plan_step_runs db))"
    using assms(2) by (auto simp: upd_where_def list_all2_map2 list_all2_same)
  ultimately show ?thesis by blast
qed

lemma finish_step_attempt_effect:
  assumes "finish_step_attempt clk db ctx lease i expected status result ref code detail = Inr (r, db')"
  shows "\<exists>rows. db' = db\<lparr>agent_plan_step_runs := rows\<rparr> \<and>
    list_all2 (\<lambda>a b. b = a \<or> ends_as a b) (agent_plan_step_runs db) rows"
proof -
  obtain run where "status \<in> {SR_SUCCEEDED, SR_FAILED_RETRYABLE, SR_FAILED_TERMINAL}"
    and "swap_running_attempt db ctx run i expected
      (finished_values status result ref code detail expected (clk 1)) = Inr (Some r, db')"
    using assms by (auto simp: finish_step_attempt_def finish_target_ok_def res_simps)
  then show ?thesis
    by (intro swap_running_effect) (auto simp: ends_as_def finished_values_def attempt_plan_def attempt_run_def)
qed

lemma cancel_step_attempt_effect:
  assumes "cancel_step_attempt clk db ctx lease i expected = Inr (r, db')"
  shows "\<exists>rows. db' = db\<lparr>agent_plan_step_runs := rows\<rparr> \<and>
    list_all2 (\<lambda>a b. b = a \<or> ends_as a b) (agent_plan_step_runs db) rows"
proof -
  have same: "\<exists>rows. db = db\<lparr>agent_plan_step_runs := rows\<rparr> \<and>
      list_all2 (\<lambda>a b. b = a \<or> ends_as a b) (agent_plan_step_runs db) rows"
    by (rule exI[of _ "agent_plan_step_runs db"]) (simp add: list_all2_same)
  have "db' = db \<or> (\<exists>run. swap_running_attempt db ctx run i expected
      (\<lambda>a. a\<lparr>sr_status := SR_CANCELLED, sr_version := expected + 1, sr_finished_at := Some (clk 1)\<rparr>) = Inr (r, db'))"
    using assms by (auto simp: cancel_step_attempt_def res_simps split: option.splits if_splits)
  then show ?thesis
  proof
    assume "\<exists>run. swap_running_attempt db ctx run i expected
      (\<lambda>a. a\<lparr>sr_status := SR_CANCELLED, sr_version := expected + 1, sr_finished_at := Some (clk 1)\<rparr>) = Inr (r, db')"
    then obtain run where "swap_running_attempt db ctx run i expected
      (\<lambda>a. a\<lparr>sr_status := SR_CANCELLED, sr_version := expected + 1, sr_finished_at := Some (clk 1)\<rparr>) = Inr (r, db')" ..
    then show ?thesis by (rule swap_running_effect) (simp add: ends_as_def attempt_plan_def attempt_run_def)
  qed (use same in simp)
qed

section \<open>The step relation\<close>

text \<open>
  One step of the system as the attempts see it: an operation on an attempt under any lease, or any other
  operation, which leaves the attempts alone, keeps the plan steps that exist and adds dependencies to
  new steps only (a plan version is written once, with all its steps).
\<close>

definition plan_frame :: "plan_db \<Rightarrow> plan_db \<Rightarrow> bool" where
  "plan_frame db db' \<longleftrightarrow> agent_plan_step_runs db' = agent_plan_step_runs db \<and>
     distinct (map pst_step_id (agent_plan_steps db')) \<and>
     set (agent_plan_steps db) \<subseteq> set (agent_plan_steps db') \<and>
     (\<forall>d \<in> set (agent_plan_step_dependencies db'). d \<in> set (agent_plan_step_dependencies db) \<or>
        dp_step_id d \<notin> pst_step_id ` set (agent_plan_steps db))"

inductive plan_step :: "planning_settings \<Rightarrow> plan_db \<Rightarrow> plan_db \<Rightarrow> bool" for st where
  start: "create_step_attempt clk st db ctx uuid lease pid ver sid = Inr (r, db') \<Longrightarrow> plan_step st db db'"
| reuse: "create_reused_step_attempt clk st db ctx uuid lease pid ver sid source_id = Inr (r, db') \<Longrightarrow>
    plan_step st db db'"
| finish: "finish_step_attempt clk db ctx lease i expected status result ref code detail = Inr (r, db') \<Longrightarrow>
    plan_step st db db'"
| cancel: "cancel_step_attempt clk db ctx lease i expected = Inr (q, db') \<Longrightarrow> plan_step st db db'"
| other: "plan_frame db db' \<Longrightarrow> plan_step st db db'"

text \<open>Every step adds one attempt that may start, ends running attempts, or leaves the attempts alone.\<close>

lemma plan_step_cases:
  assumes "plan_step st db db'"
  obtains (added) a where "insert_agent_plan_step_run db a = Inr db'" "may_start st db a"
      "sr_status a \<in> {SR_RUNNING, SR_SUCCEEDED}"
    | (ended) rows where "db' = db\<lparr>agent_plan_step_runs := rows\<rparr>"
      "list_all2 (\<lambda>a b. b = a \<or> ends_as a b) (agent_plan_step_runs db) rows"
    | (framed) "plan_frame db db'"
proof -
  have same: "list_all2 (\<lambda>a b. b = a \<or> ends_as a b) (agent_plan_step_runs db) (agent_plan_step_runs db)"
    by (simp add: list_all2_same)
  show thesis
    using assms
  proof cases
    case (start clk ctx uuid lease pid ver sid r)
    from create_step_attempt_effect[OF start] show thesis by (blast intro: added)
  next
    case (reuse clk ctx uuid lease pid ver sid source_id r)
    from create_reused_effect[OF reuse] show thesis
    proof
      assume "db' = db"
      then show thesis using ended[of "agent_plan_step_runs db"] same by simp
    qed (blast intro: added)
  next
    case (finish clk ctx lease i expected status result ref code detail r)
    from finish_step_attempt_effect[OF finish] obtain rows where "db' = db\<lparr>agent_plan_step_runs := rows\<rparr>"
      "list_all2 (\<lambda>a b. b = a \<or> ends_as a b) (agent_plan_step_runs db) rows" by auto
    then show thesis by (rule ended)
  next
    case (cancel clk ctx lease i expected q)
    from cancel_step_attempt_effect[OF cancel] obtain rows where "db' = db\<lparr>agent_plan_step_runs := rows\<rparr>"
      "list_all2 (\<lambda>a b. b = a \<or> ends_as a b) (agent_plan_step_runs db) rows" by auto
    then show thesis by (rule ended)
  qed (rule framed)
qed

section \<open>Keys\<close>

definition attempt_key :: "plan_step_run_row \<Rightarrow> scope \<times> string \<times> int" where
  "attempt_key a = (attempt_run a, sr_step_id a, sr_attempt a)"

definition keys_inv :: "plan_db \<Rightarrow> bool" where
  "keys_inv db \<longleftrightarrow> distinct (map pst_step_id (agent_plan_steps db)) \<and>
     distinct (map attempt_key (agent_plan_step_runs db)) \<and>
     (\<forall>a \<in> set (agent_plan_step_runs db).
        (attempt_plan a, sr_plan_version a, sr_step_id a) \<in> step_key ` set (agent_plan_steps db))"

lemma list_all2_map_eq: "list_all2 (\<lambda>a b. k b = k a) xs ys \<Longrightarrow> map k ys = map k xs"
  by (induction rule: list_all2_induct) auto

lemma ended_map:
  assumes "list_all2 (\<lambda>a b. b = a \<or> ends_as a b) xs ys" "\<And>a b. ends_as a b \<Longrightarrow> k b = k a"
  shows "map k ys = map k xs"
  by (rule list_all2_map_eq, rule list_all2_mono[OF assms(1)]) (use assms(2) in auto)

lemma ended_identity:
  assumes "list_all2 (\<lambda>a b. b = a \<or> ends_as a b) xs ys" "b \<in> set ys"
  obtains a where "a \<in> set xs" "b = a \<or> ends_as a b"
  using list_all2_rightE[OF assms] by blast

lemma ended_kept:
  assumes "list_all2 (\<lambda>a b. b = a \<or> ends_as a b) xs ys" "a \<in> set xs" "sr_status a \<noteq> SR_RUNNING"
  shows "a \<in> set ys"
  using list_all2_leftE[OF assms(1,2)] assms(3) by (auto simp: ends_as_def)

lemma keys_inv_step:
  assumes "plan_step st db db'" "keys_inv db"
  shows "keys_inv db'"
  using assms(1)
proof (cases rule: plan_step_cases)
  case (added a)
  then show ?thesis
    using insert_step_run_Inr[OF added(1)] assms(2) by (auto simp: keys_inv_def attempt_key_def)
next
  case (ended rows)
  have "map attempt_key rows = map attempt_key (agent_plan_step_runs db)"
    by (rule ended_map[OF ended(2)]) (simp add: ends_as_def attempt_key_def)
  moreover have "map (\<lambda>a. (attempt_plan a, sr_plan_version a, sr_step_id a)) rows =
      map (\<lambda>a. (attempt_plan a, sr_plan_version a, sr_step_id a)) (agent_plan_step_runs db)"
    by (rule ended_map[OF ended(2)]) (simp add: ends_as_def)
  from arg_cong[OF this, of set] have "(\<lambda>a. (attempt_plan a, sr_plan_version a, sr_step_id a)) ` set rows =
      (\<lambda>a. (attempt_plan a, sr_plan_version a, sr_step_id a)) ` set (agent_plan_step_runs db)" by simp
  ultimately show ?thesis using assms(2) ended(1) unfolding keys_inv_def image_subset_iff[symmetric] by simp
next
  case framed
  then have "step_key ` set (agent_plan_steps db) \<subseteq> step_key ` set (agent_plan_steps db')"
    by (auto simp: plan_frame_def)
  then have "(attempt_plan a, sr_plan_version a, sr_step_id a) \<in> step_key ` set (agent_plan_steps db')"
    if "a \<in> set (agent_plan_step_runs db)" for a
    using assms(2) that unfolding keys_inv_def by (meson subsetD)
  with framed assms(2) show ?thesis by (simp add: keys_inv_def plan_frame_def)
qed

lemma keys_inv_same_version:
  assumes "keys_inv db" "a \<in> set (agent_plan_step_runs db)" "b \<in> set (agent_plan_step_runs db)"
    and "attempt_run b = attempt_run a" "sr_step_id b = sr_step_id a"
  shows "same_version a b"
proof -
  have key: "\<exists>s \<in> set (agent_plan_steps db). step_key s = (attempt_plan c, sr_plan_version c, sr_step_id c)"
    if "c \<in> set (agent_plan_step_runs db)" for c using assms(1) that by (force simp: keys_inv_def)
  obtain s where s: "s \<in> set (agent_plan_steps db)" "step_key s = (attempt_plan a, sr_plan_version a, sr_step_id a)"
    using key[OF assms(2)] by blast
  obtain t where t: "t \<in> set (agent_plan_steps db)" "step_key t = (attempt_plan b, sr_plan_version b, sr_step_id b)"
    using key[OF assms(3)] by blast
  have "s = t"
    using distinct_key_unique[of pst_step_id "agent_plan_steps db" s t] s t assms(1,5)
    by (simp add: keys_inv_def step_key_def)
  then show ?thesis using s(2) t(2) assms(4) by (simp add: same_version_def attempt_plan_def)
qed

section \<open>One attempt at a time\<close>

abbreviation running_in :: "scope \<Rightarrow> plan_step_run_row \<Rightarrow> bool" where
  "running_in sc a \<equiv> attempt_run a = sc \<and> sr_status a = SR_RUNNING"

definition running_inv :: "plan_db \<Rightarrow> bool" where
  "running_inv db \<longleftrightarrow> (\<forall>sc. rowcount (running_in sc) (agent_plan_step_runs db) \<le> 1)"

lemma rowcount_all2_le:
  "list_all2 P xs ys \<Longrightarrow> (\<And>a b. P a b \<Longrightarrow> q b \<Longrightarrow> q a) \<Longrightarrow> rowcount q ys \<le> rowcount q xs"
  by (induction rule: list_all2_induct) (auto intro: le_SucI)

lemma running_inv_step:
  assumes "plan_step st db db'" "running_inv db"
  shows "running_inv db'"
  using assms(1)
proof (cases rule: plan_step_cases)
  case (added a)
  have rows: "agent_plan_step_runs db' = agent_plan_step_runs db @ [a]"
    using insert_step_run_Inr[OF added(1)] by auto
  have "rowcount (running_in sc) (agent_plan_step_runs db') \<le> 1" for sc
  proof (cases "running_in sc a")
    case True
    then have "rowcount (running_in sc) (agent_plan_step_runs db) = 0"
      using added(2) by (auto simp: may_start_def none_running_def rowcount_eq_0_iff)
    then show ?thesis by (simp add: rows)
  next
    case False
    then have "rowcount (running_in sc) [a] = 0" by (simp only: rowcount_simps if_False)
    then show ?thesis
      using assms(2)[unfolded running_inv_def, rule_format, of sc] by (simp add: rows del: rowcount_simps(2))
  qed
  then show ?thesis by (simp add: running_inv_def)
next
  case (ended rows)
  have le: "rowcount (running_in sc) rows \<le> rowcount (running_in sc) (agent_plan_step_runs db)" for sc
    by (rule rowcount_all2_le[OF ended(2)]) (auto simp: ends_as_def)
  have "rowcount (running_in sc) rows \<le> 1" for sc
    using assms(2)[unfolded running_inv_def, rule_format, of sc] le[of sc] by linarith
  with ended(1) show ?thesis by (simp add: running_inv_def)
next
  case framed
  then show ?thesis using assms(2) by (simp add: running_inv_def plan_frame_def)
qed

section \<open>Numbering and limits\<close>

definition retried :: "plan_step_run_row list \<Rightarrow> plan_step_run_row \<Rightarrow> bool" where
  "retried rows a \<longleftrightarrow> 1 \<le> sr_attempt a \<and> sr_status a \<noteq> SR_PENDING \<and>
     (\<forall>k. 1 \<le> k \<longrightarrow> k < sr_attempt a \<longrightarrow> (\<exists>b \<in> set rows. same_version a b \<and> sr_step_id b = sr_step_id a \<and>
        sr_attempt b = k \<and> sr_status b = SR_FAILED_RETRYABLE))"

definition numbering_inv :: "planning_settings \<Rightarrow> plan_db \<Rightarrow> bool" where
  "numbering_inv st db \<longleftrightarrow> (\<forall>a \<in> set (agent_plan_step_runs db).
     within_limit st db a \<and> retried (agent_plan_step_runs db) a)"

lemma same_version_cong: "same_version b a \<Longrightarrow> same_version a c \<longleftrightarrow> same_version b c"
  by (auto simp: same_version_def)

lemma retried_mono:
  assumes "retried rows a" "\<And>b. b \<in> set rows \<Longrightarrow> sr_status b = SR_FAILED_RETRYABLE \<Longrightarrow> b \<in> set rows'"
  shows "retried rows' a"
  using assms unfolding retried_def by blast

lemma retried_new:
  assumes nxt: "next_attempt rows a" and st: "sr_status a \<noteq> SR_PENDING"
    and old: "\<forall>b \<in> set rows. retried rows b"
  shows "retried rows a"
proof (cases "sr_attempt a = 1")
  case False
  then obtain b where b: "b \<in> set rows" "same_version a b" "sr_step_id b = sr_step_id a"
    "sr_attempt b = sr_attempt a - 1" "sr_status b \<notin> set NON_DISPATCHABLE_PLAN_STEP_STATUSES"
    using nxt by (auto simp: next_attempt_def)
  have "retried rows b" using old b(1) by blast
  then have pos: "1 \<le> sr_attempt b" "sr_status b \<noteq> SR_PENDING"
    and prev: "\<And>k. 1 \<le> k \<Longrightarrow> k < sr_attempt b \<Longrightarrow> \<exists>c \<in> set rows. same_version b c \<and> sr_step_id c = sr_step_id b \<and>
        sr_attempt c = k \<and> sr_status c = SR_FAILED_RETRYABLE"
    by (simp_all add: retried_def)
  have failed: "sr_status b = SR_FAILED_RETRYABLE"
    using b(5) pos(2) by (cases "sr_status b")
      (simp_all add: NON_DISPATCHABLE_PLAN_STEP_STATUSES_def TERMINAL_PLAN_STEP_STATUSES_def)
  have "\<exists>c \<in> set rows. same_version a c \<and> sr_step_id c = sr_step_id a \<and>
      sr_attempt c = k \<and> sr_status c = SR_FAILED_RETRYABLE" if "1 \<le> k" "k < sr_attempt a" for k
  proof (cases "k = sr_attempt b")
    case True
    then show ?thesis using b failed by blast
  next
    case False
    then have "k < sr_attempt b" using that b(4) by simp
    from prev[OF that(1) this] b(2,3) show ?thesis unfolding same_version_def by metis
  qed
  then show ?thesis using b(4) pos(1) st by (simp add: retried_def)
qed (use st in \<open>simp add: retried_def\<close>)

lemma ends_as_identity:
  assumes "b = a \<or> ends_as a b"
  shows "attempt_plan b = attempt_plan a \<and> attempt_run b = attempt_run a \<and> sr_plan_version b = sr_plan_version a \<and>
    sr_step_id b = sr_step_id a \<and> sr_attempt b = sr_attempt a \<and> same_version b c = same_version a c"
  using assms by (auto simp: ends_as_def same_version_def attempt_plan_def)

lemma numbering_inv_step:
  assumes "plan_step st db db'" "numbering_inv st db"
  shows "numbering_inv st db'"
  using assms(1)
proof (cases rule: plan_step_cases)
  case (added a)
  have db': "db' = db\<lparr>agent_plan_step_runs := agent_plan_step_runs db @ [a]\<rparr>"
    using insert_step_run_Inr[OF added(1)] by blast
  have "sr_status a \<noteq> SR_PENDING" using added(3) by auto
  then have "retried (agent_plan_step_runs db) a"
    using retried_new[of "agent_plan_step_runs db" a] added(2) assms(2) by (simp add: may_start_def numbering_inv_def)
  moreover have "within_limit st db a" using added(2) by (simp add: may_start_def)
  ultimately have "within_limit st db b \<and> retried (agent_plan_step_runs db) b" if "b \<in> set (agent_plan_step_runs db')" for b
    using that assms(2) by (auto simp: db' numbering_inv_def)
  moreover have "retried (agent_plan_step_runs db') b" if "retried (agent_plan_step_runs db) b" for b
    using retried_mono[OF that] by (simp add: db')
  ultimately show ?thesis by (simp add: numbering_inv_def within_limit_def db')
next
  case (ended rows)
  have "within_limit st db b \<and> retried rows b" if "b \<in> set rows" for b
  proof -
    obtain a where a: "a \<in> set (agent_plan_step_runs db)" "b = a \<or> ends_as a b"
      using ended_identity[OF ended(2) \<open>b \<in> set rows\<close>] by blast
    note id = ends_as_identity[OF a(2)]
    have old: "within_limit st db a" "retried (agent_plan_step_runs db) a"
      using assms(2) a(1) by (auto simp: numbering_inv_def)
    have "retried rows a" by (rule retried_mono[OF old(2)]) (simp add: ended_kept[OF ended(2)])
    moreover have "sr_status b \<noteq> SR_PENDING" using a(2) old(2) by (auto simp: retried_def ends_as_def)
    ultimately have "retried rows b" using id unfolding retried_def by metis
    moreover have "within_limit st db b" using old(1) id by (simp add: within_limit_def)
    ultimately show ?thesis by simp
  qed
  then show ?thesis by (simp add: numbering_inv_def within_limit_def ended(1))
next
  case framed
  then have "within_limit st db b \<Longrightarrow> within_limit st db' b" for b
    by (auto simp: plan_frame_def within_limit_def)
  with framed assms(2) show ?thesis by (simp add: plan_frame_def numbering_inv_def)
qed

section \<open>Dependencies\<close>

definition dependency_inv :: "plan_db \<Rightarrow> bool" where
  "dependency_inv db \<longleftrightarrow> (\<forall>a \<in> set (agent_plan_step_runs db). dependencies_succeeded db a)"

lemma dependencies_succeeded_mono:
  assumes "dependencies_succeeded db a"
    and "\<And>d. d \<in> set (agent_plan_step_dependencies db') \<Longrightarrow> dp_step_id d = sr_step_id a \<Longrightarrow>
      d \<in> set (agent_plan_step_dependencies db)"
    and "\<And>b. b \<in> set (agent_plan_step_runs db) \<Longrightarrow> sr_status b = SR_SUCCEEDED \<Longrightarrow> b \<in> set (agent_plan_step_runs db')"
  shows "dependencies_succeeded db' a"
  using assms unfolding dependencies_succeeded_def by meson

lemma dependency_inv_step:
  assumes "plan_step st db db'" "keys_inv db" "dependency_inv db"
  shows "dependency_inv db'"
  using assms(1)
proof (cases rule: plan_step_cases)
  case (added a)
  have db': "db' = db\<lparr>agent_plan_step_runs := agent_plan_step_runs db @ [a]\<rparr>"
    using insert_step_run_Inr[OF added(1)] by blast
  have "dependencies_succeeded db b" if "b \<in> set (agent_plan_step_runs db')" for b
    using that added(2) assms(3) by (auto simp: db' may_start_def dependency_inv_def)
  moreover have "dependencies_succeeded db' b" if "dependencies_succeeded db b" for b
    by (rule dependencies_succeeded_mono[OF that]) (simp_all add: db')
  ultimately show ?thesis by (simp add: dependency_inv_def)
next
  case (ended rows)
  have "dependencies_succeeded db' b" if "b \<in> set rows" for b
  proof -
    obtain a where a: "a \<in> set (agent_plan_step_runs db)" "b = a \<or> ends_as a b"
      using ended_identity[OF ended(2) \<open>b \<in> set rows\<close>] by blast
    have "dependencies_succeeded db a" using assms(3) a(1) by (simp add: dependency_inv_def)
    then have "dependencies_succeeded db' a"
      by (rule dependencies_succeeded_mono) (simp_all add: ended(1) ended_kept[OF ended(2)])
    then show ?thesis using ends_as_identity[OF a(2)] by (simp add: dependencies_succeeded_def)
  qed
  then show ?thesis by (simp add: dependency_inv_def ended(1))
next
  case framed
  have "dependencies_succeeded db' a" if a: "a \<in> set (agent_plan_step_runs db)" for a
  proof (rule dependencies_succeeded_mono)
    show "dependencies_succeeded db a" using assms(3) a by (simp add: dependency_inv_def)
    have "sr_step_id a \<in> pst_step_id ` set (agent_plan_steps db)"
      using assms(2) a by (force simp: keys_inv_def step_key_def)
    then show "d \<in> set (agent_plan_step_dependencies db') \<Longrightarrow> dp_step_id d = sr_step_id a \<Longrightarrow>
        d \<in> set (agent_plan_step_dependencies db)" for d using framed by (auto simp: plan_frame_def)
    show "b \<in> set (agent_plan_step_runs db) \<Longrightarrow> b \<in> set (agent_plan_step_runs db')" for b
      using framed by (simp add: plan_frame_def)
  qed
  then show ?thesis using framed by (simp add: dependency_inv_def plan_frame_def)
qed

section \<open>Reachable states\<close>

definition attempts_inv :: "planning_settings \<Rightarrow> plan_db \<Rightarrow> bool" where
  "attempts_inv st db \<longleftrightarrow> keys_inv db \<and> running_inv db \<and> numbering_inv st db \<and> dependency_inv db"

lemma attempts_inv_step: "plan_step st db db' \<Longrightarrow> attempts_inv st db \<Longrightarrow> attempts_inv st db'"
  unfolding attempts_inv_def
  using keys_inv_step running_inv_step numbering_inv_step dependency_inv_step by blast

text \<open>A database before any attempt was made: the plan steps may be there already.\<close>

definition no_attempts :: "plan_db \<Rightarrow> bool" where
  "no_attempts db \<longleftrightarrow> agent_plan_step_runs db = [] \<and> distinct (map pst_step_id (agent_plan_steps db))"

lemma no_attempts_inv: "no_attempts db \<Longrightarrow> attempts_inv st db"
  by (simp add: no_attempts_def attempts_inv_def keys_inv_def running_inv_def numbering_inv_def dependency_inv_def)

lemma reachable_attempts_inv:
  assumes "(plan_step st)\<^sup>*\<^sup>* db0 db" "no_attempts db0"
  shows "attempts_inv st db"
  using assms by (induction rule: rtranclp_induct) (auto intro: no_attempts_inv attempts_inv_step)

text \<open>The attempts are versioned rows: an attempt evolves by ending, which moves its version on.\<close>

interpretation attempt_rows:
  versioned_rows "plan_step st" "attempts_inv st" agent_plan_step_runs attempt_key sr_version ends_as
proof
  fix db db' a
  show "plan_step st db db' \<Longrightarrow> attempts_inv st db \<Longrightarrow> attempts_inv st db'" by (rule attempts_inv_step)
  show "attempts_inv st db \<Longrightarrow> distinct (map attempt_key (agent_plan_step_runs db))"
    by (simp add: attempts_inv_def keys_inv_def)
  assume "plan_step st db db'" "a \<in> set (agent_plan_step_runs db)"
  then show "\<exists>b \<in> set (agent_plan_step_runs db'). b = a \<or> ends_as a b"
  proof (cases rule: plan_step_cases)
    case (added c)
    then show ?thesis using insert_step_run_Inr[OF added(1)] \<open>a \<in> set _\<close> by auto
  next
    case (ended rows)
    then show ?thesis using list_all2_leftE[OF ended(2) \<open>a \<in> set _\<close>] by simp
  qed (use \<open>a \<in> set _\<close> in \<open>auto simp: plan_frame_def\<close>)
qed (simp_all add: ends_as_def attempt_key_def)

end
