(* ===== verification/Plan_Histories.thy ===== *)
theory Plan_Histories
  imports Plan_Reading Plan_Steps
begin

text \<open>
  The operations of the plan repository over a history: what each adds to the tables, that the tables stay
  readable, that a stored version never changes, and that a decision, repeated at any later time, gives
  the answer it gave when it was made.
\<close>

section \<open>What a successful write added\<close>

lemma disjoint_image: "\<forall>x \<in> S. f x \<notin> A \<Longrightarrow> A \<inter> f ` S = {}"
  by blast

lemma insert_agent_plan_step_Inr:
  "insert_agent_plan_step db r = Inr db' \<Longrightarrow> db' = db\<lparr>agent_plan_steps := agent_plan_steps db @ [r]\<rparr> \<and>
    pst_step_id r \<notin> pst_step_id ` set (agent_plan_steps db)"
  by (auto simp: insert_agent_plan_step_def split: if_splits)

lemma insert_agent_plan_dependency_Inr:
  "insert_agent_plan_dependency db r = Inr db' \<Longrightarrow>
    db' = db\<lparr>agent_plan_step_dependencies := agent_plan_step_dependencies db @ [r]\<rparr>"
  by (auto simp: insert_agent_plan_dependency_def split: if_splits)

lemma insert_steps_effect:
  assumes "insert_rows insert_agent_plan_step db rs = Inr db'"
  shows "db' = db\<lparr>agent_plan_steps := agent_plan_steps db @ rs\<rparr> \<and> distinct (map pst_step_id rs) \<and>
    pst_step_id ` set rs \<inter> pst_step_id ` set (agent_plan_steps db) = {}"
  using assms
proof (induction rs arbitrary: db)
  case (Cons r rs)
  let ?db = "db\<lparr>agent_plan_steps := agent_plan_steps db @ [r]\<rparr>"
  have fresh: "pst_step_id r \<notin> pst_step_id ` set (agent_plan_steps db)" and rest: "insert_rows insert_agent_plan_step ?db rs = Inr db'"
    using Cons.prems insert_agent_plan_step_Inr[of db r] by (auto simp: res_simps)
  from Cons.IH[OF rest] fresh show ?case by auto
qed simp

lemma insert_dependencies_effect:
  assumes "insert_rows insert_agent_plan_dependency db rs = Inr db'"
  shows "db' = db\<lparr>agent_plan_step_dependencies := agent_plan_step_dependencies db @ rs\<rparr>"
  using assms
proof (induction rs arbitrary: db)
  case (Cons r rs)
  let ?db = "db\<lparr>agent_plan_step_dependencies := agent_plan_step_dependencies db @ [r]\<rparr>"
  have "insert_rows insert_agent_plan_dependency ?db rs = Inr db'"
    using Cons.prems insert_agent_plan_dependency_Inr[of db r] by (auto simp: res_simps)
  from Cons.IH[OF this] show ?case by simp
qed simp

text \<open>The tables with the rows of a version added.\<close>

definition add_version ::
    "plan_db \<Rightarrow> tenant_context \<Rightarrow> string \<Rightarrow> string \<Rightarrow> int \<Rightarrow> validated_plan \<Rightarrow> int option \<Rightarrow> string option \<Rightarrow>
     (string \<times> string) list \<Rightarrow> int \<Rightarrow> (string \<Rightarrow> string) \<Rightarrow> plan_db" where
  "add_version db ctx s pid ver v parent feedback supersedes now ids =
     db\<lparr>wf := (wf db)\<lparr>agent_plan_versions := agent_plan_versions (wf db) @ [version_row ctx s pid ver v parent feedback now]\<rparr>,
        agent_plan_steps := agent_plan_steps db @ map (step_row ctx s pid ver ids supersedes) (vp_steps v),
        agent_plan_step_dependencies := agent_plan_step_dependencies db @ dependency_rows ctx s pid ver ids (vp_steps v)\<rparr>"

definition addable :: "plan_db \<Rightarrow> scope \<Rightarrow> int \<Rightarrow> validated_plan \<Rightarrow> (string \<Rightarrow> string) \<Rightarrow> bool" where
  "addable db sc ver v ids \<longleftrightarrow> (sc, ver) \<notin> version_key ` set (agent_plan_versions (wf db)) \<and>
     sc \<in> plan_key ` set (agent_plans db) \<and> distinct (map (\<lambda>st. ids (d_key st)) (vp_steps v)) \<and>
     (\<forall>st \<in> set (vp_steps v). ids (d_key st) \<notin> pst_step_id ` set (agent_plan_steps db))"

lemma version_row_key: "version_key (version_row ctx s pid ver v parent feedback now) = (plan_scope ctx s pid, ver)"
  by (simp add: version_row_def version_key_def)

lemma insert_version_effect:
  assumes "insert_version uuids db ctx pid ver v parent feedback supersedes now = Inr db'" "session_id ctx = Some s"
  shows "db' = add_version db ctx s pid ver v parent feedback supersedes now (step_id_of uuids v) \<and>
    addable db (plan_scope ctx s pid) ver v (step_id_of uuids v)"
proof -
  let ?row = "version_row ctx s pid ver v parent feedback now" and ?ids = "step_id_of uuids v"
  let ?db1 = "db\<lparr>wf := (wf db)\<lparr>agent_plan_versions := agent_plan_versions (wf db) @ [?row]\<rparr>\<rparr>"
  obtain db2 where v: "insert_agent_plan_version db ?row = Inr ?db1"
    and st: "insert_rows insert_agent_plan_step ?db1 (map (step_row ctx s pid ver ?ids supersedes) (vp_steps v)) = Inr db2"
    and dp: "insert_rows insert_agent_plan_dependency db2 (dependency_rows ctx s pid ver ?ids (vp_steps v)) = Inr db'"
    using assms by (auto simp: insert_version_def require_session_def res_simps Let_def insert_agent_plan_version_def split: if_splits)
  note e = insert_steps_effect[OF st] insert_dependencies_effect[OF dp]
  have ids: "map pst_step_id (map (step_row ctx s pid ver ?ids supersedes) (vp_steps v)) = map (\<lambda>st. ?ids (d_key st)) (vp_steps v)"
    by (simp add: step_row_def)
  have "pst_step_id ` set (map (step_row ctx s pid ver ?ids supersedes) (vp_steps v)) = (\<lambda>st. ?ids (d_key st)) ` set (vp_steps v)"
    by (simp add: step_row_def image_image)
  moreover have "(plan_scope ctx s pid, ver) \<notin> version_key ` set (agent_plan_versions (wf db))"
    "plan_scope ctx s pid \<in> plan_key ` set (agent_plans db)"
    using v version_row_key[of ctx s pid ver v parent feedback now]
    by (auto simp: insert_agent_plan_version_def split: if_splits)
  ultimately show ?thesis
    using e unfolding ids by (simp add: add_version_def addable_def disjoint_iff)
qed

section \<open>Versions that are there stay as they are\<close>

lemma version_steps_add:
  "version_steps (add_version db ctx s pid ver v parent feedback supersedes now ids) k =
    version_steps db k @ (if k = (plan_scope ctx s pid, ver) then map (step_row ctx s pid ver ids supersedes) (vp_steps v) else [])"
  by (auto simp: version_steps_def add_version_def step_row_def step_plan_def filter_empty_conv)

lemma version_deps_add:
  "version_deps (add_version db ctx s pid ver v parent feedback supersedes now ids) k =
    version_deps db k @ (if k = (plan_scope ctx s pid, ver) then dependency_rows ctx s pid ver ids (vp_steps v) else [])"
  by (auto simp: version_deps_def add_version_def dependency_rows_def dependency_row_def dependency_plan_def filter_empty_conv)

lemma version_holds_cong:
  assumes "version_steps db' (version_key row) = version_steps db (version_key row)"
    and "version_deps db' (version_key row) = version_deps db (version_key row)"
  shows "version_holds db' row v ids = version_holds db row v ids" "version_view db' row = version_view db row"
  using assms by (simp_all add: version_holds_def version_view_def)

definition versions_readable :: "(string \<Rightarrow> bool) \<Rightarrow> (string \<Rightarrow> bool) \<Rightarrow> plan_db \<Rightarrow> bool" where
  "versions_readable sk sv db \<longleftrightarrow> plan_store_ok db \<and> (\<forall>row \<in> set (agent_plan_versions (wf db)). version_stored sk sv db row)"

lemma add_version_old:
  assumes "addable db (plan_scope ctx s pid) ver v ids" "row \<in> set (agent_plan_versions (wf db))"
  shows "version_steps (add_version db ctx s pid ver v parent feedback supersedes now ids) (version_key row) = version_steps db (version_key row)"
    and "version_deps (add_version db ctx s pid ver v parent feedback supersedes now ids) (version_key row) = version_deps db (version_key row)"
proof -
  have "version_key row \<noteq> (plan_scope ctx s pid, ver)"
    using assms unfolding addable_def by (metis image_eqI)
  then show "version_steps (add_version db ctx s pid ver v parent feedback supersedes now ids) (version_key row) = version_steps db (version_key row)"
    "version_deps (add_version db ctx s pid ver v parent feedback supersedes now ids) (version_key row) = version_deps db (version_key row)"
    by (simp_all add: version_steps_add version_deps_add)
qed

lemma add_version_new:
  assumes ok: "plan_store_ok db" and a: "addable db (plan_scope ctx s pid) ver v ids"
  shows "version_holds (add_version db ctx s pid ver v parent feedback supersedes now ids)
    (version_row ctx s pid ver v parent feedback now) v ids"
proof -
  let ?k = "(plan_scope ctx s pid, ver)"
  have "version_steps db ?k = []" "version_deps db ?k = []"
    using ok a by (auto simp: plan_store_ok_def addable_def version_steps_def version_deps_def filter_empty_conv)
  moreover have "list_all2 (step_matches ids) (map (step_row ctx s pid ver ids supersedes) (vp_steps v)) (vp_steps v)"
    by (simp add: list_all2_conv_all_nth step_matches_def step_row_def)
  moreover have "map (\<lambda>d. (dp_step_id d, dp_depends_on_step_id d)) (dependency_rows ctx s pid ver ids (vp_steps v)) =
      dependency_pairs ids (vp_steps v)"
    by (simp add: dependency_rows_def dependency_pairs_def dependency_row_def map_concat comp_def)
  moreover have "inj_on ids (d_key ` set (vp_steps v))"
    using a distinct_map[of ids "map d_key (vp_steps v)"] by (simp add: addable_def comp_def)
  ultimately show ?thesis
    by (simp add: version_holds_def version_row_key version_steps_add version_deps_add) (simp add: version_row_def)
qed

lemma add_version_tables [simp]:
  "agent_plans (add_version db ctx s pid ver v parent feedback supersedes now ids) = agent_plans db"
  "agent_plan_decisions (add_version db ctx s pid ver v parent feedback supersedes now ids) = agent_plan_decisions db"
  "agent_plan_versions (wf (add_version db ctx s pid ver v parent feedback supersedes now ids)) =
    agent_plan_versions (wf db) @ [version_row ctx s pid ver v parent feedback now]"
  "agent_plan_steps (add_version db ctx s pid ver v parent feedback supersedes now ids) =
    agent_plan_steps db @ map (step_row ctx s pid ver ids supersedes) (vp_steps v)"
  "agent_plan_step_dependencies (add_version db ctx s pid ver v parent feedback supersedes now ids) =
    agent_plan_step_dependencies db @ dependency_rows ctx s pid ver ids (vp_steps v)"
  by (simp_all add: add_version_def)

lemma add_version_store_ok:
  assumes ok: "plan_store_ok db" and a: "addable db (plan_scope ctx s pid) ver v ids"
  shows "plan_store_ok (add_version db ctx s pid ver v parent feedback supersedes now ids)" (is "plan_store_ok ?db")
proof -
  let ?keys = "version_key ` set (agent_plan_versions (wf ?db))"
  have keys: "?keys = insert (plan_scope ctx s pid, ver) (version_key ` set (agent_plan_versions (wf db)))"
    by (simp add: version_row_key)
  have "distinct (map version_key (agent_plan_versions (wf ?db)))"
    using ok a by (simp add: plan_store_ok_def addable_def version_row_key)
  moreover have "distinct (map pst_step_id (agent_plan_steps ?db))"
  proof -
    have "\<forall>st \<in> set (vp_steps v). ids (d_key st) \<notin> pst_step_id ` set (agent_plan_steps db)"
      using a by (simp add: addable_def)
    then have "pst_step_id ` set (agent_plan_steps db) \<inter> (\<lambda>st. ids (d_key st)) ` set (vp_steps v) = {}" by (rule disjoint_image)
    then show ?thesis
      using ok a by (simp add: plan_store_ok_def addable_def step_row_def comp_def image_image)
  qed
  moreover have "\<forall>x \<in> set (agent_plan_steps ?db). (step_plan x, pst_plan_version x) \<in> ?keys"
    using ok unfolding keys by (auto simp: plan_store_ok_def step_row_def step_plan_def)
  moreover have "\<forall>d \<in> set (agent_plan_step_dependencies ?db). (dependency_plan d, dp_plan_version d) \<in> ?keys"
    using ok unfolding keys by (auto simp: plan_store_ok_def dependency_rows_def dependency_row_def dependency_plan_def)
  moreover have "\<forall>x \<in> set (agent_plan_versions (wf ?db)). fst (version_key x) \<in> plan_key ` set (agent_plans ?db)"
    using ok a by (simp add: plan_store_ok_def addable_def version_row_key)
  ultimately show ?thesis using ok unfolding plan_store_ok_def by simp
qed

lemma add_version_readable:
  assumes r: "versions_readable sk sv db" and a: "addable db (plan_scope ctx s pid) ver v ids" and v: "revalidated sk sv v"
  shows "versions_readable sk sv (add_version db ctx s pid ver v parent feedback supersedes now ids)" (is "versions_readable sk sv ?db")
proof -
  have ok: "plan_store_ok db" using r by (simp add: versions_readable_def)
  have "version_stored sk sv ?db row" if "row \<in> set (agent_plan_versions (wf db))" for row
    using r that version_holds_cong(1)[OF add_version_old[OF a that]]
    unfolding versions_readable_def version_stored_def by blast
  moreover have "version_stored sk sv ?db (version_row ctx s pid ver v parent feedback now)"
    using add_version_new[OF ok a] v unfolding version_stored_def by blast
  ultimately show ?thesis
    using add_version_store_ok[OF ok a] by (simp add: versions_readable_def)
qed

section \<open>The operations and what they change\<close>

text \<open>
  A step of the system: one successful call of the repository, or anything that leaves the plan tables alone
  (step attempts, runs, approvals of tools, memory).
\<close>

definition same_plans :: "plan_db \<Rightarrow> plan_db \<Rightarrow> bool" where
  "same_plans db db' \<longleftrightarrow> agent_plans db' = agent_plans db \<and> agent_plan_versions (wf db') = agent_plan_versions (wf db) \<and>
     agent_plan_steps db' = agent_plan_steps db \<and> agent_plan_step_dependencies db' = agent_plan_step_dependencies db \<and>
     agent_plan_decisions db' = agent_plan_decisions db"

inductive repo_step :: "(string \<Rightarrow> bool) \<Rightarrow> (string \<Rightarrow> bool) \<Rightarrow> plan_db \<Rightarrow> plan_db \<Rightarrow> bool" for sk sv where
  create: "plan_draft_ok draft \<Longrightarrow>
    create_plan sk sv clk uuids st db ctx pid source mode draft = Inr (snap, db') \<Longrightarrow> repo_step sk sv db db'"
| append: "plan_draft_ok draft \<Longrightarrow>
    append_version sk sv clk uuids st db ctx pid expected draft parent feedback supersedes = Inr (snap, db') \<Longrightarrow>
    repo_step sk sv db db'"
| decide: "record_decision sk sv clk db ctx claims rq decided_by = Inr (r, db') \<Longrightarrow> repo_step sk sv db db'"
| claim: "begin_revision_decision sk sv clk db ctx claims rq decided_by = Inr (d, claims', db') \<Longrightarrow> repo_step sk sv db db'"
| finish: "finish_revision_decision sk sv db ctx claims pid did resulting = Inr (d, claims', db') \<Longrightarrow> repo_step sk sv db db'"
| other: "same_plans db db' \<Longrightarrow> repo_step sk sv db db'"

text \<open>A new decision on the current version of a plan that awaits approval.\<close>

definition decides :: "plan_db \<Rightarrow> plan_row \<Rightarrow> plan_decision_row \<Rightarrow> bool" where
  "decides db p d \<longleftrightarrow> pl_status p = P_AWAITING_APPROVAL \<and> decision_plan d = plan_key p \<and>
     dc_expected_plan_cas_version d = pl_version p \<and> dc_plan_version d = pl_current_version p \<and>
     dc_resulting_plan_version d = None \<and>
     (\<forall>c \<in> set (agent_plan_decisions db). decision_plan c = decision_plan d \<longrightarrow>
        dc_decision_id c \<noteq> dc_decision_id d \<and> dc_expected_plan_cas_version c \<noteq> dc_expected_plan_cas_version d)"

text \<open>The changes to the tables, without the calls that make them.\<close>

inductive plan_change :: "(string \<Rightarrow> bool) \<Rightarrow> (string \<Rightarrow> bool) \<Rightarrow> plan_db \<Rightarrow> plan_db \<Rightarrow> bool" for sk sv where
  created: "pl_id p \<notin> pl_id ` set (agent_plans db) \<Longrightarrow> plan_key p = plan_scope ctx s pid \<Longrightarrow>
    pl_status p = P_AWAITING_APPROVAL \<Longrightarrow> pl_current_version p = 1 \<Longrightarrow> pl_approved_version p = None \<Longrightarrow> pl_version p = 1 \<Longrightarrow>
    revalidated sk sv v \<Longrightarrow> addable (db\<lparr>agent_plans := agent_plans db @ [p]\<rparr>) (plan_scope ctx s pid) 1 v ids \<Longrightarrow>
    plan_change sk sv db (add_version (db\<lparr>agent_plans := agent_plans db @ [p]\<rparr>) ctx s pid 1 v None None [] now ids)"
| appended: "p \<in> set (agent_plans db) \<Longrightarrow> plan_key p = plan_scope ctx s pid \<Longrightarrow> revalidated sk sv v \<Longrightarrow>
    addable db (plan_scope ctx s pid) (pl_current_version p + 1) v ids \<Longrightarrow>
    q = p\<lparr>pl_status := P_AWAITING_APPROVAL, pl_current_version := pl_current_version p + 1, pl_version := pl_version p + 1,
      pl_updated_at := now\<rparr> \<Longrightarrow>
    plan_change sk sv db ((add_version db ctx s pid (pl_current_version p + 1) v (Some (pl_current_version p)) feedback
      supersedes now ids)\<lparr>agent_plans := upd_where (\<lambda>r. r = p) (\<lambda>_. q) (agent_plans db)\<rparr>)"
| decided: "p \<in> set (agent_plans db) \<Longrightarrow> decides db p d \<Longrightarrow> dc_action d \<noteq> D_REVISE \<Longrightarrow>
    q = p\<lparr>pl_status := (if dc_action d = D_APPROVE then P_APPROVED else P_REJECTED),
      pl_approved_version := (if dc_action d = D_APPROVE then Some (pl_current_version p) else pl_approved_version p),
      pl_version := pl_version p + 1, pl_updated_at := now\<rparr> \<Longrightarrow>
    plan_change sk sv db (db\<lparr>agent_plan_decisions := agent_plan_decisions db @ [d],
      agent_plans := upd_where (\<lambda>r. r = p) (\<lambda>_. q) (agent_plans db)\<rparr>)"
| claimed: "p \<in> set (agent_plans db) \<Longrightarrow> decides db p d \<Longrightarrow> dc_action d = D_REVISE \<Longrightarrow>
    plan_change sk sv db (db\<lparr>agent_plan_decisions := agent_plan_decisions db @ [d]\<rparr>)"
| finished: "p \<in> set (agent_plans db) \<Longrightarrow> pl_version p = boundary + 1 \<Longrightarrow> pl_current_version p = n \<Longrightarrow>
    \<forall>d. P d \<longrightarrow> decision_plan d = plan_key p \<and> dc_expected_plan_cas_version d = boundary \<and> dc_action d = D_REVISE \<and>
      dc_resulting_plan_version d = None \<Longrightarrow>
    plan_change sk sv db (db\<lparr>agent_plan_decisions :=
      upd_where P (\<lambda>d. d\<lparr>dc_resulting_plan_version := Some n\<rparr>) (agent_plan_decisions db)\<rparr>)"
| unchanged: "same_plans db db' \<Longrightarrow> plan_change sk sv db db'"

lemma accepted_revalidated:
  assumes "plan_draft_ok draft" and v: "validate_plan_draft sk sv draft ms md ma MAX_PLAN_CONTENT_BYTES = Inr v"
  shows "revalidated sk sv v"
proof -
  have ok: "plan_draft_ok (as_draft v)" by (rule as_draft_ok[OF validated_typed[OF assms]])
  note a = accepted_facts[OF v] and so = as_draft_steps_ok[OF v]
  have "d_max_attempts st \<le> 20" if "st \<in> set (pd_steps (as_draft v))" for st
    using ok that by (simp add: plan_draft_ok_def list_all_iff step_fields_ok_def)
  then have "steps_ok (pd_steps (as_draft v)) 20 20"
    using so by (simp add: steps_ok_def step_accepted_def)
  then have "validate_plan_draft sk sv (as_draft v) 20 10 20 MAX_PLAN_CONTENT_BYTES = Inr v"
    using revalidates[OF v, of 20 20 10 MAX_PLAN_CONTENT_BYTES] by simp
  with ok show ?thesis by (simp add: revalidated_def)
qed

lemma plan_row_unique:
  assumes "plan_store_ok db" "p \<in> set (agent_plans db)" "q \<in> set (agent_plans db)" "plan_key q = plan_key p"
  shows "q = p"
  using assms distinct_key_unique[of pl_id "agent_plans db"] by (simp add: plan_store_ok_def plan_key_def)

lemma upd_where_single:
  assumes "p \<in> set rows" "pr p" "\<And>q. q \<in> set rows \<Longrightarrow> pr q \<Longrightarrow> q = p"
  shows "upd_where pr f rows = upd_where (\<lambda>r. r = p) (\<lambda>_. f p) rows"
  unfolding upd_where_def
proof (rule map_cong[OF refl])
  fix r assume "r \<in> set rows"
  then show "(if pr r then f r else r) = (if r = p then f p else r)"
    using assms(2,3) by metis
qed

lemma create_plan_change:
  assumes d: "plan_draft_ok draft" and c: "create_plan sk sv clk uuids st db ctx pid source mode draft = Inr (snap, db')"
  shows "plan_change sk sv db db'"
proof -
  obtain s v db1 where s: "session_id ctx = Some s"
    and v: "validate_plan_draft sk sv draft (pset_max_steps st) (pset_max_dependency_depth st) (pset_max_step_attempts st)
        MAX_PLAN_CONTENT_BYTES = Inr v"
    and p: "insert_agent_plan db \<lparr>pl_id = pid, pl_tenant_id = tenant_id ctx, pl_workspace_id = workspace_id ctx,
         pl_session_id = s, pl_source_message_id = source, pl_trigger_mode = mode, pl_status = P_AWAITING_APPROVAL,
         pl_current_version = 1, pl_approved_version = None, pl_version = 1, pl_created_at = clk 0,
         pl_updated_at = clk 0\<rparr> = Inr db1" (is "insert_agent_plan db ?p = _")
    and i: "insert_version uuids db1 ctx pid 1 v None None [] (clk 0) = Inr db'"
    using c by (auto simp: create_plan_def require_session_def res_simps Let_def)
  have db1: "db1 = db\<lparr>agent_plans := agent_plans db @ [?p]\<rparr>" "pl_id ?p \<notin> pl_id ` set (agent_plans db)"
    using p by (auto simp: insert_agent_plan_def split: if_splits)
  note e = insert_version_effect[OF i s]
  show ?thesis
    using created[OF db1(2), of ctx s pid sk sv v "step_id_of uuids v" "clk 0"] e accepted_revalidated[OF d v]
    unfolding db1(1) by (simp add: plan_key_def)
qed

lemma append_version_change:
  assumes d: "plan_draft_ok draft" and ok: "plan_store_ok db"
    and c: "append_version sk sv clk uuids st db ctx pid expected draft parent feedback supersedes = Inr (snap, db')"
  shows "plan_change sk sv db db'"
proof -
  obtain s v p db1 where s: "session_id ctx = Some s"
    and v: "validate_plan_draft sk sv draft (pset_max_steps st) (pset_max_dependency_depth st) (pset_max_step_attempts st)
        MAX_PLAN_CONTENT_BYTES = Inr v"
    and p: "List.find (plan_predicate ctx pid) (agent_plans db) = Some p" "pl_version p = expected" "parent = pl_current_version p"
    and i: "insert_version uuids db ctx pid (pl_current_version p + 1) v (Some (pl_current_version p)) feedback supersedes (clk 0) = Inr db1"
    and u: "db' = db1\<lparr>agent_plans := upd_where (\<lambda>q. plan_predicate ctx pid q \<and> pl_current_version q = pl_current_version p \<and>
           pl_version q = expected)
         (\<lambda>q. q\<lparr>pl_status := P_AWAITING_APPROVAL, pl_current_version := pl_current_version p + 1, pl_version := expected + 1,
            pl_updated_at := clk 0\<rparr>) (agent_plans db1)\<rparr>"
    using c by (auto simp: append_version_def require_session_def res_simps Let_def update_plans_def)
  have mem: "p \<in> set (agent_plans db)" "plan_key p = plan_scope ctx s pid"
    using find_SomeD[OF p(1)] scope_predicates(1)[OF s] by auto
  note e = insert_version_effect[OF i s]
  let ?pr = "\<lambda>q. plan_predicate ctx pid q \<and> pl_current_version q = pl_current_version p \<and> pl_version q = expected"
  let ?f = "\<lambda>q. q\<lparr>pl_status := P_AWAITING_APPROVAL, pl_current_version := pl_current_version p + 1,
    pl_version := expected + 1, pl_updated_at := clk 0\<rparr>"
  have u2: "upd_where ?pr ?f (agent_plans db) = upd_where (\<lambda>r. r = p) (\<lambda>_. ?f p) (agent_plans db)"
  proof (rule upd_where_single[OF mem(1)])
    show "?pr p" using scope_predicates(1)[OF s] mem(2) p(2) by simp
    show "q = p" if "q \<in> set (agent_plans db)" "?pr q" for q
      using plan_row_unique[OF ok mem(1) that(1)] that(2) mem(2) scope_predicates(1)[OF s] by simp
  qed
  have db': "db' = (add_version db ctx s pid (pl_current_version p + 1) v (Some (pl_current_version p)) feedback
      supersedes (clk 0) (step_id_of uuids v))\<lparr>agent_plans := upd_where (\<lambda>r. r = p) (\<lambda>_. ?f p) (agent_plans db)\<rparr>"
    using u u2 e by simp
  have f: "?f p = p\<lparr>pl_status := P_AWAITING_APPROVAL, pl_current_version := pl_current_version p + 1,
    pl_version := pl_version p + 1, pl_updated_at := clk 0\<rparr>" using p(2) by simp
  show ?thesis
    unfolding db' by (rule appended[OF mem accepted_revalidated[OF d v] _ f]) (use e in simp)
qed


text \<open>The row that a decision request becomes.\<close>

definition decision_row :: "tenant_context \<Rightarrow> string \<Rightarrow> plan_decision_request \<Rightarrow> string \<Rightarrow> int \<Rightarrow> plan_decision_row" where
  "decision_row ctx s rq decided_by now =
     \<lparr>dc_tenant_id = tenant_id ctx, dc_workspace_id = workspace_id ctx, dc_session_id = s, dc_plan_id = rq_plan_id rq,
      dc_decision_id = rq_decision_id rq, dc_plan_version = rq_plan_version rq,
      dc_expected_plan_cas_version = rq_expected_version rq, dc_action = rq_action rq, dc_feedback = rq_feedback rq,
      dc_decided_by = decided_by, dc_resulting_plan_version = None, dc_created_at = now\<rparr>"

lemma insert_decision_effect:
  assumes "insert_decision db ctx rq decided_by None now = Inr db'" "session_id ctx = Some s"
  shows "db' = db\<lparr>agent_plan_decisions := agent_plan_decisions db @ [decision_row ctx s rq decided_by now]\<rparr>"
    and "\<forall>c \<in> set (agent_plan_decisions db). decision_plan c = plan_scope ctx s (rq_plan_id rq) \<longrightarrow> dc_decision_id c \<noteq> rq_decision_id rq"
  using assms by (auto simp: insert_decision_def require_session_def insert_agent_plan_decision_def decision_row_def
      decision_plan_def image_iff split: if_splits)

lemma lock_plan_Inr:
  assumes "lock_plan sk sv db ctx pid = Inr latest" "session_id ctx = Some s"
  shows "\<exists>p \<in> set (agent_plans db). plan_key p = plan_scope ctx s pid \<and> sn_status latest = pl_status p \<and>
    sn_current_version latest = pl_current_version p \<and> sn_aggregate_version latest = pl_version p"
proof -
  obtain p where p: "List.find (plan_predicate ctx pid) (agent_plans db) = Some p"
    and g: "get_plan sk sv db ctx pid = Inr (Some latest)"
    using assms(1) by (auto simp: lock_plan_def res_simps)
  have "sn_status latest = pl_status p \<and> sn_current_version latest = pl_current_version p \<and> sn_aggregate_version latest = pl_version p"
    using g by (auto simp: get_plan_def p res_simps Let_def)
  then show ?thesis using find_SomeD[OF p] scope_predicates(1)[OF assms(2)] by blast
qed

text \<open>What the guards of a new decision establish.\<close>

lemma decision_guards:
  assumes l: "lock_plan sk sv db ctx (rq_plan_id rq) = Inr latest" and g: "require_decidable db ctx rq latest = Inr ()"
    and i: "insert_decision db ctx rq decided_by None now = Inr db'" and s: "session_id ctx = Some s"
  shows "\<exists>p \<in> set (agent_plans db). plan_key p = plan_scope ctx s (rq_plan_id rq) \<and>
    decides db p (decision_row ctx s rq decided_by now)"
proof -
  obtain p where p: "p \<in> set (agent_plans db)" "plan_key p = plan_scope ctx s (rq_plan_id rq)"
      "sn_status latest = pl_status p" "sn_current_version latest = pl_current_version p" "sn_aggregate_version latest = pl_version p"
    using lock_plan_Inr[OF l s] by blast
  have t: "sn_status latest = P_AWAITING_APPROVAL" "sn_current_version latest = rq_plan_version rq"
      "sn_aggregate_version latest = rq_expected_version rq"
    using g by (auto simp: require_decidable_def require_current_decision_target_def res_simps)
  have "dc_expected_plan_cas_version c \<noteq> rq_expected_version rq"
    if "c \<in> set (agent_plan_decisions db)" "decision_plan c = plan_scope ctx s (rq_plan_id rq)" for c
  proof
    assume e: "dc_expected_plan_cas_version c = rq_expected_version rq"
    obtain history where h: "require_unambiguous_decision_history db ctx (rq_plan_id rq) (rq_expected_version rq) = Inr history"
      "\<not> (\<exists>d \<in> set history. de_expected_plan_cas_version d = rq_expected_version rq)"
      using g by (auto simp: require_decidable_def res_simps)
    have "hydrate_decision c \<in> set history"
      using h(1) that e scope_predicates(5)[OF s]
      by (auto simp: require_unambiguous_decision_history_def Let_def res_simps)
    then show False using h(2) e by (auto simp: hydrate_decision_def)
  qed
  then have "decides db p (decision_row ctx s rq decided_by now)"
    using p(2-5) t insert_decision_effect(2)[OF i s] by (simp add: decides_def decision_row_def decision_plan_def)
  then show ?thesis using p(1,2) by blast
qed

lemma record_decision_change:
  assumes ok: "plan_store_ok db" and c: "record_decision sk sv clk db ctx claims rq decided_by = Inr (r, db')"
  shows "plan_change sk sv db db'"
proof (cases "get_decision db ctx (rq_plan_id rq) (rq_decision_id rq)")
  case (Some existing)
  then have "db' = db" using c by (auto simp: record_decision_def res_simps)
  then show ?thesis by (intro unchanged) (simp add: same_plans_def)
next
  case None
  let ?pr = "\<lambda>p. plan_predicate ctx (rq_plan_id rq) p \<and> pl_status p = P_AWAITING_APPROVAL \<and>
           pl_current_version p = rq_plan_version rq \<and> pl_version p = rq_expected_version rq"
  let ?f = "\<lambda>p. p\<lparr>pl_status := (if rq_action rq = D_APPROVE then P_APPROVED else P_REJECTED),
            pl_approved_version := (if rq_action rq = D_APPROVE then Some (rq_plan_version rq) else pl_approved_version p),
            pl_version := pl_version p + 1, pl_updated_at := clk 0\<rparr>"
  obtain s latest db1 where s: "session_id ctx = Some s" and l: "lock_plan sk sv db ctx (rq_plan_id rq) = Inr latest"
    and a: "rq_action rq \<noteq> D_REVISE" and g: "require_decidable db ctx rq latest = Inr ()"
    and i: "insert_decision db ctx rq decided_by None (clk 0) = Inr db1"
    and u: "db' = db1\<lparr>agent_plans := upd_where ?pr ?f (agent_plans db1)\<rparr>"
    using c None by (auto simp: record_decision_def write_decision_def require_session_def res_simps Let_def update_plans_def
        split: if_splits)
  obtain p where p: "p \<in> set (agent_plans db)" "plan_key p = plan_scope ctx s (rq_plan_id rq)"
    and d: "decides db p (decision_row ctx s rq decided_by (clk 0))" using decision_guards[OF l g i s] by blast
  have e: "pl_status p = P_AWAITING_APPROVAL" "pl_current_version p = rq_plan_version rq" "pl_version p = rq_expected_version rq"
    using d by (simp_all add: decides_def decision_row_def)
  have u2: "upd_where ?pr ?f (agent_plans db) = upd_where (\<lambda>r. r = p) (\<lambda>_. ?f p) (agent_plans db)"
  proof (rule upd_where_single[OF p(1)])
    show "?pr p" using scope_predicates(1)[OF s] p(2) e by simp
    show "q = p" if "q \<in> set (agent_plans db)" "?pr q" for q
      using plan_row_unique[OF ok p(1) that(1)] that(2) p(2) scope_predicates(1)[OF s] by simp
  qed
  have db': "db' = db\<lparr>agent_plan_decisions := agent_plan_decisions db @ [decision_row ctx s rq decided_by (clk 0)],
      agent_plans := upd_where (\<lambda>r. r = p) (\<lambda>_. ?f p) (agent_plans db)\<rparr>"
    using u u2 insert_decision_effect(1)[OF i s] by simp
  show ?thesis
    unfolding db' by (rule decided[OF p(1) d, of _ "clk 0"]) (use a e in \<open>simp_all add: decision_row_def\<close>)
qed

lemma begin_revision_change:
  assumes c: "begin_revision_decision sk sv clk db ctx claims rq decided_by = Inr (d, claims', db')"
  shows "plan_change sk sv db db'"
proof (cases "db' = db")
  case True
  then show ?thesis by (intro unchanged) (simp add: same_plans_def)
next
  case False
  obtain s latest where s: "session_id ctx = Some s" and l: "lock_plan sk sv db ctx (rq_plan_id rq) = Inr latest"
    and a: "rq_action rq = D_REVISE" and g: "require_decidable db ctx rq latest = Inr ()"
    and i: "insert_decision db ctx rq decided_by None (clk 0) = Inr db'"
    using c False by (auto simp: begin_revision_decision_def require_session_def res_simps split: option.splits if_splits)
  obtain p where p: "p \<in> set (agent_plans db)" "decides db p (decision_row ctx s rq decided_by (clk 0))"
    using decision_guards[OF l g i s] by blast
  show ?thesis
    unfolding insert_decision_effect(1)[OF i s] by (rule claimed[OF p]) (simp add: decision_row_def a)
qed

lemma finish_revision_change:
  assumes c: "finish_revision_decision sk sv db ctx claims pid did resulting = Inr (d, claims', db')"
  shows "plan_change sk sv db db'"
proof (cases "db' = db")
  case True
  then show ?thesis by (intro unchanged) (simp add: same_plans_def)
next
  case False
  obtain s existing where s: "session_id ctx = Some s" and r: "revision_in_place db ctx pid existing resulting"
    and u: "db' = db\<lparr>agent_plan_decisions := upd_where (\<lambda>d. decision_scope_predicate ctx pid d \<and> dc_decision_id d = did \<and>
                 dc_action d = D_REVISE \<and> dc_plan_version d = de_plan_version existing \<and>
                 dc_expected_plan_cas_version d = de_expected_plan_cas_version existing \<and>
                 dc_decided_by d = de_decided_by existing \<and> dc_created_at d = de_created_at existing \<and>
                 dc_resulting_plan_version d = None)
               (\<lambda>d. d\<lparr>dc_resulting_plan_version := Some resulting\<rparr>) (agent_plan_decisions db)\<rparr>"
    using c False by (auto simp: finish_revision_decision_def require_session_def res_simps Let_def update_decisions_def
        split: option.splits if_splits)
  obtain p where f: "List.find (\<lambda>p. plan_predicate ctx pid p \<and> pl_status p = P_AWAITING_APPROVAL \<and>
       pl_current_version p = de_plan_version existing + 1 \<and> pl_version p = de_expected_plan_cas_version existing + 1)
       (agent_plans db) = Some p" and n: "resulting = de_plan_version existing + 1"
    using r by (auto simp: revision_in_place_def)
  have p: "p \<in> set (agent_plans db)" "plan_key p = plan_scope ctx s pid"
    "pl_version p = de_expected_plan_cas_version existing + 1" "pl_current_version p = resulting"
    using find_SomeD[OF f] scope_predicates(1)[OF s] n by auto
  show ?thesis
    unfolding u by (rule finished[OF p(1,3,4)]) (use p(2) scope_predicates(5)[OF s] in simp)
qed

lemma repo_step_change:
  assumes "repo_step sk sv db db'" "plan_store_ok db"
  shows "plan_change sk sv db db'"
  using assms(1)
proof cases
  case (other)
  then show ?thesis by (rule unchanged)
qed (use assms(2) in \<open>blast intro: create_plan_change append_version_change record_decision_change begin_revision_change
      finish_revision_change\<close>)+

section \<open>The tables stay readable\<close>

lemma upd_where_plan:
  assumes "plan_store_ok db" "p \<in> set (agent_plans db)" "plan_key q = plan_key p"
  shows "map plan_key (upd_where (\<lambda>r. r = p) (\<lambda>_. q) (agent_plans db)) = map plan_key (agent_plans db)"
    and "map pl_id (upd_where (\<lambda>r. r = p) (\<lambda>_. q) (agent_plans db)) = map pl_id (agent_plans db)"
  using assms by (auto intro!: map_upd_where simp: plan_key_def)

lemma readable_plans_cong:
  assumes "agent_plan_versions (wf db') = agent_plan_versions (wf db)" "agent_plan_steps db' = agent_plan_steps db"
    and "agent_plan_step_dependencies db' = agent_plan_step_dependencies db"
  shows "version_steps db' k = version_steps db k" "version_deps db' k = version_deps db k"
  using assms by (simp_all add: version_steps_def version_deps_def)

lemma versions_readable_cong:
  assumes "agent_plan_versions (wf db') = agent_plan_versions (wf db)" "agent_plan_steps db' = agent_plan_steps db"
    and "agent_plan_step_dependencies db' = agent_plan_step_dependencies db"
    and "map pl_id (agent_plans db') = map pl_id (agent_plans db)" "map plan_key (agent_plans db') = map plan_key (agent_plans db)"
    and r: "versions_readable sk sv db"
  shows "versions_readable sk sv db'"
proof -
  have "plan_key ` set (agent_plans db') = plan_key ` set (agent_plans db)" using arg_cong[OF assms(5), of set] by simp
  then show ?thesis
    using r assms(1-4) version_holds_cong(1)[OF readable_plans_cong[OF assms(1-3)]]
    by (simp add: versions_readable_def version_stored_def plan_store_ok_def)
qed

text \<open>
  The versions of a plan and the counters of its row: the current version is the newest, and it is there.
\<close>

definition versions_current :: "plan_db \<Rightarrow> bool" where
  "versions_current db \<longleftrightarrow>
     (\<forall>p \<in> set (agent_plans db). (plan_key p, pl_current_version p) \<in> version_key ` set (agent_plan_versions (wf db)) \<and>
        (\<forall>v \<in> set (agent_plan_versions (wf db)). fst (version_key v) = plan_key p \<longrightarrow> pv_plan_version v \<le> pl_current_version p))"

definition plans_ok :: "(string \<Rightarrow> bool) \<Rightarrow> (string \<Rightarrow> bool) \<Rightarrow> plan_db \<Rightarrow> bool" where
  "plans_ok sk sv db \<longleftrightarrow> versions_readable sk sv db \<and> versions_current db"

lemma plans_ok_readable: "plans_ok sk sv db \<Longrightarrow> plans_readable sk sv db"
  by (simp add: plans_ok_def plans_readable_def versions_readable_def versions_current_def)

lemma versions_current_same:
  assumes "versions_current db" "agent_plan_versions (wf db') = agent_plan_versions (wf db)"
    and "\<forall>q \<in> set (agent_plans db'). \<exists>p \<in> set (agent_plans db). plan_key q = plan_key p \<and> pl_current_version q = pl_current_version p"
  shows "versions_current db'"
  unfolding versions_current_def
proof
  fix q assume "q \<in> set (agent_plans db')"
  then obtain p where "p \<in> set (agent_plans db)" "plan_key q = plan_key p" "pl_current_version q = pl_current_version p"
    using assms(3) by blast
  then show "(plan_key q, pl_current_version q) \<in> version_key ` set (agent_plan_versions (wf db')) \<and>
      (\<forall>v \<in> set (agent_plan_versions (wf db')). fst (version_key v) = plan_key q \<longrightarrow> pv_plan_version v \<le> pl_current_version q)"
    using assms(1,2) unfolding versions_current_def by simp
qed

lemma plans_ok_same_versions:
  assumes r: "plans_ok sk sv db" and "agent_plan_versions (wf db') = agent_plan_versions (wf db)"
    and "agent_plan_steps db' = agent_plan_steps db" "agent_plan_step_dependencies db' = agent_plan_step_dependencies db"
    and p: "map (\<lambda>p. (plan_key p, pl_current_version p)) (agent_plans db') = map (\<lambda>p. (plan_key p, pl_current_version p)) (agent_plans db)"
  shows "plans_ok sk sv db'"
proof -
  have k: "map plan_key (agent_plans db') = map plan_key (agent_plans db)"
    using arg_cong[OF p, of "map fst"] by (simp add: comp_def)
  have i: "map pl_id (agent_plans db') = map pl_id (agent_plans db)"
    using arg_cong[OF k, of "map (\<lambda>(_, _, _, i). i)"] by (simp add: comp_def plan_key_def)
  have "\<exists>p \<in> set (agent_plans db). plan_key q = plan_key p \<and> pl_current_version q = pl_current_version p"
    if "q \<in> set (agent_plans db')" for q
  proof -
    have "(plan_key q, pl_current_version q) \<in> set (map (\<lambda>p. (plan_key p, pl_current_version p)) (agent_plans db))"
      unfolding p[symmetric] using that by simp
    then show ?thesis by auto
  qed
  then show ?thesis
    using versions_readable_cong[OF assms(2-4) i k] versions_current_same[OF _ assms(2)] r by (simp add: plans_ok_def)
qed

lemma upd_where_member: "r' \<in> set (upd_where (\<lambda>r. r = p) (\<lambda>_. q) rows) \<Longrightarrow> r' = q \<or> r' \<in> set rows \<and> r' \<noteq> p"
  by (auto simp: upd_where_def)

lemma fresh_plan_key:
  assumes "pl_id p \<notin> pl_id ` set (agent_plans db)" "q \<in> set (agent_plans db)"
  shows "plan_key q \<noteq> plan_key p"
proof
  assume "plan_key q = plan_key p"
  then have "pl_id q = pl_id p" by (simp add: plan_key_def)
  then show False using imageI[OF assms(2), of pl_id] assms(1) by simp
qed

lemma version_row_version: "pv_plan_version (version_row ctx s pid ver v parent feedback now) = ver"
  by (simp add: version_row_def)

lemma created_plans_ok:
  assumes r: "plans_ok sk sv db" and p: "pl_id p \<notin> pl_id ` set (agent_plans db)" "plan_key p = plan_scope ctx s pid"
      "pl_current_version p = 1" and v: "revalidated sk sv v"
    and a: "addable (db\<lparr>agent_plans := agent_plans db @ [p]\<rparr>) (plan_scope ctx s pid) 1 v ids"
  shows "plans_ok sk sv (add_version (db\<lparr>agent_plans := agent_plans db @ [p]\<rparr>) ctx s pid 1 v None None [] now ids)"
proof -
  let ?db1 = "db\<lparr>agent_plans := agent_plans db @ [p]\<rparr>"
  have ok: "plan_store_ok db" and vr: "versions_readable sk sv db" and vc: "versions_current db"
    using r by (simp_all add: plans_ok_def versions_readable_def)
  have "plan_store_ok ?db1" using ok p(1) by (auto simp: plan_store_ok_def)
  then have "versions_readable sk sv ?db1"
    using vr version_holds_cong(1)[OF readable_plans_cong[of ?db1 db]] by (simp add: versions_readable_def version_stored_def)
  then have read: "versions_readable sk sv (add_version ?db1 ctx s pid 1 v None None [] now ids)"
    by (rule add_version_readable[OF _ a v])
  have none: "fst (version_key w) \<noteq> plan_scope ctx s pid" if "w \<in> set (agent_plan_versions (wf db))" for w
    using ok that fresh_plan_key[OF p(1)] p(2) unfolding plan_store_ok_def by (metis imageE)
  have "versions_current (add_version ?db1 ctx s pid 1 v None None [] now ids)"
    unfolding versions_current_def
  proof
    fix q assume "q \<in> set (agent_plans (add_version ?db1 ctx s pid 1 v None None [] now ids))"
    then consider "q = p" | "q \<in> set (agent_plans db)" "plan_key q \<noteq> plan_scope ctx s pid"
      using fresh_plan_key[OF p(1)] p(2) by auto
    then show "(plan_key q, pl_current_version q) \<in> version_key ` set (agent_plan_versions (wf (add_version ?db1 ctx s pid 1 v None None [] now ids))) \<and>
      (\<forall>w \<in> set (agent_plan_versions (wf (add_version ?db1 ctx s pid 1 v None None [] now ids))).
        fst (version_key w) = plan_key q \<longrightarrow> pv_plan_version w \<le> pl_current_version q)"
    proof cases
      case 1
      then show ?thesis using p(2,3) none by (simp add: version_row_key version_row_version)
    next
      case 2
      then show ?thesis using vc by (simp add: versions_current_def version_row_key)
    qed
  qed
  then show ?thesis using read by (simp add: plans_ok_def)
qed

lemma appended_plans_ok:
  assumes r: "plans_ok sk sv db" and p: "p \<in> set (agent_plans db)" "plan_key p = plan_scope ctx s pid"
    and v: "revalidated sk sv v" and a: "addable db (plan_scope ctx s pid) (pl_current_version p + 1) v ids"
    and q: "plan_key q = plan_key p" "pl_current_version q = pl_current_version p + 1"
  shows "plans_ok sk sv ((add_version db ctx s pid (pl_current_version p + 1) v parent feedback supersedes now ids)
    \<lparr>agent_plans := upd_where (\<lambda>r. r = p) (\<lambda>_. q) (agent_plans db)\<rparr>)"
proof -
  let ?db1 = "add_version db ctx s pid (pl_current_version p + 1) v parent feedback supersedes now ids"
  let ?db2 = "?db1\<lparr>agent_plans := upd_where (\<lambda>r. r = p) (\<lambda>_. q) (agent_plans db)\<rparr>"
  have ok: "plan_store_ok db" and vr: "versions_readable sk sv db" and vc: "versions_current db"
    using r by (simp_all add: plans_ok_def versions_readable_def)
  have "versions_readable sk sv ?db2"
    by (rule versions_readable_cong[OF _ _ _ _ _ add_version_readable[OF vr a v, of parent feedback supersedes now]])
      (simp_all add: upd_where_plan[OF ok p(1) q(1)])
  moreover have "versions_current ?db2"
    unfolding versions_current_def
  proof
    fix q' assume "q' \<in> set (agent_plans ?db2)"
    then consider "q' = q" | "q' \<in> set (agent_plans db)" "q' \<noteq> p" using upd_where_member[of q'] by auto
    then show "(plan_key q', pl_current_version q') \<in> version_key ` set (agent_plan_versions (wf ?db2)) \<and>
      (\<forall>w \<in> set (agent_plan_versions (wf ?db2)). fst (version_key w) = plan_key q' \<longrightarrow> pv_plan_version w \<le> pl_current_version q')"
    proof cases
      case 1
      have "pv_plan_version w \<le> pl_current_version p + 1"
        if "w \<in> set (agent_plan_versions (wf db))" "fst (version_key w) = plan_key p" for w
      proof -
        have "pv_plan_version w \<le> pl_current_version p" using vc p(1) that unfolding versions_current_def by blast
        then show ?thesis by simp
      qed
      then show ?thesis using 1 p(2) q by (simp add: version_row_key version_row_version)
    next
      case 2
      then have "plan_key q' \<noteq> plan_scope ctx s pid" using plan_row_unique[OF ok p(1) 2(1)] p(2) 2(2) by metis
      then show ?thesis using vc 2(1) by (simp add: versions_current_def version_row_key)
    qed
  qed
  ultimately show ?thesis by (simp add: plans_ok_def)
qed

lemma plan_change_plans_ok:
  assumes "plan_change sk sv db db'" and r: "plans_ok sk sv db"
  shows "plans_ok sk sv db'"
  using assms(1)
proof cases
  case (created p ctx s pid v ids now)
  then show ?thesis using created_plans_ok[OF r] by simp
next
  case (appended p ctx s pid v ids q now feedback supersedes)
  have "plan_key q = plan_key p" "pl_current_version q = pl_current_version p + 1"
    unfolding appended(6) by (simp_all add: plan_key_def)
  from appended_plans_ok[OF r appended(2-5) this] show ?thesis unfolding appended(1) .
next
  case (decided p d q now)
  have q: "plan_key q = plan_key p" "pl_current_version q = pl_current_version p"
    unfolding decided(5) by (simp_all add: plan_key_def)
  show ?thesis
    unfolding decided(1)
    by (rule plans_ok_same_versions[OF r])
      (use q in \<open>auto intro!: map_upd_where\<close>)
next
  case claimed
  then show ?thesis by (auto intro!: plans_ok_same_versions[OF r])
next
  case finished
  then show ?thesis by (auto intro!: plans_ok_same_versions[OF r])
next
  case unchanged
  then show ?thesis by (auto intro!: plans_ok_same_versions[OF r] simp: same_plans_def)
qed

end
