(* ===== verification/Plan_Decisions.thy ===== *)
theory Plan_Decisions
  imports Plan_Histories
begin

text \<open>
  Decisions over a history. Every decision belongs to one value of the plan's version counter, a completed one
  lies strictly before the present value, and the rows a decision's answer is built from never change
  again. Hence a decision that is repeated gets its first answer, and a plan counts as approved only by
  a recorded approval of its current version.
\<close>

section \<open>Invariants\<close>

definition completed :: "plan_decision_row \<Rightarrow> bool" where
  "completed d \<longleftrightarrow> dc_action d \<noteq> D_REVISE \<or> dc_resulting_plan_version d \<noteq> None"

text \<open>The version a decision leads to.\<close>

definition decided_version :: "plan_decision_row \<Rightarrow> int" where
  "decided_version d = (case dc_resulting_plan_version d of Some n \<Rightarrow> if dc_action d = D_REVISE then n else dc_plan_version d
     | None \<Rightarrow> dc_plan_version d)"

definition decision_fits :: "plan_row \<Rightarrow> plan_decision_row \<Rightarrow> bool" where
  "decision_fits p d \<longleftrightarrow> plan_key p = decision_plan d \<and> dc_expected_plan_cas_version d \<le> pl_version p \<and>
     (completed d \<longrightarrow> dc_expected_plan_cas_version d < pl_version p) \<and> decided_version d \<le> pl_current_version p"

definition decisions_ok :: "plan_db \<Rightarrow> bool" where
  "decisions_ok db \<longleftrightarrow>
     distinct (map (\<lambda>d. (decision_plan d, dc_decision_id d)) (agent_plan_decisions db)) \<and>
     distinct (map (\<lambda>d. (decision_plan d, dc_expected_plan_cas_version d)) (agent_plan_decisions db)) \<and>
     (\<forall>d \<in> set (agent_plan_decisions db). \<exists>p \<in> set (agent_plans db). decision_fits p d)"

text \<open>An approved plan was approved, in its current version, by the latest decision.\<close>

definition approval_of :: "plan_db \<Rightarrow> plan_row \<Rightarrow> plan_decision_row \<Rightarrow> bool" where
  "approval_of db p d \<longleftrightarrow> d \<in> set (agent_plan_decisions db) \<and> decision_plan d = plan_key p \<and> dc_action d = D_APPROVE \<and>
     dc_plan_version d = pl_current_version p \<and> dc_expected_plan_cas_version d + 1 = pl_version p"

definition approvals_ok :: "plan_db \<Rightarrow> bool" where
  "approvals_ok db \<longleftrightarrow> (\<forall>p \<in> set (agent_plans db). pl_status p = P_APPROVED \<longrightarrow>
     pl_approved_version p = Some (pl_current_version p) \<and> (\<exists>d. approval_of db p d))"

text \<open>What the identity columns of a plan are, and that a change leaves them and only moves the counters up.\<close>

definition plan_successor :: "plan_row \<Rightarrow> plan_row \<Rightarrow> bool" where
  "plan_successor p q \<longleftrightarrow> plan_key q = plan_key p \<and> pl_source_message_id q = pl_source_message_id p \<and>
     pl_trigger_mode q = pl_trigger_mode p \<and> pl_created_at q = pl_created_at p \<and>
     pl_version p \<le> pl_version q \<and> pl_current_version p \<le> pl_current_version q"

lemma plan_successor_refl [simp]: "plan_successor p p"
  by (simp add: plan_successor_def)

lemma upd_where_successor:
  assumes "p' \<in> set rows" "plan_successor p q"
  shows "\<exists>q' \<in> set (upd_where (\<lambda>r. r = p) (\<lambda>_. q) rows). plan_successor p' q'"
  using assms by (cases "p' = p") (force simp: upd_where_def)+

lemma plan_change_plan:
  assumes "plan_change sk sv db db'" "p \<in> set (agent_plans db)"
  shows "\<exists>q \<in> set (agent_plans db'). plan_successor p q"
  using assms(1)
proof cases
  case (appended p2 ctx s pid v ids q now feedback supersedes)
  have "plan_successor p2 q" unfolding appended(6) by (simp add: plan_successor_def plan_key_def)
  from upd_where_successor[OF assms(2) this] show ?thesis unfolding appended(1) by simp
next
  case (decided p2 d q now)
  have "plan_successor p2 q" unfolding decided(5) by (simp add: plan_successor_def plan_key_def)
  from upd_where_successor[OF assms(2) this] show ?thesis unfolding decided(1) by simp
qed (use assms(2) in \<open>auto simp: same_plans_def intro!: bexI[of _ p]\<close>)

lemma decision_fits_successor:
  assumes "decision_fits p d" "plan_successor p q"
  shows "decision_fits q d"
  using assms unfolding decision_fits_def plan_successor_def by fastforce

lemma decisions_ok_step:
  assumes ch: "plan_change sk sv db db'" and ok: "decisions_ok db"
    and "agent_plan_decisions db' = agent_plan_decisions db"
  shows "decisions_ok db'"
proof -
  have "\<exists>q \<in> set (agent_plans db'). decision_fits q d" if "d \<in> set (agent_plan_decisions db)" for d
    using ok that plan_change_plan[OF ch] decision_fits_successor unfolding decisions_ok_def by blast
  then show ?thesis using ok assms(3) by (simp add: decisions_ok_def)
qed

text \<open>A decision is added.\<close>

lemma decisions_ok_add:
  assumes ch: "plan_change sk sv db db'" and ok: "decisions_ok db" and d: "decides db p d"
    and db': "agent_plan_decisions db' = agent_plan_decisions db @ [d]"
    and q: "q \<in> set (agent_plans db')" "plan_successor p q" "completed d \<Longrightarrow> pl_version p < pl_version q"
  shows "decisions_ok db'"
proof -
  have "decided_version d = pl_current_version p" using d by (simp add: decides_def decided_version_def)
  then have "decision_fits q d"
    using d q(2,3) by (auto simp: decision_fits_def decides_def plan_successor_def)
  moreover have "\<exists>q \<in> set (agent_plans db'). decision_fits q c" if "c \<in> set (agent_plan_decisions db)" for c
    using ok that plan_change_plan[OF ch] decision_fits_successor unfolding decisions_ok_def by blast
  ultimately show ?thesis
    using ok d q(1) unfolding decisions_ok_def db' by (auto simp: decides_def)
qed

lemma decisions_ok_finish:
  assumes ok: "decisions_ok db" and st: "plan_store_ok db" and p: "p \<in> set (agent_plans db)" "pl_version p = boundary + 1"
      "pl_current_version p = n"
    and P: "\<forall>d. P d \<longrightarrow> decision_plan d = plan_key p \<and> dc_expected_plan_cas_version d = boundary \<and> dc_action d = D_REVISE \<and>
      dc_resulting_plan_version d = None"
  shows "decisions_ok (db\<lparr>agent_plan_decisions :=
      upd_where P (\<lambda>d. d\<lparr>dc_resulting_plan_version := Some n\<rparr>) (agent_plan_decisions db)\<rparr>)" (is "decisions_ok ?db")
proof -
  let ?f = "\<lambda>d. d\<lparr>dc_resulting_plan_version := Some n\<rparr>"
  have keys: "map (\<lambda>d. (decision_plan d, dc_decision_id d)) (upd_where P ?f (agent_plan_decisions db)) =
      map (\<lambda>d. (decision_plan d, dc_decision_id d)) (agent_plan_decisions db)"
    "map (\<lambda>d. (decision_plan d, dc_expected_plan_cas_version d)) (upd_where P ?f (agent_plan_decisions db)) =
      map (\<lambda>d. (decision_plan d, dc_expected_plan_cas_version d)) (agent_plan_decisions db)"
    by (simp_all add: map_upd_where decision_plan_def)
  have "\<exists>q \<in> set (agent_plans db). decision_fits q c" if "c \<in> set (upd_where P ?f (agent_plan_decisions db))" for c
    using that
  proof (cases rule: upd_where_mem_cases)
    case old
    then show ?thesis using ok by (simp add: decisions_ok_def)
  next
    case (new d)
    then have "decision_fits p c"
      using P p(2,3) by (auto simp: decision_fits_def decision_plan_def decided_version_def)
    then show ?thesis using p(1) by blast
  qed
  then show ?thesis using ok keys by (simp add: decisions_ok_def)
qed

lemma plan_change_decisions_ok:
  assumes ch: "plan_change sk sv db db'" and ok: "decisions_ok db" and st: "plan_store_ok db"
  shows "decisions_ok db'"
  using ch
proof cases
  case (decided p d q now)
  have s: "plan_successor p q" "pl_version p < pl_version q" unfolding decided(5) by (simp_all add: plan_successor_def plan_key_def)
  have "q \<in> set (agent_plans db')" unfolding decided(1) using decided(2) by (force simp: upd_where_def)
  with s show ?thesis by (intro decisions_ok_add[OF ch ok decided(3)]) (simp_all add: decided(1))
next
  case (claimed p d)
  have "\<not> completed d" using claimed(3,4) by (simp add: completed_def decides_def)
  then show ?thesis using claimed(2) by (intro decisions_ok_add[OF ch ok claimed(3)]) (auto simp: claimed(1))
next
  case (finished p boundary n P)
  then show ?thesis using decisions_ok_finish[OF ok st] by simp
qed (rule decisions_ok_step[OF ch ok], simp add: same_plans_def)+

text \<open>Approvals.\<close>

lemma approval_of_kept:
  assumes "approval_of db p d" "d \<in> set (agent_plan_decisions db')"
  shows "approval_of db' p d"
  using assms by (simp add: approval_of_def)

lemma approvals_ok_kept:
  assumes ok: "approvals_ok db"
    and sub: "\<forall>d \<in> set (agent_plan_decisions db). dc_action d = D_APPROVE \<longrightarrow> d \<in> set (agent_plan_decisions db')"
    and plans: "\<forall>q \<in> set (agent_plans db'). q \<in> set (agent_plans db) \<or> pl_status q \<noteq> P_APPROVED \<or>
      pl_approved_version q = Some (pl_current_version q) \<and> (\<exists>d. approval_of db' q d)"
  shows "approvals_ok db'"
  unfolding approvals_ok_def
proof (intro ballI impI)
  fix q assume q: "q \<in> set (agent_plans db')" "pl_status q = P_APPROVED"
  show "pl_approved_version q = Some (pl_current_version q) \<and> (\<exists>d. approval_of db' q d)"
  proof (cases "q \<in> set (agent_plans db)")
    case True
    then obtain d where "pl_approved_version q = Some (pl_current_version q)" "approval_of db q d"
      using ok q(2) by (auto simp: approvals_ok_def)
    moreover from this have "d \<in> set (agent_plan_decisions db')" using sub by (simp add: approval_of_def)
    ultimately show ?thesis using approval_of_kept by blast
  next
    case False
    then show ?thesis using plans q by blast
  qed
qed

lemma plan_change_approvals_ok:
  assumes ch: "plan_change sk sv db db'" and ok: "approvals_ok db"
  shows "approvals_ok db'"
  using ch
proof cases
  case (created p ctx s pid v ids now)
  show ?thesis by (rule approvals_ok_kept[OF ok]) (auto simp: created(1,4))
next
  case (appended p ctx s pid v ids q now feedback supersedes)
  have "pl_status q \<noteq> P_APPROVED" unfolding appended(6) by simp
  then show ?thesis by (intro approvals_ok_kept[OF ok]) (auto simp: appended(1) dest!: upd_where_member)
next
  case (decided p d q now)
  have "pl_status q \<noteq> P_APPROVED \<or> pl_approved_version q = Some (pl_current_version q) \<and> approval_of db' q d"
    using decided(3,4) unfolding decided(1,5) by (auto simp: approval_of_def decides_def plan_key_def)
  then show ?thesis
    by (intro approvals_ok_kept[OF ok]) (auto simp: decided(1) dest!: upd_where_member)
next
  case (claimed p d)
  show ?thesis by (rule approvals_ok_kept[OF ok]) (auto simp: claimed(1))
next
  case (finished p boundary n P)
  have "d \<in> set (agent_plan_decisions db')" if "d \<in> set (agent_plan_decisions db)" "dc_action d = D_APPROVE" for d
    using that finished(5) unfolding finished(1) by (force simp: upd_where_def)
  then show ?thesis by (intro approvals_ok_kept[OF ok]) (auto simp: finished(1))
next
  case unchanged
  then show ?thesis by (intro approvals_ok_kept[OF ok]) (auto simp: same_plans_def)
qed

text \<open>All of it, over histories from tables that satisfy it, in particular from tables without plans.\<close>

definition history_ok :: "(string \<Rightarrow> bool) \<Rightarrow> (string \<Rightarrow> bool) \<Rightarrow> plan_db \<Rightarrow> bool" where
  "history_ok sk sv db \<longleftrightarrow> plans_ok sk sv db \<and> decisions_ok db \<and> approvals_ok db"

lemma history_ok_store: "history_ok sk sv db \<Longrightarrow> plan_store_ok db"
  by (simp add: history_ok_def plans_ok_def versions_readable_def)

lemma history_ok_readable: "history_ok sk sv db \<Longrightarrow> plans_readable sk sv db"
  by (simp add: history_ok_def plans_ok_readable)

lemma repo_step_history_ok:
  assumes "repo_step sk sv db db'" "history_ok sk sv db"
  shows "plan_change sk sv db db' \<and> history_ok sk sv db'"
  using repo_step_change[OF assms(1) history_ok_store[OF assms(2)]] plan_change_plans_ok plan_change_decisions_ok
    plan_change_approvals_ok history_ok_store[OF assms(2)] assms(2) unfolding history_ok_def by blast

lemma repo_steps_history_ok:
  assumes "(repo_step sk sv)\<^sup>*\<^sup>* db db'" "history_ok sk sv db"
  shows "history_ok sk sv db'"
  using assms by (induction rule: rtranclp_induct) (auto dest: repo_step_history_ok)

definition no_plans :: "plan_db \<Rightarrow> bool" where
  "no_plans db \<longleftrightarrow> agent_plans db = [] \<and> agent_plan_versions (wf db) = [] \<and> agent_plan_steps db = [] \<and>
     agent_plan_step_dependencies db = [] \<and> agent_plan_decisions db = []"

lemma no_plans_ok: "no_plans db \<Longrightarrow> history_ok sk sv db"
  by (simp add: no_plans_def history_ok_def plans_ok_def versions_readable_def plan_store_ok_def versions_current_def
      decisions_ok_def approvals_ok_def)

lemmas reachable_history_ok = repo_steps_history_ok[OF _ no_plans_ok]

section \<open>The past of a decision does not change\<close>

lemma filter_upd_where_other:
  assumes "\<And>r. r \<in> set rows \<Longrightarrow> P r \<Longrightarrow> \<not> Q r \<and> \<not> Q (f r)"
  shows "filter Q (upd_where P f rows) = filter Q rows"
  using assms by (induction rows) auto

definition past_decisions :: "plan_db \<Rightarrow> plan_decision_row \<Rightarrow> plan_decision_row list" where
  "past_decisions db d = filter (\<lambda>c. decision_plan c = decision_plan d \<and>
     dc_expected_plan_cas_version c \<le> dc_expected_plan_cas_version d) (agent_plan_decisions db)"

definition past_versions :: "plan_db \<Rightarrow> scope \<Rightarrow> int \<Rightarrow> plan_version_row list" where
  "past_versions db k n = filter (\<lambda>v. fst (version_key v) = k \<and> pv_plan_version v \<le> n) (agent_plan_versions (wf db))"

lemma decision_before:
  assumes ok: "decisions_ok db" "plan_store_ok db" and d: "d \<in> set (agent_plan_decisions db)" "completed d"
    and p: "p \<in> set (agent_plans db)" "plan_key p = decision_plan d"
  shows "dc_expected_plan_cas_version d < pl_version p" "decided_version d \<le> pl_current_version p"
proof -
  obtain q where q: "q \<in> set (agent_plans db)" "decision_fits q d" using ok(1) d(1) by (auto simp: decisions_ok_def)
  have "q = p" using plan_row_unique[OF ok(2) p(1) q(1)] q(2) p(2) by (simp add: decision_fits_def)
  with q(2) d(2) show "dc_expected_plan_cas_version d < pl_version p" "decided_version d \<le> pl_current_version p"
    by (simp_all add: decision_fits_def)
qed

lemma past_decisions_add:
  assumes ok: "decisions_ok db" "plan_store_ok db" and d: "d \<in> set (agent_plan_decisions db)" "completed d"
    and p: "p \<in> set (agent_plans db)" and c: "decides db p c"
  shows "filter (\<lambda>c. decision_plan c = decision_plan d \<and> dc_expected_plan_cas_version c \<le> dc_expected_plan_cas_version d) [c] = []"
  using decision_before(1)[OF ok d p] c by (auto simp: decides_def)

lemma plan_change_past_decisions:
  assumes ch: "plan_change sk sv db db'" and ok: "decisions_ok db" "plan_store_ok db"
    and d: "d \<in> set (agent_plan_decisions db)" "completed d"
  shows "past_decisions db' d = past_decisions db d"
  using ch
proof cases
  case (decided p c q now)
  then show ?thesis using past_decisions_add[OF ok d decided(2,3)] by (simp add: past_decisions_def)
next
  case (claimed p c)
  then show ?thesis using past_decisions_add[OF ok d claimed(2,3)] by (simp add: past_decisions_def)
next
  case (finished p boundary n P)
  have "\<not> (decision_plan c = decision_plan d \<and> dc_expected_plan_cas_version c \<le> dc_expected_plan_cas_version d)"
    if c: "c \<in> set (agent_plan_decisions db)" "P c" for c
  proof
    assume le: "decision_plan c = decision_plan d \<and> dc_expected_plan_cas_version c \<le> dc_expected_plan_cas_version d"
    have k: "decision_plan c = plan_key p" "dc_expected_plan_cas_version c = boundary" "\<not> completed c"
      using finished(5) c(2) by (auto simp: completed_def)
    then have "dc_expected_plan_cas_version d < boundary + 1"
      using decision_before(1)[OF ok d finished(2)] le finished(3) by simp
    then have "dc_expected_plan_cas_version c = dc_expected_plan_cas_version d" using k(2) le by simp
    then have "c = d"
      using ok(1) distinct_key_unique[of "\<lambda>d. (decision_plan d, dc_expected_plan_cas_version d)" "agent_plan_decisions db" c d] c(1) d(1) le
      by (simp add: decisions_ok_def)
    then show False using k(3) d(2) by simp
  qed
  then show ?thesis
    unfolding past_decisions_def finished(1) by (simp add: filter_upd_where_other decision_plan_def)
qed (simp_all add: past_decisions_def same_plans_def)

lemma plan_change_past_versions:
  assumes ch: "plan_change sk sv db db'" and ok: "plan_store_ok db"
    and p: "p \<in> set (agent_plans db)" "n \<le> pl_current_version p"
  shows "past_versions db' (plan_key p) n = past_versions db (plan_key p) n"
  using ch
proof cases
  case (created q ctx s pid v ids now)
  have "plan_key p \<noteq> plan_scope ctx s pid" using fresh_plan_key[OF created(2) p(1)] created(3) by simp
  then show ?thesis unfolding created(1) by (simp add: past_versions_def version_row_key)
next
  case (appended q ctx s pid v ids q' now feedback supersedes)
  have "\<not> (plan_key p = plan_scope ctx s pid \<and> pl_current_version q + 1 \<le> n)"
    using plan_row_unique[OF ok p(1) appended(2)] appended(3) p(2) by auto
  then show ?thesis unfolding appended(1) by (auto simp: past_versions_def version_row_key version_row_version)
qed (simp_all add: past_versions_def same_plans_def)

text \<open>A version that is there is read as before, and so is never rewritten.\<close>

lemma plan_change_view:
  assumes ch: "plan_change sk sv db db'" and row: "row \<in> set (agent_plan_versions (wf db))"
  shows "row \<in> set (agent_plan_versions (wf db')) \<and> version_view db' row = version_view db row"
  using ch
proof cases
  case (created q ctx s pid v ids now)
  have "version_view db' row = version_view (db\<lparr>agent_plans := agent_plans db @ [q]\<rparr>) row"
    unfolding created(1) by (rule version_holds_cong(2)) (rule add_version_old[OF created(9)], simp add: row)+
  also have "\<dots> = version_view db row" by (rule version_holds_cong(2)) (rule readable_plans_cong; simp)+
  finally show ?thesis using row created(1) by simp
next
  case (appended q ctx s pid v ids q' now feedback supersedes)
  let ?db1 = "add_version db ctx s pid (pl_current_version q + 1) v (Some (pl_current_version q)) feedback supersedes now ids"
  have "version_view db' row = version_view ?db1 row"
    unfolding appended(1) by (rule version_holds_cong(2)) (rule readable_plans_cong; simp)+
  also have "\<dots> = version_view db row"
    by (rule version_holds_cong(2)) (rule add_version_old[OF appended(5) row])+
  finally show ?thesis using row appended(1) by simp
qed (use row in \<open>auto simp: same_plans_def version_view_def version_steps_def version_deps_def\<close>)

section \<open>The answer to a decision\<close>

text \<open>The snapshot at a decision depends on the past of the decision only.\<close>

definition answer_version :: "plan_decision_record \<Rightarrow> int" where
  "answer_version d = (case de_resulting_plan_version d of Some n \<Rightarrow> if de_action d = D_REVISE then n else de_plan_version d
     | None \<Rightarrow> de_plan_version d)"

definition same_past :: "plan_decision_record \<Rightarrow> plan_snapshot \<Rightarrow> plan_snapshot \<Rightarrow> bool" where
  "same_past d a b \<longleftrightarrow> sn_context a = sn_context b \<and> sn_plan_id a = sn_plan_id b \<and>
     sn_source_message_id a = sn_source_message_id b \<and> sn_trigger_mode a = sn_trigger_mode b \<and>
     sn_created_at a = sn_created_at b \<and>
     filter (\<lambda>c. de_expected_plan_cas_version c \<le> de_expected_plan_cas_version d) (sn_decisions a) =
       filter (\<lambda>c. de_expected_plan_cas_version c \<le> de_expected_plan_cas_version d) (sn_decisions b) \<and>
     filter (\<lambda>v. ve_plan_version v \<le> answer_version d) (sn_versions a) =
       filter (\<lambda>v. ve_plan_version v \<le> answer_version d) (sn_versions b)"

lemma snapshot_at_decision_same_past:
  assumes "same_past d a b"
  shows "snapshot_at_decision a d = snapshot_at_decision b d"
proof -
  have eq: "a\<lparr>sn_status := st, sn_current_version := cv, sn_approved_version := av, sn_aggregate_version := g,
      sn_updated_at := u, sn_current := cur, sn_versions := vs, sn_decisions := ds\<rparr> =
    b\<lparr>sn_status := st, sn_current_version := cv, sn_approved_version := av, sn_aggregate_version := g,
      sn_updated_at := u, sn_current := cur, sn_versions := vs, sn_decisions := ds\<rparr>" for st cv av g u cur vs ds
    using assms by (cases a; cases b) (simp add: same_past_def)
  have f: "filter (\<lambda>c. de_expected_plan_cas_version c \<le> de_expected_plan_cas_version d) (sn_decisions a) =
       filter (\<lambda>c. de_expected_plan_cas_version c \<le> de_expected_plan_cas_version d) (sn_decisions b)"
    and v: "filter (\<lambda>v. ve_plan_version v \<le> answer_version d) (sn_versions a) =
       filter (\<lambda>v. ve_plan_version v \<le> answer_version d) (sn_versions b)"
    using assms by (simp_all add: same_past_def)
  show ?thesis
  proof (cases "de_action d = D_REVISE")
    case True
    then show ?thesis
      using v unfolding snapshot_at_decision_def f
      by (cases "de_resulting_plan_version d") (simp_all add: Let_def eq answer_version_def)
  next
    case False
    then have "answer_version d = de_plan_version d" by (simp add: answer_version_def split: option.split)
    then show ?thesis using False v unfolding snapshot_at_decision_def f by (simp add: Let_def eq)
  qed
qed

lemma snapshot_at_decision_completed:
  "snapshot_at_decision snap (hydrate_decision d) = Inr snap' \<Longrightarrow> completed d"
  by (auto simp: snapshot_at_decision_def hydrate_decision_def completed_def Let_def res_simps split: if_splits)

lemma past_decision_rows:
  assumes s: "session_id ctx = Some s" and d: "decision_plan d = plan_scope ctx s pid"
  shows "filter (\<lambda>c. de_expected_plan_cas_version c \<le> dc_expected_plan_cas_version d) (map hydrate_decision (plan_decision_rows db ctx pid)) =
    map hydrate_decision (sort_key (\<lambda>d. (dc_created_at d, dc_decision_id d)) (past_decisions db d))"
  using scope_predicates(5)[OF s] d
  by (simp add: plan_decision_rows_def past_decisions_def filter_map comp_def filter_sort hydrate_decision_def conj_commute)

lemma past_version_rows:
  assumes s: "session_id ctx = Some s"
  shows "filter (\<lambda>v. ve_plan_version v \<le> n) (map (version_view db) (plan_version_rows db ctx pid)) =
    map (version_view db) (sort_key pv_plan_version (past_versions db (plan_scope ctx s pid) n))"
  using scope_predicates(2)[OF s]
  by (simp add: plan_version_rows_def past_versions_def filter_map comp_def filter_sort version_view_def conj_commute)

lemma plan_view_same_past:
  assumes ch: "plan_change sk sv db db'" and h: "history_ok sk sv db" and s: "session_id ctx = Some s"
    and p: "p \<in> set (agent_plans db)" "plan_key p = plan_scope ctx s pid" and q: "plan_successor p q"
    and d: "d \<in> set (agent_plan_decisions db)" "completed d" "decision_plan d = plan_scope ctx s pid"
  shows "same_past (hydrate_decision d) (plan_view db' ctx q row') (plan_view db ctx p row)"
proof -
  have ok: "decisions_ok db" "plan_store_ok db" using h history_ok_store[OF h] by (simp_all add: history_ok_def)
  have key: "plan_key q = plan_key p" using q by (simp add: plan_successor_def)
  then have pid: "pl_id p = pid" "pl_id q = pid" using p(2) by (simp_all add: plan_key_def)
  have av: "answer_version (hydrate_decision d) = decided_version d"
    by (simp add: answer_version_def decided_version_def hydrate_decision_def split: option.split)
  have b: "de_expected_plan_cas_version (hydrate_decision d) = dc_expected_plan_cas_version d" by (simp add: hydrate_decision_def)
  have le: "decided_version d \<le> pl_current_version p" using decision_before(2)[OF ok d(1,2) p(1)] p(2) d(3) by simp
  have decs: "filter (\<lambda>c. de_expected_plan_cas_version c \<le> dc_expected_plan_cas_version d) (map hydrate_decision (plan_decision_rows db' ctx pid)) =
      filter (\<lambda>c. de_expected_plan_cas_version c \<le> dc_expected_plan_cas_version d) (map hydrate_decision (plan_decision_rows db ctx pid))"
    unfolding past_decision_rows[OF s d(3)] plan_change_past_decisions[OF ch ok d(1,2)] ..
  have "version_view db' v = version_view db v" if "v \<in> set (past_versions db (plan_scope ctx s pid) (decided_version d))" for v
    using plan_change_view[OF ch, of v] that by (simp add: past_versions_def)
  then have vers: "filter (\<lambda>v. ve_plan_version v \<le> decided_version d) (map (version_view db') (plan_version_rows db' ctx pid)) =
      filter (\<lambda>v. ve_plan_version v \<le> decided_version d) (map (version_view db) (plan_version_rows db ctx pid))"
    unfolding past_version_rows[OF s] plan_change_past_versions[OF ch ok(2) p(1) le, unfolded p(2)] by simp
  show ?thesis
    using q decs vers unfolding same_past_def av b by (simp add: plan_view_def pid plan_successor_def)
qed

lemma plan_found:
  assumes "plan_store_ok db" "session_id ctx = Some s" "p \<in> set (agent_plans db)" "plan_key p = plan_scope ctx s pid"
  shows "List.find (plan_predicate ctx pid) (agent_plans db) = Some p"
proof (rule find_by_key[of pl_id])
  show "distinct (map pl_id (agent_plans db))" using assms(1) by (simp add: plan_store_ok_def)
  show "pl_id r = pl_id p" if "plan_predicate ctx pid r" for r
    using that assms(2,4) by (simp add: scope_predicates plan_key_def)
qed (use assms in \<open>simp_all add: scope_predicates\<close>)

lemma decision_found:
  assumes ok: "decisions_ok db" and s: "session_id ctx = Some s" and d: "d \<in> set (agent_plan_decisions db)"
      "decision_plan d = plan_scope ctx s pid" "dc_decision_id d = did"
  shows "List.find (\<lambda>c. de_decision_id c = did) (map hydrate_decision (plan_decision_rows db ctx pid)) = Some (hydrate_decision d)"
    and "get_decision db ctx pid did = Some (hydrate_decision d)"
proof -
  have u: "c = d" if "c \<in> set (agent_plan_decisions db)" "decision_scope_predicate ctx pid c" "dc_decision_id c = did" for c
    using ok distinct_key_unique[of "\<lambda>d. (decision_plan d, dc_decision_id d)" "agent_plan_decisions db" c d] that d
    by (simp add: decisions_ok_def scope_predicates(5)[OF s])
  have sc: "decision_scope_predicate ctx pid d" using d(2) by (simp add: scope_predicates(5)[OF s])
  have "d \<in> set (plan_decision_rows db ctx pid)" using d(1) sc by (simp add: plan_decision_rows_def)
  then have "List.find (\<lambda>c. de_decision_id c = did) (map hydrate_decision (plan_decision_rows db ctx pid)) \<noteq> None"
    using d(3) by (auto simp: find_None_iff hydrate_decision_def)
  then obtain x where x: "List.find (\<lambda>c. de_decision_id c = did) (map hydrate_decision (plan_decision_rows db ctx pid)) = Some x"
    by blast
  then obtain c where "c \<in> set (plan_decision_rows db ctx pid)" "x = hydrate_decision c" "dc_decision_id c = did"
    using find_SomeD[OF x] by (auto simp: hydrate_decision_def)
  moreover from this have "c = d" by (intro u) (simp_all add: plan_decision_rows_def)
  ultimately show "List.find (\<lambda>c. de_decision_id c = did) (map hydrate_decision (plan_decision_rows db ctx pid)) = Some (hydrate_decision d)"
    using x by simp
  let ?P = "\<lambda>d. decision_scope_predicate ctx pid d \<and> dc_decision_id d = did"
  have "List.find ?P (agent_plan_decisions db) \<noteq> None" using d(1,3) sc by (auto simp: find_None_iff)
  then obtain c where c: "List.find ?P (agent_plan_decisions db) = Some c" by blast
  then have "c = d" using find_SomeD[OF c] u by blast
  then show "get_decision db ctx pid did = Some (hydrate_decision d)" using c by (simp add: get_decision_def)
qed

lemma decision_result_Inr:
  assumes r: "decision_result sk sv db ctx pid did replay = Inr r" and h: "history_ok sk sv db"
  shows "\<exists>s p row d snap. session_id ctx = Some s \<and> p \<in> set (agent_plans db) \<and> plan_key p = plan_scope ctx s pid \<and>
    d \<in> set (agent_plan_decisions db) \<and> decision_plan d = plan_scope ctx s pid \<and> dc_decision_id d = did \<and>
    snapshot_at_decision (plan_view db ctx p row) (hydrate_decision d) = Inr snap \<and>
    r = \<lparr>mr_snapshot = snap, mr_decision = hydrate_decision d, mr_idempotent_replay = replay\<rparr>"
proof -
  obtain found d snap where g: "get_plan sk sv db ctx pid = Inr (Some found)"
    and f: "List.find (\<lambda>d. de_decision_id d = did) (sn_decisions found) = Some d"
    and sd: "snapshot_at_decision found d = Inr snap"
    and eq: "r = \<lparr>mr_snapshot = snap, mr_decision = d, mr_idempotent_replay = replay\<rparr>"
    using r by (auto simp: decision_result_def res_simps)
  obtain s p where s: "session_id ctx = Some s" and p: "List.find (plan_predicate ctx pid) (agent_plans db) = Some p"
    using g by (auto simp: get_plan_def require_session_def res_simps split: option.splits)
  have pm: "p \<in> set (agent_plans db)" "plan_key p = plan_scope ctx s pid"
    using find_SomeD[OF p] scope_predicates(1)[OF s] by auto
  obtain row where v: "found = plan_view db ctx p row"
    using get_plan_readable[OF s history_ok_readable[OF h] p] g by auto
  have "sn_decisions found = map hydrate_decision (plan_decision_rows db ctx pid)"
    using pm(2) by (simp add: v plan_view_def plan_key_def)
  then obtain dr where dr: "dr \<in> set (plan_decision_rows db ctx pid)" "d = hydrate_decision dr" "dc_decision_id dr = did"
    using find_SomeD[OF f] by (auto simp: hydrate_decision_def)
  moreover from dr(1) have "dr \<in> set (agent_plan_decisions db)" "decision_plan dr = plan_scope ctx s pid"
    using scope_predicates(5)[OF s] by (simp_all add: plan_decision_rows_def)
  ultimately show ?thesis using s pm sd eq v by blast
qed

lemma decision_result_step:
  assumes ch: "plan_change sk sv db db'" and h: "history_ok sk sv db" "history_ok sk sv db'"
    and r: "decision_result sk sv db ctx pid did replay = Inr r"
  shows "decision_result sk sv db' ctx pid did replay = Inr r"
proof -
  obtain s p row d snap where s: "session_id ctx = Some s" and p: "p \<in> set (agent_plans db)" "plan_key p = plan_scope ctx s pid"
    and d: "d \<in> set (agent_plan_decisions db)" "decision_plan d = plan_scope ctx s pid" "dc_decision_id d = did"
    and snap: "snapshot_at_decision (plan_view db ctx p row) (hydrate_decision d) = Inr snap"
    and eq: "r = \<lparr>mr_snapshot = snap, mr_decision = hydrate_decision d, mr_idempotent_replay = replay\<rparr>"
    using decision_result_Inr[OF r h(1)] by blast
  have c: "completed d" by (rule snapshot_at_decision_completed[OF snap])
  have ok: "decisions_ok db" "decisions_ok db'" using h by (simp_all add: history_ok_def)
  note st = history_ok_store[OF h(1)] history_ok_store[OF h(2)]
  obtain q where q: "q \<in> set (agent_plans db')" "plan_successor p q" using plan_change_plan[OF ch p(1)] by blast
  have qk: "plan_key q = plan_scope ctx s pid" using q(2) p(2) by (simp add: plan_successor_def)
  obtain row' where g: "get_plan sk sv db' ctx pid = Inr (Some (plan_view db' ctx q row'))"
    using get_plan_readable[OF s history_ok_readable[OF h(2)] plan_found[OF st(2) s q(1) qk]] by blast
  have "d \<in> set (past_decisions db d)" using d(1) by (simp add: past_decisions_def)
  then have "d \<in> set (past_decisions db' d)" by (simp add: plan_change_past_decisions[OF ch ok(1) st(1) d(1) c])
  then have d': "d \<in> set (agent_plan_decisions db')" by (simp add: past_decisions_def)
  have "snapshot_at_decision (plan_view db' ctx q row') (hydrate_decision d) = Inr snap"
    unfolding snapshot_at_decision_same_past[OF plan_view_same_past[OF ch h(1) s p q(2) d(1) c d(2), of row' row]] by (rule snap)
  moreover have "sn_decisions (plan_view db' ctx q row') = map hydrate_decision (plan_decision_rows db' ctx pid)"
    using qk by (simp add: plan_view_def plan_key_def)
  ultimately show ?thesis
    using decision_found(1)[OF ok(2) s d' d(2,3)] by (simp add: decision_result_def g eq)
qed

lemma decision_result_steps:
  assumes "(repo_step sk sv)\<^sup>*\<^sup>* db db'" "history_ok sk sv db" "decision_result sk sv db ctx pid did replay = Inr r"
  shows "decision_result sk sv db' ctx pid did replay = Inr r"
  using assms
proof (induction rule: rtranclp_induct)
  case (step db1 db2)
  have h: "history_ok sk sv db1" by (rule repo_steps_history_ok[OF step(1,4)])
  from repo_step_history_ok[OF step(2) h] h step.IH[OF step(4,5)] show ?case by (blast intro: decision_result_step)
qed

lemma decision_result_get:
  assumes "decision_result sk sv db ctx pid did replay = Inr r" "history_ok sk sv db"
  shows "get_decision db ctx pid did = Some (mr_decision r)"
proof -
  obtain s d where s: "session_id ctx = Some s" and d: "d \<in> set (agent_plan_decisions db)" "decision_plan d = plan_scope ctx s pid"
      "dc_decision_id d = did" and eq: "mr_decision r = hydrate_decision d"
    using decision_result_Inr[OF assms] by fastforce
  show ?thesis using decision_found(2)[OF _ s d] assms(2) eq by (simp add: history_ok_def)
qed

lemma decision_result_replay:
  "decision_result sk sv db ctx pid did b = Inr r \<Longrightarrow> decision_result sk sv db ctx pid did True = Inr (r\<lparr>mr_idempotent_replay := True\<rparr>)"
  by (auto simp: decision_result_def res_simps)

text \<open>What a successful call of \<open>record_decision\<close> leaves behind.\<close>

lemma record_decision_answer:
  assumes c: "record_decision sk sv clk db ctx claims rq decided_by = Inr (r, db')" and h: "history_ok sk sv db" "history_ok sk sv db'"
  shows "\<exists>b. decision_result sk sv db' ctx (rq_plan_id rq) (rq_decision_id rq) b = Inr r"
    and "require_identical_decision rq decided_by (mr_decision r) = Inr ()"
proof -
  let ?pid = "rq_plan_id rq" and ?did = "rq_decision_id rq"
  have "(\<exists>b. decision_result sk sv db' ctx ?pid ?did b = Inr r) \<and> require_identical_decision rq decided_by (mr_decision r) = Inr ()"
  proof (cases "get_decision db ctx ?pid ?did")
    case (Some e)
    then have "db' = db" "require_identical_decision rq decided_by e = Inr ()" "decision_result sk sv db ctx ?pid ?did True = Inr r"
      using c by (auto simp: record_decision_def decision_replay_def res_simps)
    then show ?thesis using decision_result_get[of sk sv db ctx ?pid ?did True r] Some h(1) by auto
  next
    case None
    obtain s db1 where s: "session_id ctx = Some s" and i: "insert_decision db ctx rq decided_by None (clk 0) = Inr db1"
      and d': "agent_plan_decisions db' = agent_plan_decisions db1" and r: "decision_result sk sv db' ctx ?pid ?did False = Inr r"
      using c None by (auto simp: record_decision_def write_decision_def require_session_def res_simps Let_def update_plans_def
          split: if_splits)
    let ?row = "decision_row ctx s rq decided_by (clk 0)"
    have "?row \<in> set (agent_plan_decisions db')" using insert_decision_effect(1)[OF i s] d' by simp
    then have "get_decision db' ctx ?pid ?did = Some (hydrate_decision ?row)"
      using decision_found(2)[of db' ctx s ?row ?pid ?did] s h(2)
      by (simp add: history_ok_def decision_row_def decision_plan_def)
    then have "mr_decision r = hydrate_decision ?row" using decision_result_get[OF r h(2)] by simp
    then show ?thesis using r by (auto simp: require_identical_decision_def hydrate_decision_def decision_row_def ensure_def)
  qed
  then show "\<exists>b. decision_result sk sv db' ctx ?pid ?did b = Inr r" "require_identical_decision rq decided_by (mr_decision r) = Inr ()"
    by blast+
qed

lemma record_decision_repeats:
  assumes c: "record_decision sk sv clk db ctx claims rq decided_by = Inr (r, db1)" and h: "history_ok sk sv db"
    and st: "(repo_step sk sv)\<^sup>*\<^sup>* db1 db2" and p: "pending_revision_claim ctx claims2 (rq_plan_id rq) = Inr None"
  shows "record_decision sk sv clk2 db2 ctx claims2 rq decided_by = Inr (r\<lparr>mr_idempotent_replay := True\<rparr>, db2)"
proof -
  have h1: "history_ok sk sv db1" using repo_step_history_ok[OF repo_step.decide[OF c] h] by blast
  have h2: "history_ok sk sv db2" by (rule repo_steps_history_ok[OF st h1])
  obtain b where "decision_result sk sv db1 ctx (rq_plan_id rq) (rq_decision_id rq) b = Inr r"
    using record_decision_answer(1)[OF c h h1] by blast
  then have r: "decision_result sk sv db2 ctx (rq_plan_id rq) (rq_decision_id rq) b = Inr r" by (rule decision_result_steps[OF st h1])
  obtain s where "session_id ctx = Some s" using c by (auto simp: record_decision_def require_session_def res_simps)
  then show ?thesis
    using decision_result_get[OF r h2] decision_result_replay[OF r] record_decision_answer(2)[OF c h h1] p
    by (auto simp: record_decision_def decision_replay_def require_session_def ensure_def)
qed

end
