(* ===== verification/Plan_Creation.thy ===== *)
theory Plan_Creation
  imports Plan_Decisions
begin

text \<open>
  Creating a plan and deciding it cannot fail half way: a draft that passes validation, in a session that
  exists and with fresh identifiers, violates no constraint of the schema, and the new rows pass the
  integrity check of the read that follows. The same holds for a first decision on the current version.
\<close>

section \<open>Inserting the rows of a version\<close>

definition step_row_ok :: "plan_db \<Rightarrow> plan_step_row \<Rightarrow> bool" where
  "step_row_ok db r \<longleftrightarrow> 1 \<le> pst_ordinal r \<and> pst_ordinal r \<le> 20 \<and> 1 \<le> pst_max_attempts r \<and> pst_max_attempts r \<le> 20 \<and>
     length (pst_definition_digest r) = 64 \<and> version_fk db (step_plan r) (Some (pst_plan_version r)) \<and>
     (case pst_supersedes_step_id r of None \<Rightarrow> True
      | Some i \<Rightarrow> (step_plan r, i) \<in> (\<lambda>x. (step_plan x, pst_step_id x)) ` set (agent_plan_steps db))"

definition step_name :: "plan_step_row \<Rightarrow> scope \<times> int \<times> string" where
  "step_name r = (step_plan r, pst_plan_version r, pst_logical_step_key r)"

lemma insert_steps_total:
  assumes "\<forall>r \<in> set rs. step_row_ok db r" "distinct (map pst_step_id (agent_plan_steps db @ rs))"
    and "distinct (map step_name rs)" "step_name ` set rs \<inter> step_name ` set (agent_plan_steps db) = {}"
  shows "insert_rows insert_agent_plan_step db rs = Inr (db\<lparr>agent_plan_steps := agent_plan_steps db @ rs\<rparr>)"
  using assms
proof (induction rs arbitrary: db)
  case (Cons r rs)
  let ?db = "db\<lparr>agent_plan_steps := agent_plan_steps db @ [r]\<rparr>"
  have "insert_agent_plan_step db r = Inr ?db"
    using Cons.prems unfolding insert_agent_plan_step_def step_row_ok_def by (simp add: step_name_def comp_def image_iff cong: option.case_cong)
  moreover have "\<forall>x \<in> set rs. step_row_ok ?db x"
    using Cons.prems(1) by (auto simp: step_row_ok_def version_fk_def split: option.splits)
  then have "insert_rows insert_agent_plan_step ?db rs = Inr (?db\<lparr>agent_plan_steps := agent_plan_steps ?db @ rs\<rparr>)"
    using Cons.prems(2-4) by (intro Cons.IH) auto
  ultimately show ?case by simp
qed simp

definition dependency_row_ok :: "plan_db \<Rightarrow> plan_dependency_row \<Rightarrow> bool" where
  "dependency_row_ok db d \<longleftrightarrow> dp_step_id d \<noteq> dp_depends_on_step_id d \<and>
     (dependency_plan d, dp_plan_version d, dp_step_id d) \<in> step_key ` set (agent_plan_steps db) \<and>
     (dependency_plan d, dp_plan_version d, dp_depends_on_step_id d) \<in> step_key ` set (agent_plan_steps db)"

lemma insert_dependencies_total:
  assumes "\<forall>r \<in> set rs. dependency_row_ok db r" "distinct rs" "set rs \<inter> set (agent_plan_step_dependencies db) = {}"
  shows "insert_rows insert_agent_plan_dependency db rs =
    Inr (db\<lparr>agent_plan_step_dependencies := agent_plan_step_dependencies db @ rs\<rparr>)"
  using assms
proof (induction rs arbitrary: db)
  case (Cons r rs)
  let ?db = "db\<lparr>agent_plan_step_dependencies := agent_plan_step_dependencies db @ [r]\<rparr>"
  have "insert_agent_plan_dependency db r = Inr ?db"
    using Cons.prems unfolding insert_agent_plan_dependency_def dependency_row_ok_def by simp
  moreover have "insert_rows insert_agent_plan_dependency ?db rs = Inr (?db\<lparr>agent_plan_step_dependencies := agent_plan_step_dependencies ?db @ rs\<rparr>)"
    using Cons.prems by (intro Cons.IH) (auto simp: dependency_row_ok_def)
  ultimately show ?case by simp
qed simp

lemma dependency_rows_pairs:
  "dependency_rows ctx s pid ver ids steps = map (\<lambda>(i, j). dependency_row ctx s pid ver i j) (dependency_pairs ids steps)"
  by (simp add: dependency_rows_def dependency_pairs_def map_concat comp_def)

lemma distinct_dependency_pairs:
  assumes "distinct (map (\<lambda>st. ids (d_key st)) steps)" "\<forall>st \<in> set steps. distinct (d_depends_on st)"
    and "inj_on ids K" "\<forall>st \<in> set steps. set (d_depends_on st) \<subseteq> K"
  shows "distinct (dependency_pairs ids steps)"
  using assms
proof (induction steps)
  case (Cons st steps)
  have "distinct (map (\<lambda>k. (ids (d_key st), ids k)) (d_depends_on st))"
  proof -
    have "inj_on ids (set (d_depends_on st))" using inj_on_subset[OF Cons.prems(3)] Cons.prems(4) by simp
    then show ?thesis using Cons.prems(2) by (simp add: distinct_map inj_on_def)
  qed
  moreover have "set (map (\<lambda>k. (ids (d_key st), ids k)) (d_depends_on st)) \<inter> set (dependency_pairs ids steps) = {}"
    using Cons.prems(1) by (force simp: dependency_pairs_def)
  moreover have "dependency_pairs ids (st # steps) =
      map (\<lambda>k. (ids (d_key st), ids k)) (d_depends_on st) @ dependency_pairs ids steps" by (simp add: dependency_pairs_def)
  ultimately show ?case using Cons by simp
qed (simp add: dependency_pairs_def)

text \<open>The conditions under which a version can be added, besides the plan being validated.\<close>

lemma revalidated_typed:
  assumes "revalidated sk sv v" "st \<in> set (vp_steps v)"
  shows "1 \<le> d_ordinal st \<and> d_ordinal st \<le> 20 \<and> 1 \<le> d_max_attempts st \<and> d_max_attempts st \<le> 20 \<and>
    d_key st \<notin> set (d_depends_on st) \<and> distinct (d_depends_on st)"
proof -
  have v: "validate_plan_draft sk sv (as_draft v) 20 10 20 MAX_PLAN_CONTENT_BYTES = Inr v" and ok: "plan_draft_ok (as_draft v)"
    using assms by (simp_all add: revalidated_def)
  obtain i where i: "i < length (vp_steps v)" "st = vp_steps v ! i" using assms(2) by (metis in_set_conv_nth)
  obtain x where x: "x \<in> set (pd_steps (as_draft v))" "st = validated_step x (draft_order (as_draft v)) (int i + 1)"
      "step_accepted (draft_keys (as_draft v)) 20 x"
    using accepted_step[OF v i(1)] i(2) by blast
  have "list_all step_fields_ok (pd_steps (as_draft v))" "length (pd_steps (as_draft v)) \<le> 20"
    using ok by (simp_all only: plan_draft_ok_def)
  then have "step_fields_ok x" "length (vp_steps v) \<le> 20" using x(1) by (simp_all add: list_all_iff) (simp add: as_draft_def)
  then show ?thesis using x(2,3) i(1) by (simp add: validated_step_def step_fields_ok_def step_accepted_def)
qed

lemma insert_version_total:
  assumes st: "plan_store_ok db" and v: "revalidated sk sv v" and s: "session_id ctx = Some s"
    and a: "addable db (plan_scope ctx s pid) ver v (step_id_of uuids v)" and ver: "1 \<le> ver"
    and parent: "case parent of None \<Rightarrow> True | Some n \<Rightarrow> n < ver \<and> (plan_scope ctx s pid, n) \<in> version_key ` set (agent_plan_versions (wf db))"
    and sup: "\<forall>i \<in> snd ` set supersedes. (plan_scope ctx s pid, i) \<in> (\<lambda>x. (step_plan x, pst_step_id x)) ` set (agent_plan_steps db)"
  shows "insert_version uuids db ctx pid ver v parent feedback supersedes now =
    Inr (add_version db ctx s pid ver v parent feedback supersedes now (step_id_of uuids v))"
proof -
  let ?ids = "step_id_of uuids v" and ?row = "version_row ctx s pid ver v parent feedback now" and ?k = "plan_scope ctx s pid"
  let ?db1 = "db\<lparr>wf := (wf db)\<lparr>agent_plan_versions := agent_plan_versions (wf db) @ [?row]\<rparr>\<rparr>"
  let ?rows = "map (step_row ctx s pid ver ?ids supersedes) (vp_steps v)"
  let ?db2 = "?db1\<lparr>agent_plan_steps := agent_plan_steps db @ ?rows\<rparr>"
  have "insert_agent_plan_version db ?row = Inr ?db1"
  proof -
    have "version_key ?row \<notin> version_key ` set (agent_plan_versions (wf db))" "fst (version_key ?row) \<in> plan_key ` set (agent_plans db)"
      using a by (simp_all add: version_row_key addable_def)
    moreover have "version_fk db ?k parent" "case parent of None \<Rightarrow> True | Some n \<Rightarrow> n < ver"
      using parent by (auto simp: version_fk_def split: option.splits)
    ultimately show ?thesis
      using ver unfolding insert_agent_plan_version_def version_row_key fst_conv
      by (simp add: version_row_def plan_content_digest_def length_sha256_hex cong: option.case_cong)
  qed
  moreover have "insert_rows insert_agent_plan_step ?db1 ?rows = Inr ?db2"
  proof -
    have "\<forall>r \<in> set ?rows. step_row_ok ?db1 r"
    proof
      fix r assume "r \<in> set ?rows"
      then obtain x where x: "x \<in> set (vp_steps v)" "r = step_row ctx s pid ver ?ids supersedes x" by auto
      have "step_plan r = ?k" "version_fk ?db1 ?k (Some ver)" using x(2) by (simp_all add: step_row_def step_plan_def version_fk_def version_row_key)
      moreover have "1 \<le> pst_ordinal r" "pst_ordinal r \<le> 20" "1 \<le> pst_max_attempts r" "pst_max_attempts r \<le> 20"
        "length (pst_definition_digest r) = 64" "pst_plan_version r = ver" "pst_supersedes_step_id r = map_of supersedes (d_key x)"
        using revalidated_typed[OF v x(1)] x(2) by (simp_all add: step_row_def step_definition_digest_def length_sha256_hex)
      moreover have "(?k, i) \<in> (\<lambda>x. (step_plan x, pst_step_id x)) ` set (agent_plan_steps db)" if "map_of supersedes (d_key x) = Some i" for i
        using sup map_of_SomeD[OF that] by force
      ultimately show "step_row_ok ?db1 r" by (simp add: step_row_ok_def split: option.split)
    qed
    moreover have "distinct (map pst_step_id (agent_plan_steps ?db1 @ ?rows))"
      using add_version_store_ok[OF st a, of parent feedback supersedes now] by (simp add: plan_store_ok_def)
    moreover have names: "map step_name ?rows = map (\<lambda>x. (?k, ver, x)) (map d_key (vp_steps v))"
      by (simp add: step_name_def step_row_def step_plan_def)
    then have "distinct (map step_name ?rows)"
      using revalidated_steps(1)[OF v] by (simp add: distinct_map inj_on_def)
    moreover have "step_name ` set ?rows \<inter> step_name ` set (agent_plan_steps ?db1) = {}"
    proof -
      have old: "(?k, ver, n) \<noteq> step_name x" if x: "x \<in> set (agent_plan_steps db)" for x n
      proof
        assume "(?k, ver, n) = step_name x"
        then have "(step_plan x, pst_plan_version x) = (?k, ver)" by (simp add: step_name_def)
        then show False using st a x unfolding plan_store_ok_def addable_def by metis
      qed
      have "step_name ` set ?rows = (\<lambda>n. (?k, ver, n)) ` d_key ` set (vp_steps v)"
        using arg_cong[OF names, of set] by (simp add: image_image)
      then show ?thesis using old by auto
    qed
    ultimately show ?thesis using insert_steps_total[of ?rows ?db1] by simp
  qed
  moreover have "insert_rows insert_agent_plan_dependency ?db2 (dependency_rows ctx s pid ver ?ids (vp_steps v)) =
      Inr (?db2\<lparr>agent_plan_step_dependencies := agent_plan_step_dependencies db @ dependency_rows ctx s pid ver ?ids (vp_steps v)\<rparr>)"
  proof -
    let ?deps = "dependency_rows ctx s pid ver ?ids (vp_steps v)"
    have inj: "inj_on ?ids (d_key ` set (vp_steps v))"
      using a distinct_map[of ?ids "map d_key (vp_steps v)"] by (simp add: addable_def comp_def)
    have sub: "set (d_depends_on x) \<subseteq> d_key ` set (vp_steps v)" if "x \<in> set (vp_steps v)" for x
      using revalidated_dependency[OF v that] by blast
    have "\<forall>r \<in> set ?deps. dependency_row_ok ?db2 r"
    proof
      fix r assume "r \<in> set ?deps"
      then obtain x k where x: "x \<in> set (vp_steps v)" "k \<in> set (d_depends_on x)" "r = dependency_row ctx s pid ver (?ids (d_key x)) (?ids k)"
        by (auto simp: dependency_rows_def)
      obtain y where y: "y \<in> set (vp_steps v)" "d_key y = k" using revalidated_dependency[OF v x(1,2)] by blast
      have key: "(?k, ver, ?ids (d_key z)) \<in> step_key ` set (agent_plan_steps ?db2)" if "z \<in> set (vp_steps v)" for z
      proof -
        have "step_key (step_row ctx s pid ver ?ids supersedes z) = (?k, ver, ?ids (d_key z))"
          by (simp add: step_key_def step_row_def step_plan_def)
        then show ?thesis using that by (force simp: image_iff)
      qed
      have "k \<noteq> d_key x" using revalidated_typed[OF v x(1)] x(2) by blast
      then have "?ids (d_key x) \<noteq> ?ids k" using inj x(1) y by (auto dest: inj_onD)
      then show "dependency_row_ok ?db2 r"
        using key[OF x(1)] key[OF y(1)] y(2) x(3) by (simp add: dependency_row_ok_def dependency_row_def dependency_plan_def)
    qed
    moreover have "distinct (dependency_pairs ?ids (vp_steps v))"
      using a revalidated_typed[OF v] sub by (intro distinct_dependency_pairs[OF _ _ inj]) (auto simp: addable_def)
    then have "distinct ?deps"
      unfolding dependency_rows_pairs by (auto simp: distinct_map inj_on_def dependency_row_def)
    moreover have "set ?deps \<inter> set (agent_plan_step_dependencies ?db2) = {}"
    proof -
      have "(dependency_plan x, dp_plan_version x) \<noteq> (?k, ver)" if "x \<in> set (agent_plan_step_dependencies db)" for x
        using st a that unfolding plan_store_ok_def addable_def by metis
      moreover have "(dependency_plan x, dp_plan_version x) = (?k, ver)" if "x \<in> set ?deps" for x
        using that by (auto simp: dependency_rows_def dependency_row_def dependency_plan_def)
      ultimately show ?thesis by (simp add: disjoint_iff) metis
    qed
    ultimately show ?thesis using insert_dependencies_total[of ?deps ?db2] by simp
  qed
  ultimately show ?thesis by (simp add: insert_version_def s require_session_def Let_def add_version_def)
qed

section \<open>Creating a plan\<close>

definition new_plan_row :: "tenant_context \<Rightarrow> string \<Rightarrow> string \<Rightarrow> string \<Rightarrow> plan_trigger_mode \<Rightarrow> int \<Rightarrow> plan_row" where
  "new_plan_row ctx s pid source mode now =
     \<lparr>pl_id = pid, pl_tenant_id = tenant_id ctx, pl_workspace_id = workspace_id ctx, pl_session_id = s,
      pl_source_message_id = source, pl_trigger_mode = mode, pl_status = P_AWAITING_APPROVAL, pl_current_version = 1,
      pl_approved_version = None, pl_version = 1, pl_created_at = now, pl_updated_at = now\<rparr>"

definition created_db ::
    "plan_db \<Rightarrow> tenant_context \<Rightarrow> string \<Rightarrow> string \<Rightarrow> string \<Rightarrow> plan_trigger_mode \<Rightarrow> int \<Rightarrow> validated_plan \<Rightarrow> (nat \<Rightarrow> string) \<Rightarrow> plan_db" where
  "created_db db ctx s pid source mode now v uuids =
     add_version (db\<lparr>agent_plans := agent_plans db @ [new_plan_row ctx s pid source mode now]\<rparr>) ctx s pid 1 v None None [] now
       (step_id_of uuids v)"

text \<open>What creating a plan asks of the rest of the database, and of the identifiers that are drawn.\<close>

definition plan_insertable ::
    "plan_db \<Rightarrow> tenant_context \<Rightarrow> string \<Rightarrow> string \<Rightarrow> string \<Rightarrow> bool" where
  "plan_insertable db ctx s pid source \<longleftrightarrow> session_id ctx = Some s \<and> pid \<notin> pl_id ` set (agent_plans db) \<and>
     (tenant_id ctx, workspace_id ctx, s) \<in> set (chat_sessions (wf db)) \<and>
     (\<exists>m \<in> set (memory_entries (wf db)). m_tenant_id m = tenant_id ctx \<and> m_workspace_id m = workspace_id ctx \<and>
        m_session_id m = Some s \<and> m_id m = source)"

definition fresh_ids :: "(nat \<Rightarrow> string) \<Rightarrow> nat \<Rightarrow> string set \<Rightarrow> bool" where
  "fresh_ids uuids n used \<longleftrightarrow> distinct (map uuids [0..<n]) \<and> (\<forall>i < n. uuids i \<notin> used)"

lemma step_ids_fresh:
  assumes f: "fresh_ids uuids (length (vp_steps v)) used" and d: "distinct (map d_key (vp_steps v))"
  shows "distinct (map (\<lambda>st. step_id_of uuids v (d_key st)) (vp_steps v)) \<and> (\<forall>st \<in> set (vp_steps v). step_id_of uuids v (d_key st) \<notin> used)"
proof -
  have i: "step_id_of uuids v (d_key (vp_steps v ! i)) = uuids i" if "i < length (vp_steps v)" for i
    using index_of_nth[OF d, of i] that by (simp add: step_id_of_def)
  then have "map (\<lambda>st. step_id_of uuids v (d_key st)) (vp_steps v) = map uuids [0..<length (vp_steps v)]"
    by (intro nth_equalityI) simp_all
  moreover have "step_id_of uuids v (d_key st) \<notin> used" if "st \<in> set (vp_steps v)" for st
    using that f i by (auto simp: in_set_conv_nth fresh_ids_def)
  ultimately show ?thesis using f by (simp add: fresh_ids_def)
qed

lemma plan_insert_addable:
  assumes st: "plan_store_ok db" and p: "plan_insertable db ctx s pid source" and d: "distinct (map d_key (vp_steps v))"
    and f: "fresh_ids uuids (length (vp_steps v)) (pst_step_id ` set (agent_plan_steps db))"
  shows "addable (db\<lparr>agent_plans := agent_plans db @ [new_plan_row ctx s pid source mode now]\<rparr>) (plan_scope ctx s pid) 1 v (step_id_of uuids v)"
proof -
  have "(plan_scope ctx s pid, 1) \<notin> version_key ` set (agent_plan_versions (wf db))"
  proof
    assume "(plan_scope ctx s pid, 1) \<in> version_key ` set (agent_plan_versions (wf db))"
    then obtain w where "w \<in> set (agent_plan_versions (wf db))" "fst (version_key w) = plan_scope ctx s pid"
      by (metis imageE fst_conv)
    then obtain q where q: "q \<in> set (agent_plans db)" "plan_key q = plan_scope ctx s pid" using st unfolding plan_store_ok_def by (metis imageE)
    then have "pl_id q = pid" by (simp add: plan_key_def)
    then show False using imageI[OF q(1), of pl_id] p by (simp add: plan_insertable_def)
  qed
  then show ?thesis
    using step_ids_fresh[OF f d] by (simp add: addable_def new_plan_row_def plan_key_def)
qed

lemma create_plan_total:
  assumes h: "history_ok sk sv db" and d: "plan_draft_ok draft" and p: "plan_insertable db ctx s pid source"
    and v: "validate_plan_draft sk sv draft (pset_max_steps st) (pset_max_dependency_depth st) (pset_max_step_attempts st)
      MAX_PLAN_CONTENT_BYTES = Inr v"
    and f: "fresh_ids uuids (length (vp_steps v)) (pst_step_id ` set (agent_plan_steps db))"
  shows "\<exists>row. row \<in> set (agent_plan_versions (wf (created_db db ctx s pid source mode (clk 0) v uuids))) \<and>
    version_key row = (plan_scope ctx s pid, 1) \<and>
    create_plan sk sv clk uuids st db ctx pid source mode draft =
      Inr (plan_view (created_db db ctx s pid source mode (clk 0) v uuids) ctx (new_plan_row ctx s pid source mode (clk 0)) row,
           created_db db ctx s pid source mode (clk 0) v uuids)"
proof -
  let ?p = "new_plan_row ctx s pid source mode (clk 0)" and ?db' = "created_db db ctx s pid source mode (clk 0) v uuids"
  let ?db1 = "db\<lparr>agent_plans := agent_plans db @ [?p]\<rparr>"
  have s: "session_id ctx = Some s" using p by (simp add: plan_insertable_def)
  note store = history_ok_store[OF h] and re = accepted_revalidated[OF d v]
  note a = plan_insert_addable[OF store p revalidated_steps(1)[OF re] f, of mode "clk 0"]
  have fresh: "pl_id ?p \<notin> pl_id ` set (agent_plans db)" and key: "plan_key ?p = plan_scope ctx s pid"
    using p by (simp_all add: new_plan_row_def plan_insertable_def plan_key_def)
  have ins: "insert_agent_plan db ?p = Inr ?db1"
    using p by (simp add: insert_agent_plan_def new_plan_row_def plan_insertable_def)
  have "plan_store_ok ?db1" using store fresh by (auto simp: plan_store_ok_def)
  then have iv: "insert_version uuids ?db1 ctx pid 1 v None None [] (clk 0) = Inr ?db'"
    using insert_version_total[OF _ re s a] by (simp add: created_db_def)
  have ch: "plan_change sk sv db ?db'"
    unfolding created_db_def by (rule plan_change.created[OF fresh key _ _ _ _ re a]) (simp_all add: new_plan_row_def)
  have h': "plans_ok sk sv ?db'" using plan_change_plans_ok[OF ch] h by (simp add: history_ok_def)
  then have store': "plan_store_ok ?db'" by (simp add: plans_ok_def versions_readable_def)
  have "?p \<in> set (agent_plans ?db')" by (simp add: created_db_def)
  from get_plan_readable[OF s plans_ok_readable[OF h'] plan_found[OF store' s this key]]
  obtain row where row: "row \<in> set (agent_plan_versions (wf ?db'))" "version_key row = (plan_key ?p, pl_current_version ?p)"
    and g: "get_plan sk sv ?db' ctx pid = Inr (Some (plan_view ?db' ctx ?p row))" by blast
  have "create_plan sk sv clk uuids st db ctx pid source mode draft = Inr (plan_view ?db' ctx ?p row, ?db')"
    unfolding create_plan_def Let_def new_plan_row_def[symmetric] using s by (simp add: require_session_def v ins iv g new_plan_row_def[symmetric])
  moreover have "pl_current_version ?p = 1" by (simp add: new_plan_row_def)
  ultimately show ?thesis using row key by auto
qed

section \<open>A first decision\<close>

lemma distinct_map_sort_key: "distinct (map f (sort_key k xs)) = distinct (map f xs)"
  by (metis mset_eq_imp_distinct_iff mset_map mset_sort)

lemma distinct_boundaries:
  assumes "decisions_ok db" "\<forall>d. P d \<longrightarrow> decision_plan d = k"
  shows "distinct (map dc_expected_plan_cas_version (filter P (agent_plan_decisions db)))"
proof -
  have "distinct (map (\<lambda>d. (decision_plan d, dc_expected_plan_cas_version d)) (filter P (agent_plan_decisions db)))"
    using assms(1) by (simp add: decisions_ok_def distinct_map_filter)
  moreover have "map (\<lambda>d. (decision_plan d, dc_expected_plan_cas_version d)) (filter P (agent_plan_decisions db)) =
      map (\<lambda>b. (k, b)) (map dc_expected_plan_cas_version (filter P (agent_plan_decisions db)))"
    using assms(2) by simp
  ultimately show ?thesis by (metis distinct_map)
qed

lemma snapshot_at_first_answer:
  assumes h: "plans_ok sk sv db" "decisions_ok db" and s: "session_id ctx = Some s"
    and p: "p \<in> set (agent_plans db)" "plan_key p = plan_scope ctx s pid"
    and d: "d \<in> set (agent_plan_decisions db)" "decision_plan d = plan_scope ctx s pid" "dc_action d \<noteq> D_REVISE"
      "dc_plan_version d = pl_current_version p"
  shows "\<exists>snap. snapshot_at_decision (plan_view db ctx p row) (hydrate_decision d) = Inr snap \<and>
    sn_status snap = (if dc_action d = D_APPROVE then P_APPROVED else P_REJECTED) \<and> sn_current_version snap = dc_plan_version d \<and>
    sn_aggregate_version snap = dc_expected_plan_cas_version d + 1"
proof -
  let ?a = "plan_view db ctx p row" and ?d = "hydrate_decision d"
  have pid: "pl_id p = pid" using p(2) by (simp add: plan_key_def)
  have decs: "filter (\<lambda>c. de_expected_plan_cas_version c \<le> de_expected_plan_cas_version ?d) (sn_decisions ?a) =
      map hydrate_decision (sort_key (\<lambda>d. (dc_created_at d, dc_decision_id d)) (past_decisions db d))"
    using past_decision_rows[OF s d(2), of db] by (simp add: plan_view_def pid hydrate_decision_def)
  have "distinct (map dc_expected_plan_cas_version (past_decisions db d))"
    unfolding past_decisions_def by (rule distinct_boundaries[OF h(2), of _ "decision_plan d"]) simp
  then have dist: "distinct (map de_expected_plan_cas_version
      (map hydrate_decision (sort_key (\<lambda>d. (dc_created_at d, dc_decision_id d)) (past_decisions db d))))"
    by (simp add: comp_def hydrate_decision_def distinct_map_sort_key)
  have mem: "?d \<in> set (map hydrate_decision (sort_key (\<lambda>d. (dc_created_at d, dc_decision_id d)) (past_decisions db d)))"
    using d(1) by (simp add: past_decisions_def)
  obtain r where r: "r \<in> set (plan_version_rows db ctx pid)" "version_key r = (plan_key p, pl_current_version p)"
    using plan_current_row[OF s plans_ok_readable[OF h(1)] p] by blast
  have "version_view db r \<in> set (sn_versions ?a)" using r(1) by (simp add: plan_view_def pid)
  moreover have "ve_plan_version (version_view db r) = dc_plan_version d"
    using r(2) d(4) by (simp add: version_view_def version_key_def)
  ultimately have "List.find (\<lambda>v. ve_plan_version v = dc_plan_version d) (filter (\<lambda>v. ve_plan_version v \<le> dc_plan_version d) (sn_versions ?a)) \<noteq> None"
    by (auto simp: find_None_iff intro!: exI[of _ "version_view db r"])
  then obtain cur where "List.find (\<lambda>v. ve_plan_version v = dc_plan_version d)
      (filter (\<lambda>v. ve_plan_version v \<le> dc_plan_version d) (sn_versions ?a)) = Some cur" by blast
  moreover have "de_action ?d = dc_action d" "de_plan_version ?d = dc_plan_version d"
    "de_expected_plan_cas_version ?d = dc_expected_plan_cas_version d" by (simp_all add: hydrate_decision_def)
  ultimately show ?thesis
    using d(3) dist mem unfolding snapshot_at_decision_def decs by (simp add: Let_def ensure_def)
qed

text \<open>A request for the current version of a plan that awaits approval and has no decision on it yet.\<close>

definition decision_due :: "plan_db \<Rightarrow> plan_row \<Rightarrow> plan_decision_request \<Rightarrow> bool" where
  "decision_due db p rq \<longleftrightarrow> p \<in> set (agent_plans db) \<and> pl_id p = rq_plan_id rq \<and> pl_status p = P_AWAITING_APPROVAL \<and>
     rq_plan_version rq = pl_current_version p \<and> rq_expected_version rq = pl_version p \<and>
     1 \<le> rq_plan_version rq \<and> 1 \<le> rq_expected_version rq \<and> len_between 1 128 (rq_decision_id rq) \<and>
     (\<forall>c \<in> set (agent_plan_decisions db). decision_plan c = plan_key p \<longrightarrow>
        dc_decision_id c \<noteq> rq_decision_id rq \<and> dc_expected_plan_cas_version c \<noteq> rq_expected_version rq)"

lemma require_decidable_total:
  assumes ok: "decisions_ok db" and s: "session_id ctx = Some s" and p: "plan_key p = plan_scope ctx s (rq_plan_id rq)"
    and due: "decision_due db p rq"
  shows "require_decidable db ctx rq (plan_view db ctx p row) = Inr ()"
proof -
  let ?P = "\<lambda>d. decision_scope_predicate ctx (rq_plan_id rq) d \<and> dc_expected_plan_cas_version d \<le> rq_expected_version rq"
  have "distinct (map dc_expected_plan_cas_version (filter ?P (agent_plan_decisions db)))"
    by (rule distinct_boundaries[OF ok, of _ "plan_scope ctx s (rq_plan_id rq)"]) (simp add: scope_predicates(5)[OF s])
  then have "require_unambiguous_decision_history db ctx (rq_plan_id rq) (rq_expected_version rq) =
      Inr (map hydrate_decision (filter ?P (agent_plan_decisions db)))"
    by (simp add: require_unambiguous_decision_history_def Let_def comp_def hydrate_decision_def ensure_def)
  moreover have "\<not> (\<exists>d \<in> set (map hydrate_decision (filter ?P (agent_plan_decisions db))). de_expected_plan_cas_version d = rq_expected_version rq)"
    using due p scope_predicates(5)[OF s] by (auto simp: decision_due_def hydrate_decision_def)
  moreover have "require_current_decision_target rq (plan_view db ctx p row) = Inr ()"
    using due by (simp add: require_current_decision_target_def decision_due_def plan_view_def ensure_def)
  ultimately show ?thesis by (simp add: require_decidable_def ensure_def)
qed

lemma insert_decision_total:
  assumes h: "versions_current db" and s: "session_id ctx = Some s" and p: "plan_key p = plan_scope ctx s (rq_plan_id rq)"
    and due: "decision_due db p rq"
  shows "insert_decision db ctx rq decided_by None now =
    Inr (db\<lparr>agent_plan_decisions := agent_plan_decisions db @ [decision_row ctx s rq decided_by now]\<rparr>)"
proof -
  let ?d = "decision_row ctx s rq decided_by now"
  have k: "decision_plan ?d = plan_key p" using p by (simp add: decision_row_def decision_plan_def)
  have "(decision_plan ?d, dc_decision_id ?d) \<notin> (\<lambda>d. (decision_plan d, dc_decision_id d)) ` set (agent_plan_decisions db)"
    using due unfolding k by (auto simp: decision_due_def decision_row_def)
  moreover have "version_fk db (decision_plan ?d) (Some (dc_plan_version ?d))"
    using h due unfolding k by (simp add: version_fk_def versions_current_def decision_due_def decision_row_def)
  moreover have "insert_decision db ctx rq decided_by None now = insert_agent_plan_decision db ?d"
    by (simp add: insert_decision_def require_session_def s decision_row_def)
  ultimately show ?thesis
    using due by (simp add: insert_agent_plan_decision_def decision_due_def version_fk_def decision_row_def)
qed


definition decided_db :: "plan_db \<Rightarrow> tenant_context \<Rightarrow> string \<Rightarrow> plan_decision_request \<Rightarrow> string \<Rightarrow> int \<Rightarrow> plan_db" where
  "decided_db db ctx s rq decided_by now =
     db\<lparr>agent_plan_decisions := agent_plan_decisions db @ [decision_row ctx s rq decided_by now],
        agent_plans := upd_where (\<lambda>p. plan_predicate ctx (rq_plan_id rq) p \<and> pl_status p = P_AWAITING_APPROVAL \<and>
            pl_current_version p = rq_plan_version rq \<and> pl_version p = rq_expected_version rq)
          (\<lambda>p. p\<lparr>pl_status := (if rq_action rq = D_APPROVE then P_APPROVED else P_REJECTED),
             pl_approved_version := (if rq_action rq = D_APPROVE then Some (rq_plan_version rq) else pl_approved_version p),
             pl_version := pl_version p + 1, pl_updated_at := now\<rparr>) (agent_plans db)\<rparr>"

lemma record_decision_total:
  assumes h: "history_ok sk sv db" and s: "session_id ctx = Some s" and p: "plan_key p = plan_scope ctx s (rq_plan_id rq)"
    and due: "decision_due db p rq" and act: "rq_action rq \<noteq> D_REVISE"
    and cl: "pending_revision_claim ctx claims (rq_plan_id rq) = Inr None"
  shows "\<exists>r. record_decision sk sv clk db ctx claims rq decided_by = Inr (r, decided_db db ctx s rq decided_by (clk 0)) \<and>
    \<not> mr_idempotent_replay r \<and>
    sn_status (mr_snapshot r) = (if rq_action rq = D_APPROVE then P_APPROVED else P_REJECTED) \<and>
    sn_current_version (mr_snapshot r) = rq_plan_version rq"
proof -
  let ?pid = "rq_plan_id rq" and ?did = "rq_decision_id rq" and ?d = "decision_row ctx s rq decided_by (clk 0)"
  let ?f = "\<lambda>p. p\<lparr>pl_status := (if rq_action rq = D_APPROVE then P_APPROVED else P_REJECTED),
    pl_approved_version := (if rq_action rq = D_APPROVE then Some (rq_plan_version rq) else pl_approved_version p),
    pl_version := pl_version p + 1, pl_updated_at := clk 0\<rparr>"
  let ?pr = "\<lambda>p. plan_predicate ctx ?pid p \<and> pl_status p = P_AWAITING_APPROVAL \<and>
    pl_current_version p = rq_plan_version rq \<and> pl_version p = rq_expected_version rq"
  have mem: "p \<in> set (agent_plans db)" and e: "pl_status p = P_AWAITING_APPROVAL" "pl_current_version p = rq_plan_version rq"
      "pl_version p = rq_expected_version rq" using due by (simp_all add: decision_due_def)
  note store = history_ok_store[OF h]
  have ok: "decisions_ok db" "versions_current db" using h by (simp_all add: history_ok_def plans_ok_def)
  note found = plan_found[OF store s mem p]
  obtain row where g: "get_plan sk sv db ctx ?pid = Inr (Some (plan_view db ctx p row))"
    using get_plan_readable[OF s history_ok_readable[OF h] found] by blast
  have lock: "lock_plan sk sv db ctx ?pid = Inr (plan_view db ctx p row)" by (simp add: lock_plan_def found g ensure_def)
  note ins = insert_decision_total[OF ok(2) s p due, of decided_by "clk 0"]
  let ?db1 = "db\<lparr>agent_plan_decisions := agent_plan_decisions db @ [?d]\<rparr>"
  let ?db2 = "?db1\<lparr>agent_plans := upd_where ?pr ?f (agent_plans db)\<rparr>"
  have key: "pl_id q = pl_id p" if "?pr q" for q using that p by (simp add: scope_predicates(1)[OF s] plan_key_def)
  have pp: "?pr p" using e p by (simp add: scope_predicates(1)[OF s])
  have n: "rowcount ?pr (agent_plans db) = 1"
  proof (rule rowcount_by_key_eq_1[of pl_id, OF _ mem])
    show "distinct (map pl_id (agent_plans db))" using store by (simp add: plan_store_ok_def)
  qed (use pp key in blast)+
  have upd: "upd_where ?pr ?f (agent_plans db) = upd_where (\<lambda>r. r = p) (\<lambda>_. ?f p) (agent_plans db)"
  proof (rule upd_where_single[OF mem])
    show "?pr p" by (rule pp)
    show "q = p" if "q \<in> set (agent_plans db)" "?pr q" for q
      using plan_row_unique[OF store mem that(1)] that(2) p by (simp add: scope_predicates(1)[OF s])
  qed
  have dec: "decides db p ?d" using due p by (auto simp: decides_def decision_due_def decision_row_def decision_plan_def)
  have ch: "plan_change sk sv db ?db2"
    unfolding upd by (rule plan_change.decided[OF mem dec, of _ "clk 0"]) (use act e in \<open>simp_all add: decision_row_def\<close>)
  have h2: "plans_ok sk sv ?db2" "decisions_ok ?db2"
    using plan_change_plans_ok[OF ch] plan_change_decisions_ok[OF ch ok(1) store] h by (simp_all add: history_ok_def)
  then have store2: "plan_store_ok ?db2" by (simp add: plans_ok_def versions_readable_def)
  have q: "?f p \<in> set (agent_plans ?db2)" "plan_key (?f p) = plan_scope ctx s ?pid"
    using mem p unfolding upd by (force simp: upd_where_def, simp add: plan_key_def)
  obtain row2 where g2: "get_plan sk sv ?db2 ctx ?pid = Inr (Some (plan_view ?db2 ctx (?f p) row2))"
    using get_plan_readable[OF s plans_ok_readable[OF h2(1)] plan_found[OF store2 s q]] by blast
  have d2: "?d \<in> set (agent_plan_decisions ?db2)" "decision_plan ?d = plan_scope ctx s ?pid" "dc_decision_id ?d = ?did"
    by (simp_all add: decision_row_def decision_plan_def)
  obtain snap where snap: "snapshot_at_decision (plan_view ?db2 ctx (?f p) row2) (hydrate_decision ?d) = Inr snap"
      "sn_status snap = (if rq_action rq = D_APPROVE then P_APPROVED else P_REJECTED)" "sn_current_version snap = rq_plan_version rq"
    using snapshot_at_first_answer[OF h2 s q d2(1,2), of row2] act e by (auto simp: decision_row_def)
  have sd: "sn_decisions (plan_view ?db2 ctx (?f p) row2) = map hydrate_decision (plan_decision_rows ?db2 ctx ?pid)"
    using q(2) by (simp add: plan_view_def plan_key_def)
  have res: "decision_result sk sv ?db2 ctx ?pid ?did False =
      Inr \<lparr>mr_snapshot = snap, mr_decision = hydrate_decision ?d, mr_idempotent_replay = False\<rparr>"
    using decision_found(1)[OF h2(2) s d2] snap(1) unfolding decision_result_def g2 rbind.simps need_simps sd by simp
  have none: "get_decision db ctx ?pid ?did = None"
    using due p by (auto simp: get_decision_def find_None_iff scope_predicates(5)[OF s] decision_due_def)
  have "write_decision sk sv (clk 0) db ctx rq decided_by =
      Inr (\<lparr>mr_snapshot = snap, mr_decision = hydrate_decision ?d, mr_idempotent_replay = False\<rparr>, ?db2)"
    unfolding write_decision_def ins rbind.simps update_plans_def using n res by simp
  then have "record_decision sk sv clk db ctx claims rq decided_by =
      Inr (\<lparr>mr_snapshot = snap, mr_decision = hydrate_decision ?d, mr_idempotent_replay = False\<rparr>, ?db2)"
    using s cl act none lock require_decidable_total[OF ok(1) s p due]
    by (simp add: record_decision_def require_session_def ensure_def)
  then show ?thesis using snap unfolding decided_db_def by auto
qed

end
