(* ===== verification/Plan_Attempt_Properties.thy ===== *)
theory Plan_Attempt_Properties
  imports Plan_Steps Workflow_Leases
begin

text \<open>
  The properties of step attempts over every history of the system, and what starting, finishing and
  cancelling an attempt requires of the lease.
\<close>

section \<open>A concrete plan\<close>

definition sample_planning :: planning_settings where
  "sample_planning = \<lparr>pset_max_steps = 20, pset_max_dependency_depth = 10, pset_max_revisions = 5,
     pset_max_step_attempts = 2\<rparr>"

definition sample_step_row :: "string \<Rightarrow> int \<Rightarrow> plan_step_row" where
  "sample_step_row i n = \<lparr>pst_tenant_id = ''t'', pst_workspace_id = ''w'', pst_session_id = ''s'', pst_plan_id = ''p'',
     pst_plan_version = 1, pst_step_id = i, pst_logical_step_key = i, pst_supersedes_step_id = None, pst_ordinal = n,
     pst_title = ''t'', pst_description = ''d'', pst_expected_outcome = ''o'', pst_assigned_agent_profile_id = None,
     pst_max_attempts = 2, pst_definition_digest = ''x''\<rparr>"

definition sample_plan_row :: plan_row where
  "sample_plan_row = \<lparr>pl_id = ''p'', pl_tenant_id = ''t'', pl_workspace_id = ''w'', pl_session_id = ''s'',
     pl_source_message_id = ''m'', pl_trigger_mode = T_EXPLICIT, pl_status = P_APPROVED, pl_current_version = 1,
     pl_approved_version = Some 1, pl_version = 2, pl_created_at = 10, pl_updated_at = 20\<rparr>"

definition sample_plan_run :: run_row where
  "sample_plan_run = (sample_run R_RUNNING 1)\<lparr>r_plan_id := Some ''p'', r_initial_plan_version := Some 1,
     r_active_plan_version := Some 1\<rparr>"

definition sample_plan_db :: "plan_step_run_row list \<Rightarrow> plan_db" where
  "sample_plan_db rows = \<lparr>wf = sample_db [sample_plan_run], agent_plans = [sample_plan_row],
     agent_plan_steps = [sample_step_row ''a'' 1, sample_step_row ''b'' 2],
     agent_plan_step_dependencies = [\<lparr>dp_tenant_id = ''t'', dp_workspace_id = ''w'', dp_session_id = ''s'',
       dp_plan_id = ''p'', dp_plan_version = 1, dp_step_id = ''b'', dp_depends_on_step_id = ''a''\<rparr>],
     agent_plan_decisions = [], agent_plan_step_runs = rows\<rparr>"

definition sample_attempt :: "string \<Rightarrow> string \<Rightarrow> plan_step_run_row" where
  "sample_attempt sid i = new_step_run sample_ctx ''s'' ''r'' ''p'' 1 sid i 1 60"

definition sample_result :: plan_step_result_document where
  "sample_result = \<lparr>rd_plan_id = ''p'', rd_plan_version = 1, rd_run_id = ''r'', rd_step_id = ''a'',
     rd_step_run_id = ''u1'', rd_attempt = 1, rd_status = ''succeeded'', rd_summary = ''ok'', rd_evidence = [],
     rd_definition_digest = ''x'', rd_dependency_result_digests = [], rd_tool_catalog_digest = ''c'',
     rd_policy_digest = ''c'', rd_skill_set_digest = ''c''\<rparr>"

definition sample_finished :: plan_step_run_row where
  "sample_finished = finished_values SR_SUCCEEDED sample_result ''memory:1'' None None 1 70 (sample_attempt ''a'' ''u1'')"

lemma sample_start_a:
  "create_step_attempt (\<lambda>_. 60) sample_planning (sample_plan_db []) sample_ctx ''u1'' (sample_lease 1) ''p'' 1 ''a'' =
    Inr (hydrate_step_run (sample_attempt ''a'' ''u1''), sample_plan_db [sample_attempt ''a'' ''u1''])"
  by code_simp

lemmas sample_plan_defs = sample_planning_def sample_step_row_def sample_plan_row_def sample_plan_run_def
  sample_plan_db_def sample_attempt_def sample_result_def sample_finished_def

lemma result_digest_length [simp]: "length (result_digest d) = 64"
  by (simp add: result_digest_def length_sha256_hex)

lemma sample_finish_a:
  "finish_step_attempt (\<lambda>_. 70) (sample_plan_db [sample_attempt ''a'' ''u1'']) sample_ctx (sample_lease 1) ''u1'' 1
     SR_SUCCEEDED sample_result ''memory:1'' None None =
    Inr (hydrate_step_run sample_finished, sample_plan_db [sample_finished])"
  by (simp add: finish_step_attempt_def sample_plan_defs sample_defs new_step_run_def finished_values_def
      lease_matches_context_def require_session_def finish_target_ok_def require_current_executable_lease_def
      pr_has_current_lease_def has_current_lease_def current_lease_predicate_def in_session_def
      is_plan_run_executable_def EXECUTABLE_PLAN_RUN_STATUSES_def lease_row_scope_def step_run_by_id_def
      step_run_scope_predicate_def hydrate_step_run_def result_identifies_def step_scope_predicate_def
      swap_running_attempt_def update_step_runs_def attempt_checks_def)

definition sample_done :: "string \<Rightarrow> plan_step_run_row" where
  "sample_done d = (sample_attempt ''a'' ''u1'')\<lparr>sr_status := SR_SUCCEEDED, sr_result_summary := Some ''ok'',
     sr_result_ref := Some ''memory:1'', sr_result_digest := Some d, sr_version := 2, sr_finished_at := Some 70\<rparr>"

lemma sample_finished_done: "sample_finished = sample_done (result_digest sample_result)"
  by (simp add: sample_done_def sample_plan_defs new_step_run_def finished_values_def)

lemma sample_start_b:
  "create_step_attempt (\<lambda>_. 80) sample_planning (sample_plan_db [sample_done d]) sample_ctx ''u2'' (sample_lease 1) ''p'' 1 ''b'' =
    Inr (hydrate_step_run (new_step_run sample_ctx ''s'' ''r'' ''p'' 1 ''b'' ''u2'' 1 80),
      sample_plan_db [sample_done d, new_step_run sample_ctx ''s'' ''r'' ''p'' 1 ''b'' ''u2'' 1 80])"
  by code_simp

abbreviation sample_second :: plan_step_run_row where
  "sample_second \<equiv> new_step_run sample_ctx ''s'' ''r'' ''p'' 1 ''b'' ''u2'' 1 80"

lemma sample_no_attempts: "no_attempts (sample_plan_db [])"
  by (simp add: no_attempts_def sample_plan_db_def sample_step_row_def)

lemma sample_history:
  "(plan_step sample_planning)\<^sup>*\<^sup>* (sample_plan_db []) (sample_plan_db [sample_finished])"
  "(plan_step sample_planning)\<^sup>*\<^sup>* (sample_plan_db []) (sample_plan_db [sample_finished, sample_second])"
proof -
  show h: "(plan_step sample_planning)\<^sup>*\<^sup>* (sample_plan_db []) (sample_plan_db [sample_finished])"
    using plan_step.start[OF sample_start_a] plan_step.finish[OF sample_finish_a, of sample_planning]
    by (meson r_into_rtranclp rtranclp.rtrancl_into_rtrancl)
  from plan_step.start[OF sample_start_b, of "result_digest sample_result"] h
  show "(plan_step sample_planning)\<^sup>*\<^sup>* (sample_plan_db []) (sample_plan_db [sample_finished, sample_second])"
    unfolding sample_finished_done[symmetric] by (rule rtranclp.rtrancl_into_rtrancl[rotated])
qed

lemma succeeded_once:
  assumes inv: "attempts_inv st db" and a: "a \<in> set (agent_plan_step_runs db)"
    and b: "b \<in> set (agent_plan_step_runs db)" "attempt_run b = attempt_run a" "sr_step_id b = sr_step_id a"
    and succ: "sr_status a = SR_SUCCEEDED" "sr_status b = SR_SUCCEEDED"
  shows "b = a"
proof -
  have key: "distinct (map attempt_key (agent_plan_step_runs db))" using inv by (simp add: attempts_inv_def keys_inv_def)
  have earlier: False if x: "x \<in> set (agent_plan_step_runs db)" and y: "y \<in> set (agent_plan_step_runs db)"
    "attempt_run y = attempt_run x" "sr_step_id y = sr_step_id x" "sr_status y = SR_SUCCEEDED"
    "sr_attempt y < sr_attempt x" for x y
  proof -
    have "retried (agent_plan_step_runs db) x" "1 \<le> sr_attempt y"
      using inv x y(1) by (auto simp: attempts_inv_def numbering_inv_def retried_def)
    then obtain z where z: "z \<in> set (agent_plan_step_runs db)" "same_version x z" "sr_step_id z = sr_step_id x"
      "sr_attempt z = sr_attempt y" "sr_status z = SR_FAILED_RETRYABLE" using y(5) by (auto simp: retried_def)
    then have "z = y"
      using distinct_key_unique[OF key z(1) y(1)] y(2,3) by (simp add: attempt_key_def same_version_def)
    with z(5) y(4) show False by simp
  qed
  have "sr_attempt b = sr_attempt a"
    using earlier[of a b] earlier[of b a] a b succ by (metis linorder_neqE)
  then show ?thesis using distinct_key_unique[OF key b(1) a] b(2,3) by (simp add: attempt_key_def)
qed

section \<open>Histories of attempts\<close>

text \<open>
  C25. A run works on one step at a time: in every state reachable from a database without attempts, a run
  has at most one attempt in status \<open>running\<close>, whatever leases and contexts the operations were called with.
\<close>
theorem one_running_attempt_per_run:
  assumes "(plan_step st)\<^sup>*\<^sup>* db0 db" "no_attempts db0"
  shows "rowcount (\<lambda>a. attempt_run a = sc \<and> sr_status a = SR_RUNNING) (agent_plan_step_runs db) \<le> 1"
  using reachable_attempts_inv[OF assms] by (cases sc) (simp add: attempts_inv_def running_inv_def)

theorem one_running_attempt_per_run_witness:
  "rowcount (\<lambda>a. attempt_run a = (''t'', ''w'', ''s'', ''r'') \<and> sr_status a = SR_RUNNING)
     (agent_plan_step_runs (sample_plan_db [sample_finished, sample_second])) \<le> 1"
  by (rule one_running_attempt_per_run[OF sample_history(2) sample_no_attempts])

text \<open>
  C27. Retries. In every reachable state an attempt number lies between 1 and the smaller of the limits of
  the step and of the settings, every earlier attempt of the step in that run is there and failed
  retryably, and a step succeeds at most once per run.
\<close>
theorem attempts_numbered_and_bounded:
  assumes "(plan_step st)\<^sup>*\<^sup>* db0 db" "no_attempts db0" "a \<in> set (agent_plan_step_runs db)"
  shows "1 \<le> sr_attempt a \<and>
    (\<exists>s \<in> set (agent_plan_steps db). step_key s = (attempt_plan a, sr_plan_version a, sr_step_id a) \<and>
       sr_attempt a \<le> min (pst_max_attempts s) (pset_max_step_attempts st)) \<and>
    (\<forall>k. 1 \<le> k \<and> k < sr_attempt a \<longrightarrow> (\<exists>b \<in> set (agent_plan_step_runs db). attempt_run b = attempt_run a \<and>
       sr_step_id b = sr_step_id a \<and> sr_attempt b = k \<and> sr_status b = SR_FAILED_RETRYABLE)) \<and>
    (\<forall>b \<in> set (agent_plan_step_runs db). attempt_run b = attempt_run a \<and> sr_step_id b = sr_step_id a \<and>
       sr_status a = SR_SUCCEEDED \<and> sr_status b = SR_SUCCEEDED \<longrightarrow> b = a)"
proof -
  note inv = reachable_attempts_inv[OF assms(1,2)]
  have a: "within_limit st db a" "retried (agent_plan_step_runs db) a"
    using inv assms(3) by (auto simp: attempts_inv_def numbering_inv_def)
  have once: "b = a" if b: "b \<in> set (agent_plan_step_runs db)" "attempt_run b = attempt_run a"
    "sr_step_id b = sr_step_id a" "sr_status a = SR_SUCCEEDED" "sr_status b = SR_SUCCEEDED" for b
    by (rule succeeded_once[OF inv assms(3) b])
  have "\<exists>b \<in> set (agent_plan_step_runs db). attempt_run b = attempt_run a \<and>
       sr_step_id b = sr_step_id a \<and> sr_attempt b = k \<and> sr_status b = SR_FAILED_RETRYABLE"
    if "1 \<le> k" "k < sr_attempt a" for k
    using a(2) that by (auto simp: retried_def same_version_def)
  with a once show ?thesis by (simp add: within_limit_def retried_def)
qed

theorem attempts_numbered_and_bounded_witness:
  "1 \<le> sr_attempt sample_second \<and>
    (\<exists>s \<in> set (agent_plan_steps (sample_plan_db [sample_finished, sample_second])).
       step_key s = (attempt_plan sample_second, 1, ''b'') \<and> sr_attempt sample_second \<le> min (pst_max_attempts s) 2)"
  using attempts_numbered_and_bounded[OF sample_history(2) sample_no_attempts, of sample_second]
  by (simp add: sample_plan_db_def sample_planning_def new_step_run_def)

text \<open>
  C26. Order of execution. In every reachable state, whenever there is an attempt of a step, every step it
  depends on has a succeeded attempt in the same run and plan version.
\<close>
theorem step_attempted_after_dependencies:
  assumes "(plan_step st)\<^sup>*\<^sup>* db0 db" "no_attempts db0" "a \<in> set (agent_plan_step_runs db)"
    and "d \<in> set (agent_plan_step_dependencies db)" "dependency_plan d = attempt_plan a"
    and "dp_plan_version d = sr_plan_version a" "dp_step_id d = sr_step_id a"
  shows "\<exists>b \<in> set (agent_plan_step_runs db). attempt_run b = attempt_run a \<and> sr_plan_id b = sr_plan_id a \<and>
    sr_plan_version b = sr_plan_version a \<and> sr_step_id b = dp_depends_on_step_id d \<and> sr_status b = SR_SUCCEEDED"
  using reachable_attempts_inv[OF assms(1,2)] assms(3-)
  unfolding attempts_inv_def dependency_inv_def dependencies_succeeded_def same_version_def by meson

theorem step_attempted_after_dependencies_witness:
  "\<exists>b \<in> set (agent_plan_step_runs (sample_plan_db [sample_finished, sample_second])).
     sr_step_id b = ''a'' \<and> sr_status b = SR_SUCCEEDED"
  using step_attempted_after_dependencies[OF sample_history(2) sample_no_attempts, of sample_second
      "\<lparr>dp_tenant_id = ''t'', dp_workspace_id = ''w'', dp_session_id = ''s'', dp_plan_id = ''p'', dp_plan_version = 1,
        dp_step_id = ''b'', dp_depends_on_step_id = ''a''\<rparr>"]
  by (auto simp: sample_plan_db_def new_step_run_def dependency_plan_def attempt_plan_def sample_ctx_def)

text \<open>
  C32. Results are final: an attempt that is no longer running is a row of every later state, with the same
  status, result reference, digest, error and times.
\<close>
theorem ended_attempt_never_changes:
  assumes "(plan_step st)\<^sup>*\<^sup>* db0 db" "no_attempts db0" "(plan_step st)\<^sup>*\<^sup>* db db'"
    and "a \<in> set (agent_plan_step_runs db)" "sr_status a \<noteq> SR_RUNNING"
  shows "a \<in> set (agent_plan_step_runs db')"
proof -
  obtain b where "b \<in> set (agent_plan_step_runs db')" "ends_as\<^sup>*\<^sup>* a b"
    using attempt_rows.later_row[OF assms(3) reachable_attempts_inv[OF assms(1,2)] assms(4)] by blast
  moreover from this(2) have "b = a"
    by (cases rule: converse_rtranclpE) (use assms(5) in \<open>auto simp: ends_as_def\<close>)
  ultimately show ?thesis by simp
qed

theorem ended_attempt_never_changes_witness:
  "sample_finished \<in> set (agent_plan_step_runs (sample_plan_db [sample_finished, sample_second]))"
proof -
  have "(plan_step sample_planning)\<^sup>*\<^sup>* (sample_plan_db [sample_finished]) (sample_plan_db [sample_finished, sample_second])"
    using plan_step.start[OF sample_start_b, of "result_digest sample_result"]
    unfolding sample_finished_done[symmetric] by (rule r_into_rtranclp)
  then show ?thesis
    by (rule ended_attempt_never_changes[OF sample_history(1) sample_no_attempts])
      (simp_all add: sample_plan_db_def sample_finished_done sample_done_def)
qed

section \<open>Leases and attempts\<close>

text \<open>
  C34. Fencing of step attempts. If the lease is not the current lease of its run at any reading of the
  database clock, none of the four operations on attempts returns: starting, recording a reused result,
  finishing and cancelling all raise, so the transaction writes nothing.
\<close>
theorem stale_lease_cannot_touch_attempts:
  assumes "\<forall>n. \<not> has_current_lease (clk n) (wf db) lease"
  shows "(\<exists>e. create_step_attempt clk st db ctx uuid lease pid ver sid = Inl e) \<and>
    (\<exists>e. create_reused_step_attempt clk st db ctx uuid lease pid ver sid source = Inl e) \<and>
    (\<exists>e. finish_step_attempt clk db ctx lease i expected status result ref code detail = Inl e) \<and>
    (\<exists>e. cancel_step_attempt clk db ctx lease i expected = Inl e)"
proof -
  have stale: "\<not> has_current_lease (clk n) (wf db) lease" for n using assms by blast
  have "require_current_executable_lease (clk n) db ctx lease \<noteq> Inr row" for n row
    using stale by (auto simp: require_current_executable_lease_def pr_has_current_lease_def res_simps)
  then have run: "lock_run_for_execution (clk n) db ctx lease \<noteq> Inr row"
    "require_current_executable_lease (clk n) db ctx lease \<noteq> Inr row" for n row
    by (auto simp: lock_run_for_execution_def res_simps)
  have "create_step_attempt clk st db ctx uuid lease pid ver sid \<noteq> Inr x" for x
    using run(1)[of 0] by (auto simp: create_step_attempt_def res_simps)
  moreover have "create_reused_step_attempt clk st db ctx uuid lease pid ver sid source \<noteq> Inr x" for x
    using run(1)[of 0] by (auto simp: create_reused_step_attempt_def res_simps)
  moreover have "finish_step_attempt clk db ctx lease i expected status result ref code detail \<noteq> Inr x" for x
    using run(2)[of 0] by (auto simp: finish_step_attempt_def res_simps)
  moreover have "cancel_step_attempt clk db ctx lease i expected \<noteq> Inr x" for x
    using stale[of 0] by (auto simp: cancel_step_attempt_def pr_has_current_lease_def res_simps)
  ultimately show ?thesis by (metis sumE)
qed

theorem stale_lease_cannot_touch_attempts_witness:
  "\<exists>e. create_step_attempt (\<lambda>_. 200) sample_planning (sample_plan_db []) sample_ctx ''u1'' (sample_lease 1) ''p'' 1 ''a'' = Inl e"
  using stale_lease_cannot_touch_attempts[of "\<lambda>_. 200" "sample_plan_db []" "sample_lease 1"]
  by (simp add: sample_plan_db_def has_current_lease_def current_lease_predicate_def sample_plan_run_def sample_defs)

text \<open>
  C33. What starting an attempt means. When \<open>create_step_attempt\<close> returns, the lease was current when the row
  was written, the run was executing and not cancelled, its active plan version was the approved current
  version of the plan, no other attempt of the run was running, and the only change is one new row: a
  running attempt of the step at version 1, which is the attempt returned.
\<close>
theorem create_step_attempt_correct:
  assumes "create_step_attempt clk st db ctx uuid lease pid ver sid = Inr (r, db')"
    and "\<forall>a \<in> set (agent_plan_step_runs db). sr_step_run_id a \<noteq> uuid"
  shows "has_current_lease (clk 2) (wf db) lease \<and>
    (\<exists>row \<in> set (agent_runs (wf db)). Some (run_scope row) = ctx_scope (l_context lease) \<and>
       r_status row \<in> {R_RUNNING, R_RESUMING} \<and> r_cancel_requested_at row = None \<and>
       r_plan_id row = Some pid \<and> r_active_plan_version row = Some ver) \<and>
    (\<exists>p \<in> set (agent_plans db). pl_id p = pid \<and> pl_status p = P_APPROVED \<and> pl_current_version p = ver \<and>
       pl_approved_version p = Some ver) \<and>
    \<not> has_running_attempt db ctx (at_run_id r) \<and>
    (\<exists>a. db' = db\<lparr>agent_plan_step_runs := agent_plan_step_runs db @ [a]\<rparr> \<and> r = hydrate_step_run a \<and>
       at_step_run_id r = uuid \<and> at_step_id r = sid \<and> at_status r = SR_RUNNING \<and> at_version r = 1 \<and>
       at_plan_id r = pid \<and> at_plan_version r = ver \<and> Some (at_run_id r) = run_id (l_context lease))"
proof -
  obtain s run row attempt lim where sc: "session_id ctx = Some s" "run_id (l_context lease) = Some run"
    and ok: "lease_matches_context ctx lease = Inr True"
    and none: "\<not> has_running_attempt db ctx run"
    and row: "require_current_executable_lease (clk 2) db ctx lease = Inr row"
    and active: "require_active_plan_version db ctx row pid ver = Inr ()"
    and ins: "insert_attempt db ctx (new_step_run ctx s run pid ver sid uuid attempt (clk 1)) lim = Inr (r, db')"
    using assms(1)
    by (auto simp: create_step_attempt_def res_simps lease_row_scope_Inr require_no_running_attempt_def)
  let ?a = "new_step_run ctx s run pid ver sid uuid attempt (clk 1)"
  have db': "db' = db\<lparr>agent_plan_step_runs := agent_plan_step_runs db @ [?a]\<rparr>"
    and r: "step_run_by_id db' ctx run uuid = Some r"
    using ins insert_step_run_Inr[of db ?a]
    by (auto simp: insert_attempt_def res_simps new_step_run_def split: sum.splits if_splits)
  have "List.find (\<lambda>a. step_run_scope_predicate ctx run a \<and> sr_step_run_id a = uuid) (agent_plan_step_runs db') = Some ?a"
    unfolding db' by (simp, rule find_snoc)
      (use assms(2) sc(1) in \<open>auto simp: new_step_run_def step_run_scope_predicate_def in_session_def\<close>)
  then have r: "r = hydrate_step_run ?a" using r by (simp add: step_run_by_id_def)
  have lease: "has_current_lease (clk 2) (wf db) lease"
    and run_row: "row \<in> set (agent_runs (wf db))" "in_session ctx (r_tenant_id row) (r_workspace_id row) (r_session_id row)"
      "r_run_id row = run" "is_plan_run_executable (r_status row) (r_cancel_requested_at row)"
    using row sc(2) by (auto simp: require_current_executable_lease_def pr_has_current_lease_def res_simps dest: find_SomeD)
  have "Some (run_scope row) = ctx_scope (l_context lease)"
    using ok run_row(2,3) sc by (auto simp: lease_matches_context_def require_session_def in_session_def run_scope_def
        ctx_scope_def split: if_splits)
  moreover obtain p where "p \<in> set (agent_plans db)" "plan_predicate ctx pid p" "r_plan_id row = Some pid"
      "pl_status p = P_APPROVED" "pl_current_version p = ver" "pl_approved_version p = Some ver"
      "r_active_plan_version row = Some ver"
    using active by (auto simp: require_active_plan_version_def res_simps split: option.splits dest: find_SomeD)
  ultimately show ?thesis
    using lease run_row none r db' sc(2)
    by (auto simp: is_plan_run_executable_def EXECUTABLE_PLAN_RUN_STATUSES_def plan_predicate_def hydrate_step_run_def
        new_step_run_def)
qed

theorem create_step_attempt_correct_witness:
  "has_current_lease 60 (wf (sample_plan_db [])) (sample_lease 1) \<and> \<not> has_running_attempt (sample_plan_db []) sample_ctx ''r''"
  using create_step_attempt_correct[OF sample_start_a]
  by (simp add: sample_plan_db_def hydrate_step_run_def sample_attempt_def new_step_run_def)

end
