(* ===== verification/Plan_System.thy ===== *)
theory Plan_System
  imports Plan_Creation Plan_Attempt_Properties
begin

text \<open>
  The two halves of the plan repository together. Plans, versions and decisions on one side, step attempts on
  the other, write disjoint tables; each half is a frame step of the other. So the invariants of both
  hold in every history that mixes them, and no step is attempted in a version nobody approved.
\<close>

section \<open>Operations\<close>

inductive plan_op :: "planning_settings \<Rightarrow> (string \<Rightarrow> bool) \<Rightarrow> (string \<Rightarrow> bool) \<Rightarrow> plan_db \<Rightarrow> plan_db \<Rightarrow> bool" for st sk sv where
  op_create: "plan_draft_ok draft \<Longrightarrow>
    create_plan sk sv clk uuids st db ctx pid source mode draft = Inr (snap, db') \<Longrightarrow> plan_op st sk sv db db'"
| op_append: "plan_draft_ok draft \<Longrightarrow>
    append_version sk sv clk uuids st db ctx pid expected draft parent feedback supersedes = Inr (snap, db') \<Longrightarrow>
    plan_op st sk sv db db'"
| op_decide: "record_decision sk sv clk db ctx claims rq decided_by = Inr (m, db') \<Longrightarrow> plan_op st sk sv db db'"
| op_claim: "begin_revision_decision sk sv clk db ctx claims rq decided_by = Inr (d, claims', db') \<Longrightarrow> plan_op st sk sv db db'"
| op_finish_revision: "finish_revision_decision sk sv db ctx claims pid did resulting = Inr (d, claims', db') \<Longrightarrow>
    plan_op st sk sv db db'"
| op_start: "create_step_attempt clk st db ctx uuid lease pid ver sid = Inr (r, db') \<Longrightarrow> plan_op st sk sv db db'"
| op_reuse: "create_reused_step_attempt clk st db ctx uuid lease pid ver sid source_id = Inr (r, db') \<Longrightarrow> plan_op st sk sv db db'"
| op_finish: "finish_step_attempt clk db ctx lease i expected status result ref code detail = Inr (r, db') \<Longrightarrow>
    plan_op st sk sv db db'"
| op_cancel: "cancel_step_attempt clk db ctx lease i expected = Inr (q, db') \<Longrightarrow> plan_op st sk sv db db'"
| op_elsewhere: "same_plans db db' \<Longrightarrow> agent_plan_step_runs db' = agent_plan_step_runs db \<Longrightarrow> plan_op st sk sv db db'"

section \<open>Each half is a frame of the other\<close>

lemma insert_step_run_same_plans:
  "insert_agent_plan_step_run db a = Inr db' \<Longrightarrow> same_plans db db' \<and> agent_plan_step_runs db' = agent_plan_step_runs db @ [a]"
  by (auto simp: insert_agent_plan_step_run_def same_plans_def split: if_splits)

lemma attempt_same_plans:
  "create_step_attempt clk st db ctx uuid lease pid ver sid = Inr (r, db') \<Longrightarrow> same_plans db db'"
  "create_reused_step_attempt clk st db ctx uuid lease pid ver sid source_id = Inr (r, db') \<Longrightarrow> same_plans db db'"
  "finish_step_attempt clk db ctx lease i expected status result ref code detail = Inr (r, db') \<Longrightarrow> same_plans db db'"
  "cancel_step_attempt clk db ctx lease i expected = Inr (q, db') \<Longrightarrow> same_plans db db'"
  by (auto dest!: create_step_attempt_effect create_reused_effect finish_step_attempt_effect cancel_step_attempt_effect
      insert_step_run_same_plans) (auto simp: same_plans_def)

lemma insert_version_step_runs:
  assumes "insert_version uuids db ctx pid ver v parent feedback supersedes now = Inr db'"
  shows "agent_plan_step_runs db' = agent_plan_step_runs db"
proof -
  obtain s where "session_id ctx = Some s" using assms by (auto simp: insert_version_def require_session_def res_simps)
  from insert_version_effect[OF assms this] show ?thesis by (simp add: add_version_def)
qed

lemma insert_decision_step_runs:
  "insert_decision db ctx rq decided_by n now = Inr db' \<Longrightarrow> agent_plan_step_runs db' = agent_plan_step_runs db"
  by (auto simp: insert_decision_def insert_agent_plan_decision_def res_simps split: if_splits)

lemma create_plan_step_runs:
  "create_plan sk sv clk uuids st db ctx pid source mode draft = Inr (snap, db') \<Longrightarrow>
    agent_plan_step_runs db' = agent_plan_step_runs db"
  by (auto simp: create_plan_def res_simps Let_def insert_agent_plan_def split: if_splits dest!: insert_version_step_runs)

lemma append_version_step_runs:
  "append_version sk sv clk uuids st db ctx pid expected draft parent feedback supersedes = Inr (snap, db') \<Longrightarrow>
    agent_plan_step_runs db' = agent_plan_step_runs db"
  by (auto simp: append_version_def res_simps Let_def update_plans_def dest!: insert_version_step_runs)

lemma record_decision_step_runs:
  "record_decision sk sv clk db ctx claims rq decided_by = Inr (r, db') \<Longrightarrow> agent_plan_step_runs db' = agent_plan_step_runs db"
  by (auto simp: record_decision_def write_decision_def res_simps Let_def update_plans_def
      split: option.splits if_splits dest!: insert_decision_step_runs)

lemma begin_revision_step_runs:
  "begin_revision_decision sk sv clk db ctx claims rq decided_by = Inr (d, claims', db') \<Longrightarrow>
    agent_plan_step_runs db' = agent_plan_step_runs db"
  by (auto simp: begin_revision_decision_def res_simps split: option.splits if_splits dest!: insert_decision_step_runs)

lemma finish_revision_step_runs:
  "finish_revision_decision sk sv db ctx claims pid did resulting = Inr (d, claims', db') \<Longrightarrow>
    agent_plan_step_runs db' = agent_plan_step_runs db"
  by (auto simp: finish_revision_decision_def res_simps Let_def update_decisions_def split: option.splits if_splits)

lemmas step_runs_kept = create_plan_step_runs append_version_step_runs record_decision_step_runs
  begin_revision_step_runs finish_revision_step_runs

lemma add_version_frame_deps:
  assumes "addable db (plan_scope ctx s pid) ver v ids" "d \<in> set (dependency_rows ctx s pid ver ids (vp_steps v))"
  shows "dp_step_id d \<notin> pst_step_id ` set (agent_plan_steps db)"
proof -
  obtain x where "x \<in> set (vp_steps v)" "dp_step_id d = ids (d_key x)"
    using assms(2) by (auto simp: dependency_rows_def dependency_row_def)
  then show ?thesis using assms(1) by (simp add: addable_def)
qed

lemma plan_change_frame:
  assumes ch: "plan_change sk sv db db'" and ok: "plans_ok sk sv db" and runs: "agent_plan_step_runs db' = agent_plan_step_runs db"
  shows "plan_frame db db'"
proof -
  have "distinct (map pst_step_id (agent_plan_steps db'))"
    using plan_change_plans_ok[OF ch ok] by (simp add: plans_ok_def versions_readable_def plan_store_ok_def)
  moreover have "set (agent_plan_steps db) \<subseteq> set (agent_plan_steps db')"
    using ch by cases (auto simp: same_plans_def)
  moreover have "d \<in> set (agent_plan_step_dependencies db) \<or> dp_step_id d \<notin> pst_step_id ` set (agent_plan_steps db)"
    if "d \<in> set (agent_plan_step_dependencies db')" for d
    using ch
  proof cases
    case (created p ctx s pid v ids now)
    from add_version_frame_deps[OF created(9)] that show ?thesis unfolding created(1) by auto
  next
    case (appended p ctx s pid v ids q now feedback supersedes)
    from add_version_frame_deps[OF appended(5)] that show ?thesis unfolding appended(1) by auto
  qed (use that in \<open>auto simp: same_plans_def\<close>)
  ultimately show ?thesis using runs by (simp add: plan_frame_def)
qed

lemma plan_op_repo_step: "plan_op st sk sv db db' \<Longrightarrow> repo_step sk sv db db'"
  by (cases rule: plan_op.cases, assumption) (blast intro: repo_step.intros attempt_same_plans)+

lemma plan_op_plan_step:
  assumes op: "plan_op st sk sv db db'" and h: "history_ok sk sv db"
  shows "plan_step st db db'"
proof -
  have ch: "plan_change sk sv db db'" using repo_step_history_ok[OF plan_op_repo_step[OF op] h] by blast
  have frame: "plan_step st db db'" if "agent_plan_step_runs db' = agent_plan_step_runs db"
    using plan_change_frame[OF ch _ that] h by (simp add: history_ok_def plan_step.other)
  from op show ?thesis
    by cases (auto intro: frame plan_step.intros dest: step_runs_kept)
qed

lemma plan_ops_histories:
  assumes "(plan_op st sk sv)\<^sup>*\<^sup>* db db'" "history_ok sk sv db"
  shows "(repo_step sk sv)\<^sup>*\<^sup>* db db' \<and> (plan_step st)\<^sup>*\<^sup>* db db' \<and> history_ok sk sv db'"
  using assms
proof (induction rule: rtranclp_induct)
  case (step db1 db2)
  then have ih: "(repo_step sk sv)\<^sup>*\<^sup>* db db1" "(plan_step st)\<^sup>*\<^sup>* db db1" "history_ok sk sv db1" by simp_all
  from plan_op_repo_step[OF step(2)] plan_op_plan_step[OF step(2) ih(3)] repo_step_history_ok[OF _ ih(3)] ih show ?case
    by (blast intro: rtranclp.rtrancl_into_rtrancl)
qed simp

section \<open>Attempts and approvals\<close>

definition approved_version :: "plan_db \<Rightarrow> scope \<Rightarrow> int \<Rightarrow> bool" where
  "approved_version db k ver \<longleftrightarrow> (\<exists>d \<in> set (agent_plan_decisions db). decision_plan d = k \<and> dc_plan_version d = ver \<and> dc_action d = D_APPROVE)"

definition attempts_approved :: "plan_db \<Rightarrow> bool" where
  "attempts_approved db \<longleftrightarrow> (\<forall>a \<in> set (agent_plan_step_runs db). approved_version db (attempt_plan a) (sr_plan_version a))"

lemma active_version_approved:
  assumes "require_active_plan_version db ctx row pid ver = Inr u" "session_id ctx = Some s" "approvals_ok db"
  shows "approved_version db (plan_scope ctx s pid) ver"
proof -
  obtain p where p: "List.find (plan_predicate ctx pid) (agent_plans db) = Some p" "pl_status p = P_APPROVED" "pl_current_version p = ver"
    using assms(1) by (auto simp: require_active_plan_version_def res_simps split: option.splits)
  have "p \<in> set (agent_plans db)" "plan_key p = plan_scope ctx s pid"
    using find_SomeD[OF p(1)] scope_predicates(1)[OF assms(2)] by auto
  then obtain d where "approval_of db p d" using assms(3) p(2) by (auto simp: approvals_ok_def)
  then show ?thesis using \<open>plan_key p = _\<close> p(3) unfolding approved_version_def approval_of_def by metis
qed

lemma started_attempt:
  assumes "create_step_attempt clk st db ctx uuid lease pid ver sid = Inr (r, db')" "approvals_ok db"
  shows "\<exists>a. insert_agent_plan_step_run db a = Inr db' \<and> approved_version db (attempt_plan a) (sr_plan_version a)"
proof -
  obtain s run row attempt lim where s: "session_id ctx = Some s" and act: "require_active_plan_version db ctx row pid ver = Inr ()"
    and ins: "insert_attempt db ctx (new_step_run ctx s run pid ver sid uuid attempt (clk 1)) lim = Inr (r, db')"
    using assms(1) by (auto simp: create_step_attempt_def res_simps lease_row_scope_Inr)
  have "insert_agent_plan_step_run db (new_step_run ctx s run pid ver sid uuid attempt (clk 1)) = Inr db'"
    using ins by (auto simp: insert_attempt_def res_simps split: sum.splits if_splits)
  moreover have "approved_version db (attempt_plan (new_step_run ctx s run pid ver sid uuid attempt (clk 1)))
      (sr_plan_version (new_step_run ctx s run pid ver sid uuid attempt (clk 1)))"
    using active_version_approved[OF act s assms(2)] by (simp add: new_step_run_def attempt_plan_def)
  ultimately show ?thesis by blast
qed

lemma reused_attempt:
  assumes "create_reused_step_attempt clk st db ctx uuid lease pid ver sid source_id = Inr (r, db')" "approvals_ok db"
  shows "db' = db \<or> (\<exists>a. insert_agent_plan_step_run db a = Inr db' \<and> approved_version db (attempt_plan a) (sr_plan_version a))"
proof -
  obtain s run row attempt source where s: "session_id ctx = Some s" and act: "require_active_plan_version db ctx row pid ver = Inr ()"
    and ins: "insert_reused_attempt db ctx (reused_step_run ctx s run pid ver sid uuid attempt (clk 1) source) source_id = Inr (r, db')"
    using assms(1) by (auto simp: create_reused_step_attempt_def res_simps lease_row_scope_Inr)
  have "db' = db \<or> insert_agent_plan_step_run db (reused_step_run ctx s run pid ver sid uuid attempt (clk 1) source) = Inr db'"
    using ins by (auto simp: insert_reused_attempt_def res_simps split: sum.splits if_splits option.splits)
  moreover have "approved_version db (attempt_plan (reused_step_run ctx s run pid ver sid uuid attempt (clk 1) source))
      (sr_plan_version (reused_step_run ctx s run pid ver sid uuid attempt (clk 1) source))"
    using active_version_approved[OF act s assms(2)] by (simp add: reused_step_run_def attempt_plan_def)
  ultimately show ?thesis by blast
qed

lemma attempts_approved_add:
  assumes "attempts_approved db" "insert_agent_plan_step_run db a = Inr db'" "approved_version db (attempt_plan a) (sr_plan_version a)"
  shows "attempts_approved db'"
  using assms insert_step_run_same_plans[OF assms(2)] by (auto simp: attempts_approved_def approved_version_def same_plans_def)

lemma attempts_approved_ended:
  assumes "attempts_approved db" "list_all2 (\<lambda>a b. b = a \<or> ends_as a b) (agent_plan_step_runs db) rows"
  shows "attempts_approved (db\<lparr>agent_plan_step_runs := rows\<rparr>)"
  using assms unfolding attempts_approved_def approved_version_def
  by (auto simp: ends_as_def dest!: list_all2_rightE[OF assms(2)])

lemma approvals_kept:
  assumes "plan_change sk sv db db'" "d \<in> set (agent_plan_decisions db)" "dc_action d = D_APPROVE"
  shows "d \<in> set (agent_plan_decisions db')"
  using assms(1)
proof cases
  case (finished p boundary n P)
  then show ?thesis using assms(2,3) by (force simp: upd_where_def)
qed (use assms(2) in \<open>auto simp: same_plans_def\<close>)

lemma plan_op_attempts_approved:
  assumes op: "plan_op st sk sv db db'" and h: "history_ok sk sv db" and a: "attempts_approved db"
  shows "attempts_approved db'"
proof -
  have ch: "plan_change sk sv db db'" using repo_step_history_ok[OF plan_op_repo_step[OF op] h] by blast
  have ok: "approvals_ok db" using h by (simp add: history_ok_def)
  have frame: ?thesis if "agent_plan_step_runs db' = agent_plan_step_runs db"
    using a that approvals_kept[OF ch] unfolding attempts_approved_def approved_version_def by metis
  from op show ?thesis
  proof cases
    case op_start
    from started_attempt[OF this ok] show ?thesis by (blast intro: attempts_approved_add[OF a])
  next
    case op_reuse
    from reused_attempt[OF this ok] show ?thesis using a by (blast intro: attempts_approved_add[OF a])
  next
    case op_finish
    from finish_step_attempt_effect[OF this] show ?thesis using attempts_approved_ended[OF a] by blast
  next
    case op_cancel
    from cancel_step_attempt_effect[OF this] show ?thesis using attempts_approved_ended[OF a] by blast
  qed (blast intro: frame dest: step_runs_kept)+
qed

lemma plan_ops_attempts_approved:
  assumes "(plan_op st sk sv)\<^sup>*\<^sup>* db db'" "history_ok sk sv db" "attempts_approved db"
  shows "attempts_approved db'"
  using assms
proof (induction rule: rtranclp_induct)
  case (step db1 db2)
  then show ?case using plan_ops_histories[OF step(1)] plan_op_attempts_approved by blast
qed

end
