(* ===== verification/Plan_Properties.thy ===== *)
theory Plan_Properties
  imports Plan_System
begin

text \<open>
  The properties of the plan repository over histories that mix plans, decisions and step attempts, each
  with an instance: a plan that is created, approved and started.
\<close>

section \<open>A plan from draft to first attempt\<close>

definition story_start :: plan_db where
  "story_start = \<lparr>wf = (sample_db [])\<lparr>memory_entries := [\<lparr>m_id = ''m'', m_tenant_id = ''t'', m_workspace_id = ''w'',
       m_session_id = Some ''s'', m_content = ''do it'', m_type = ''message'', m_role = ''user'', m_turn_index = 0,
       m_created_at = 5, m_metadata_json = ''{}''\<rparr>]\<rparr>,
     agent_plans = [], agent_plan_steps = [], agent_plan_step_dependencies = [], agent_plan_decisions = [],
     agent_plan_step_runs = []\<rparr>"

definition story_uuids :: "nat \<Rightarrow> string" where
  "story_uuids i = replicate (Suc i) CHR ''i''"

definition story_created :: plan_db where
  "story_created = created_db story_start sample_ctx ''s'' ''p'' ''m'' T_EXPLICIT 10 sample_validated story_uuids"

definition story_request :: plan_decision_request where
  "story_request = \<lparr>rq_decision_id = ''d'', rq_plan_id = ''p'', rq_plan_version = 1, rq_expected_version = 1,
     rq_action = D_APPROVE, rq_feedback = None\<rparr>"

definition story_approved :: plan_db where
  "story_approved = decided_db story_created sample_ctx ''s'' story_request ''user'' 20"

definition story_running :: plan_db where
  "story_running = story_approved\<lparr>wf := (wf story_approved)\<lparr>agent_runs := [sample_plan_run]\<rparr>\<rparr>"

lemma story_draft_ok: "plan_draft_ok sample_draft"
  by code_simp

lemma story_order: "plan_order (pd_steps sample_draft) 20 10 2 = Inr [''a'', ''b'', ''c'']"
  by code_simp

lemma story_validated:
  "validate_plan_draft (\<lambda>_. False) (\<lambda>_. False) sample_draft (pset_max_steps sample_planning)
     (pset_max_dependency_depth sample_planning) (pset_max_step_attempts sample_planning) MAX_PLAN_CONTENT_BYTES = Inr sample_validated"
  using sample_size sample_no_credentials
  by (simp add: validate_plan_draft_def require_positive_def story_order Let_def sample_planning_def
      sample_validated_def[symmetric] MAX_PLAN_CONTENT_BYTES_def res_simps)

lemma story_no_plans: "no_plans story_start"
  by (simp add: no_plans_def story_start_def sample_db_def)

lemma story_insertable: "plan_insertable story_start sample_ctx ''s'' ''p'' ''m''"
  by (simp add: plan_insertable_def story_start_def sample_db_def sample_ctx_def)

lemma story_fresh: "fresh_ids story_uuids (length (vp_steps sample_validated)) (pst_step_id ` set (agent_plan_steps story_start))"
  by (simp add: fresh_ids_def sample_validated_length story_start_def story_uuids_def numeral_3_eq_3)

lemma story_create:
  "\<exists>row. create_plan (\<lambda>_. False) (\<lambda>_. False) (\<lambda>_. 10) story_uuids sample_planning story_start sample_ctx ''p'' ''m'' T_EXPLICIT sample_draft =
    Inr (plan_view story_created sample_ctx (new_plan_row sample_ctx ''s'' ''p'' ''m'' T_EXPLICIT 10) row, story_created)"
  using create_plan_total[OF no_plans_ok[OF story_no_plans] story_draft_ok story_insertable story_validated story_fresh, of T_EXPLICIT "\<lambda>_. 10"]
  unfolding story_created_def by blast

abbreviation story_op :: "plan_db \<Rightarrow> plan_db \<Rightarrow> bool" where
  "story_op \<equiv> plan_op sample_planning (\<lambda>_. False) (\<lambda>_. False)"

lemma story_to_created: "story_op\<^sup>*\<^sup>* story_start story_created"
  using story_create plan_op.op_create[OF story_draft_ok] by (blast intro: r_into_rtranclp)

lemma story_created_ok: "history_ok (\<lambda>_. False) (\<lambda>_. False) story_created"
  using plan_ops_histories[OF story_to_created no_plans_ok[OF story_no_plans]] by blast

lemma story_created_plans:
  "agent_plans story_created = [new_plan_row sample_ctx ''s'' ''p'' ''m'' T_EXPLICIT 10]" "agent_plan_decisions story_created = []"
  by (simp_all add: story_created_def created_db_def story_start_def)

lemma story_decision:
  "\<exists>r. record_decision (\<lambda>_. False) (\<lambda>_. False) (\<lambda>_. 20) story_created sample_ctx [] story_request ''user'' = Inr (r, story_approved) \<and>
    sn_status (mr_snapshot r) = P_APPROVED"
proof -
  let ?p = "new_plan_row sample_ctx ''s'' ''p'' ''m'' T_EXPLICIT 10"
  have due: "decision_due story_created ?p story_request"
    by (simp add: decision_due_def story_created_plans story_request_def new_plan_row_def len_between_def py_len_def)
  have k: "plan_key ?p = plan_scope sample_ctx ''s'' (rq_plan_id story_request)"
    by (simp add: new_plan_row_def plan_key_def story_request_def)
  have "rq_action story_request \<noteq> D_REVISE" "pending_revision_claim sample_ctx [] (rq_plan_id story_request) = Inr None"
    by (simp_all add: story_request_def pending_revision_claim_def require_session_def sample_ctx_def)
  from record_decision_total[OF story_created_ok _ k due this, of "\<lambda>_. 20" "''user''"] show ?thesis
    by (auto simp: sample_ctx_def[THEN arg_cong[of _ _ session_id]] story_approved_def story_request_def)
qed

lemma story_from_approved: "story_op\<^sup>*\<^sup>* story_approved story_running"
  by (rule r_into_rtranclp, rule plan_op.op_elsewhere) (simp_all add: story_running_def same_plans_def)

lemma story_from_created: "story_op\<^sup>*\<^sup>* story_created story_running"
proof -
  have "story_op story_created story_approved" using story_decision plan_op.op_decide by blast
  then show ?thesis using story_from_approved by (rule converse_rtranclp_into_rtranclp)
qed

lemma story_to_running: "story_op\<^sup>*\<^sup>* story_start story_running"
  using story_to_created story_from_created by (rule rtranclp_trans)

text \<open>The rows of the story written out; the digests play no part in starting a step.\<close>

definition story_step :: "string \<Rightarrow> string \<Rightarrow> int \<Rightarrow> string \<Rightarrow> plan_step_row" where
  "story_step i k n d = (sample_step_row i n)\<lparr>pst_logical_step_key := k, pst_definition_digest := d\<rparr>"

definition story_dependency :: "string \<Rightarrow> string \<Rightarrow> plan_dependency_row" where
  "story_dependency i j = \<lparr>dp_tenant_id = ''t'', dp_workspace_id = ''w'', dp_session_id = ''s'', dp_plan_id = ''p'',
     dp_plan_version = 1, dp_step_id = i, dp_depends_on_step_id = j\<rparr>"

definition story_rows :: "plan_version_row \<Rightarrow> string \<Rightarrow> string \<Rightarrow> string \<Rightarrow> plan_db" where
  "story_rows v d1 d2 d3 =
     \<lparr>wf = (wf story_start)\<lparr>agent_plan_versions := [v], agent_runs := [sample_plan_run]\<rparr>,
      agent_plans = [(new_plan_row sample_ctx ''s'' ''p'' ''m'' T_EXPLICIT 10)\<lparr>pl_status := P_APPROVED,
        pl_approved_version := Some 1, pl_version := 2, pl_updated_at := 20\<rparr>],
      agent_plan_steps = [story_step ''i'' ''a'' 1 d1, story_step ''ii'' ''b'' 2 d2, story_step ''iii'' ''c'' 3 d3],
      agent_plan_step_dependencies = [story_dependency ''ii'' ''i'', story_dependency ''iii'' ''i'', story_dependency ''iii'' ''ii''],
      agent_plan_decisions = [decision_row sample_ctx ''s'' story_request ''user'' 20],
      agent_plan_step_runs = []\<rparr>"

lemma story_steps:
  "vp_steps sample_validated = [validated_step (sample_plan_step ''a'' []) [''a'', ''b'', ''c''] 1,
     validated_step (sample_plan_step ''b'' [''a'']) [''a'', ''b'', ''c''] 2,
     validated_step (sample_plan_step ''c'' [''b'', ''a'']) [''a'', ''b'', ''c''] 3]"
  by code_simp

lemma story_step_ids: "step_id_of story_uuids sample_validated ''a'' = ''i''" "step_id_of story_uuids sample_validated ''b'' = ''ii''"
  "step_id_of story_uuids sample_validated ''c'' = ''iii''"
  by code_simp+

lemma story_step_row:
  "step_row sample_ctx ''s'' ''p'' 1 (step_id_of story_uuids sample_validated) [] (validated_step (sample_plan_step k ds) ks n) =
    story_step (step_id_of story_uuids sample_validated k) k n (step_definition_digest (validated_step (sample_plan_step k ds) ks n))"
  by (simp add: step_row_def story_step_def sample_step_row_def sample_ctx_def validated_step_def sample_plan_step_def)

lemma story_dependency_rows:
  "dependency_rows sample_ctx ''s'' ''p'' 1 (step_id_of story_uuids sample_validated) (vp_steps sample_validated) =
    [story_dependency ''ii'' ''i'', story_dependency ''iii'' ''i'', story_dependency ''iii'' ''ii'']"
  by code_simp

lemma story_running_rows: "\<exists>v d1 d2 d3. story_running = story_rows v d1 d2 d3"
proof -
  have plans: "agent_plans story_approved = [(new_plan_row sample_ctx ''s'' ''p'' ''m'' T_EXPLICIT 10)\<lparr>pl_status := P_APPROVED,
      pl_approved_version := Some 1, pl_version := 2, pl_updated_at := 20\<rparr>]"
    by (simp add: story_approved_def decided_db_def story_created_plans upd_where_def plan_predicate_def new_plan_row_def
        story_request_def sample_ctx_def in_session_def)
  have steps: "agent_plan_steps story_approved = map (step_row sample_ctx ''s'' ''p'' 1 (step_id_of story_uuids sample_validated) [])
      (vp_steps sample_validated)"
    by (simp add: story_approved_def decided_db_def story_created_def created_db_def add_version_def story_start_def)
  have rest: "wf story_approved = (wf story_start)\<lparr>agent_plan_versions := [version_row sample_ctx ''s'' ''p'' 1 sample_validated None None 10]\<rparr>"
    "agent_plan_step_dependencies story_approved = [story_dependency ''ii'' ''i'', story_dependency ''iii'' ''i'', story_dependency ''iii'' ''ii'']"
    "agent_plan_decisions story_approved = [decision_row sample_ctx ''s'' story_request ''user'' 20]" "agent_plan_step_runs story_approved = []"
    by (simp_all add: story_approved_def decided_db_def story_created_def created_db_def add_version_def story_start_def
        story_dependency_rows sample_db_def)
  have "story_running = story_rows (version_row sample_ctx ''s'' ''p'' 1 sample_validated None None 10)
      (pst_definition_digest (agent_plan_steps story_approved ! 0)) (pst_definition_digest (agent_plan_steps story_approved ! 1))
      (pst_definition_digest (agent_plan_steps story_approved ! 2))"
    unfolding story_running_def story_rows_def
    by (rule plan_db.equality) (simp_all add: plans steps rest story_steps story_step_row story_step_ids, simp_all add: story_step_def)
  then show ?thesis by blast
qed

definition story_attempt :: plan_step_run_row where
  "story_attempt = new_step_run sample_ctx ''s'' ''r'' ''p'' 1 ''i'' ''u1'' 1 60"

lemma story_rows_attempt:
  "create_step_attempt (\<lambda>_. 60) sample_planning (story_rows v d1 d2 d3) sample_ctx ''u1'' (sample_lease 1) ''p'' 1 ''i'' =
    Inr (hydrate_step_run story_attempt, (story_rows v d1 d2 d3)\<lparr>agent_plan_step_runs := [story_attempt]\<rparr>)"
  by code_simp

definition story_started :: plan_db where
  "story_started = story_running\<lparr>agent_plan_step_runs := [story_attempt]\<rparr>"

lemma story_to_started: "story_op\<^sup>*\<^sup>* story_running story_started"
  using story_running_rows plan_op.op_start[OF story_rows_attempt] unfolding story_started_def
  by (metis r_into_rtranclp)

section \<open>Storing and reading\<close>

lemma created_version:
  assumes h: "history_ok sk sv db" and d: "plan_draft_ok draft" and p: "plan_insertable db ctx s pid source"
    and v: "validate_plan_draft sk sv draft (pset_max_steps st) (pset_max_dependency_depth st) (pset_max_step_attempts st)
      MAX_PLAN_CONTENT_BYTES = Inr v"
    and f: "fresh_ids uuids (length (vp_steps v)) (pst_step_id ` set (agent_plan_steps db))"
    and row: "row \<in> set (agent_plan_versions (wf (created_db db ctx s pid source mode now v uuids)))" "version_key row = (plan_scope ctx s pid, 1)"
  shows "rebuilt_draft (version_view (created_db db ctx s pid source mode now v uuids) row) = Inr (as_draft v)"
    and "pv_content_digest row = plan_content_digest v"
proof -
  let ?db1 = "db\<lparr>agent_plans := agent_plans db @ [new_plan_row ctx s pid source mode now]\<rparr>"
  note re = accepted_revalidated[OF d v]
  note a = plan_insert_addable[OF history_ok_store[OF h] p revalidated_steps(1)[OF re] f, of mode now]
  have ok: "plan_store_ok ?db1"
    using history_ok_store[OF h] p by (auto simp: plan_store_ok_def plan_insertable_def new_plan_row_def)
  have "row = version_row ctx s pid 1 v None None now"
    using row a by (auto simp: created_db_def add_version_def addable_def image_iff)
  then have "version_holds (created_db db ctx s pid source mode now v uuids) row v (step_id_of uuids v)"
    using add_version_new[OF ok a] by (simp add: created_db_def)
  from version_holds_rebuilt[OF this re] this
  show "rebuilt_draft (version_view (created_db db ctx s pid source mode now v uuids) row) = Inr (as_draft v)"
    "pv_content_digest row = plan_content_digest v" by (simp_all add: version_holds_def)
qed

lemma plan_successor_trans: "plan_successor p q \<Longrightarrow> plan_successor q r \<Longrightarrow> plan_successor p r"
  by (auto simp: plan_successor_def)

lemma plan_ops_view:
  assumes "(plan_op st sk sv)\<^sup>*\<^sup>* db db'" "history_ok sk sv db"
  shows "(\<forall>row \<in> set (agent_plan_versions (wf db)). row \<in> set (agent_plan_versions (wf db')) \<and> version_view db' row = version_view db row) \<and>
    (\<forall>p \<in> set (agent_plans db). \<exists>q \<in> set (agent_plans db'). plan_successor p q)"
  using assms
proof (induction rule: rtranclp_induct)
  case (step db1 db2)
  have "plan_change sk sv db1 db2"
    using repo_step_history_ok[OF plan_op_repo_step[OF step(2)]] plan_ops_histories[OF step(1,4)] by blast
  note ch = plan_change_view[OF this] plan_change_plan[OF this]
  note ih = step.IH[OF step(4)]
  have "\<exists>q \<in> set (agent_plans db2). plan_successor p q" if p: "p \<in> set (agent_plans db)" for p
  proof -
    obtain q where q: "q \<in> set (agent_plans db1)" "plan_successor p q" using ih p by blast
    then obtain r where "r \<in> set (agent_plans db2)" "plan_successor q r" using ch(2) by blast
    then show ?thesis using plan_successor_trans[OF q(2)] by blast
  qed
  then show ?case using ih ch(1) by simp
qed (blast intro: plan_successor_refl)

lemma get_plan_found:
  assumes "get_plan sk sv db ctx pid = Inr (Some snap)" "history_ok sk sv db"
  shows "\<exists>s p row. session_id ctx = Some s \<and> p \<in> set (agent_plans db) \<and> plan_key p = plan_scope ctx s pid \<and> snap = plan_view db ctx p row"
proof -
  obtain s where s: "session_id ctx = Some s" using assms(1) by (auto simp: get_plan_def require_session_def res_simps)
  obtain p where p: "List.find (plan_predicate ctx pid) (agent_plans db) = Some p"
    using assms(1) s by (auto simp: get_plan_def require_session_def res_simps split: option.splits)
  from get_plan_readable[OF s history_ok_readable[OF assms(2)] p] assms(1) find_SomeD[OF p] scope_predicates(1)[OF s] s
  show ?thesis by auto
qed

text \<open>
  C9. A valid draft can be stored, and reading it back gives the same plan. In every state reached from an
  empty repository, creating a plan from a draft that the validation accepts, in a session that exists
  and from a message of that session, with an unused plan identifier and fresh step identifiers,
  succeeds: the plan awaits approval at version 1, its current version rebuilds to the validated plan
  under the content digest of that plan, and reading the plan returns this snapshot.
\<close>
theorem valid_draft_is_stored:
  assumes "no_plans db0" "(plan_op st sk sv)\<^sup>*\<^sup>* db0 db" "plan_draft_ok draft" "plan_insertable db ctx s pid source"
    and "validate_plan_draft sk sv draft (pset_max_steps st) (pset_max_dependency_depth st) (pset_max_step_attempts st)
      MAX_PLAN_CONTENT_BYTES = Inr v"
    and "fresh_ids uuids (length (vp_steps v)) (pst_step_id ` set (agent_plan_steps db))"
  shows "\<exists>snap db'. create_plan sk sv clk uuids st db ctx pid source mode draft = Inr (snap, db') \<and>
    sn_status snap = P_AWAITING_APPROVAL \<and> sn_current_version snap = 1 \<and>
    rebuilt_draft (sn_current snap) = Inr (as_draft v) \<and> ve_content_digest (sn_current snap) = plan_content_digest v \<and>
    get_plan sk sv db' ctx pid = Inr (Some snap)"
proof -
  have h: "history_ok sk sv db" using plan_ops_histories[OF assms(2) no_plans_ok[OF assms(1)]] by blast
  obtain row where row: "row \<in> set (agent_plan_versions (wf (created_db db ctx s pid source mode (clk 0) v uuids)))"
      "version_key row = (plan_scope ctx s pid, 1)"
    and c: "create_plan sk sv clk uuids st db ctx pid source mode draft =
      Inr (plan_view (created_db db ctx s pid source mode (clk 0) v uuids) ctx (new_plan_row ctx s pid source mode (clk 0)) row,
           created_db db ctx s pid source mode (clk 0) v uuids)"
    using create_plan_total[OF h assms(3-6), of mode clk] by blast
  note created_version[OF h assms(3-6) row]
  moreover have "get_plan sk sv (created_db db ctx s pid source mode (clk 0) v uuids) ctx pid =
      Inr (Some (plan_view (created_db db ctx s pid source mode (clk 0) v uuids) ctx (new_plan_row ctx s pid source mode (clk 0)) row))"
    using c by (auto simp: create_plan_def res_simps Let_def need_def split: option.splits)
  ultimately show ?thesis using c by (simp add: plan_view_def new_plan_row_def version_view_def)
qed

theorem valid_draft_is_stored_witness:
  "\<exists>snap db'. create_plan (\<lambda>_. False) (\<lambda>_. False) (\<lambda>_. 10) story_uuids sample_planning story_start sample_ctx ''p'' ''m'' T_EXPLICIT sample_draft =
      Inr (snap, db') \<and>
    sn_status snap = P_AWAITING_APPROVAL \<and> sn_current_version snap = 1 \<and>
    rebuilt_draft (sn_current snap) = Inr (as_draft sample_validated) \<and>
    ve_content_digest (sn_current snap) = plan_content_digest sample_validated \<and>
    get_plan (\<lambda>_. False) (\<lambda>_. False) db' sample_ctx ''p'' = Inr (Some snap)"
  by (rule valid_draft_is_stored[OF story_no_plans rtranclp.rtrancl_refl story_draft_ok story_insertable story_validated story_fresh])

text \<open>
  C10. A stored plan never becomes unreadable and never loses a version. If a plan can be read in a reachable
  state, then it can be read in every later state, where each version of it is still present, with the same
  contents, steps, dependencies and digest; its source message, trigger and creation time are the same,
  and neither its version nor its aggregate version ever decreases.
\<close>
theorem stored_plan_stays_readable:
  assumes "no_plans db0" "(plan_op st sk sv)\<^sup>*\<^sup>* db0 db" "(plan_op st sk sv)\<^sup>*\<^sup>* db db'"
    and "get_plan sk sv db ctx pid = Inr (Some snap)"
  shows "\<exists>snap'. get_plan sk sv db' ctx pid = Inr (Some snap') \<and> set (sn_versions snap) \<subseteq> set (sn_versions snap') \<and>
    sn_current snap' \<in> set (sn_versions snap') \<and> ve_plan_version (sn_current snap') = sn_current_version snap' \<and>
    sn_source_message_id snap' = sn_source_message_id snap \<and> sn_trigger_mode snap' = sn_trigger_mode snap \<and>
    sn_created_at snap' = sn_created_at snap \<and> sn_current_version snap \<le> sn_current_version snap' \<and>
    sn_aggregate_version snap \<le> sn_aggregate_version snap'"
proof -
  have h: "history_ok sk sv db" using plan_ops_histories[OF assms(2) no_plans_ok[OF assms(1)]] by blast
  then have h': "history_ok sk sv db'" using plan_ops_histories[OF assms(3)] by blast
  obtain s p row where s: "session_id ctx = Some s" and p: "p \<in> set (agent_plans db)" "plan_key p = plan_scope ctx s pid"
    and snap: "snap = plan_view db ctx p row" using get_plan_found[OF assms(4) h] by blast
  note kept = plan_ops_view[OF assms(3) h]
  obtain q where q: "q \<in> set (agent_plans db')" "plan_successor p q" using kept p(1) by blast
  then have key: "plan_key q = plan_scope ctx s pid" using p(2) by (simp add: plan_successor_def)
  obtain row' where row': "row' \<in> set (agent_plan_versions (wf db'))" "version_key row' = (plan_key q, pl_current_version q)"
    and g: "get_plan sk sv db' ctx pid = Inr (Some (plan_view db' ctx q row'))"
    using get_plan_readable[OF s history_ok_readable[OF h'] plan_found[OF history_ok_store[OF h'] s q(1) key]] by blast
  have ids: "pl_id p = pid" "pl_id q = pid" using p(2) key by (simp_all add: plan_key_def)
  have "version_view db ` set (plan_version_rows db ctx pid) \<subseteq> version_view db' ` set (plan_version_rows db' ctx pid)"
    using kept by (fastforce simp: plan_version_rows_def image_iff)
  moreover have "row' \<in> set (plan_version_rows db' ctx pid)" "pv_plan_version row' = pl_current_version q"
    using row' key by (simp_all add: plan_version_rows_def scope_predicates(2)[OF s] version_key_def)
  ultimately show ?thesis using g q(2) ids unfolding snap
    by (simp add: plan_view_def plan_successor_def version_view_def[of db' row', THEN arg_cong[of _ _ ve_plan_version]])
qed

theorem stored_plan_stays_readable_witness:
  "\<exists>snap snap'. get_plan (\<lambda>_. False) (\<lambda>_. False) story_created sample_ctx ''p'' = Inr (Some snap) \<and>
    get_plan (\<lambda>_. False) (\<lambda>_. False) story_started sample_ctx ''p'' = Inr (Some snap') \<and>
    set (sn_versions snap) \<subseteq> set (sn_versions snap') \<and> sn_aggregate_version snap \<le> sn_aggregate_version snap'"
proof -
  obtain snap where g: "get_plan (\<lambda>_. False) (\<lambda>_. False) story_created sample_ctx ''p'' = Inr (Some snap)"
    using story_create by (auto simp: create_plan_def res_simps Let_def need_def split: option.splits)
  have "story_op\<^sup>*\<^sup>* story_created story_started" using story_from_created story_to_started by (rule rtranclp_trans)
  from stored_plan_stays_readable[OF story_no_plans story_to_created this g] g show ?thesis by blast
qed

section \<open>Decisions and attempts\<close>

text \<open>
  C8. Decisions are exactly-once. Repeating a decision that was recorded, at any later time and after any
  further operations on this and other plans, changes nothing and returns the answer of the first call, the
  plan as it stood right after the decision, marked as a replay.
\<close>
theorem decision_replays_exactly:
  assumes "no_plans db0" "(plan_op st sk sv)\<^sup>*\<^sup>* db0 db"
    and "record_decision sk sv clk db ctx claims rq decided_by = Inr (r, db1)" "(plan_op st sk sv)\<^sup>*\<^sup>* db1 db2"
    and "pending_revision_claim ctx claims2 (rq_plan_id rq) = Inr None"
  shows "record_decision sk sv clk2 db2 ctx claims2 rq decided_by = Inr (r\<lparr>mr_idempotent_replay := True\<rparr>, db2)"
proof -
  have h: "history_ok sk sv db" using plan_ops_histories[OF assms(2) no_plans_ok[OF assms(1)]] by blast
  then have "history_ok sk sv db1" using repo_step_history_ok[OF repo_step.decide[OF assms(3)]] by blast
  from plan_ops_histories[OF assms(4) this] show ?thesis using record_decision_repeats[OF assms(3) h _ assms(5)] by blast
qed

theorem decision_replays_exactly_witness:
  "\<exists>r. record_decision (\<lambda>_. False) (\<lambda>_. False) (\<lambda>_. 20) story_created sample_ctx [] story_request ''user'' = Inr (r, story_approved) \<and>
    record_decision (\<lambda>_. False) (\<lambda>_. False) (\<lambda>_. 90) story_started sample_ctx [] story_request ''user'' =
      Inr (r\<lparr>mr_idempotent_replay := True\<rparr>, story_started)"
proof -
  have claim: "pending_revision_claim sample_ctx [] (rq_plan_id story_request) = Inr None"
    by (simp add: pending_revision_claim_def require_session_def sample_ctx_def)
  have "story_op\<^sup>*\<^sup>* story_approved story_started" using story_from_approved story_to_started by (rule rtranclp_trans)
  then show ?thesis using story_decision decision_replays_exactly[OF story_no_plans story_to_created _ _ claim] by blast
qed

text \<open>
  C7. Nothing runs without an approval. In every state reached from an empty repository, each step attempt,
  started or reused, running or ended, belongs to a plan version for which an approving decision is on record.
\<close>
theorem attempts_only_on_approved_versions:
  assumes "no_plans db0" "agent_plan_step_runs db0 = []" "(plan_op st sk sv)\<^sup>*\<^sup>* db0 db" "a \<in> set (agent_plan_step_runs db)"
  shows "approved_version db (attempt_plan a) (sr_plan_version a)"
  using plan_ops_attempts_approved[OF assms(3) no_plans_ok[OF assms(1)]] assms(2,4) by (simp add: attempts_approved_def)

theorem attempts_only_on_approved_versions_witness:
  "story_attempt \<in> set (agent_plan_step_runs story_started) \<and> approved_version story_started (plan_scope sample_ctx ''s'' ''p'') 1"
proof -
  have h: "story_op\<^sup>*\<^sup>* story_start story_started" using story_to_running story_to_started by (rule rtranclp_trans)
  have m: "story_attempt \<in> set (agent_plan_step_runs story_started)" by (simp add: story_started_def)
  from attempts_only_on_approved_versions[OF story_no_plans _ h m] m show ?thesis
    by (simp add: story_start_def story_attempt_def new_step_run_def attempt_plan_def)
qed

end
