(* ===== verification/Memory_Store.thy ===== *)
theory Memory_Store
  imports Plan_Repository
begin

text \<open>
  Memory entries: \<open>memory/models.py\<close> and \<open>storage/repositories/memory.py\<close>. Chat messages, tool results, step
  results and round counters are rows of \<open>memory_entries\<close>; an entry without a session is long-term memory
  of its workspace. The metadata column is JSON printed with \<open>ensure_ascii=True\<close>. The full-text ranking of
  \<open>query\<close> splits text at the Unicode word characters and is not modelled.
\<close>

section \<open>Printing with escapes for everything outside ASCII\<close>

text \<open>The code points of a UTF-8 string.\<close>

fun code_points :: "string \<Rightarrow> nat list" where
  "code_points [] = []"
| "code_points (a # r) =
     (let n = of_char a in
      if n < 128 then n # code_points r
      else case r of [] \<Rightarrow> []
        | b # r1 \<Rightarrow>
            let m = of_char b - 128 in
            if n < 224 then ((n - 192) * 64 + m) # code_points r1
            else case r1 of [] \<Rightarrow> []
              | c # r2 \<Rightarrow>
                  let k = of_char c - 128 in
                  if n < 240 then (((n - 224) * 64 + m) * 64 + k) # code_points r2
                  else case r2 of [] \<Rightarrow> []
                    | d # r3 \<Rightarrow> ((((n - 240) * 64 + m) * 64 + k) * 64 + (of_char d - 128)) # code_points r3)"

definition u_escape :: "nat \<Rightarrow> string" where
  "u_escape n = [backslash, CHR ''u'', hexd (n div 4096 mod 16), hexd (n div 256 mod 16), hexd (n div 16 mod 16), hexd (n mod 16)]"

definition ascii_escape :: "nat \<Rightarrow> string" where
  "ascii_escape n =
     (if 32 \<le> n \<and> n \<le> 126 then escape_char (char_of n)
      else if n \<in> set [8, 9, 10, 12, 13] then escape_char (char_of n)
      else if n < 65536 then u_escape n
      else u_escape (55296 + (n - 65536) div 1024 mod 1024) @ u_escape (56320 + (n - 65536) mod 1024))"

definition print_ascii_string :: "string \<Rightarrow> string" where
  "print_ascii_string s = [quote_char] @ concat (map ascii_escape (code_points s)) @ [quote_char]"

fun print_ascii :: "json \<Rightarrow> string" where
  "print_ascii (JStr s) = print_ascii_string s"
| "print_ascii (JArr xs) = ''['' @ sep_concat '','' (map print_ascii xs) @ '']''"
| "print_ascii (JObj kvs) =
     ''{'' @ sep_concat '','' (map (\<lambda>kv. print_ascii_string (fst kv) @ '':'' @ print_ascii (snd kv)) kvs) @ ''}''"
| "print_ascii j = print_json j"

text \<open>\<open>_dump_metadata\<close> and \<open>_load_metadata\<close>. The two library errors of a malformed column are both \<open>ValueError\<close>s.\<close>

definition dump_metadata :: "json_object \<Rightarrow> string" where
  "dump_metadata d = print_ascii (sort_keys (JObj d))"

definition load_metadata :: "string \<Rightarrow> exc + json_object" where
  "load_metadata s =
     (if s = [] then Inr []
      else case loads s of
        Some (JObj d) \<Rightarrow> Inr d
      | _ \<Rightarrow> Inl (ValueError ''metadata is not a JSON object''))"

text \<open>\<open>str.strip()\<close>: the code points for which \<open>str.isspace()\<close> holds, removed at both ends.\<close>

definition py_isspace :: "nat \<Rightarrow> bool" where
  "py_isspace n \<longleftrightarrow> 9 \<le> n \<and> n \<le> 13 \<or> 28 \<le> n \<and> n \<le> 32 \<or> 0x2000 \<le> n \<and> n \<le> 0x200A \<or>
     n \<in> set [0x85, 0xA0, 0x1680, 0x2028, 0x2029, 0x202F, 0x205F, 0x3000]"

definition py_strip :: "string \<Rightarrow> string" where
  "py_strip s = concat (map utf8 (rev (dropWhile py_isspace (rev (dropWhile py_isspace (code_points s))))))"

section \<open>Entries\<close>

record memory_entry =
  me_id :: string
  me_content :: string
  me_type :: string
  me_session_id :: "string option"
  me_role :: string
  me_turn_index :: int
  me_created_at :: int
  me_metadata :: json_object

definition normalize_session_scope :: "memory_entry \<Rightarrow> memory_entry" where
  "normalize_session_scope e = (if me_session_id e = Some [] then e\<lparr>me_session_id := None\<rparr> else e)"

definition entry_from_row :: "memory_row \<Rightarrow> exc + memory_entry" where
  "entry_from_row m =
     rbind (load_metadata (m_metadata_json m)) (\<lambda>d.
       Inr (normalize_session_scope \<lparr>me_id = m_id m, me_content = m_content m, me_type = m_type m,
         me_session_id = m_session_id m, me_role = m_role m, me_turn_index = m_turn_index m,
         me_created_at = m_created_at m, me_metadata = d\<rparr>))"

section \<open>Scope\<close>

definition exact_scope :: "tenant_context \<Rightarrow> string \<Rightarrow> string option \<Rightarrow> memory_row \<Rightarrow> bool" where
  "exact_scope ctx i target m \<longleftrightarrow> m_tenant_id m = tenant_id ctx \<and> m_workspace_id m = workspace_id ctx \<and>
     m_id m = i \<and> m_session_id m = target"

definition memory_visible :: "tenant_context \<Rightarrow> bool \<Rightarrow> memory_row \<Rightarrow> bool" where
  "memory_visible ctx include_long_term m \<longleftrightarrow>
     (case session_id ctx of
        None \<Rightarrow> m_session_id m = None
      | Some s \<Rightarrow> m_session_id m = Some s \<or> include_long_term \<and> m_session_id m = None)"

definition prepare_entry :: "tenant_context \<Rightarrow> memory_entry \<Rightarrow> exc + memory_entry" where
  "prepare_entry ctx e =
     (if me_type e = ''chat_message'' then
        rbind (need (session_id ctx) (ValueError ''session_id is required for chat_message entries'')) (\<lambda>s.
        let sid = (case me_session_id e of None \<Rightarrow> s | Some t \<Rightarrow> t) in
        rbind (ensure (sid = s) (ValueError ''session_id must match the current context'')) (\<lambda>_.
          Inr (e\<lparr>me_session_id := Some sid\<rparr>)))
      else if me_session_id e = None then Inr e
      else rbind (ensure (session_id ctx \<noteq> None \<and> me_session_id e = session_id ctx)
        (ValueError ''session_id must match the current context'')) (\<lambda>_. Inr e))"

section \<open>Reading and writing\<close>

definition get_memory :: "plan_db \<Rightarrow> tenant_context \<Rightarrow> string \<Rightarrow> string option \<Rightarrow> exc + memory_entry option" where
  "get_memory db ctx i target =
     (case List.find (exact_scope ctx i target) (memory_entries (wf db)) of
        None \<Rightarrow> Inr None
      | Some m \<Rightarrow> rbind (entry_from_row m) (\<lambda>e. Inr (Some e)))"

definition memory_values :: "tenant_context \<Rightarrow> memory_entry \<Rightarrow> int \<Rightarrow> memory_row" where
  "memory_values ctx e now =
     \<lparr>m_id = me_id e, m_tenant_id = tenant_id ctx, m_workspace_id = workspace_id ctx, m_session_id = me_session_id e,
      m_content = me_content e, m_type = me_type e, m_role = me_role e, m_turn_index = me_turn_index e,
      m_created_at = now, m_metadata_json = dump_metadata (me_metadata e)\<rparr>"

text \<open>
  An update in place, or an insert when no row matched. When the insert violates a constraint, the savepoint is
  rolled back and the update tried again; in a serialised transaction it again matches no row.
\<close>

definition save_memory :: "clock \<Rightarrow> plan_db \<Rightarrow> tenant_context \<Rightarrow> memory_entry \<Rightarrow> exc + memory_entry \<times> plan_db" where
  "save_memory clk db ctx e =
     rbind (prepare_entry ctx e) (\<lambda>row.
     let matches = exact_scope ctx (me_id row) (me_session_id row) in
     rbind (if rowcount matches (memory_entries (wf db)) = 0
            then insert_memory_entry db (memory_values ctx row (clk 1))
            else Inr (db\<lparr>wf := (wf db)\<lparr>memory_entries :=
              upd_where matches (\<lambda>_. memory_values ctx row (clk 0)) (memory_entries (wf db))\<rparr>\<rparr>)) (\<lambda>db'.
     rbind (get_memory db' ctx (me_id row) (me_session_id row)) (\<lambda>found.
     rbind (need found AssertionError) (\<lambda>saved. Inr (saved, db')))))"

definition HIDDEN_MEMORY_TYPES :: "string list" where
  "HIDDEN_MEMORY_TYPES = [''tool_result'', ''run_event'', ''run_journal'', ''run_usage'', ''tenant_usage'', ''run_queue'']"

definition load_memory_rows ::
    "plan_db \<Rightarrow> tenant_context \<Rightarrow> string option \<Rightarrow> nat option \<Rightarrow> bool \<Rightarrow> exc + memory_entry list" where
  "load_memory_rows db ctx entry_type limit include_long_term =
     rbind (ensure (\<not> (entry_type = Some ''chat_message'' \<and> session_id ctx = None))
       (ValueError ''session_id is required for chat_message queries'')) (\<lambda>_.
     let rows = rev (sort_key (\<lambda>m. (m_created_at m, m_turn_index m, m_id m))
       (filter (\<lambda>m. m_tenant_id m = tenant_id ctx \<and> m_workspace_id m = workspace_id ctx \<and>
          (case entry_type of Some ty \<Rightarrow> m_type m = ty | None \<Rightarrow> m_type m \<notin> set HIDDEN_MEMORY_TYPES) \<and>
          memory_visible ctx include_long_term m) (memory_entries (wf db)))) in
     map_rows entry_from_row (case limit of None \<Rightarrow> rows | Some n \<Rightarrow> take n rows))"

definition recent_memory :: "plan_db \<Rightarrow> tenant_context \<Rightarrow> nat \<Rightarrow> string option \<Rightarrow> exc + memory_entry list" where
  "recent_memory db ctx limit entry_type = load_memory_rows db ctx entry_type (Some limit) False"

text \<open>The entries that fit, newest first; an entry that does not fit is skipped, not the end of the scan.\<close>

fun fit_entries :: "int \<Rightarrow> memory_entry list \<Rightarrow> memory_entry list \<Rightarrow> int \<Rightarrow> memory_entry list" where
  "fit_entries max_chars [] selected used = selected"
| "fit_entries max_chars (e # es) selected used =
     (let separator = (if selected = [] then 0 else 1); n = int (py_len (me_content e)) in
      if used + separator + n > max_chars then fit_entries max_chars es selected used
      else fit_entries max_chars es (selected @ [e]) (used + separator + n))"

definition memory_context :: "plan_db \<Rightarrow> tenant_context \<Rightarrow> int \<Rightarrow> nat \<Rightarrow> string option \<Rightarrow> exc + memory_entry list" where
  "memory_context db ctx max_chars limit entry_type =
     rbind (recent_memory db ctx limit entry_type) (\<lambda>es. Inr (rev (fit_entries max_chars es [] 0)))"

definition forget_memory :: "plan_db \<Rightarrow> tenant_context \<Rightarrow> string \<Rightarrow> plan_db" where
  "forget_memory db ctx i =
     db\<lparr>wf := (wf db)\<lparr>memory_entries := filter (\<lambda>m. \<not> (m_tenant_id m = tenant_id ctx \<and>
       m_workspace_id m = workspace_id ctx \<and> m_id m = i \<and> memory_visible ctx True m)) (memory_entries (wf db))\<rparr>\<rparr>"

section \<open>Final summaries\<close>

text \<open>\<open>LIKE ... ESCAPE\<close>: an escape character makes the next character of the pattern literal.\<close>

function like_escape :: "char \<Rightarrow> string \<Rightarrow> string \<Rightarrow> bool" where
  "like_escape esc [] s = (s = [])"
| "like_escape esc (p # ps) s =
     (if p = esc then (case (ps, s) of (q # qs, c # s') \<Rightarrow> ascii_lower q = ascii_lower c \<and> like_escape esc qs s' | _ \<Rightarrow> False)
      else if p = CHR ''%'' then like_escape esc ps s \<or> (case s of [] \<Rightarrow> False | c # s' \<Rightarrow> like_escape esc (p # ps) s')
      else case s of [] \<Rightarrow> False
        | c # s' \<Rightarrow> (p = CHR ''_'' \<or> ascii_lower p = ascii_lower c) \<and> like_escape esc ps s')"
  by pat_completeness auto
termination
  by (relation "measure (\<lambda>(e, ps, s). length ps + length s)") auto

definition escape_like :: "string \<Rightarrow> string" where
  "escape_like s = concat (map (\<lambda>c. if c \<in> set ''^%_'' then [CHR ''^'', c] else [c]) s)"

definition has_final_summary :: "plan_db \<Rightarrow> tenant_context \<Rightarrow> string \<Rightarrow> bool" where
  "has_final_summary db ctx run \<longleftrightarrow> session_id ctx \<noteq> None \<and>
     list_ex (\<lambda>m. m_tenant_id m = tenant_id ctx \<and> m_workspace_id m = workspace_id ctx \<and>
       m_session_id m = session_id ctx \<and> m_type m = ''chat_message'' \<and> m_role m = ''assistant'' \<and>
       like_escape CHR ''^'' ''%\"kind\":\"plan_final_summary\"%'' (m_metadata_json m) \<and>
       like_escape CHR ''^'' (''%\"run_id\":\"'' @ escape_like run @ ''\"%'') (m_metadata_json m) \<and>
       (case loads (m_metadata_json m) of
          Some (JObj d) \<Rightarrow> map_of d ''kind'' = Some (JStr ''plan_final_summary'') \<and> map_of d ''run_id'' = Some (JStr run)
        | _ \<Rightarrow> False)) (memory_entries (wf db))"

section \<open>Facts\<close>

definition plain_ascii :: "string \<Rightarrow> bool" where
  "plain_ascii s \<longleftrightarrow> (\<forall>c \<in> set s. 32 \<le> (of_char c :: nat) \<and> of_char c \<le> (126::nat))"

lemma code_points_plain: "plain_ascii s \<Longrightarrow> code_points s = map of_char s"
  by (induction s) (auto simp: plain_ascii_def)

lemma print_ascii_plain: "plain_ascii s \<Longrightarrow> print_ascii_string s = print_string s"
  by (auto simp: print_ascii_string_def print_string_def code_points_plain plain_ascii_def ascii_escape_def comp_def
      intro!: arg_cong[of _ _ concat])

lemma save_memory_stored:
  assumes "save_memory clk db ctx e = Inr (saved, db')"
  shows "\<exists>row. prepare_entry ctx e = Inr row \<and> get_memory db' ctx (me_id row) (me_session_id row) = Inr (Some saved)"
  using assms by (auto simp: save_memory_def res_simps Let_def)

end
