(* ===== verification/Plan_Results.thy ===== *)
theory Plan_Results
  imports Memory_Store Workflow_Coordinator
begin

text \<open>
  Step results: the constraints of \<open>PlanStepResultDocument\<close>, its \<open>model_validate_json\<close>, and its storage as a memory
  entry by \<open>WorkflowContinuationService.persist_plan_step_result\<close>. \<open>redact\<close> is modelled on JSON values; the
  regular expressions it applies to one key and to one string are the parameters \<open>rk\<close> and \<open>rs\<close>.
\<close>

section \<open>Redaction\<close>

definition REDACTED :: string where "REDACTED = ''[REDACTED]''"

fun redact_json :: "(string \<Rightarrow> bool) \<Rightarrow> (string \<Rightarrow> string) \<Rightarrow> json \<Rightarrow> json" where
  "redact_json rk rs (JObj kvs) =
     JObj (map (\<lambda>kv. (fst kv, if rk (fst kv) then JStr REDACTED else redact_json rk rs (snd kv))) kvs)"
| "redact_json rk rs (JArr xs) = JArr (map (redact_json rk rs) xs)"
| "redact_json rk rs (JStr s) = JStr (rs s)"
| "redact_json rk rs j = j"

definition canonical_digest :: "(string \<Rightarrow> bool) \<Rightarrow> (string \<Rightarrow> string) \<Rightarrow> json \<Rightarrow> string" where
  "canonical_digest rk rs j = sha256_hex (dumps (redact_json rk rs j))"

section \<open>Documents\<close>

definition result_document_ok :: "plan_step_result_document \<Rightarrow> bool" where
  "result_document_ok d \<longleftrightarrow> strict_uuid_field (rd_plan_id d) \<and> 1 \<le> rd_plan_version d \<and>
     strict_uuid_field (rd_run_id d) \<and> strict_uuid_field (rd_step_id d) \<and> strict_uuid_field (rd_step_run_id d) \<and>
     1 \<le> rd_attempt d \<and> rd_attempt d \<le> 20 \<and> rd_status d \<in> set [''succeeded'', ''failed''] \<and>
     len_between 1 4000 (rd_summary d) \<and> length (rd_evidence d) \<le> 20 \<and> list_all (len_between 1 2000) (rd_evidence d) \<and>
     sha256_pattern (rd_definition_digest d) \<and> length (rd_dependency_result_digests d) \<le> 20 \<and>
     distinct (map fst (rd_dependency_result_digests d)) \<and>
     list_all (\<lambda>kv. logical_step_key_ok (fst kv) \<and> sha256_pattern (snd kv)) (rd_dependency_result_digests d) \<and>
     sha256_pattern (rd_tool_catalog_digest d) \<and> sha256_pattern (rd_policy_digest d) \<and>
     sha256_pattern (rd_skill_set_digest d)"

fun json_strings :: "json list \<Rightarrow> string list option" where
  "json_strings [] = Some []"
| "json_strings (JStr s # js) = map_option (Cons s) (json_strings js)"
| "json_strings _ = None"

fun json_string_pairs :: "json_object \<Rightarrow> (string \<times> string) list option" where
  "json_string_pairs [] = Some []"
| "json_string_pairs ((k, JStr s) # kvs) = map_option (Cons (k, s)) (json_string_pairs kvs)"
| "json_string_pairs _ = None"

definition RESULT_DOCUMENT_FIELDS :: "string list" where
  "RESULT_DOCUMENT_FIELDS = [''plan_id'', ''plan_version'', ''run_id'', ''step_id'', ''step_run_id'', ''attempt'', ''status'',
     ''summary'', ''evidence'', ''definition_digest'', ''dependency_result_digests'', ''tool_catalog_digest'',
     ''policy_digest'', ''skill_set_digest'']"

definition validate_result_document :: "json_object \<Rightarrow> plan_step_result_document option" where
  "validate_result_document d = do {
     base_payload RESULT_DOCUMENT_FIELDS d;
     p \<leftarrow> get_str (\<lambda>_. True) d ''plan_id'';
     v \<leftarrow> get_int (\<lambda>_. True) d ''plan_version'';
     r \<leftarrow> get_str (\<lambda>_. True) d ''run_id'';
     s \<leftarrow> get_str (\<lambda>_. True) d ''step_id'';
     q \<leftarrow> get_str (\<lambda>_. True) d ''step_run_id'';
     a \<leftarrow> get_int (\<lambda>_. True) d ''attempt'';
     t \<leftarrow> get_str (\<lambda>_. True) d ''status'';
     m \<leftarrow> get_str (\<lambda>_. True) d ''summary'';
     e \<leftarrow> (case map_of d ''evidence'' of Some (JArr xs) \<Rightarrow> json_strings xs | _ \<Rightarrow> None);
     g \<leftarrow> get_str (\<lambda>_. True) d ''definition_digest'';
     ds \<leftarrow> (case map_of d ''dependency_result_digests'' of Some (JObj kvs) \<Rightarrow> json_string_pairs kvs | _ \<Rightarrow> None);
     tc \<leftarrow> get_str (\<lambda>_. True) d ''tool_catalog_digest'';
     pd \<leftarrow> get_str (\<lambda>_. True) d ''policy_digest'';
     sd \<leftarrow> get_str (\<lambda>_. True) d ''skill_set_digest'';
     let doc = \<lparr>rd_plan_id = p, rd_plan_version = v, rd_run_id = r, rd_step_id = s, rd_step_run_id = q, rd_attempt = a,
       rd_status = t, rd_summary = m, rd_evidence = e, rd_definition_digest = g, rd_dependency_result_digests = ds,
       rd_tool_catalog_digest = tc, rd_policy_digest = pd, rd_skill_set_digest = sd\<rparr>;
     check (result_document_ok doc);
     Some doc }"

text \<open>\<open>PlanStepResultDocument.model_validate_json\<close>; a \<open>ValidationError\<close> is \<open>None\<close>.\<close>

definition parse_result_document :: "string \<Rightarrow> plan_step_result_document option" where
  "parse_result_document content =
     (case loads content of Some (JObj d) \<Rightarrow> validate_result_document d | _ \<Rightarrow> None)"

section \<open>Storing a result\<close>

definition MAX_PLAN_STEP_RESULT_BYTES :: nat where
  "MAX_PLAN_STEP_RESULT_BYTES = 262144"

definition result_metadata :: "plan_step_result_document \<Rightarrow> json_object" where
  "result_metadata d = [(''schema_version'', JInt 1), (''plan_id'', JStr (rd_plan_id d)), (''step_run_id'', JStr (rd_step_run_id d))]"

record persisted_plan_step_result =
  pp_entry_id :: string
  pp_result_ref :: string
  pp_result_digest :: string

text \<open>\<open>uuid\<close> is the identifier \<open>MemoryEntry\<close> draws, \<open>created\<close> its own reading of the process clock.\<close>

definition persist_plan_step_result ::
    "clock \<Rightarrow> string \<Rightarrow> int \<Rightarrow> plan_db \<Rightarrow> tenant_context \<Rightarrow> plan_step_result_document \<Rightarrow>
     exc + persisted_plan_step_result \<times> plan_db" where
  "persist_plan_step_result clk uuid created db ctx doc =
     rbind (need (session_id ctx) (ValueError ''session_id is required for Plan step result persistence'')) (\<lambda>s.
     rbind (ensure (\<not> length (result_canonical_json doc) > MAX_PLAN_STEP_RESULT_BYTES)
       (ValueError ''Plan step result document exceeds 262144 bytes'')) (\<lambda>_.
     rbind (save_memory clk db ctx (normalize_session_scope \<lparr>me_id = uuid, me_content = result_canonical_json doc,
         me_type = ''plan_step_result'', me_session_id = Some s, me_role = ''assistant'', me_turn_index = 0,
         me_created_at = created, me_metadata = result_metadata doc\<rparr>)) (\<lambda>(entry, db').
       Inr (\<lparr>pp_entry_id = me_id entry, pp_result_ref = ''memory:'' @ me_id entry,
              pp_result_digest = result_digest doc\<rparr>, db'))))"

text \<open>\<open>_RESULT_REF.fullmatch\<close>: the entry a reference names.\<close>

definition parse_result_ref :: "string \<Rightarrow> string option" where
  "parse_result_ref ref =
     (let i = drop 7 ref in
      if take 7 ref = ''memory:'' \<and> 1 \<le> length i \<and> length i \<le> 64 \<and>
         list_all (\<lambda>c. c \<in> set ''ABCDEFGHIJKLMNOPQRSTUVWXYZabcdefghijklmnopqrstuvwxyz0123456789-'') i
      then Some i else None)"

text \<open>The guards a stored entry passes before its content is read. In Python \<open>1 == True\<close>; no writer stores a float there.\<close>

definition result_entry_ok :: "memory_entry \<Rightarrow> string \<Rightarrow> string \<Rightarrow> bool" where
  "result_entry_ok e pid step_run \<longleftrightarrow> me_type e = ''plan_step_result'' \<and> me_role e = ''assistant'' \<and>
     map_of (me_metadata e) ''schema_version'' \<in> set [Some (JInt 1), Some (JBool True)] \<and>
     map_of (me_metadata e) ''plan_id'' = Some (JStr pid) \<and> map_of (me_metadata e) ''step_run_id'' = Some (JStr step_run)"

section \<open>Round trip\<close>

definition sorted_document :: "plan_step_result_document \<Rightarrow> plan_step_result_document" where
  "sorted_document d = d\<lparr>rd_dependency_result_digests := sort_key fst (rd_dependency_result_digests d)\<rparr>"

definition document_fields :: "plan_step_result_document \<Rightarrow> json_object" where
  "document_fields d =
     [(''schema_version'', JInt 1), (''plan_id'', JStr (rd_plan_id d)), (''plan_version'', JInt (rd_plan_version d)),
      (''run_id'', JStr (rd_run_id d)), (''step_id'', JStr (rd_step_id d)), (''step_run_id'', JStr (rd_step_run_id d)),
      (''attempt'', JInt (rd_attempt d)), (''status'', JStr (rd_status d)), (''summary'', JStr (rd_summary d)),
      (''evidence'', JArr (map JStr (rd_evidence d))), (''definition_digest'', JStr (rd_definition_digest d)),
      (''dependency_result_digests'', JObj (map (\<lambda>(k, v). (k, JStr v)) (rd_dependency_result_digests d))),
      (''tool_catalog_digest'', JStr (rd_tool_catalog_digest d)), (''policy_digest'', JStr (rd_policy_digest d)),
      (''skill_set_digest'', JStr (rd_skill_set_digest d))]"

lemma result_canonical_fields: "result_canonical_json d = dumps (JObj (document_fields d))"
  by (simp add: result_canonical_json_def document_fields_def)

lemma json_strings_map: "json_strings (map JStr xs) = Some xs"
  by (induction xs) simp_all

lemma json_string_pairs_map: "json_string_pairs (map (\<lambda>(k, v). (k, JStr v)) kvs) = Some kvs"
  by (induction kvs) auto

lemma insort_key_map_fst: "insort_key fst (k, JStr v) (map (\<lambda>(k, v). (k, JStr v)) kvs) = map (\<lambda>(k, v). (k, JStr v)) (insort_key fst (k, v) kvs)"
  by (induction kvs) auto

lemma sort_key_map_fst: "sort_key fst (map (\<lambda>(k, v). (k, JStr v)) kvs) = map (\<lambda>(k, v). (k, JStr v)) (sort_key fst kvs)"
  by (induction kvs) (auto simp: insort_key_map_fst)

lemma sort_keys_strings:
  "sort_keys (JArr (map JStr xs)) = JArr (map JStr xs)"
  "sort_keys (JObj (map (\<lambda>(k, v). (k, JStr v)) kvs)) = JObj (map (\<lambda>(k, v). (k, JStr v)) (sort_key fst kvs))"
proof -
  have m: "map (\<lambda>kv. (fst kv, sort_keys (snd kv))) (map (\<lambda>(k, v). (k, JStr v)) kvs) = map (\<lambda>(k, v). (k, JStr v)) kvs"
    by (auto simp: case_prod_beta)
  have "sort_key fst (map (\<lambda>(k, v). (k, JStr v)) kvs) = map (\<lambda>(k, v). (k, JStr v)) (sort_key fst kvs)"
    by (rule sort_key_map_fst)
  then show "sort_keys (JObj (map (\<lambda>(k, v). (k, JStr v)) kvs)) = JObj (map (\<lambda>(k, v). (k, JStr v)) (sort_key fst kvs))"
    unfolding sort_keys.simps m by simp
qed (simp add: comp_def)

lemma document_fields_sorted:
  "sort_keys (JObj (document_fields d)) = JObj (sort_key fst (document_fields (sorted_document d)))"
proof -
  have "map (\<lambda>kv. (fst kv, sort_keys (snd kv))) (document_fields d) = document_fields (sorted_document d)"
    by (simp add: document_fields_def sorted_document_def sort_keys_strings del: sort_key_simps sort_keys.simps(1,2))
  then show ?thesis unfolding sort_keys.simps by simp
qed

lemma document_fields_distinct: "distinct (map fst (document_fields d))"
  unfolding document_fields_def by simp

lemma result_document_sorted_ok: "result_document_ok d \<Longrightarrow> result_document_ok (sorted_document d)"
  by (simp add: result_document_ok_def sorted_document_def list_all_iff distinct_sort_key del: sort_key_simps)

lemma document_fields_json_ok: "result_document_ok d \<Longrightarrow> json_ok (JObj (document_fields d))"
  by (auto simp: document_fields_def result_document_ok_def comp_def case_prod_beta)

lemma validate_result_document_fields:
  assumes "result_document_ok d" "map_of kvs = map_of (document_fields d)" "set kvs = set (document_fields d)"
  shows "validate_result_document kvs = Some d"
proof -
  have "base_payload RESULT_DOCUMENT_FIELDS kvs = Some ()"
    unfolding base_payload_def list_all_iff get_lit_def assms(2,3) by (simp add: document_fields_def RESULT_DOCUMENT_FIELDS_def)
  then show ?thesis
    using assms(1) unfolding validate_result_document_def get_str_def get_int_def assms(2)
    by (simp add: document_fields_def json_strings_map json_string_pairs_map check_def Let_def) (simp add: result_document_ok_def)
qed

text \<open>What was written is read back; only the order of the dependency digests, a \<open>dict\<close>, may differ.\<close>

lemma parse_canonical_result:
  assumes "result_document_ok d"
  shows "parse_result_document (result_canonical_json d) = Some (sorted_document d)"
proof -
  have "loads (result_canonical_json d) = Some (JObj (sort_key fst (document_fields (sorted_document d))))"
    unfolding result_canonical_fields loads_dumps[OF document_fields_json_ok[OF assms]] document_fields_sorted ..
  then show ?thesis
    using validate_result_document_fields[OF result_document_sorted_ok[OF assms],
        of "sort_key fst (document_fields (sorted_document d))"]
    by (simp add: parse_result_document_def map_of_sort_key document_fields_distinct del: sort_key_simps)
qed

lemma sort_key_sorted: "sorted (map f xs) \<Longrightarrow> sort_key f xs = xs"
  by (induction xs) (simp_all add: insort_is_Cons)

lemma sorted_document_digest [simp]: "result_digest (sorted_document d) = result_digest d"
proof -
  have "sorted_document (sorted_document d) = sorted_document d"
    by (simp add: sorted_document_def sort_key_sorted del: sort_key_simps)
  then show ?thesis unfolding result_digest_def result_canonical_fields dumps_def document_fields_sorted by simp
qed

lemma if_cases: "(if b then P else Q) \<Longrightarrow> Q \<or> P"
  by (cases b) simp_all

lemma hex_plain: "is_hex c \<or> c = CHR ''-'' \<Longrightarrow> 32 \<le> (of_char c :: nat) \<and> of_char c \<le> (126::nat)"
  by (auto simp: is_hex_def)

lemma hex_or_dash_plain:
  assumes "strict_uuid_field s"
  shows "plain_ascii s"
  unfolding plain_ascii_def
proof
  fix c assume "c \<in> set s"
  then obtain i where i: "i < length s" "c = s ! i" by (auto simp: in_set_conv_nth)
  have u: "length s = 36" "\<forall>i < 36. if i \<in> {8, 13, 18, 23} then s ! i = CHR ''-'' else is_hex (s ! i)"
    using assms unfolding strict_uuid_field_def uuid_pattern_def by simp_all
  have "if i \<in> {8, 13, 18, 23} then s ! i = CHR ''-'' else is_hex (s ! i)" using u(2)[rule_format, of i] i(1) unfolding u(1) .
  then have "is_hex c \<or> c = CHR ''-''" unfolding i(2) by (rule if_cases)
  then show "32 \<le> (of_char c :: nat) \<and> of_char c \<le> (126::nat)" by (rule hex_plain)
qed

lemma result_metadata_readable:
  assumes "result_document_ok d"
  shows "\<exists>m. load_metadata (dump_metadata (result_metadata d)) = Inr m \<and> map_of m = map_of (result_metadata d)"
proof -
  let ?m = "sort_key fst (result_metadata d)"
  have s: "sort_keys (JObj (result_metadata d)) = JObj ?m" by (simp add: result_metadata_def)
  have m: "?m = [(''plan_id'', JStr (rd_plan_id d)), (''schema_version'', JInt 1), (''step_run_id'', JStr (rd_step_run_id d))]"
    by (simp add: result_metadata_def)
  have keys: "plain_ascii ''plan_id''" "plain_ascii ''schema_version''" "plain_ascii ''step_run_id''" by code_simp+
  have "dump_metadata (result_metadata d) = print_json (JObj ?m)"
    using assms keys unfolding dump_metadata_def s m
    by (simp add: print_ascii_plain hex_or_dash_plain result_document_ok_def)
  moreover have "loads (print_json (JObj ?m)) = Some (JObj ?m)" by (rule loads_print) (simp add: m del: sort_key_simps)
  moreover have "print_json (JObj ?m) \<noteq> []" by simp
  ultimately have "load_metadata (dump_metadata (result_metadata d)) = Inr ?m"
    unfolding load_metadata_def by (simp only: if_False option.case json.case)
  moreover have "map_of ?m = map_of (result_metadata d)" by (rule map_of_sort_key) (simp add: result_metadata_def)
  ultimately show ?thesis by blast
qed

end
