(* ===== verification/Plan_Service.thy ===== *)
theory Plan_Service
  imports Plan_Results
begin

text \<open>
  \<open>planner/generator.py\<close> and \<open>planner/service.py\<close>: generating a plan with a language model, storing it together with
  a waiting run, deciding on it, and replacing it after a failed step. One definition per transaction; the
  \<open>j\<close>-th repository call of a transaction reads the clock \<open>clk j\<close> and draws its identifiers from \<open>uuids j\<close>.
  The model's answers are a parameter, as is the substitution \<open>sanitize_plan_text\<close> makes in a text.
\<close>

section \<open>Configuration\<close>

record planning_env =
  pn_settings :: settings
  pn_planning :: planning_settings
  pn_secret_key :: "string \<Rightarrow> bool"
  pn_secret_value :: "string \<Rightarrow> bool"
  pn_sanitize :: "string \<Rightarrow> string"

definition pn_validate :: "planning_env \<Rightarrow> plan_draft \<Rightarrow> exc + validated_plan" where
  "pn_validate env draft = validate_plan_draft (pn_secret_key env) (pn_secret_value env) draft
     (pset_max_steps (pn_planning env)) (pset_max_dependency_depth (pn_planning env))
     (pset_max_step_attempts (pn_planning env)) MAX_PLAN_CONTENT_BYTES"

definition pn_get :: "planning_env \<Rightarrow> plan_db \<Rightarrow> tenant_context \<Rightarrow> string \<Rightarrow> exc + plan_snapshot option" where
  "pn_get env = get_plan (pn_secret_key env) (pn_secret_value env)"

definition round_budget :: "planning_env \<Rightarrow> int" where
  "round_budget env = pset_max_steps (pn_planning env) * pset_max_step_attempts (pn_planning env) *
     s_max_tool_rounds (pn_settings env)"

section \<open>The generator\<close>

text \<open>
  An answer of the model router: a provider failure, an answer that cannot be parsed, or a list of tool calls
  with their arguments; the arguments are \<open>None\<close> when they do not have the shape of a \<open>PlanDraft\<close>.
\<close>

datatype generator_response =
    Provider_error
  | Unparsable
  | Tool_calls "(string \<times> plan_draft option) list"

definition validated_response ::
    "planning_env \<Rightarrow> generator_response \<Rightarrow> string \<Rightarrow> exc + validated_plan" where
  "validated_response env response safe_objective =
     (case response of
        Tool_calls [(name, args)] \<Rightarrow>
          rbind (ensure (name = ''submit_plan'') (PlanValidationError ''invalid structured response'')) (\<lambda>_.
          rbind (need args (PlanValidationError ''ValidationError'')) (\<lambda>draft.
          rbind (ensure (plan_draft_ok draft) (PlanValidationError ''ValidationError'')) (\<lambda>_.
            pn_validate env (draft\<lparr>pd_objective := safe_objective\<rparr>))))
      | _ \<Rightarrow> Inl (PlanValidationError ''invalid structured response''))"

definition is_validation_error :: "exc \<Rightarrow> bool" where
  "is_validation_error e \<longleftrightarrow> (case e of PlanValidationError _ \<Rightarrow> True | _ \<Rightarrow> False)"

text \<open>
  One attempt: reserve a round, ask, validate. A response that fails validation is answered with a repair message
  and asked for once more. The reservation is a transaction of its own: what it wrote stays when the
  generation fails.
\<close>

definition generate_attempt ::
    "planning_env \<Rightarrow> (nat \<Rightarrow> generator_response) \<Rightarrow> (nat \<Rightarrow> plan_db \<Rightarrow> exc + plan_db) option \<Rightarrow> string \<Rightarrow> nat \<Rightarrow> plan_db \<Rightarrow>
     (exc + validated_plan option) \<times> plan_db" where
  "generate_attempt env router reserve safe_objective attempt db =
     (case (case reserve of None \<Rightarrow> Inr db | Some r \<Rightarrow> r attempt db) of
        Inl e \<Rightarrow> (Inl e, db)
      | Inr db' \<Rightarrow>
          (case router attempt of
             Provider_error \<Rightarrow> (Inl (PlanGenerationError ''plan generation unavailable''), db')
           | response \<Rightarrow>
               (case validated_response env response safe_objective of
                  Inr v \<Rightarrow> (Inr (Some v), db')
                | Inl e \<Rightarrow> if is_validation_error e then (Inr None, db') else (Inl e, db'))))"

definition generate_plan ::
    "planning_env \<Rightarrow> (nat \<Rightarrow> generator_response) option \<Rightarrow> (nat \<Rightarrow> plan_db \<Rightarrow> exc + plan_db) option \<Rightarrow> string \<Rightarrow> plan_db \<Rightarrow>
     (exc + validated_plan) \<times> plan_db" where
  "generate_plan env router reserve objective db =
     (case router of None \<Rightarrow> (Inl (PlanGenerationError ''plan generation unavailable''), db)
      | Some ask \<Rightarrow>
          let safe_objective = pn_sanitize env objective in
          if py_strip safe_objective = [] \<or> py_len safe_objective > 16000
          then (Inl (PlanGenerationError ''invalid planning objective''), db)
          else case generate_attempt env ask reserve safe_objective 0 db of
            (Inl e, db1) \<Rightarrow> (Inl e, db1)
          | (Inr (Some v), db1) \<Rightarrow> (Inr v, db1)
          | (Inr None, db1) \<Rightarrow>
              (case generate_attempt env ask reserve safe_objective 1 db1 of
                 (Inl e, db2) \<Rightarrow> (Inl e, db2)
               | (Inr (Some v), db2) \<Rightarrow> (Inr v, db2)
               | (Inr None, db2) \<Rightarrow> (Inl (PlanGenerationError ''two invalid structured responses''), db2)))"

text \<open>\<open>_draft\<close> of a validated plan: the same fields without the ordinals.\<close>

definition draft_from_generated :: "validated_plan \<Rightarrow> plan_draft" where
  "draft_from_generated v =
     \<lparr>pd_objective = vp_objective v, pd_constraints = vp_constraints v, pd_generation_reason = vp_generation_reason v,
      pd_steps = map (\<lambda>st. \<lparr>d_key = d_key st, d_title = d_title st, d_description = d_description st,
        d_expected_outcome = d_expected_outcome st, d_depends_on = d_depends_on st, d_max_attempts = d_max_attempts st\<rparr>) (vp_steps v)\<rparr>"

section \<open>References\<close>

record plan_reference =
  pf_tenant_id :: string
  pf_workspace_id :: string
  pf_session_id :: string
  pf_run_id :: string
  pf_plan_id :: string
  pf_plan_version :: int
  pf_aggregate_version :: int

definition plan_reference_ok :: "plan_reference \<Rightarrow> bool" where
  "plan_reference_ok f \<longleftrightarrow> len_between 1 36 (pf_tenant_id f) \<and> len_between 1 36 (pf_workspace_id f) \<and>
     strict_uuid_field (pf_plan_id f) \<and> 1 \<le> pf_plan_version f \<and> uuid_field (pf_run_id f) \<and>
     1 \<le> pf_aggregate_version f \<and> len_between 1 36 (pf_session_id f)"

definition plan_reference_of :: "plan_snapshot \<Rightarrow> tenant_context \<Rightarrow> exc + plan_reference" where
  "plan_reference_of snap ctx =
     rbind (need (session_id ctx) AssertionError) (\<lambda>s.
     rbind (need (run_id ctx) AssertionError) (\<lambda>r.
     let f = \<lparr>pf_tenant_id = tenant_id ctx, pf_workspace_id = workspace_id ctx, pf_session_id = s, pf_run_id = r,
       pf_plan_id = sn_plan_id snap, pf_plan_version = sn_current_version snap,
       pf_aggregate_version = sn_aggregate_version snap\<rparr> in
     rbind (ensure (plan_reference_ok f) (ValueError ''PlanReference'')) (\<lambda>_. Inr f)))"

definition reference_json :: "plan_reference \<Rightarrow> json" where
  "reference_json f = JObj
     [(''schema_version'', JInt 1), (''tenant_id'', JStr (pf_tenant_id f)), (''workspace_id'', JStr (pf_workspace_id f)),
      (''plan_id'', JStr (pf_plan_id f)), (''plan_version'', JInt (pf_plan_version f)), (''run_id'', JStr (pf_run_id f)),
      (''aggregate_version'', JInt (pf_aggregate_version f)), (''session_id'', JStr (pf_session_id f))]"

section \<open>The first version of a plan\<close>

record initial_plan_request =
  ip_context :: tenant_context
  ip_runtime_instance_id :: string
  ip_source_message_id :: string
  ip_assistant_turn_index :: int
  ip_trigger_mode :: plan_trigger_mode
  ip_draft :: plan_draft

record plan_materialization =
  pm_plan :: plan_snapshot
  pm_reference :: plan_reference
  pm_reference_message_id :: string
  pm_run :: run_record

definition persist_reference ::
    "clock \<Rightarrow> string \<Rightarrow> plan_db \<Rightarrow> tenant_context \<Rightarrow> int \<Rightarrow> plan_reference \<Rightarrow> exc + memory_entry \<times> plan_db" where
  "persist_reference clk uuid db ctx turn f =
     save_memory clk db ctx \<lparr>me_id = uuid, me_content = [], me_type = ''chat_message'', me_session_id = None,
       me_role = ''assistant'', me_turn_index = turn, me_created_at = clk 0,
       me_metadata = [(''parts'', JArr [JObj [(''type'', JStr ''data-plan-created''), (''data'', reference_json f)]])]\<rparr>"

definition materialize_initial ::
    "(nat \<Rightarrow> clock) \<Rightarrow> (nat \<Rightarrow> nat \<Rightarrow> string) \<Rightarrow> planning_env \<Rightarrow> plan_db \<Rightarrow> initial_plan_request \<Rightarrow>
     exc + plan_materialization \<times> plan_db" where
  "materialize_initial clk uuids env db rq =
     (let ctx = ip_context rq in
      rbind (ensure (session_id ctx \<noteq> None \<and> run_id ctx \<noteq> None)
        (ValueError ''initial Plan materialization requires session and run scope'')) (\<lambda>_.
      rbind (pn_validate env (ip_draft rq)) (\<lambda>_.
      rbind (for_context ctx ctx) (\<lambda>_.
      rbind (create_plan (pn_secret_key env) (pn_secret_value env) (clk 0) (uuids 0) (pn_planning env) db ctx
        (uuids 1 0) (ip_source_message_id rq) (ip_trigger_mode rq) (ip_draft rq)) (\<lambda>(plan, db1).
      rbind (start_plan_run_with_checkpoint (clk 1) (pn_settings env) (wf db1) ctx (ip_runtime_instance_id rq)
        (sn_plan_id plan) (sn_current_version plan) (ve_content_digest (sn_current plan)) (uuids 2 0)) (\<lambda>(_, w).
      let db2 = db1\<lparr>wf := w\<rparr> in
      rbind (plan_reference_of plan ctx) (\<lambda>f.
      rbind (persist_reference (clk 2) (uuids 3 0) db2 ctx (ip_assistant_turn_index rq) f) (\<lambda>(message, db3).
      rbind (get_run (wf db3) ctx) (\<lambda>run.
      rbind (need run (RuntimeError ''Plan run missing after materialization'')) (\<lambda>run.
        Inr (\<lparr>pm_plan = plan, pm_reference = f, pm_reference_message_id = me_id message, pm_run = run\<rparr>, db3)))))))))))"

section \<open>A new version after a failed step\<close>

record failure_revision =
  fr_plan :: plan_snapshot
  fr_run :: run_record
  fr_lease :: run_lease

text \<open>\<open>supersedes\<close>: the steps of the draft whose logical key the current version has.\<close>

definition superseded_steps :: "plan_version_record \<Rightarrow> plan_draft \<Rightarrow> (string \<times> string) list" where
  "superseded_steps v draft =
     concat (map (\<lambda>st. case List.find (\<lambda>s. sp_logical_step_key s = d_key st) (ve_steps v) of
        None \<Rightarrow> [] | Some prior \<Rightarrow> [(d_key st, sp_step_id prior)]) (pd_steps draft))"

definition failed_attempt_current ::
    "tenant_context \<Rightarrow> plan_snapshot \<Rightarrow> plan_step_run_record \<Rightarrow> plan_step_run_record \<Rightarrow> bool" where
  "failed_attempt_current ctx current given failed \<longleftrightarrow> at_step_run_id failed = at_step_run_id given \<and>
     at_run_id failed = at_run_id given \<and> at_plan_id failed = at_plan_id given \<and>
     at_plan_version failed = at_plan_version given \<and> at_step_id failed = at_step_id given \<and>
     at_status failed = at_status given \<and> at_run_id failed = fmt_opt (run_id ctx) \<and>
     at_plan_id failed = sn_plan_id current \<and> at_plan_version failed = sn_current_version current \<and>
     at_status failed = SR_FAILED_TERMINAL"

definition materialize_failure_revision ::
    "(nat \<Rightarrow> clock) \<Rightarrow> (nat \<Rightarrow> nat \<Rightarrow> string) \<Rightarrow> planning_env \<Rightarrow> plan_db \<Rightarrow> tenant_context \<Rightarrow> run_lease \<Rightarrow> plan_snapshot \<Rightarrow>
     plan_step_run_record \<Rightarrow> plan_draft \<Rightarrow> exc + failure_revision \<times> plan_db" where
  "materialize_failure_revision clk uuids env db ctx lease plan failed_step_run draft =
     (let blocked = PlanExecutionBlocked ''failure revision requires a current terminal step attempt'' in
      rbind (ensure (session_id ctx \<noteq> None \<and> run_id ctx \<noteq> None)
        (ValueError ''failure revision requires session and run scope'')) (\<lambda>_.
      rbind (ensure (l_context lease = ctx) (ValueError ''failure revision lease scope is stale'')) (\<lambda>_.
      rbind (lock_run_for_execution (clk 0 0) db ctx lease) (\<lambda>locked_run.
      rbind (pn_get env db ctx (sn_plan_id plan)) (\<lambda>found.
      rbind (need found (ValueError ''failure revision Plan changed'')) (\<lambda>current.
      rbind (ensure (sn_current_version current = sn_current_version plan \<and>
          sn_aggregate_version current = sn_aggregate_version plan \<and> r_plan_id locked_run = Some (sn_plan_id current) \<and>
          r_active_plan_version locked_run = Some (sn_current_version current))
        (ValueError ''failure revision Plan changed'')) (\<lambda>_.
      rbind (ensure (\<not> sn_current_version current - 1 \<ge> pset_max_revisions (pn_planning env))
        (PlanRevisionLimitError ''Plan revision limit exceeded'')) (\<lambda>_.
      rbind (need (step_run_by_id db ctx (fmt_opt (run_id ctx)) (at_step_run_id failed_step_run)) blocked) (\<lambda>failed.
      rbind (ensure (failed_attempt_current ctx current failed_step_run failed) blocked) (\<lambda>_.
      rbind (need (List.find (\<lambda>s. sp_step_id s = at_step_id failed) (ve_steps (sn_current current))) blocked) (\<lambda>failed_step.
      rbind (ensure (sp_logical_step_key failed_step \<in> set (map d_key (pd_steps draft)))
        (PlanGenerationError ''failed step must be retained or superseded'')) (\<lambda>_.
      rbind (append_version (pn_secret_key env) (pn_secret_value env) (clk 1) (uuids 0) (pn_planning env) db ctx
        (sn_plan_id current) (sn_aggregate_version current) draft (sn_current_version current)
        (Some (''failure:'' @ at_step_run_id failed)) (superseded_steps (sn_current current) draft)) (\<lambda>(revised, db1).
      rbind (transition_run (clk 2) (pn_settings env) (wf db1) lease R_AWAITING_USER) (\<lambda>(waiting, w1).
      let cursor = plan_decision_cursor (sn_plan_id revised) (sn_current_version revised) in
      rbind (checkpoint (clk 3) (pn_settings env) w1 waiting C_PLAN_AWAITING_APPROVAL (JObj
          [(''run_id'', JStr (fmt_opt (run_id ctx))), (''plan_id'', JStr (sn_plan_id revised)),
           (''plan_version'', JInt (sn_current_version revised)),
           (''plan_digest'', JStr (ve_content_digest (sn_current revised))),
           (''decision_cursor'', JStr cursor), (''cursor'', JStr cursor)])
        (uuids 1 0) None (Some (get_next_checkpoint_seq w1 ctx)) None None None None) (\<lambda>(_, w2).
      rbind (get_run w2 ctx) (\<lambda>run.
      rbind (need run (RuntimeError ''failure revision run is missing'')) (\<lambda>run.
        Inr (\<lparr>fr_plan = revised, fr_run = run, fr_lease = waiting\<rparr>, db1\<lparr>wf := w2\<rparr>))))))))))))))))))"

section \<open>Decisions\<close>

record plan_decision_outcome =
  pd_snapshot :: plan_snapshot
  pd_decision :: plan_decision_record
  pd_run :: run_record
  pd_lease :: "run_lease option"
  pd_idempotent_replay :: bool

definition normalize_decision_request :: "planning_env \<Rightarrow> plan_decision_request \<Rightarrow> plan_decision_request" where
  "normalize_decision_request env rq =
     (case rq_feedback rq of None \<Rightarrow> rq | Some text \<Rightarrow> rq\<lparr>rq_feedback := Some (pn_sanitize env text)\<rparr>)"

text \<open>The tenant is the user who decides; the located context names a session and no run.\<close>

definition read_decision_state ::
    "planning_env \<Rightarrow> plan_db \<Rightarrow> plan_decision_request \<Rightarrow> string \<Rightarrow>
     exc + tenant_context \<times> plan_snapshot \<times> run_record \<times> plan_decision_mutation_result option" where
  "read_decision_state env db rq decided_by =
     rbind (locate_context db decided_by (rq_plan_id rq)) (\<lambda>ctx.
     rbind (replay_decision (pn_secret_key env) (pn_secret_value env) db ctx rq decided_by) (\<lambda>replay.
     rbind (case replay of Some r \<Rightarrow> Inr (Some (mr_snapshot r)) | None \<Rightarrow> pn_get env db ctx (rq_plan_id rq)) (\<lambda>found.
     rbind (need found (PlanNotFoundError ''Plan not found'')) (\<lambda>snap.
     rbind (get_plan_run (wf db) ctx (rq_plan_id rq)) (\<lambda>run.
     rbind (need run (PlanNotFoundError ''Plan not found'')) (\<lambda>run.
       Inr (ctx, snap, run, replay)))))))"

definition need_plan_run :: "plan_db \<Rightarrow> tenant_context \<Rightarrow> string \<Rightarrow> exc + run_record" where
  "need_plan_run db ctx pid =
     rbind (get_plan_run (wf db) ctx pid) (\<lambda>run. need run (PlanNotFoundError ''Plan not found''))"

definition resolve_decision ::
    "(nat \<Rightarrow> clock) \<Rightarrow> (nat \<Rightarrow> nat \<Rightarrow> string) \<Rightarrow> planning_env \<Rightarrow> plan_db \<Rightarrow> tenant_context \<Rightarrow> plan_decision_request \<Rightarrow>
     string \<Rightarrow> string \<Rightarrow> exc + plan_decision_outcome \<times> plan_db" where
  "resolve_decision clk uuids env db ctx rq decided_by rid =
     rbind (for_context ctx ctx) (\<lambda>_.
     rbind (record_decision (pn_secret_key env) (pn_secret_value env) (clk 0) db ctx [] rq decided_by) (\<lambda>(m, db1).
     rbind (need_plan_run db1 ctx (rq_plan_id rq)) (\<lambda>run.
     if mr_idempotent_replay m
     then Inr (\<lparr>pd_snapshot = mr_snapshot m, pd_decision = mr_decision m, pd_run = run, pd_lease = None,
       pd_idempotent_replay = True\<rparr>, db1)
     else
       rbind (if rq_action rq = D_APPROVE
              then rbind (co_resume_waiting_plan_run (clk 1) (pn_settings env) (wf db1) (rr_context run) rid (rq_plan_id rq)
                (rq_plan_version rq) (rr_version run)) (\<lambda>(l, w). Inr (Some l, w))
              else rbind (co_cancel_waiting_plan_run (clk 1) (pn_settings env) (wf db1) (rr_context run) rid (rq_plan_id rq)
                (rq_plan_version rq) (rr_version run) (uuids 0 0)) (\<lambda>(_, w). Inr (None, w))) (\<lambda>(lease, w).
       rbind (get_run w (rr_context run)) (\<lambda>after.
       rbind (need after (PlanNotFoundError ''Plan not found'')) (\<lambda>after.
         Inr (\<lparr>pd_snapshot = mr_snapshot m, pd_decision = mr_decision m, pd_run = after, pd_lease = lease,
           pd_idempotent_replay = False\<rparr>, db1\<lparr>wf := w\<rparr>)))))))"

text \<open>The round that a revision reserves before each request of the generator, in a transaction of its own.\<close>

definition reserve_revision_round ::
    "(nat \<Rightarrow> clock) \<Rightarrow> (nat \<Rightarrow> string) \<Rightarrow> planning_env \<Rightarrow> tenant_context \<Rightarrow> string \<Rightarrow> nat \<Rightarrow> plan_db \<Rightarrow> exc + plan_db" where
  "reserve_revision_round clk uuids env ctx pid attempt db =
     (case (session_id ctx, run_id ctx) of
        (Some _, Some r) \<Rightarrow>
          rbind (reserve_round_unit (clk attempt) (uuids attempt) db ctx r pid ''revision_generation'' (round_budget env) None)
            (\<lambda>(_, db'). Inr db')
      | _ \<Rightarrow> Inl (ValueError ''revision requires session and run scope''))"

text \<open>The transaction that stores the revised version; the claim of the decision lives only inside it.\<close>

definition store_revision ::
    "(nat \<Rightarrow> clock) \<Rightarrow> (nat \<Rightarrow> nat \<Rightarrow> string) \<Rightarrow> planning_env \<Rightarrow> plan_db \<Rightarrow> tenant_context \<Rightarrow> plan_decision_request \<Rightarrow>
     string \<Rightarrow> string \<Rightarrow> plan_draft \<Rightarrow> exc + plan_decision_outcome \<times> plan_db" where
  "store_revision clk uuids env db ctx rq decided_by rid draft =
     (let pid = rq_plan_id rq; missing = PlanNotFoundError ''Plan not found'' in
      rbind (for_context ctx ctx) (\<lambda>_.
      rbind (begin_revision_decision (pn_secret_key env) (pn_secret_value env) (clk 0) db ctx [] rq decided_by)
        (\<lambda>(claim, claims, db1).
      if de_resulting_plan_version claim \<noteq> None then
        rbind (replay_decision (pn_secret_key env) (pn_secret_value env) db1 ctx rq decided_by) (\<lambda>replay.
        rbind (need replay (RuntimeError ''completed revision decision could not be replayed'')) (\<lambda>replay.
        rbind (need_plan_run db1 ctx pid) (\<lambda>run.
        rbind (require_no_unfinished_revisions claims) (\<lambda>_.
          Inr (\<lparr>pd_snapshot = mr_snapshot replay, pd_decision = mr_decision replay, pd_run = run, pd_lease = None,
            pd_idempotent_replay = True\<rparr>, db1)))))
      else
        rbind (pn_get env db1 ctx pid) (\<lambda>found.
        rbind (need found missing) (\<lambda>current.
        rbind (ensure (\<not> sn_current_version current - 1 \<ge> pset_max_revisions (pn_planning env))
          (PlanRevisionLimitError ''Plan revision limit exceeded'')) (\<lambda>_.
        rbind (append_version (pn_secret_key env) (pn_secret_value env) (clk 1) (uuids 0) (pn_planning env) db1 ctx pid
          (rq_expected_version rq) draft (rq_plan_version rq) (rq_feedback rq)
          (superseded_steps (sn_current current) draft)) (\<lambda>(revised, db2).
        rbind (need_plan_run db2 ctx pid) (\<lambda>run.
        rbind (co_fence_waiting_plan_run (clk 2) (pn_settings env) (wf db2) (rr_context run) rid pid
          (sn_current_version revised) (rr_version run) (ve_content_digest (sn_current revised)) (uuids 1 0)) (\<lambda>(_, w).
        let db3 = db2\<lparr>wf := w\<rparr> in
        rbind (finish_revision_decision (pn_secret_key env) (pn_secret_value env) db3 ctx claims pid (rq_decision_id rq)
          (sn_current_version revised)) (\<lambda>(decision, claims', db4).
        rbind (pn_get env db4 ctx pid) (\<lambda>persisted.
        rbind (need persisted missing) (\<lambda>persisted.
        rbind (need_plan_run db4 ctx pid) (\<lambda>run'.
        rbind (require_no_unfinished_revisions claims') (\<lambda>_.
          Inr (\<lparr>pd_snapshot = persisted, pd_decision = decision, pd_run = run', pd_lease = None,
            pd_idempotent_replay = False\<rparr>, db4)))))))))))))))"

text \<open>
  A revision: generate, validate, store. The text of the prompt is not modelled. \<open>clks\<close> and \<open>ids\<close> serve the reservations, \<open>clk\<close> and \<open>uuids\<close> the final
  transaction.
\<close>

definition revise_plan ::
    "(nat \<Rightarrow> clock) \<Rightarrow> (nat \<Rightarrow> string) \<Rightarrow> (nat \<Rightarrow> clock) \<Rightarrow> (nat \<Rightarrow> nat \<Rightarrow> string) \<Rightarrow> planning_env \<Rightarrow>
     (nat \<Rightarrow> generator_response) option option \<Rightarrow> plan_db \<Rightarrow> tenant_context \<Rightarrow> plan_snapshot \<Rightarrow> plan_decision_request \<Rightarrow>
     string \<Rightarrow> string \<Rightarrow> (exc + plan_decision_outcome) \<times> plan_db" where
  "revise_plan clks ids clk uuids env generator db ctx snap rq decided_by rid =
     (case generator of None \<Rightarrow> (Inl (RuntimeError ''Plan generator is required for revision''), db)
      | Some router \<Rightarrow>
          case generate_plan env router (Some (reserve_revision_round clks ids env ctx (sn_plan_id snap)))
              (ve_objective (sn_current snap)) db of
            (Inl e, db1) \<Rightarrow> (Inl e, db1)
          | (Inr v, db1) \<Rightarrow>
              (case rbind (pn_validate env (draft_from_generated v)) (\<lambda>_. store_revision clk uuids env db1 ctx rq decided_by rid (draft_from_generated v)) of
                 Inl e \<Rightarrow> (Inl e, db1)
               | Inr (r, db2) \<Rightarrow> (Inr r, db2)))"

definition decide ::
    "(nat \<Rightarrow> clock) \<Rightarrow> (nat \<Rightarrow> string) \<Rightarrow> (nat \<Rightarrow> clock) \<Rightarrow> (nat \<Rightarrow> nat \<Rightarrow> string) \<Rightarrow> planning_env \<Rightarrow>
     (nat \<Rightarrow> generator_response) option option \<Rightarrow> plan_db \<Rightarrow> plan_decision_request \<Rightarrow> string \<Rightarrow> string \<Rightarrow>
     (exc + plan_decision_outcome) \<times> plan_db" where
  "decide clks ids clk uuids env generator db raw decided_by rid =
     (let rq = normalize_decision_request env raw in
      case read_decision_state env db rq decided_by of
        Inl e \<Rightarrow> (Inl e, db)
      | Inr (ctx, snap, run, Some replay) \<Rightarrow>
          (Inr \<lparr>pd_snapshot = mr_snapshot replay, pd_decision = mr_decision replay, pd_run = run, pd_lease = None,
             pd_idempotent_replay = True\<rparr>, db)
      | Inr (ctx, snap, run, None) \<Rightarrow>
          if rq_action rq = D_REVISE then revise_plan clks ids clk uuids env generator db ctx snap rq decided_by rid
          else case resolve_decision clk uuids env db ctx rq decided_by rid of
            Inl e \<Rightarrow> (Inl e, db) | Inr (r, db') \<Rightarrow> (Inr r, db'))"

end
