(* ===== verification/Plan_Execution.thy ===== *)
theory Plan_Execution
  imports Plan_Service
begin

text \<open>
  The database side of \<open>PlanExecutionCoordinator\<close> in \<open>planner/execution.py\<close>: choosing the next step, verifying the
  stored results of earlier steps, starting, finishing, reusing and resuming attempts, the final summary
  and the cancellation boundary. Each definition that writes is one transaction, with the readings of the
  database clock as \<open>clk\<close> and fresh identifiers as \<open>uuids\<close>.
\<close>

section \<open>What the coordinator is configured with\<close>

text \<open>
  The settings, the patterns of the secret detectors, and what the step runner contributes to the digests of a
  result: its tool schemas, the governance settings and the sorted names of its active skills.
\<close>

record execution_env =
  ee_settings :: settings
  ee_planning :: planning_settings
  ee_secret_key :: "string \<Rightarrow> bool"
  ee_secret_value :: "string \<Rightarrow> bool"
  ee_redact_key :: "string \<Rightarrow> bool"
  ee_redact_text :: "string \<Rightarrow> string"
  ee_sanitize :: "string \<Rightarrow> string"
  ee_tools :: json
  ee_policy :: json
  ee_skills :: "string list"

definition planning_of :: "execution_env \<Rightarrow> planning_env" where
  "planning_of env = \<lparr>pn_settings = ee_settings env, pn_planning = ee_planning env, pn_secret_key = ee_secret_key env,
     pn_secret_value = ee_secret_value env, pn_sanitize = ee_sanitize env\<rparr>"

definition tool_digest :: "execution_env \<Rightarrow> string" where
  "tool_digest env = canonical_digest (ee_redact_key env) (ee_redact_text env) (ee_tools env)"

definition policy_digest :: "execution_env \<Rightarrow> string" where
  "policy_digest env = canonical_digest (ee_redact_key env) (ee_redact_text env) (ee_policy env)"

definition skill_digest :: "execution_env \<Rightarrow> string" where
  "skill_digest env = canonical_digest (ee_redact_key env) (ee_redact_text env) (JArr (map JStr (ee_skills env)))"

record ready_plan_step =
  rp_plan :: plan_snapshot
  rp_step :: plan_step_record
  rp_prior_attempts :: "plan_step_run_record list"
  rp_dependency_results :: "plan_step_result_document list"

record started_plan_step =
  st_plan :: plan_snapshot
  st_step :: plan_step_record
  st_step_run :: plan_step_run_record
  st_dependency_results :: "plan_step_result_document list"

record dependency_reuse_proof =
  px_new_step :: plan_step_record
  px_reused_run :: plan_step_run_record
  px_source_step :: plan_step_record
  px_source_run :: plan_step_run_record
  px_source_result :: plan_step_result_document

section \<open>Reuse\<close>

text \<open>The document of a succeeded, not itself reused attempt of a step in the run.\<close>

definition original_result ::
    "string \<Rightarrow> plan_step_record \<Rightarrow> plan_step_run_record \<Rightarrow> plan_step_result_document \<Rightarrow> bool" where
  "original_result run step attempt doc \<longleftrightarrow> at_run_id attempt = run \<and> at_step_id attempt = sp_step_id step \<and>
     at_status attempt = SR_SUCCEEDED \<and> at_reused_from_step_run_id attempt = None \<and>
     rd_plan_id doc = at_plan_id attempt \<and> rd_plan_version doc = at_plan_version attempt \<and> rd_run_id doc = run \<and>
     rd_step_id doc = sp_step_id step \<and> rd_step_run_id doc = at_step_run_id attempt \<and> rd_attempt doc = at_attempt attempt \<and>
     rd_status doc = ''succeeded'' \<and> rd_definition_digest doc = sp_definition_digest step \<and>
     at_result_summary attempt = Some (rd_summary doc) \<and> at_result_ref attempt \<noteq> None"

definition supersedes_unchanged :: "plan_step_record \<Rightarrow> plan_step_record \<Rightarrow> bool" where
  "supersedes_unchanged new old \<longleftrightarrow> sp_supersedes_step_id new = Some (sp_step_id old) \<and>
     sp_definition_digest new = sp_definition_digest old"

definition dependency_proof_ok :: "string \<Rightarrow> string \<Rightarrow> dependency_reuse_proof \<Rightarrow> bool" where
  "dependency_proof_ok run expected px \<longleftrightarrow> supersedes_unchanged (px_new_step px) (px_source_step px) \<and>
     original_result run (px_source_step px) (px_source_run px) (px_source_result px) \<and>
     at_result_digest (px_source_run px) = Some expected \<and> result_digest (px_source_result px) = expected \<and>
     at_plan_id (px_reused_run px) = at_plan_id (px_source_run px) \<and> at_run_id (px_reused_run px) = run \<and>
     at_step_id (px_reused_run px) = sp_step_id (px_new_step px) \<and>
     at_reused_from_step_run_id (px_reused_run px) = Some (at_step_run_id (px_source_run px)) \<and>
     at_status (px_reused_run px) = SR_SUCCEEDED \<and> at_result_ref (px_reused_run px) = at_result_ref (px_source_run px) \<and>
     at_result_digest (px_reused_run px) = Some expected \<and>
     at_result_summary (px_reused_run px) = Some (rd_summary (px_source_result px))"

definition can_reuse_result ::
    "string \<Rightarrow> plan_step_record \<Rightarrow> plan_step_record option \<Rightarrow> plan_step_run_record option \<Rightarrow>
     plan_step_result_document option \<Rightarrow> string list \<Rightarrow> (string \<times> dependency_reuse_proof) list \<Rightarrow>
     string option \<Rightarrow> string option \<Rightarrow> string option \<Rightarrow> bool" where
  "can_reuse_result run new_step source_step source_run source_result new_dependency_ids proofs tools policy skills =
     (case (source_step, source_run, source_result, tools, policy, skills) of
        (Some step, Some attempt, Some doc, Some tool_d, Some policy_d, Some skill_d) \<Rightarrow>
          supersedes_unchanged new_step step \<and> original_result run step attempt doc \<and>
          at_result_digest attempt = Some (result_digest doc) \<and>
          rd_tool_catalog_digest doc = tool_d \<and> rd_policy_digest doc = policy_d \<and> rd_skill_set_digest doc = skill_d \<and>
          fst ` set (rd_dependency_result_digests doc) = fst ` set proofs \<and>
          set (map (\<lambda>(_, px). sp_step_id (px_new_step px)) proofs) = set new_dependency_ids \<and>
          list_all (\<lambda>(k, px). case map_of (rd_dependency_result_digests doc) k of
              None \<Rightarrow> False | Some expected \<Rightarrow> dependency_proof_ok run expected px) proofs
      | _ \<Rightarrow> False)"

section \<open>The next step\<close>

definition ordered_steps :: "plan_version_record \<Rightarrow> plan_step_record list" where
  "ordered_steps v = sort_key (\<lambda>s. (sp_ordinal s, sp_step_id s)) (ve_steps v)"

definition choose_ready_step ::
    "plan_version_record \<Rightarrow> (string \<times> plan_step_run_record) list \<Rightarrow> plan_step_record option" where
  "choose_ready_step v latest =
     List.find (\<lambda>s. is_plan_step_ready (sp_step_id s) (dependencies_of (ve_dependencies v) (sp_step_id s)) latest)
       (ordered_steps v)"

definition step_succeeded :: "(string \<times> plan_step_run_record) list \<Rightarrow> string \<Rightarrow> bool" where
  "step_succeeded latest i \<longleftrightarrow> (case map_of latest i of None \<Rightarrow> False | Some a \<Rightarrow> at_status a = SR_SUCCEEDED)"

definition all_steps_succeeded :: "plan_snapshot \<Rightarrow> (string \<times> plan_step_run_record) list \<Rightarrow> bool" where
  "all_steps_succeeded plan latest \<longleftrightarrow> list_all (\<lambda>s. step_succeeded latest (sp_step_id s)) (ve_steps (sn_current plan))"

definition require_run_context :: "tenant_context \<Rightarrow> exc + unit" where
  "require_run_context ctx =
     ensure (session_id ctx \<noteq> None \<and> run_id ctx \<noteq> None) (ValueError ''Plan execution requires session and run scope'')"

definition require_executable_run :: "run_record \<Rightarrow> exc + unit" where
  "require_executable_run run =
     ensure (is_plan_run_executable (rr_status run) (rr_cancel_requested_at run))
       (PlanExecutionBlocked ''Plan execution run is not executable'')"

definition load_executable_plan :: "execution_env \<Rightarrow> plan_db \<Rightarrow> tenant_context \<Rightarrow> exc + plan_snapshot" where
  "load_executable_plan env db ctx =
     (let blocked = PlanExecutionBlocked ''Plan execution requires an approved current active version'' in
      rbind (get_run (wf db) ctx) (\<lambda>found.
      rbind (need found blocked) (\<lambda>run.
      rbind (require_executable_run run) (\<lambda>_.
      rbind (need (rr_plan_id run) blocked) (\<lambda>pid.
      rbind (get_plan (ee_secret_key env) (ee_secret_value env) db ctx pid) (\<lambda>plan.
      rbind (need plan blocked) (\<lambda>plan.
      rbind (ensure (\<not> (sn_status plan \<noteq> P_APPROVED \<or> sn_approved_version plan = None \<or>
          Some (sn_current_version plan) \<noteq> sn_approved_version plan \<or>
          rr_active_plan_version run \<noteq> Some (sn_current_version plan))) blocked) (\<lambda>_.
        Inr plan))))))))"

section \<open>Verified results\<close>

text \<open>The attempt and the step whose document a succeeded attempt refers to: its own, or those it was reused from.\<close>

definition result_source ::
    "plan_db \<Rightarrow> tenant_context \<Rightarrow> plan_snapshot \<Rightarrow> plan_step_record \<Rightarrow> plan_step_run_record \<Rightarrow>
     exc + plan_step_run_record \<times> plan_step_record" where
  "result_source db ctx plan step attempt =
     (let inconsistent = PlanExecutionBlocked ''Plan reused result lineage is inconsistent'';
          run = fmt_opt (run_id ctx) in
      case at_reused_from_step_run_id attempt of
        None \<Rightarrow> Inr (attempt, step)
      | Some i \<Rightarrow>
          rbind (need (step_run_by_id db ctx run i) inconsistent) (\<lambda>source.
          rbind (ensure (at_reused_from_step_run_id source = None \<and> at_plan_id source = sn_plan_id plan \<and>
              at_run_id source = run \<and> at_status source = SR_SUCCEEDED \<and> at_result_ref source = at_result_ref attempt \<and>
              at_result_digest source = at_result_digest attempt \<and>
              at_result_summary source = at_result_summary attempt) inconsistent) (\<lambda>_.
          rbind (need (Option.bind (List.find (\<lambda>v. ve_plan_version v = at_plan_version source) (sn_versions plan))
              (\<lambda>v. List.find (\<lambda>s. sp_step_id s = at_step_id source) (ve_steps v))) inconsistent) (\<lambda>source_step.
          rbind (ensure (supersedes_unchanged step source_step) inconsistent) (\<lambda>_.
            Inr (source, source_step))))))"

text \<open>The document of an attempt, read from memory and compared with the attempt and the step it belongs to.\<close>

definition stored_result ::
    "plan_db \<Rightarrow> tenant_context \<Rightarrow> plan_snapshot \<Rightarrow> plan_step_run_record \<Rightarrow> plan_step_run_record \<Rightarrow> plan_step_record \<Rightarrow>
     string \<Rightarrow> exc + plan_step_result_document" where
  "stored_result db ctx plan attempt source source_step entry_id =
     rbind (get_memory db ctx entry_id (session_id ctx)) (\<lambda>entry.
     rbind (need entry (PlanExecutionBlocked ''Plan result document is unavailable'')) (\<lambda>entry.
     rbind (ensure (result_entry_ok entry (sn_plan_id plan) (at_step_run_id source))
       (PlanExecutionBlocked ''Plan result document is unavailable'')) (\<lambda>_.
     rbind (ensure (\<not> length (me_content entry) > MAX_PLAN_STEP_RESULT_BYTES)
       (PlanExecutionBlocked ''Plan result document exceeds 262144 bytes'')) (\<lambda>_.
     rbind (need (parse_result_document (me_content entry))
       (PlanExecutionBlocked ''Plan result document is invalid'')) (\<lambda>doc.
     rbind (ensure (rd_plan_id doc = sn_plan_id plan \<and> rd_plan_version doc = at_plan_version source \<and>
         Some (rd_run_id doc) = run_id ctx \<and> rd_step_id doc = sp_step_id source_step \<and>
         rd_step_run_id doc = at_step_run_id source \<and> rd_attempt doc = at_attempt source \<and>
         rd_status doc = ''succeeded'' \<and> rd_definition_digest doc = sp_definition_digest source_step \<and>
         Some (result_digest doc) = at_result_digest attempt \<and> Some (rd_summary doc) = at_result_summary attempt)
       (PlanExecutionBlocked ''Plan result document is inconsistent'')) (\<lambda>_.
       Inr doc))))))"

text \<open>The digests the dependencies have now, by logical key.\<close>

fun expected_dependency_digests ::
    "plan_snapshot \<Rightarrow> (string \<times> plan_step_run_record) list \<Rightarrow> plan_step_run_record \<Rightarrow> string list \<Rightarrow>
     (string \<times> string) list \<Rightarrow> exc + (string \<times> string) list" where
  "expected_dependency_digests plan latest attempt [] acc = Inr acc"
| "expected_dependency_digests plan latest attempt (i # is) acc =
     rbind (need (map_of latest i) KeyError) (\<lambda>dependency.
     rbind (need (at_result_digest dependency) (PlanExecutionBlocked ''Plan dependency result proof is inconsistent'')) (\<lambda>digest.
     rbind (need (List.find (\<lambda>s. sp_step_id s = i) (ve_steps (sn_current plan))) KeyError) (\<lambda>step.
     rbind (ensure (\<not> (at_reused_from_step_run_id attempt \<noteq> None \<and> at_reused_from_step_run_id dependency = None))
       (PlanExecutionBlocked ''Plan reused dependency lineage is inconsistent'')) (\<lambda>_.
       expected_dependency_digests plan latest attempt is (dict_set acc (sp_logical_step_key step) digest)))))"

definition verified_result ::
    "plan_db \<Rightarrow> tenant_context \<Rightarrow> plan_snapshot \<Rightarrow> (string \<times> plan_step_run_record) list \<Rightarrow>
     (string \<times> plan_step_result_document) list \<Rightarrow> plan_step_record \<Rightarrow> plan_step_run_record \<Rightarrow> exc + plan_step_result_document" where
  "verified_result db ctx plan latest documents step attempt =
     rbind (ensure (at_result_digest attempt \<noteq> None \<and> at_result_summary attempt \<noteq> None)
       (PlanExecutionBlocked ''Plan succeeded step result is incomplete'')) (\<lambda>_.
     rbind (need (at_result_ref attempt) (PlanExecutionBlocked ''Plan succeeded step result is incomplete'')) (\<lambda>ref.
     rbind (need (parse_result_ref ref) (PlanExecutionBlocked ''Plan succeeded step result reference is invalid'')) (\<lambda>entry_id.
     rbind (result_source db ctx plan step attempt) (\<lambda>(source, source_step).
     rbind (stored_result db ctx plan attempt source source_step entry_id) (\<lambda>doc.
     let dependency_ids = dependencies_of (ve_dependencies (sn_current plan)) (sp_step_id step) in
     rbind (ensure (list_all (\<lambda>i. map_of documents i \<noteq> None) dependency_ids)
       (PlanExecutionBlocked ''Plan dependency result proof is inconsistent'')) (\<lambda>_.
     rbind (expected_dependency_digests plan latest attempt dependency_ids []) (\<lambda>expected.
     rbind (ensure (set (rd_dependency_result_digests doc) = set expected)
       (PlanExecutionBlocked ''Plan dependency result proof is inconsistent'')) (\<lambda>_.
       Inr doc))))))))"

fun load_results ::
    "plan_db \<Rightarrow> tenant_context \<Rightarrow> plan_snapshot \<Rightarrow> (string \<times> plan_step_run_record) list \<Rightarrow> plan_step_record list \<Rightarrow>
     (string \<times> plan_step_result_document) list \<Rightarrow> exc + (string \<times> plan_step_result_document) list" where
  "load_results db ctx plan latest [] documents = Inr documents"
| "load_results db ctx plan latest (step # steps) documents =
     (case map_of latest (sp_step_id step) of
        None \<Rightarrow> load_results db ctx plan latest steps documents
      | Some attempt \<Rightarrow>
          if at_status attempt \<noteq> SR_SUCCEEDED then load_results db ctx plan latest steps documents
          else rbind (verified_result db ctx plan latest documents step attempt) (\<lambda>doc.
            load_results db ctx plan latest steps (dict_set documents (sp_step_id step) doc)))"

definition load_succeeded_results ::
    "plan_db \<Rightarrow> tenant_context \<Rightarrow> plan_snapshot \<Rightarrow> (string \<times> plan_step_run_record) list \<Rightarrow>
     exc + (string \<times> plan_step_result_document) list" where
  "load_succeeded_results db ctx plan latest =
     rbind (ensure (\<not> list_ex (\<lambda>(i, a). at_status a = SR_SUCCEEDED \<and>
         i \<notin> set (map sp_step_id (ve_steps (sn_current plan)))) latest)
       (PlanExecutionBlocked ''Plan succeeded step result is inconsistent'')) (\<lambda>_.
       load_results db ctx plan latest (ordered_steps (sn_current plan)) [])"

text \<open>\<open>tuple(verified_results[i] for i in ...)\<close>.\<close>

definition results_of ::
    "(string \<times> plan_step_result_document) list \<Rightarrow> string list \<Rightarrow> exc + plan_step_result_document list" where
  "results_of documents is = map_rows (\<lambda>i. need (map_of documents i) KeyError) is"

definition run_latest_attempts ::
    "plan_db \<Rightarrow> tenant_context \<Rightarrow> plan_snapshot \<Rightarrow> exc + (string \<times> plan_step_run_record) list" where
  "run_latest_attempts db ctx plan =
     latest_step_attempts db ctx (sn_plan_id plan) (sn_current_version plan) (fmt_opt (run_id ctx))"

definition pec_select_next :: "execution_env \<Rightarrow> plan_db \<Rightarrow> tenant_context \<Rightarrow> exc + ready_plan_step option" where
  "pec_select_next env db ctx =
     rbind (load_executable_plan env db ctx) (\<lambda>plan.
     rbind (run_latest_attempts db ctx plan) (\<lambda>latest.
     rbind (ensure (\<not> list_ex (\<lambda>(_, a). at_status a = SR_RUNNING) latest)
       (PlanStepAlreadyRunningError ''Plan run already has a running step attempt'')) (\<lambda>_.
     rbind (ensure (\<not> list_ex (\<lambda>(_, a). at_status a \<in> set TERMINAL_PLAN_STEP_STATUSES) latest)
       (PlanExecutionBlocked ''Plan execution is blocked by a failed dependency or terminal step'')) (\<lambda>_.
     rbind (load_succeeded_results db ctx plan latest) (\<lambda>verified.
     case choose_ready_step (sn_current plan) latest of
       None \<Rightarrow>
         if all_steps_succeeded plan latest then Inr None
         else Inl (PlanExecutionBlocked ''Plan execution is blocked by a failed dependency'')
     | Some step \<Rightarrow>
         rbind (results_of verified (dependencies_of (ve_dependencies (sn_current plan)) (sp_step_id step))) (\<lambda>results.
         rbind (step_attempts db ctx (sn_plan_id plan) (sn_current_version plan) (fmt_opt (run_id ctx)) (sp_step_id step)) (\<lambda>prior.
           Inr (Some \<lparr>rp_plan = plan, rp_step = step, rp_prior_attempts = prior, rp_dependency_results = results\<rparr>))))))))"

definition select_next ::
    "int \<Rightarrow> execution_env \<Rightarrow> plan_db \<Rightarrow> tenant_context \<Rightarrow> run_lease option \<Rightarrow> exc + ready_plan_step option" where
  "select_next now env db ctx lease =
     rbind (require_run_context ctx) (\<lambda>_.
     rbind (case lease of None \<Rightarrow> Inr ()
       | Some l \<Rightarrow>
           rbind (ensure (l_context l = ctx) (StaleFenceError ''run lease scope is stale'')) (\<lambda>_.
           rbind (pr_has_current_lease now db ctx l) (\<lambda>current.
             ensure current (StaleFenceError ''run lease is stale'')))) (\<lambda>_.
       pec_select_next env db ctx))"

section \<open>Starting the next attempt\<close>

definition plan_step_json :: "tenant_context \<Rightarrow> plan_snapshot \<Rightarrow> string \<Rightarrow> plan_step_run_record \<Rightarrow> string \<Rightarrow> json" where
  "plan_step_json ctx plan step_id attempt cursor = JObj
     [(''run_id'', opt_json (run_id ctx)), (''plan_id'', JStr (sn_plan_id plan)), (''plan_version'', JInt (sn_current_version plan)),
      (''plan_digest'', JStr (ve_content_digest (sn_current plan))), (''step_id'', JStr step_id),
      (''step_run_id'', JStr (at_step_run_id attempt)), (''attempt'', JInt (at_attempt attempt)),
      (''execution_cursor'', JStr cursor), (''cursor'', JStr cursor)]"

text \<open>A checkpoint of the workflow coordinator inside a transaction on the plan tables.\<close>

definition plan_checkpoint ::
    "clock \<Rightarrow> execution_env \<Rightarrow> plan_db \<Rightarrow> run_lease \<Rightarrow> checkpoint_phase \<Rightarrow> json \<Rightarrow> string \<Rightarrow> exc + plan_db" where
  "plan_checkpoint clk env db lease phase payload uuid =
     rbind (checkpoint clk (ee_settings env) (wf db) lease phase payload uuid None None None None None None) (\<lambda>(_, w).
       Inr (db\<lparr>wf := w\<rparr>))"

definition start_next_attempt ::
    "clock \<Rightarrow> (nat \<Rightarrow> string) \<Rightarrow> execution_env \<Rightarrow> plan_db \<Rightarrow> tenant_context \<Rightarrow> run_lease \<Rightarrow>
     exc + started_plan_step option \<times> plan_db" where
  "start_next_attempt clk uuids env db ctx lease =
     rbind (require_run_context ctx) (\<lambda>_.
     rbind (ensure (l_context lease = ctx) (StaleFenceError ''run lease scope is stale'')) (\<lambda>_.
     rbind (lock_run_for_execution (clk 0) db ctx lease) (\<lambda>_.
     rbind (pec_select_next env db ctx) (\<lambda>found.
     case found of
       None \<Rightarrow> Inr (None, db)
     | Some ready \<Rightarrow>
         rbind (create_step_attempt (shift 1 clk) (ee_planning env) db ctx (uuids 0) lease (sn_plan_id (rp_plan ready))
           (sn_current_version (rp_plan ready)) (sp_step_id (rp_step ready))) (\<lambda>(step_run, db1).
         rbind (plan_checkpoint (shift 4 clk) env db1 lease C_PLAN_STEP_READY
           (plan_step_json ctx (rp_plan ready) (sp_step_id (rp_step ready)) step_run ''dispatch_step'') (uuids 1)) (\<lambda>db2.
           Inr (Some \<lparr>st_plan = rp_plan ready, st_step = rp_step ready, st_step_run = step_run,
             st_dependency_results = rp_dependency_results ready\<rparr>, db2)))))))"

section \<open>Reusing results of an earlier version\<close>

definition reuse_document ::
    "plan_db \<Rightarrow> tenant_context \<Rightarrow> plan_step_run_record option \<Rightarrow> plan_step_record \<Rightarrow> exc + plan_step_result_document option" where
  "reuse_document db ctx attempt step =
     (case attempt of None \<Rightarrow> Inr None
      | Some a \<Rightarrow>
          if at_status a \<noteq> SR_SUCCEEDED \<or> at_result_digest a = None \<or> at_result_summary a = None then Inr None
          else case Option.bind (at_result_ref a) parse_result_ref of None \<Rightarrow> Inr None
            | Some entry_id \<Rightarrow>
                rbind (get_memory db ctx entry_id (session_id ctx)) (\<lambda>entry.
                  Inr (case entry of None \<Rightarrow> None
                    | Some e \<Rightarrow>
                        if \<not> result_entry_ok e (at_plan_id a) (at_step_run_id a) \<or>
                           length (me_content e) > MAX_PLAN_STEP_RESULT_BYTES then None
                        else case parse_result_document (me_content e) of None \<Rightarrow> None
                          | Some doc \<Rightarrow>
                              if rd_plan_id doc = at_plan_id a \<and> rd_plan_version doc = at_plan_version a \<and>
                                 rd_run_id doc = at_run_id a \<and> rd_step_id doc = at_step_id a \<and>
                                 rd_step_run_id doc = at_step_run_id a \<and> rd_attempt doc = at_attempt a \<and>
                                 rd_status doc = ''succeeded'' \<and> rd_definition_digest doc = sp_definition_digest step \<and>
                                 Some (result_digest doc) = at_result_digest a \<and> Some (rd_summary doc) = at_result_summary a
                              then Some doc else None)))"

text \<open>\<open>all_steps\<close>: every step of every version, with its version.\<close>

definition plan_steps_by_id :: "plan_snapshot \<Rightarrow> (string \<times> int \<times> plan_step_record) list" where
  "plan_steps_by_id plan =
     foldl (\<lambda>d (v, s). dict_set d (sp_step_id s) (ve_plan_version v, s)) []
       (concat (map (\<lambda>v. map (\<lambda>s. (v, s)) (ve_steps v)) (sn_versions plan)))"

text \<open>
  The proofs for the dependencies of a step; \<open>None\<close> when one of them has none. The loop runs over a set, whose
  order decides only which missing proof ends it.
\<close>

fun dependency_proofs ::
    "plan_db \<Rightarrow> tenant_context \<Rightarrow> plan_snapshot \<Rightarrow> (string \<times> plan_step_run_record) list \<Rightarrow> string list \<Rightarrow>
     (string \<times> dependency_reuse_proof) list \<Rightarrow> exc + (string \<times> dependency_reuse_proof) list option" where
  "dependency_proofs db ctx plan current_latest [] acc = Inr (Some acc)"
| "dependency_proofs db ctx plan current_latest (i # is) acc =
     (case map_of current_latest i of None \<Rightarrow> Inr None
      | Some reused \<Rightarrow>
          (case Option.bind (at_reused_from_step_run_id reused) (step_run_by_id db ctx (fmt_opt (run_id ctx))) of None \<Rightarrow> Inr None
           | Some source \<Rightarrow>
               (case map_of (plan_steps_by_id plan) (at_step_id source) of None \<Rightarrow> Inr None
                | Some (_, source_step) \<Rightarrow>
                    rbind (reuse_document db ctx (Some source) source_step) (\<lambda>doc.
                    case doc of None \<Rightarrow> Inr None
                    | Some d \<Rightarrow>
                        rbind (need (List.find (\<lambda>s. sp_step_id s = i) (ve_steps (sn_current plan)))
                          (RuntimeError ''coroutine raised StopIteration'')) (\<lambda>new_step.
                          dependency_proofs db ctx plan current_latest is
                            (dict_set acc (sp_logical_step_key new_step)
                              \<lparr>px_new_step = new_step, px_reused_run = reused, px_source_step = source_step,
                               px_source_run = source, px_source_result = d\<rparr>))))))"

text \<open>The attempt a step may be recorded as a reuse of.\<close>

definition reusable_source ::
    "execution_env \<Rightarrow> plan_db \<Rightarrow> tenant_context \<Rightarrow> plan_snapshot \<Rightarrow> (string \<times> plan_step_run_record) list \<Rightarrow>
     plan_step_record \<Rightarrow> exc + plan_step_run_record option" where
  "reusable_source env db ctx plan current_latest step =
     (if map_of current_latest (sp_step_id step) \<noteq> None then Inr None
      else case Option.bind (sp_supersedes_step_id step) (map_of (plan_steps_by_id plan)) of None \<Rightarrow> Inr None
        | Some (source_version, source_step) \<Rightarrow>
            rbind (latest_step_attempts db ctx (sn_plan_id plan) source_version (fmt_opt (run_id ctx))) (\<lambda>source_latest.
            let source_run = map_of source_latest (sp_step_id source_step) in
            rbind (reuse_document db ctx source_run source_step) (\<lambda>source_result.
            case (source_run, source_result) of
              (Some attempt, Some doc) \<Rightarrow>
                (let dependency_ids = dependencies_of (ve_dependencies (sn_current plan)) (sp_step_id step) in
                 rbind (dependency_proofs db ctx plan current_latest dependency_ids []) (\<lambda>proofs.
                 case proofs of None \<Rightarrow> Inr None
                 | Some pxs \<Rightarrow>
                     Inr (if can_reuse_result (fmt_opt (run_id ctx)) step (Some source_step) (Some attempt) (Some doc)
                            dependency_ids pxs (Some (tool_digest env)) (Some (policy_digest env)) (Some (skill_digest env))
                          then Some attempt else None)))
            | _ \<Rightarrow> Inr None)))"

fun reuse_steps ::
    "nat \<Rightarrow> clock \<Rightarrow> (nat \<Rightarrow> string) \<Rightarrow> execution_env \<Rightarrow> tenant_context \<Rightarrow> run_lease \<Rightarrow> plan_snapshot \<Rightarrow>
     plan_step_record list \<Rightarrow> plan_db \<Rightarrow> (string \<times> plan_step_run_record) list \<Rightarrow> plan_step_run_record list \<Rightarrow>
     exc + plan_step_run_record list \<times> plan_db" where
  "reuse_steps n clk uuids env ctx lease plan [] db current_latest created = Inr (created, db)"
| "reuse_steps n clk uuids env ctx lease plan (step # steps) db current_latest created =
     rbind (reusable_source env db ctx plan current_latest step) (\<lambda>source.
     case source of
       None \<Rightarrow> reuse_steps n clk uuids env ctx lease plan steps db current_latest created
     | Some attempt \<Rightarrow>
         rbind (create_reused_step_attempt (shift (3 * n) clk) (ee_planning env) db ctx (uuids n) lease (sn_plan_id plan)
           (sn_current_version plan) (sp_step_id step) (at_step_run_id attempt)) (\<lambda>(reused, db').
           reuse_steps (Suc n) clk uuids env ctx lease plan steps db'
             (dict_set current_latest (sp_step_id step) reused) (created @ [reused])))"

definition apply_compatible_reuse ::
    "clock \<Rightarrow> (nat \<Rightarrow> string) \<Rightarrow> execution_env \<Rightarrow> plan_db \<Rightarrow> tenant_context \<Rightarrow> run_lease \<Rightarrow>
     exc + plan_step_run_record list \<times> plan_db" where
  "apply_compatible_reuse clk uuids env db ctx lease =
     rbind (lock_run_for_execution (clk 0) db ctx lease) (\<lambda>_.
     rbind (load_executable_plan env db ctx) (\<lambda>plan.
     rbind (run_latest_attempts db ctx plan) (\<lambda>latest.
       reuse_steps 0 (shift 1 clk) uuids env ctx lease plan (ordered_steps (sn_current plan)) db latest [])))"

section \<open>Resuming and finishing an attempt\<close>

definition resume_running_attempt ::
    "clock \<Rightarrow> execution_env \<Rightarrow> plan_db \<Rightarrow> tenant_context \<Rightarrow> run_lease \<Rightarrow> exc + started_plan_step" where
  "resume_running_attempt clk env db ctx lease =
     (let inconsistent = PlanExecutionBlocked ''Plan recovery running step attempt is inconsistent'' in
      rbind (require_run_context ctx) (\<lambda>_.
      rbind (ensure (l_context lease = ctx) (StaleFenceError ''run lease scope is stale'')) (\<lambda>_.
      rbind (lock_run_for_execution (clk 0) db ctx lease) (\<lambda>_.
      rbind (load_executable_plan env db ctx) (\<lambda>plan.
      rbind (running_step_attempts db ctx (fmt_opt (run_id ctx))) (\<lambda>running.
      case running of
        [attempt] \<Rightarrow>
          rbind (need (List.find (\<lambda>s. sp_step_id s = at_step_id attempt) (ve_steps (sn_current plan))) inconsistent) (\<lambda>step.
          rbind (ensure (at_plan_id attempt = sn_plan_id plan \<and> at_plan_version attempt = sn_current_version plan \<and>
            Some (at_run_id attempt) = run_id ctx) inconsistent) (\<lambda>_.
          rbind (run_latest_attempts db ctx plan) (\<lambda>latest.
          rbind (ensure (case map_of latest (at_step_id attempt) of None \<Rightarrow> False
              | Some current \<Rightarrow> at_step_run_id current = at_step_run_id attempt \<and> at_status current = SR_RUNNING \<and>
                  \<not> list_ex (\<lambda>(_, a). at_status a \<in> set TERMINAL_PLAN_STEP_STATUSES) latest) inconsistent) (\<lambda>_.
          rbind (load_succeeded_results db ctx plan latest) (\<lambda>verified.
          let dependency_ids = dependencies_of (ve_dependencies (sn_current plan)) (at_step_id attempt) in
          rbind (ensure (list_all (\<lambda>i. map_of verified i \<noteq> None) dependency_ids)
            (PlanExecutionBlocked ''Plan recovery dependency result proof is inconsistent'')) (\<lambda>_.
          rbind (results_of verified dependency_ids) (\<lambda>results.
            Inr \<lparr>st_plan = plan, st_step = step, st_step_run = attempt, st_dependency_results = results\<rparr>)))))))
      | _ \<Rightarrow> Inl (PlanExecutionBlocked ''Plan recovery requires exactly one running step attempt'')))))))"

record plan_step_completion =
  pc_status :: string
  pc_summary :: string
  pc_evidence :: "string list"
  pc_retryable :: bool

definition target_status :: "planning_settings \<Rightarrow> started_plan_step \<Rightarrow> plan_step_completion \<Rightarrow> plan_step_run_status" where
  "target_status ps started completion =
     (if pc_status completion = ''succeeded'' then SR_SUCCEEDED
      else if pc_retryable completion \<and>
        at_attempt (st_step_run started) < min (sp_max_attempts (st_step started)) (pset_max_step_attempts ps)
      then SR_FAILED_RETRYABLE else SR_FAILED_TERMINAL)"

text \<open>The digests of the dependency results, by the logical key of their step.\<close>

fun dependency_result_digests ::
    "plan_snapshot \<Rightarrow> plan_step_result_document list \<Rightarrow> (string \<times> string) list \<Rightarrow> exc + (string \<times> string) list" where
  "dependency_result_digests plan [] acc = Inr acc"
| "dependency_result_digests plan (d # ds) acc =
     rbind (need (List.find (\<lambda>s. sp_step_id s = rd_step_id d) (ve_steps (sn_current plan))) KeyError) (\<lambda>step.
       dependency_result_digests plan ds (dict_set acc (sp_logical_step_key step) (result_digest d)))"

text \<open>A document that misses a field constraint is a \<open>ValidationError\<close>, a \<open>ValueError\<close>.\<close>

definition build_result_document ::
    "execution_env \<Rightarrow> tenant_context \<Rightarrow> started_plan_step \<Rightarrow> plan_step_completion \<Rightarrow> exc + plan_step_result_document" where
  "build_result_document env ctx started completion =
     rbind (dependency_result_digests (st_plan started) (st_dependency_results started) []) (\<lambda>digests.
     let doc = \<lparr>rd_plan_id = sn_plan_id (st_plan started), rd_plan_version = sn_current_version (st_plan started),
       rd_run_id = fmt_opt (run_id ctx), rd_step_id = sp_step_id (st_step started),
       rd_step_run_id = at_step_run_id (st_step_run started), rd_attempt = at_attempt (st_step_run started),
       rd_status = pc_status completion, rd_summary = ee_redact_text env (pc_summary completion),
       rd_evidence = map (ee_redact_text env) (pc_evidence completion),
       rd_definition_digest = sp_definition_digest (st_step started), rd_dependency_result_digests = digests,
       rd_tool_catalog_digest = tool_digest env, rd_policy_digest = policy_digest env, rd_skill_set_digest = skill_digest env\<rparr> in
     rbind (ensure (result_document_ok doc) (ValueError ''PlanStepResultDocument'')) (\<lambda>_. Inr doc))"

definition finalize_step_attempt ::
    "clock \<Rightarrow> (nat \<Rightarrow> string) \<Rightarrow> execution_env \<Rightarrow> plan_db \<Rightarrow> tenant_context \<Rightarrow> run_lease \<Rightarrow> started_plan_step \<Rightarrow>
     plan_step_run_status \<Rightarrow> plan_step_result_document \<Rightarrow> exc + unit \<times> plan_db" where
  "finalize_step_attempt clk uuids env db ctx lease started status doc =
     rbind (lock_run_for_execution (clk 0) db ctx lease) (\<lambda>_.
     rbind (persist_plan_step_result (shift 1 clk) (uuids 0) (clk 0) db ctx doc) (\<lambda>(persisted, db1).
     rbind (finish_step_attempt (shift 3 clk) db1 ctx lease (at_step_run_id (st_step_run started))
       (at_version (st_step_run started)) status doc (pp_result_ref persisted)
       (if status = SR_SUCCEEDED then None else Some (ee_redact_text env ''plan_step_failed''))
       (if status = SR_SUCCEEDED then None else Some (ee_redact_text env (rd_summary doc)))) (\<lambda>(finished, db2).
     rbind (plan_checkpoint (shift 5 clk) env db2 lease C_PLAN_STEP_READY
       (plan_step_json ctx (st_plan started) (sp_step_id (st_step started)) finished ''select_next'') (uuids 1)) (\<lambda>db3.
       Inr ((), db3)))))"

section \<open>The final summary\<close>

definition prepare_final_summary ::
    "clock \<Rightarrow> (nat \<Rightarrow> string) \<Rightarrow> execution_env \<Rightarrow> plan_db \<Rightarrow> tenant_context \<Rightarrow> run_lease \<Rightarrow>
     exc + (plan_snapshot \<times> (string \<times> string) list) \<times> plan_db" where
  "prepare_final_summary clk uuids env db ctx lease =
     rbind (lock_run_for_execution (clk 0) db ctx lease) (\<lambda>_.
     rbind (load_executable_plan env db ctx) (\<lambda>plan.
     rbind (run_latest_attempts db ctx plan) (\<lambda>latest.
     rbind (ensure (all_steps_succeeded plan latest) (PlanExecutionBlocked ''final-summary requires completed Plan steps'')) (\<lambda>_.
     let ordered = ordered_steps (sn_current plan) in
     rbind (need (if ordered = [] then None else Some (last ordered)) IndexError) (\<lambda>final_step.
     rbind (need (map_of latest (sp_step_id final_step)) KeyError) (\<lambda>final_attempt.
     rbind (plan_checkpoint (shift 1 clk) env db lease C_PLAN_STEP_READY
       (plan_step_json ctx plan (at_step_id final_attempt) final_attempt ''final_summary'') (uuids 0)) (\<lambda>db'.
     rbind (map_rows (\<lambda>s. rbind (need (map_of latest (sp_step_id s)) KeyError) (\<lambda>a.
         Inr (sp_logical_step_key s, case at_result_summary a of None \<Rightarrow> [] | Some text \<Rightarrow> text))) ordered) (\<lambda>summaries.
       Inr ((plan, summaries), db')))))))))"

text \<open>The transaction that stores the summary as a chat message and completes the run.\<close>

definition persist_final_summary ::
    "clock \<Rightarrow> (nat \<Rightarrow> string) \<Rightarrow> execution_env \<Rightarrow> plan_db \<Rightarrow> tenant_context \<Rightarrow> run_lease \<Rightarrow> string \<Rightarrow>
     exc + (plan_snapshot \<times> run_lease) \<times> plan_db" where
  "persist_final_summary clk uuids env db ctx lease content =
     rbind (lock_run_for_execution (clk 0) db ctx lease) (\<lambda>_.
     rbind (load_executable_plan env db ctx) (\<lambda>plan.
     rbind (run_latest_attempts db ctx plan) (\<lambda>latest.
     rbind (ensure (all_steps_succeeded plan latest) (PlanExecutionBlocked ''final-summary Plan changed before persistence'')) (\<lambda>_.
     rbind (recent_memory db ctx 1 (Some ''chat_message'')) (\<lambda>recent.
     let turn = (case recent of [] \<Rightarrow> 1 | e # _ \<Rightarrow> me_turn_index e + 1) in
     rbind (save_memory (shift 1 clk) db ctx (normalize_session_scope \<lparr>me_id = uuids 0, me_content = content,
         me_type = ''chat_message'', me_session_id = session_id ctx, me_role = ''assistant'', me_turn_index = turn,
         me_created_at = clk 0, me_metadata = [(''kind'', JStr ''plan_final_summary''),
           (''plan_id'', JStr (sn_plan_id plan)), (''run_id'', JStr (fmt_opt (run_id ctx)))]\<rparr>)) (\<lambda>(_, db1).
     rbind (finish_run_with_checkpoint (shift 3 clk) (ee_settings env) (wf db1) lease R_COMPLETED (uuids 1)) (\<lambda>(terminal, w).
       Inr ((plan, terminal), db1\<lparr>wf := w\<rparr>))))))))"

text \<open>\<open>payload.get("execution_cursor")\<close> on a payload that is not an object has no counterpart and is not modelled.\<close>

definition resume_waiting_summary_run ::
    "clock \<Rightarrow> execution_env \<Rightarrow> plan_db \<Rightarrow> tenant_context \<Rightarrow> string \<Rightarrow> exc + run_lease \<times> plan_db" where
  "resume_waiting_summary_run clk env db ctx rid =
     (let stale = StaleFenceError ''waiting final-summary run is stale'' in
      rbind (require_run_context ctx) (\<lambda>_.
      rbind (get_run (wf db) ctx) (\<lambda>found.
      rbind (need found stale) (\<lambda>run.
      rbind (ensure (rr_status run = R_AWAITING_USER) stale) (\<lambda>_.
      rbind (need (rr_plan_id run) stale) (\<lambda>pid.
      rbind (need (rr_active_plan_version run) stale) (\<lambda>ver.
      rbind (need (get_latest_checkpoint (wf db) ctx) (PlanExecutionBlocked ''final-summary checkpoint is unavailable'')) (\<lambda>c.
      rbind (need (loads (cr_payload_json c)) (PlanExecutionBlocked ''final-summary checkpoint is invalid'')) (\<lambda>payload.
      rbind (ensure (cr_phase c = checkpoint_phase_value C_PLAN_STEP_READY \<and>
          (case payload of JObj d \<Rightarrow> map_of d ''execution_cursor'' = Some (JStr ''final_summary'') | _ \<Rightarrow> False))
        (PlanExecutionBlocked ''run is not waiting for final summary'')) (\<lambda>_.
      rbind (lock_plan (ee_secret_key env) (ee_secret_value env) db ctx pid) (\<lambda>plan.
      rbind (ensure (sn_status plan = P_APPROVED \<and> sn_current_version plan = ver \<and> sn_approved_version plan = Some ver)
        (PlanExecutionBlocked ''final-summary Plan version is stale'')) (\<lambda>_.
      rbind (run_latest_attempts db ctx plan) (\<lambda>latest.
      rbind (ensure (all_steps_succeeded plan latest) (PlanExecutionBlocked ''final-summary requires completed Plan steps'')) (\<lambda>_.
      rbind (co_resume_waiting_plan_run clk (ee_settings env) (wf db) ctx rid (sn_plan_id plan) (sn_current_version plan)
        (rr_version run)) (\<lambda>(lease, w).
        Inr (lease, db\<lparr>wf := w\<rparr>))))))))))))))))"

section \<open>Cancellation and failure\<close>

text \<open>
  The transaction at the cancellation boundary: \<open>Inl\<close> of the result is the record of a run that was already cancelled, \<open>Inr\<close>
  the lease of the run this transaction ended.
\<close>

definition cancel_boundary ::
    "clock \<Rightarrow> (nat \<Rightarrow> string) \<Rightarrow> execution_env \<Rightarrow> plan_db \<Rightarrow> tenant_context \<Rightarrow> run_lease \<Rightarrow>
     exc + (run_record + run_lease) \<times> plan_db" where
  "cancel_boundary clk uuids env db ctx original =
     (let stale = StaleFenceError ''cancellation run lease is stale'';
          no_lease = PlanExecutionBlocked ''cancelled Plan run has no current lease'' in
      rbind (get_run (wf db) ctx) (\<lambda>found.
      rbind (need found no_lease) (\<lambda>current.
      if rr_status current = R_CANCELLED then Inr (Inl current, db)
      else
        rbind (need (rr_lease_owner current) no_lease) (\<lambda>owner.
        rbind (need (rr_lease_expires_at current) no_lease) (\<lambda>expires.
        rbind (ensure (rr_context current = ctx \<and> owner = l_owner original \<and> rr_fencing_token current = l_fencing_token original \<and>
            expires = l_expires_at original \<and> rr_version current \<in> {l_version original, l_version original + 1}) stale) (\<lambda>_.
        rbind (ensure (rr_cancel_requested_at current \<noteq> None \<and> rr_status current \<in> {R_RUNNING, R_RESUMING})
          (PlanExecutionBlocked ''Plan cancellation is no longer pending'')) (\<lambda>_.
        let lease = \<lparr>l_context = ctx, l_owner = owner, l_fencing_token = rr_fencing_token current,
          l_version = rr_version current, l_expires_at = expires\<rparr> in
        rbind (pr_has_current_lease (clk 0) db ctx lease) (\<lambda>live.
        rbind (ensure live stale) (\<lambda>_.
        rbind (running_step_attempts db ctx (fmt_opt (run_id ctx))) (\<lambda>running.
        rbind (case running of
            [] \<Rightarrow> Inr db
          | [attempt] \<Rightarrow> rbind (cancel_step_attempt (shift 1 clk) db ctx lease (at_step_run_id attempt) (at_version attempt))
              (\<lambda>(_, db1). Inr db1)
          | _ \<Rightarrow> Inl (PlanExecutionBlocked ''Plan run has multiple running step attempts'')) (\<lambda>db1.
        rbind (finish_run_with_checkpoint (shift 3 clk) (ee_settings env) (wf db1) lease R_CANCELLED (uuids 0)) (\<lambda>(terminal, w).
          Inr (Inr terminal, db1\<lparr>wf := w\<rparr>)))))))))))))"

definition step_attempt_by_id :: "plan_db \<Rightarrow> tenant_context \<Rightarrow> string \<Rightarrow> exc + plan_step_run_record" where
  "step_attempt_by_id db ctx i =
     need (step_run_by_id db ctx (fmt_opt (run_id ctx)) i) (PlanExecutionBlocked ''Plan failed step attempt is unavailable'')"

definition failure_digest :: "execution_env \<Rightarrow> plan_step_run_record \<Rightarrow> string" where
  "failure_digest env failed = canonical_digest (ee_redact_key env) (ee_redact_text env) (JObj
     [(''step_run_id'', JStr (at_step_run_id failed)), (''error_code'', opt_json (at_error_code failed)),
      (''error_detail_redacted'', opt_json (at_error_detail_redacted failed))])"

definition replan_json :: "execution_env \<Rightarrow> tenant_context \<Rightarrow> plan_snapshot \<Rightarrow> plan_step_run_record \<Rightarrow> json" where
  "replan_json env ctx plan failed = JObj
     [(''run_id'', JStr (fmt_opt (run_id ctx))), (''plan_id'', JStr (sn_plan_id plan)),
      (''plan_version'', JInt (sn_current_version plan)), (''plan_digest'', JStr (ve_content_digest (sn_current plan))),
      (''failed_step_run_id'', JStr (at_step_run_id failed)), (''failure_digest'', JStr (failure_digest env failed)),
      (''revision_cursor'', JStr ''generate_revision''), (''cursor'', JStr ''generate_revision'')]"

record completed_step_context =
  cs_logical_step_key :: string
  cs_summary :: string
  cs_result_digest :: string

text \<open>The completed steps a revision is told about; the rest of \<open>PlanRevisionContext\<close> copies the plan into the prompt.\<close>

definition revision_context ::
    "clock \<Rightarrow> execution_env \<Rightarrow> plan_db \<Rightarrow> tenant_context \<Rightarrow> run_lease \<Rightarrow> plan_snapshot \<Rightarrow> plan_step_record \<Rightarrow>
     plan_step_run_record \<Rightarrow> exc + completed_step_context list" where
  "revision_context clk env db ctx lease plan failed_step failed =
     (let inconsistent = PlanExecutionBlocked ''Plan revision failure is inconsistent'' in
      rbind (lock_run_for_execution (clk 0) db ctx lease) (\<lambda>_.
      rbind (get_plan (ee_secret_key env) (ee_secret_value env) db ctx (sn_plan_id plan)) (\<lambda>found.
      rbind (need found (PlanExecutionBlocked ''Plan revision context changed'')) (\<lambda>current.
      rbind (ensure (sn_current_version current = sn_current_version plan \<and>
          sn_aggregate_version current = sn_aggregate_version plan) (PlanExecutionBlocked ''Plan revision context changed'')) (\<lambda>_.
      rbind (need (List.find (\<lambda>s. sp_step_id s = at_step_id failed) (ve_steps (sn_current current))) inconsistent) (\<lambda>step.
      rbind (ensure (at_plan_id failed = sn_plan_id current \<and> at_plan_version failed = sn_current_version current \<and>
          at_run_id failed = fmt_opt (run_id ctx) \<and> sp_step_id step = sp_step_id failed_step \<and>
          at_status failed = SR_FAILED_TERMINAL) inconsistent) (\<lambda>_.
      rbind (run_latest_attempts db ctx current) (\<lambda>latest.
      rbind (load_succeeded_results db ctx current latest) (\<lambda>verified.
        Inr (concat (map (\<lambda>s. case map_of verified (sp_step_id s) of None \<Rightarrow> []
          | Some doc \<Rightarrow> [\<lparr>cs_logical_step_key = sp_logical_step_key s, cs_summary = ee_redact_text env (rd_summary doc),
              cs_result_digest = result_digest doc\<rparr>]) (ordered_steps (sn_current current)))))))))))))"

end
