(* ===== verification/Plan_Coordinator.thy ===== *)
theory Plan_Coordinator
  imports Plan_Execution
begin

text \<open>
  The control flow of \<open>PlanExecutionCoordinator\<close>: the loop that runs a plan to its next boundary, the boundaries
  themselves, and resuming after a crash. A coordinator runs next to its own heartbeat task and to other
  sessions, so it acts on a world: the database, the lease in its \<open>RunLeaseHandle\<close>, and a count of the
  transactions so far. Before each transaction the others act, as the parameter \<open>we_others\<close> says; the step
  runner, the model router and the plan generator are parameters too.
\<close>

section \<open>Acting on a shared world\<close>

record world =
  wd_time :: nat
  wd_db :: plan_db
  wd_lease :: run_lease

datatype continuation_state = CS_COMPLETED | CS_AWAITING_USER | CS_FAILED_TERMINAL

text \<open>What \<open>run_plan_step\<close> returns: a completion, a continuation outcome, or something else.\<close>

datatype step_answer =
    Completion plan_step_completion
  | Continuation continuation_state "string option"
  | Invalid_answer

record world_env =
  we_env :: execution_env
  we_others :: "nat \<Rightarrow> plan_db \<times> run_lease \<Rightarrow> plan_db \<times> run_lease"
  we_clock :: "nat \<Rightarrow> nat \<Rightarrow> clock"
  we_uuids :: "nat \<Rightarrow> nat \<Rightarrow> nat \<Rightarrow> string"
  we_runner :: "nat \<Rightarrow> started_plan_step \<Rightarrow> plan_db \<times> run_lease \<Rightarrow> (exc + step_answer) \<times> plan_db \<times> run_lease"
  we_summary :: "nat \<Rightarrow> exc + string"
  we_planning_service :: bool
  we_generator :: "nat \<Rightarrow> (nat \<Rightarrow> generator_response) option option"

type_synonym 'a act = "world \<Rightarrow> (exc + 'a) \<times> world"

definition areturn :: "'a \<Rightarrow> 'a act" where
  "areturn x w = (Inr x, w)"

definition araise :: "exc \<Rightarrow> 'a act" where
  "araise e w = (Inl e, w)"

definition abind :: "'a act \<Rightarrow> ('a \<Rightarrow> 'b act) \<Rightarrow> 'b act" where
  "abind m f w = (case m w of (Inl e, w') \<Rightarrow> (Inl e, w') | (Inr x, w') \<Rightarrow> f x w')"

text \<open>\<open>try ... except\<close>: the handler gets the exception and decides whether to raise it again.\<close>

definition acatch :: "'a act \<Rightarrow> (exc \<Rightarrow> 'a act) \<Rightarrow> 'a act" where
  "acatch m h w = (case m w of (Inl e, w') \<Rightarrow> h e w' | (Inr x, w') \<Rightarrow> (Inr x, w'))"

definition aensure :: "bool \<Rightarrow> exc \<Rightarrow> unit act" where
  "aensure b e = (if b then areturn () else araise e)"

definition aneed :: "'a option \<Rightarrow> exc \<Rightarrow> 'a act" where
  "aneed v e = (case v of None \<Rightarrow> araise e | Some x \<Rightarrow> areturn x)"

text \<open>
  A transaction: the others act, then it reads the clocks and identifiers of its turn. An exception rolls its own
  writes back. \<open>atxn_current\<close> hands the transaction the lease of the handle and holds the handle's lock
  meanwhile, as \<open>use_current\<close> and \<open>refresh\<close> do.
\<close>

definition meet_others :: "world_env \<Rightarrow> world \<Rightarrow> world" where
  "meet_others we w =
     (case we_others we (wd_time w) (wd_db w, wd_lease w) of
        (db, lease) \<Rightarrow> \<lparr>wd_time = Suc (wd_time w), wd_db = db, wd_lease = lease\<rparr>)"

definition atxn_current ::
    "world_env \<Rightarrow> (run_lease \<Rightarrow> (nat \<Rightarrow> clock) \<Rightarrow> (nat \<Rightarrow> nat \<Rightarrow> string) \<Rightarrow> plan_db \<Rightarrow> exc + 'a \<times> plan_db) \<Rightarrow> 'a act" where
  "atxn_current we f w =
     (let w1 = meet_others we w in
      case f (wd_lease w1) (we_clock we (wd_time w)) (we_uuids we (wd_time w)) (wd_db w1) of
        Inl e \<Rightarrow> (Inl e, w1)
      | Inr (x, db) \<Rightarrow> (Inr x, w1\<lparr>wd_db := db\<rparr>))"

definition atxn ::
    "world_env \<Rightarrow> ((nat \<Rightarrow> clock) \<Rightarrow> (nat \<Rightarrow> nat \<Rightarrow> string) \<Rightarrow> plan_db \<Rightarrow> exc + 'a \<times> plan_db) \<Rightarrow> 'a act" where
  "atxn we f = atxn_current we (\<lambda>_. f)"

definition aread :: "world_env \<Rightarrow> (plan_db \<Rightarrow> exc + 'a) \<Rightarrow> 'a act" where
  "aread we f = atxn we (\<lambda>_ _ db. rbind (f db) (\<lambda>x. Inr (x, db)))"

definition current_lease :: "run_lease act" where
  "current_lease w = (Inr (wd_lease w), w)"

definition replace_lease :: "run_lease \<Rightarrow> unit act" where
  "replace_lease lease w = (Inr (), w\<lparr>wd_lease := lease\<rparr>)"

text \<open>\<open>RunLeaseHandle.refresh\<close> with a transition of the run.\<close>

definition refresh_transition :: "world_env \<Rightarrow> run_status \<Rightarrow> unit act" where
  "refresh_transition we target =
     abind (atxn_current we (\<lambda>lease clk _ db.
       rbind (transition_run (clk 0) (ee_settings (we_env we)) (wf db) lease target) (\<lambda>(l, w). Inr (l, db\<lparr>wf := w\<rparr>)))) replace_lease"

section \<open>Reads\<close>

definition check_cancel :: "world_env \<Rightarrow> tenant_context \<Rightarrow> unit act" where
  "check_cancel we ctx = aread we (\<lambda>db. raise_if_cancel_requested (wf db) ctx)"

definition load_run :: "world_env \<Rightarrow> tenant_context \<Rightarrow> run_record act" where
  "load_run we ctx = aread we (\<lambda>db.
     rbind (get_run (wf db) ctx) (\<lambda>found. need found (PlanExecutionBlocked ''Plan execution run is unavailable'')))"

definition load_active_plan :: "world_env \<Rightarrow> tenant_context \<Rightarrow> plan_snapshot act" where
  "load_active_plan we ctx =
     abind (load_run we ctx) (\<lambda>run.
     abind (aneed (rr_plan_id run) (PlanExecutionBlocked ''Plan execution has no active Plan'')) (\<lambda>pid.
     aread we (\<lambda>db.
       rbind (get_plan (ee_secret_key (we_env we)) (ee_secret_value (we_env we)) db ctx pid) (\<lambda>plan.
         need plan (PlanExecutionBlocked ''Plan execution Plan is unavailable'')))))"

section \<open>Boundaries\<close>

datatype outcome_state = O_AWAITING_USER | O_COMPLETED | O_CANCELLED | O_FAILED_TERMINAL | O_REPLAN_REQUIRED

record execution_outcome =
  oc_state :: outcome_state
  oc_plan :: plan_snapshot
  oc_run :: run_record
  oc_content :: "string option"

definition outcome_of ::
    "world_env \<Rightarrow> tenant_context \<Rightarrow> outcome_state \<Rightarrow> plan_snapshot \<Rightarrow> string option \<Rightarrow> execution_outcome act" where
  "outcome_of we ctx state plan content =
     abind (load_run we ctx) (\<lambda>run.
       areturn \<lparr>oc_state = state, oc_plan = plan, oc_run = run, oc_content = content\<rparr>)"

text \<open>Publishing the \<open>plan.run_status\<close> event after the transaction is left out: it writes nothing.\<close>

definition cancel_at_boundary :: "world_env \<Rightarrow> tenant_context \<Rightarrow> execution_outcome act" where
  "cancel_at_boundary we ctx =
     abind current_lease (\<lambda>original.
     abind (aensure (l_context original = ctx) (StaleFenceError ''run lease scope is stale'')) (\<lambda>_.
     abind (atxn we (\<lambda>clk uuids db. cancel_boundary (clk 0) (uuids 0) (we_env we) db ctx original)) (\<lambda>ended.
     case ended of
       Inl already \<Rightarrow>
         abind (load_active_plan we ctx) (\<lambda>plan.
           areturn \<lparr>oc_state = O_CANCELLED, oc_plan = plan, oc_run = already, oc_content = None\<rparr>)
     | Inr terminal \<Rightarrow>
         abind (replace_lease terminal) (\<lambda>_.
         abind (load_active_plan we ctx) (\<lambda>plan. outcome_of we ctx O_CANCELLED plan None)))))"

definition fail_replan_terminal :: "world_env \<Rightarrow> plan_snapshot \<Rightarrow> execution_outcome act" where
  "fail_replan_terminal we plan =
     abind current_lease (\<lambda>lease.
     abind (atxn we (\<lambda>clk uuids db.
       rbind (finish_run_with_checkpoint (clk 0) (ee_settings (we_env we)) (wf db) lease R_FAILED_TERMINAL (uuids 0 0))
         (\<lambda>(terminal, w). Inr (terminal, db\<lparr>wf := w\<rparr>)))) (\<lambda>terminal.
     abind (replace_lease terminal) (\<lambda>_. outcome_of we (l_context lease) O_FAILED_TERMINAL plan None)))"

text \<open>The request to the generator, between two looks at the cancellation flag; it reserves no round.\<close>

definition generate_revision ::
    "world_env \<Rightarrow> tenant_context \<Rightarrow> (nat \<Rightarrow> generator_response) option \<Rightarrow> plan_snapshot \<Rightarrow> validated_plan act" where
  "generate_revision we ctx router plan =
     abind (check_cancel we ctx) (\<lambda>_.
     abind (\<lambda>w. (fst (generate_plan (planning_of (we_env we)) router None (ve_objective (sn_current plan)) (wd_db w)), w)) (\<lambda>v.
     abind (check_cancel we ctx) (\<lambda>_. areturn v)))"

definition store_failure_revision ::
    "world_env \<Rightarrow> tenant_context \<Rightarrow> run_lease \<Rightarrow> plan_snapshot \<Rightarrow> plan_step_record \<Rightarrow> plan_step_run_record \<Rightarrow> validated_plan \<Rightarrow>
     execution_outcome act" where
  "store_failure_revision we ctx lease plan failed_step failed v =
     (let draft = draft_from_generated v in
      abind (aensure (sp_logical_step_key failed_step \<in> set (map d_key (pd_steps draft)))
        (PlanGenerationError ''failed step must be retained or superseded'')) (\<lambda>_.
      acatch
        (abind (atxn we (\<lambda>clk uuids db.
            materialize_failure_revision clk uuids (planning_of (we_env we)) db ctx lease plan failed draft)) (\<lambda>r.
         abind (replace_lease (fr_lease r)) (\<lambda>_.
           areturn \<lparr>oc_state = O_AWAITING_USER, oc_plan = fr_plan r, oc_run = fr_run r, oc_content = None\<rparr>)))
        (\<lambda>e. case e of PlanRevisionLimitError _ \<Rightarrow> fail_replan_terminal we plan | _ \<Rightarrow> araise e)))"

definition replan_terminal_failure ::
    "world_env \<Rightarrow> tenant_context \<Rightarrow> plan_snapshot \<Rightarrow> plan_step_record \<Rightarrow> string \<Rightarrow> execution_outcome act" where
  "replan_terminal_failure we ctx plan failed_step failed_step_run_id =
     abind (check_cancel we ctx) (\<lambda>_.
     abind (aread we (\<lambda>db. step_attempt_by_id db ctx failed_step_run_id)) (\<lambda>failed.
     abind (aensure (at_status failed = SR_FAILED_TERMINAL)
       (PlanExecutionBlocked ''Plan replan requires a terminal failed attempt'')) (\<lambda>_.
     abind current_lease (\<lambda>lease.
     abind (atxn we (\<lambda>clk uuids db.
       rbind (plan_checkpoint (clk 0) (we_env we) db lease C_PLAN_REPLAN_REQUIRED (replan_json (we_env we) ctx plan failed) (uuids 0 0))
         (\<lambda>db'. Inr ((), db')))) (\<lambda>_.
     abind (\<lambda>w. (Inr (we_generator we (wd_time w)), w)) (\<lambda>generator.
     if sn_current_version plan - 1 \<ge> pset_max_revisions (ee_planning (we_env we)) \<or> \<not> we_planning_service we
     then fail_replan_terminal we plan
     else case generator of None \<Rightarrow> fail_replan_terminal we plan
       | Some router \<Rightarrow>
           abind (atxn we (\<lambda>clk _ db.
             rbind (revision_context (clk 0) (we_env we) db ctx lease plan failed_step failed) (\<lambda>c. Inr (c, db)))) (\<lambda>_.
           abind (acatch (abind (generate_revision we ctx router plan) (\<lambda>v. areturn (Some v)))
               (\<lambda>e. if e = PlanCancellationRequested then araise e else areturn None)) (\<lambda>generated.
           case generated of None \<Rightarrow> fail_replan_terminal we plan
             | Some v \<Rightarrow> store_failure_revision we ctx lease plan failed_step failed v))))))))"

section \<open>Running a plan to its next boundary\<close>

text \<open>The attempt of a turn: the one found running, or a new one after the reuse of results that still hold.\<close>

definition take_attempt :: "world_env \<Rightarrow> tenant_context \<Rightarrow> run_lease \<Rightarrow> bool \<Rightarrow> started_plan_step option act" where
  "take_attempt we ctx lease resume =
     (if resume then
        atxn we (\<lambda>clk _ db. rbind (resume_running_attempt (clk 0) (we_env we) db ctx lease) (\<lambda>s. Inr (Some s, db)))
      else
        abind (atxn we (\<lambda>clk uuids db. apply_compatible_reuse (clk 0) (uuids 0) (we_env we) db ctx lease)) (\<lambda>_.
        abind (check_cancel we ctx) (\<lambda>_.
          atxn we (\<lambda>clk uuids db. start_next_attempt (clk 0) (uuids 0) (we_env we) db ctx lease))))"

definition claim_turn :: "world_env \<Rightarrow> tenant_context \<Rightarrow> bool \<Rightarrow> started_plan_step option act" where
  "claim_turn we ctx resume =
     abind (check_cancel we ctx) (\<lambda>_.
     abind current_lease (\<lambda>lease.
     abind (load_run we ctx) (\<lambda>run.
     if rr_status run = R_RESUMING then
       abind (atxn we (\<lambda>clk _ db.
         rbind (transition_run (clk 0) (ee_settings (we_env we)) (wf db) lease R_RUNNING) (\<lambda>(l, w). Inr (l, db\<lparr>wf := w\<rparr>)))) (\<lambda>l.
       abind (replace_lease l) (\<lambda>_. take_attempt we ctx l resume))
     else take_attempt we ctx lease resume)))"

definition run_step :: "world_env \<Rightarrow> started_plan_step \<Rightarrow> step_answer act" where
  "run_step we started w =
     (case we_runner we (wd_time w) started (wd_db w, wd_lease w) of
        (answer, db, lease) \<Rightarrow> (answer, \<lparr>wd_time = Suc (wd_time w), wd_db = db, wd_lease = lease\<rparr>))"

text \<open>What ends a turn: a boundary of the execution, or the plan of the step that was finished.\<close>

datatype turn_end = Boundary execution_outcome | Continue plan_snapshot

definition finish_turn :: "world_env \<Rightarrow> tenant_context \<Rightarrow> started_plan_step \<Rightarrow> plan_step_completion \<Rightarrow> turn_end act" where
  "finish_turn we ctx started completion =
     abind (check_cancel we ctx) (\<lambda>_.
     let target = target_status (ee_planning (we_env we)) started completion in
     abind (\<lambda>w. (build_result_document (we_env we) ctx started completion, w)) (\<lambda>doc.
     abind (atxn_current we (\<lambda>lease clk uuids db.
       finalize_step_attempt (clk 0) (uuids 0) (we_env we) db ctx lease started target doc)) (\<lambda>_.
     if target \<noteq> SR_FAILED_TERMINAL then areturn (Continue (st_plan started))
     else if we_planning_service we
     then abind (replan_terminal_failure we ctx (st_plan started) (st_step started) (at_step_run_id (st_step_run started)))
       (\<lambda>oc. areturn (Boundary oc))
     else abind (outcome_of we ctx O_REPLAN_REQUIRED (st_plan started) None) (\<lambda>oc. areturn (Boundary oc)))))"

definition execute_turn ::
    "world_env \<Rightarrow> tenant_context \<Rightarrow> bool \<Rightarrow> plan_snapshot option \<Rightarrow> turn_end act" where
  "execute_turn we ctx resume last_plan =
     abind (claim_turn we ctx resume) (\<lambda>claimed.
     case claimed of
       None \<Rightarrow>
         abind (case last_plan of Some p \<Rightarrow> areturn p | None \<Rightarrow> load_active_plan we ctx) (\<lambda>plan.
         abind (load_run we ctx) (\<lambda>run.
         abind (check_cancel we ctx) (\<lambda>_.
           areturn (Boundary \<lparr>oc_state = O_COMPLETED, oc_plan = plan, oc_run = run, oc_content = None\<rparr>))))
     | Some started \<Rightarrow>
         abind (check_cancel we ctx) (\<lambda>_.
         abind (run_step we started) (\<lambda>answer.
         case answer of
           Completion completion \<Rightarrow> finish_turn we ctx started completion
         | Continuation state content \<Rightarrow>
             if state \<noteq> CS_AWAITING_USER
             then araise (PlanExecutionBlocked ''Plan step runner returned an invalid continuation boundary'')
             else abind (outcome_of we ctx O_AWAITING_USER (st_plan started) content) (\<lambda>oc. areturn (Boundary oc))
         | Invalid_answer \<Rightarrow> araise (PlanExecutionBlocked ''Plan step runner returned an invalid completion''))))"

text \<open>The \<open>while True\<close> loop. \<open>None\<close> means that \<open>n\<close> turns were not enough.\<close>

fun execute_turns ::
    "nat \<Rightarrow> world_env \<Rightarrow> tenant_context \<Rightarrow> bool \<Rightarrow> plan_snapshot option \<Rightarrow> world \<Rightarrow>
     (exc + execution_outcome) option \<times> world" where
  "execute_turns 0 we ctx resume last_plan w = (None, w)"
| "execute_turns (Suc n) we ctx resume last_plan w =
     (case execute_turn we ctx resume last_plan w of
        (Inl e, w') \<Rightarrow> (Some (Inl e), w')
      | (Inr (Boundary oc), w') \<Rightarrow> (Some (Inr oc), w')
      | (Inr (Continue plan), w') \<Rightarrow> execute_turns n we ctx False (Some plan) w')"

text \<open>
  \<open>execute_to_boundary\<close>: a recovered tool result comes with its input and makes the first turn resume. A cancellation
  seen anywhere ends the run at the cancellation boundary.
\<close>

definition execute_to_boundary ::
    "nat \<Rightarrow> world_env \<Rightarrow> tenant_context \<Rightarrow> bool \<Rightarrow> bool \<Rightarrow> bool \<Rightarrow> world \<Rightarrow> (exc + execution_outcome) option \<times> world" where
  "execute_to_boundary n we ctx has_result has_input resume w =
     (if has_result \<noteq> has_input
      then (Some (Inl (ValueError ''recovered tool result and input must be provided together'')), w)
      else case execute_turns n we ctx (resume \<or> has_result) None w of
        (Some (Inl PlanCancellationRequested), w') \<Rightarrow> (case cancel_at_boundary we ctx w' of (r, w'') \<Rightarrow> (Some r, w''))
      | r \<Rightarrow> r)"

section \<open>The final summary\<close>

definition request_summary :: "world_env \<Rightarrow> tenant_context \<Rightarrow> plan_snapshot \<Rightarrow> string act" where
  "request_summary we ctx plan =
     abind (atxn we (\<lambda>clk uuids db.
       rbind (reserve_round_unit (clk 0) (uuids 0 0) db ctx (fmt_opt (run_id ctx)) (sn_plan_id plan) ''final_summary''
         (round_budget (planning_of (we_env we))) None) (\<lambda>(_, db'). Inr ((), db')))) (\<lambda>_.
     abind (\<lambda>w. (we_summary we (wd_time w), w)) (\<lambda>response.
     let content = py_strip (ee_redact_text (we_env we) response) in
     abind (aensure (content \<noteq> []) (PlanExecutionBlocked ''final summary is empty'')) (\<lambda>_. areturn content)))"

definition complete_final_summary :: "world_env \<Rightarrow> tenant_context \<Rightarrow> execution_outcome act" where
  "complete_final_summary we ctx =
     abind (load_run we ctx) (\<lambda>run.
     abind (if rr_status run = R_RESUMING then refresh_transition we R_RUNNING else areturn ()) (\<lambda>_.
     abind current_lease (\<lambda>lease.
     abind (atxn we (\<lambda>clk uuids db. prepare_final_summary (clk 0) (uuids 0) (we_env we) db ctx lease)) (\<lambda>(plan, _).
     abind (acatch (abind (request_summary we ctx plan) (\<lambda>c. areturn (Some c)))
       (\<lambda>e. if e = PlanCancellationRequested then araise e else areturn None)) (\<lambda>content.
     case content of
       None \<Rightarrow> abind (refresh_transition we R_AWAITING_USER) (\<lambda>_. outcome_of we ctx O_AWAITING_USER plan None)
     | Some text \<Rightarrow>
         abind (atxn_current we (\<lambda>lease clk uuids db.
           persist_final_summary (clk 0) (uuids 0) (we_env we) db ctx lease text)) (\<lambda>(plan', terminal).
         abind (replace_lease terminal) (\<lambda>_. outcome_of we ctx O_COMPLETED plan' (Some text))))))))"

definition execute_with_final_summary ::
    "nat \<Rightarrow> world_env \<Rightarrow> tenant_context \<Rightarrow> world \<Rightarrow> (exc + execution_outcome) option \<times> world" where
  "execute_with_final_summary n we ctx w =
     (case execute_to_boundary n we ctx False False False w of
        (Some (Inr oc), w') \<Rightarrow>
          if oc_state oc \<noteq> O_COMPLETED then (Some (Inr oc), w')
          else (case complete_final_summary we ctx w' of (r, w'') \<Rightarrow> (Some r, w''))
      | r \<Rightarrow> r)"

section \<open>Resuming after recovery\<close>

text \<open>The plan part of a recovery outcome; \<open>revising\<close> says that its action is \<open>resume_plan_revision\<close>.\<close>

record plan_recovery =
  rv_plan :: plan_snapshot
  rv_cursor :: string
  rv_running_step :: "plan_step_run_record option"
  rv_failed_step :: "plan_step_run_record option"

definition resume_plan_execution ::
    "nat \<Rightarrow> world_env \<Rightarrow> tenant_context \<Rightarrow> bool \<Rightarrow> plan_recovery option \<Rightarrow> bool \<Rightarrow> bool \<Rightarrow> world \<Rightarrow>
     (exc + execution_outcome) option \<times> world" where
  "resume_plan_execution n we ctx revising recovery has_result has_input w =
     (case recovery of
        None \<Rightarrow> (Some (Inl (PlanExecutionBlocked ''Plan recovery context is unavailable'')), w)
      | Some rv \<Rightarrow>
          if revising then
            (case Option.bind (rv_failed_step rv) (\<lambda>failed. map_option (Pair failed)
                (List.find (\<lambda>s. sp_step_id s = at_step_id failed) (ve_steps (sn_current (rv_plan rv))))) of
               None \<Rightarrow> (Some (Inl (PlanExecutionBlocked ''Plan revision recovery facts are inconsistent'')), w)
             | Some (failed, step) \<Rightarrow>
                 (case replan_terminal_failure we ctx (rv_plan rv) step (at_step_run_id failed) w of (r, w') \<Rightarrow> (Some r, w')))
          else if rv_cursor rv = ''final_summary'' \<and> rv_running_step rv = None then
            (case abind (load_run we ctx) (\<lambda>run.
                abind (if rr_status run = R_RESUMING then refresh_transition we R_RUNNING else areturn ()) (\<lambda>_.
                  complete_final_summary we ctx)) w of (r, w') \<Rightarrow> (Some r, w'))
          else
            (case execute_to_boundary n we ctx has_result has_input (rv_running_step rv \<noteq> None) w of
               (Some (Inr oc), w') \<Rightarrow>
                 if oc_state oc \<noteq> O_COMPLETED then (Some (Inr oc), w')
                 else (case complete_final_summary we ctx w' of (r, w'') \<Rightarrow> (Some r, w''))
             | r \<Rightarrow> r))"

end
