(* ===== verification/Spec2Isabelle.thy ===== *)
theory Spec2Isabelle
  imports Workflow_Isolation Lease_Refinement Workflow_Approvals Workflow_Cancellation Workflow_Executions Plan_Properties Plan_Coordinator
begin

text \<open>
  A verification of the durable workflow core of MultiClaw: the part of the server that decides which
  process may work on an agent run, what it may do to it, and what survives when it dies.

  \<^bold>\<open>The program.\<close> A run of the agent is a row of \<open>agent_runs\<close>. A process works on it under a lease (owner,
  fencing token, version, expiry time) that every statement tests again inside the database. A run
  asks the user for approvals (\<open>approval_requests\<close>), executes tools (\<open>tool_executions\<close>) and saves its
  progress in checkpoints (\<open>execution_checkpoints\<close>), from which another process continues when the
  lease runs out. \<open>WorkflowRepository\<close> holds the statements, \<open>WorkflowCoordinator\<close> composes them into
  one transaction per operation, and the codec in \<open>workflow/recovery.py\<close> turns checkpoint payloads
  into rows and back.

  \<^bold>\<open>Theories, in the order they build on each other.\<close>
  \<^item> \<open>Prelude\<close>: results (\<open>exc + 'a\<close>, \<open>rbind\<close>, \<open>ensure\<close>, \<open>need\<close>), tables as lists of rows (\<open>rowcount\<close>,
    \<open>upd_where\<close>), and the collections \<open>res_simps\<close> and \<open>rows_simps\<close>.
  \<^item> \<open>Tenancy\<close>: \<open>tenancy/context.py\<close>. A context addresses the rows of one scope.
  \<^item> \<open>Workflow_Models\<close>, \<open>Checkpoint_Payloads\<close>: \<open>workflow/models.py\<close>, the enumerations, the transition
    tables, the records and the nine pydantic payload classes as validators.
  \<^item> \<open>Workflow_Store\<close>: the tables of \<open>storage/schema.py\<close> with their keys, check constraints and foreign
    keys, and the invariant \<open>schema_ok\<close> they maintain.
  \<^item> \<open>Workflow_Repository\<close>, \<open>Workflow_Mutations\<close>: the queries and the statements of
    \<open>storage/repositories/workflow.py\<close>, one definition per method.
  \<^item> \<open>Sha256\<close>, \<open>Py_Json\<close>, \<open>Py_Json_Facts\<close>: what the code uses of \<open>hashlib\<close> and \<open>json\<close>, with the round trip
    of the canonical form.
  \<^item> \<open>Checkpoint_Codec\<close>: encoding and decoding of checkpoints in \<open>workflow/recovery.py\<close>.
  \<^item> \<open>Workflow_Coordinator\<close>: \<open>workflow/coordinator.py\<close>, one definition per operation.
  \<^item> \<open>Workflow_Evolution\<close>, \<open>Workflow_Protocol\<close>: the operations as steps of one state machine. Every
    statement is classified by the change it makes to one table; the locales \<open>status_machine\<close> and
    \<open>versioned_rows\<close> carry what follows for whole histories, and are interpreted on the three status
    columns and the three versioned tables.
  \<^item> \<open>Workflow_Leases\<close>, \<open>Lease_Refinement\<close>: lease safety and the refinement to an abstract lease machine.
  \<^item> \<open>Workflow_Invariants\<close>, \<open>Workflow_Isolation\<close>, \<open>Workflow_Approvals\<close>, \<open>Workflow_Executions\<close>,
    \<open>Workflow_Checkpoints\<close>, \<open>Workflow_Cancellation\<close>: what holds of reachable states, of one run among
    others, and of each kind of operation.

  \<^bold>\<open>Modelling decisions.\<close> An operation is a function from the tables to a result and new tables: \<open>Inl e\<close> is
  an exception that leaves the transaction, whose writes are then discarded; \<open>Inr\<close> is a commit. Write
  transactions run one after another: SQLite takes its write lock at \<open>BEGIN IMMEDIATE\<close>, and on MySQL
  the code locks the tenant or run row first (\<open>_lock_tenant\<close>, \<open>lock_run\<close>). The database clock is a
  function from the index of a reading to a time, arbitrary except where a theorem says otherwise.
  Python strings are their UTF-8 bytes. Identifiers the code draws with \<open>uuid4\<close> are arguments.
  Integers are unbounded, as in Python; the columns are 64 bits wide and hold milliseconds and small
  counters. Lengths of text columns are not modelled.

  \<^bold>\<open>Fuel.\<close> Only the JSON parser counts steps: \<open>loads\<close> gives \<open>parse_value\<close> the length of its input plus one,
  and \<open>loads_bound\<close> in \<open>Py_Json_Facts\<close> shows that no larger bound changes a result.

  \<^bold>\<open>Outside the model.\<close> \<open>PlanRepository.get\<close> is a parameter of \<open>request_cancellation\<close>. Deleting sessions or
  accounts is not a step of the machine. Sandboxes, model providers, MCP transports, HTTP routes, the
  command line and the web front end are input and output around this core and are not modelled.
\<close>

end
